(* ===== verification/Prelude.thy ===== *)
theory Prelude
  imports Complex_Main "HOL-Library.Word" "HOL-Library.Log_Nat"
begin

text \<open>
  Shared base of the development: the ways a C++ operation can go wrong (\<open>fault\<close>), results
  that carry them (\<open>'a res\<close>), loops over such results (\<open>rfold\<close>), and the parts of
  \<open>std::vector\<close> and \<open><algorithm>\<close> the program uses (indexing, \<open>resize\<close>, \<open>find_if\<close>).
  Every out-of-range access of the source is an explicit \<open>UndefinedBehaviour\<close> value here, never
  an unspecified HOL term.
\<close>

named_theorems res_simps "equations and inversions of results and of vector accesses"
named_theorems frames "what an operation leaves alone"

section \<open>Faults and results\<close>

text \<open>
  \<open>Exception.h\<close> declares three exception classes; \<open>std::runtime_error\<close> is thrown by the engine
  itself. \<open>UndefinedBehaviour\<close> is reached where the source reads or writes outside an object
  or dereferences an end iterator. An exception that leaves a \<open>noexcept\<close> function ends the
  process (\<open>std::terminate\<close>); in the model the fault then is the result of the whole run.
\<close>

datatype fault =
    DivisionByZeroException
  | NaNException
  | OutOfRangeException
  | RuntimeError string
  | UndefinedBehaviour string

type_synonym 'a res = "fault + 'a"

fun rbind :: "'a res \<Rightarrow> ('a \<Rightarrow> 'b res) \<Rightarrow> 'b res" where
  "rbind (Inl e) f = Inl e"
| "rbind (Inr x) f = f x"

fun rmap :: "('a \<Rightarrow> 'b) \<Rightarrow> 'a res \<Rightarrow> 'b res" where
  "rmap f (Inl e) = Inl e"
| "rmap f (Inr x) = Inr (f x)"

fun ok :: "'a res \<Rightarrow> bool" where
  "ok (Inl e) = False"
| "ok (Inr x) = True"

fun res_all :: "('a \<Rightarrow> bool) \<Rightarrow> 'a res \<Rightarrow> bool" where
  "res_all P (Inl e) = True"
| "res_all P (Inr x) = P x"

lemma rbind_eq_Inr [res_simps]: "rbind m f = Inr y \<longleftrightarrow> (\<exists>x. m = Inr x \<and> f x = Inr y)"
  by (cases m) auto

lemma rbind_eq_Inl [res_simps]:
  "rbind m f = Inl e \<longleftrightarrow> m = Inl e \<or> (\<exists>x. m = Inr x \<and> f x = Inl e)"
  by (cases m) auto

lemma rmap_eq_Inr [res_simps]: "rmap f m = Inr y \<longleftrightarrow> (\<exists>x. m = Inr x \<and> y = f x)"
  by (cases m) auto

lemma rbind_Inr [simp]: "rbind m Inr = m"
  by (cases m) auto

lemma rbind_assoc: "rbind (rbind m f) g = rbind m (\<lambda>x. rbind (f x) g)"
  by (cases m) auto

lemma rmap_rbind: "rmap f m = rbind m (\<lambda>x. Inr (f x))"
  by (cases m) auto

lemma rbind_cong [fundef_cong]:
  "m = m' \<Longrightarrow> (\<And>x. m' = Inr x \<Longrightarrow> f x = f' x) \<Longrightarrow> rbind m f = rbind m' f'"
  by (cases m') auto

lemma ok_iff: "ok m \<longleftrightarrow> (\<exists>x. m = Inr x)"
  by (cases m) auto

lemma ok_rbind [res_simps]: "ok (rbind m f) \<longleftrightarrow> (\<exists>x. m = Inr x \<and> ok (f x))"
  by (cases m) auto

lemma res_all_rbind:
  "res_all Q m \<Longrightarrow> (\<And>x. Q x \<Longrightarrow> res_all P (f x)) \<Longrightarrow> res_all P (rbind m f)"
  by (cases m) auto

section \<open>Loops over results\<close>

text \<open>A range-based \<open>for\<close> whose body may fault: the first fault ends the loop.\<close>

fun rfold :: "('a \<Rightarrow> 's \<Rightarrow> 's res) \<Rightarrow> 'a list \<Rightarrow> 's \<Rightarrow> 's res" where
  "rfold f [] s = Inr s"
| "rfold f (x # xs) s = rbind (f x s) (rfold f xs)"

lemma rfold_Nil_fun [simp]: "rfold f [] = Inr"
  by (rule ext) simp

lemma rfold_append: "rfold f (xs @ ys) s = rbind (rfold f xs s) (rfold f ys)"
proof (induction xs arbitrary: s)
  case (Cons x xs)
  then have "rfold f (xs @ ys) = (\<lambda>t. rbind (rfold f xs t) (rfold f ys))" by (rule ext)
  then show ?case by (simp add: rbind_assoc)
qed simp

lemma rfold_cong [fundef_cong]:
  "xs = ys \<Longrightarrow> s = t \<Longrightarrow> (\<And>x u. x \<in> set ys \<Longrightarrow> f x u = g x u) \<Longrightarrow> rfold f xs s = rfold g ys t"
proof (induction ys arbitrary: xs s t)
  case (Cons y ys)
  have "rbind (g y t) (rfold f ys) = rbind (g y t) (rfold g ys)"
    using Cons by (intro rbind_cong refl) auto
  then show ?case using Cons.prems by simp
qed simp

text \<open>A loop that rewrites each element of a vector in place, in order.\<close>

fun res_map :: "('a \<Rightarrow> 'b res) \<Rightarrow> 'a list \<Rightarrow> 'b list res" where
  "res_map f [] = Inr []"
| "res_map f (x # xs) = rbind (f x) (\<lambda>y. rmap ((#) y) (res_map f xs))"

lemma res_map_Inr: "res_map f xs = Inr ys \<longleftrightarrow> list_all2 (\<lambda>x y. f x = Inr y) xs ys"
proof (induction xs arbitrary: ys)
  case Nil
  show ?case by auto
next
  case (Cons x xs)
  then show ?case by (cases ys) (auto simp: rbind_eq_Inr rmap_eq_Inr)
qed

lemma res_map_ok: "(\<And>x. x \<in> set xs \<Longrightarrow> ok (f x)) \<Longrightarrow> ok (res_map f xs)"
proof (induction xs)
  case (Cons x xs)
  then have "ok (f x)" "ok (res_map f xs)" by auto
  then show ?case by (auto simp: ok_iff)
qed simp

text \<open>
  The contract most loops of the program rely on: the body keeps an invariant. Interpreted by
  each component on its own loop body.
\<close>

locale loop_body =
  fixes body :: "'a \<Rightarrow> 's \<Rightarrow> 's res"
    and inv :: "'s \<Rightarrow> bool"
    and good :: "'a \<Rightarrow> bool"
  assumes keeps: "good x \<Longrightarrow> inv s \<Longrightarrow> \<exists>s'. body x s = Inr s' \<and> inv s'"
begin

lemma loop_total:
  assumes "inv s" "\<forall>x \<in> set xs. good x"
  shows "\<exists>s'. rfold body xs s = Inr s' \<and> inv s'"
  using assms
proof (induction xs arbitrary: s)
  case (Cons x xs)
  from Cons.prems obtain t where "body x s = Inr t" "inv t"
    using keeps [of x s] by auto
  with Cons show ?case by simp
qed simp

lemma loop_keeps:
  assumes "rfold body xs s = Inr s'" "inv s" "\<forall>x \<in> set xs. good x"
  shows "inv s'"
  using loop_total [OF assms(2,3)] assms(1) by auto

end

text \<open>The same with an invariant that depends on where the loop runs.\<close>

lemma rfold_total:
  assumes "P s" "\<And>x s. x \<in> set xs \<Longrightarrow> P s \<Longrightarrow> \<exists>s'. f x s = Inr s' \<and> P s'"
  shows "\<exists>s'. rfold f xs s = Inr s' \<and> P s'"
  using assms
proof (induction xs arbitrary: s)
  case (Cons x xs)
  from Cons.prems obtain t where t: "f x s = Inr t" "P t"
    by (meson list.set_intros(1))
  have "\<exists>s'. rfold f xs t = Inr s' \<and> P s'"
    by (rule Cons.IH [OF t(2)]) (use Cons.prems(2) in auto)
  then show ?case by (simp add: t)
qed simp

text \<open>Partial version: where the body does not fault it keeps the invariant.\<close>

lemma rfold_inv:
  assumes "rfold f xs s = Inr t" "P s" "\<And>x s s'. x \<in> set xs \<Longrightarrow> P s \<Longrightarrow> f x s = Inr s' \<Longrightarrow> P s'"
  shows "P t"
  using assms
proof (induction xs arbitrary: s)
  case (Cons x xs)
  from Cons.prems obtain u where "f x s = Inr u" "rfold f xs u = Inr t"
    by (auto simp: rbind_eq_Inr)
  with Cons show ?case by (metis list.set_intros)
qed simp

text \<open>A map of the state that every step commutes with commutes with the loop.\<close>

lemma rbind_rmap: "rbind (rmap m a) f = rbind a (\<lambda>x. f (m x))"
  by (cases a) auto

lemma rmap_of_rbind: "rmap m (rbind a f) = rbind a (\<lambda>x. rmap m (f x))"
  by (cases a) auto

lemma rmap_rmap: "rmap f (rmap g a) = rmap (\<lambda>x. f (g x)) a"
  by (cases a) auto

lemma rfold_rename:
  assumes "\<And>x s. x \<in> set xs \<Longrightarrow> f' x (m s) = rmap m (f x s)"
  shows "rfold f' xs (m s) = rmap m (rfold f xs s)"
  using assms
proof (induction xs arbitrary: s)
  case (Cons x xs)
  have "rfold f' xs (m t) = rmap m (rfold f xs t)" for t
    by (rule Cons.IH) (use Cons.prems in auto)
  then show ?case using Cons.prems by (simp add: rbind_rmap rmap_of_rbind)
qed simp

section \<open>Vectors\<close>

text \<open>\<open>v[i]\<close> of a \<open>std::vector\<close> or \<open>std::array\<close>: no check in the source, undefined out of range.\<close>

definition vec_at :: "'a list \<Rightarrow> nat \<Rightarrow> 'a res" where
  "vec_at xs i = (if i < length xs then Inr (xs ! i) else Inl (UndefinedBehaviour ''index''))"

definition vec_set :: "'a list \<Rightarrow> nat \<Rightarrow> 'a \<Rightarrow> 'a list res" where
  "vec_set xs i v = (if i < length xs then Inr (xs[i := v]) else Inl (UndefinedBehaviour ''index''))"

text \<open>An index computed in a signed type: a negative one is out of range too.\<close>

definition vec_at_int :: "'a list \<Rightarrow> int \<Rightarrow> 'a res" where
  "vec_at_int xs i = (if i < 0 then Inl (UndefinedBehaviour ''index'') else vec_at xs (nat i))"

definition vec_set_int :: "'a list \<Rightarrow> int \<Rightarrow> 'a \<Rightarrow> 'a list res" where
  "vec_set_int xs i v =
     (if i < 0 then Inl (UndefinedBehaviour ''index'') else vec_set xs (nat i) v)"

lemma vec_at_Inr [res_simps]: "vec_at xs i = Inr x \<longleftrightarrow> i < length xs \<and> x = xs ! i"
  by (auto simp: vec_at_def)

lemma vec_set_Inr [res_simps]: "vec_set xs i v = Inr ys \<longleftrightarrow> i < length xs \<and> ys = xs[i := v]"
  by (auto simp: vec_set_def)

lemma vec_at_ok [simp]: "i < length xs \<Longrightarrow> vec_at xs i = Inr (xs ! i)"
  by (simp add: vec_at_def)

lemma vec_set_ok [simp]: "i < length xs \<Longrightarrow> vec_set xs i v = Inr (xs[i := v])"
  by (simp add: vec_set_def)

lemma vec_at_int_ok [simp]: "0 \<le> i \<Longrightarrow> i < int (length xs) \<Longrightarrow> vec_at_int xs i = Inr (xs ! nat i)"
  by (simp add: vec_at_int_def)

lemma vec_set_int_ok [simp]:
  "0 \<le> i \<Longrightarrow> i < int (length xs) \<Longrightarrow> vec_set_int xs i v = Inr (xs[nat i := v])"
  by (simp add: vec_set_int_def)

lemma vec_set_int_Inr [res_simps]:
  "vec_set_int xs i v = Inr ys \<longleftrightarrow> 0 \<le> i \<and> i < int (length xs) \<and> ys = xs[nat i := v]"
  by (auto simp: vec_set_int_def vec_set_def)

lemma vec_at_int_Inr [res_simps]:
  "vec_at_int xs i = Inr x \<longleftrightarrow> 0 \<le> i \<and> i < int (length xs) \<and> x = xs ! nat i"
  by (auto simp: vec_at_int_def vec_at_def)

text \<open>\<open>v.resize(n, x)\<close>: truncates, or appends copies of \<open>x\<close>.\<close>

definition vec_resize :: "nat \<Rightarrow> 'a \<Rightarrow> 'a list \<Rightarrow> 'a list" where
  "vec_resize n x xs = take n xs @ replicate (n - length xs) x"

lemma length_vec_resize [simp]: "length (vec_resize n x xs) = n"
  by (simp add: vec_resize_def)

lemma vec_resize_nth:
  "i < n \<Longrightarrow> vec_resize n x xs ! i = (if i < length xs then xs ! i else x)"
  by (auto simp: vec_resize_def nth_append)

lemma vec_resize_empty [simp]: "vec_resize n x [] = replicate n x"
  by (simp add: vec_resize_def)

section \<open>std::find_if\<close>

text \<open>The iterator is the index of the first match, the length of the range standing for \<open>end()\<close>.\<close>

fun find_if :: "('a \<Rightarrow> bool) \<Rightarrow> 'a list \<Rightarrow> nat" where
  "find_if P [] = 0"
| "find_if P (x # xs) = (if P x then 0 else Suc (find_if P xs))"

lemma find_if_le: "find_if P xs \<le> length xs"
  by (induction xs) auto

lemma find_if_less_iff: "find_if P xs < length xs \<longleftrightarrow> (\<exists>x \<in> set xs. P x)"
  by (induction xs) auto

lemma find_if_found: "find_if P xs < length xs \<Longrightarrow> P (xs ! find_if P xs)"
  by (induction xs) (auto split: if_splits)

lemma find_if_before: "i < find_if P xs \<Longrightarrow> \<not> P (xs ! i)"
proof (induction xs arbitrary: i)
  case (Cons x xs)
  then show ?case by (cases i) (auto split: if_splits)
qed simp

lemma find_if_end: "find_if P xs = length xs \<longleftrightarrow> (\<forall>x \<in> set xs. \<not> P x)"
  using find_if_less_iff [of P xs] find_if_le [of P xs] by auto

lemma find_if_append:
  "find_if P (xs @ ys) =
     (if \<exists>x \<in> set xs. P x then find_if P xs else length xs + find_if P ys)"
  by (induction xs) auto

lemma find_if_unique:
  "i < length xs \<Longrightarrow> P (xs ! i) \<Longrightarrow> (\<And>j. j < i \<Longrightarrow> \<not> P (xs ! j)) \<Longrightarrow> find_if P xs = i"
  by (metis find_if_before find_if_found find_if_le find_if_less_iff linorder_neqE_nat nth_mem
      order_le_less_trans)

end
