(* ===== verification/Float32.thy ===== *)
theory Float32
  imports Prelude
begin

text \<open>
  The C++ type \<open>float\<close>: IEEE 754 binary32 with round to nearest, ties to even, as the compilers
  the build files name implement it. A value is its 32-bit pattern, so HOL equality of values is
  equality of bits (what \<open>Game::CheckSum\<close> sums), while \<open>==\<close>, \<open><\<close> and \<open><=\<close> of the language are
  \<open>ceq\<close>, \<open><\<close> and \<open>\<le>\<close> below. Finite values are integers in units of \<open>2^-149\<close>; each
  operation computes its exact result and rounds it once. The one idealisation: every operation
  that yields a NaN yields the same NaN, where hardware propagates a payload.
\<close>

section \<open>Bit patterns\<close>

datatype f32 = F32 (f32_bits: "32 word")

definition inf_mag :: nat where "inf_mag = 255 * 2 ^ 23"

text \<open>Bit 31 is the sign; the other 31 bits, read as a number, are the magnitude.\<close>

definition fsign :: "f32 \<Rightarrow> bool" where
  "fsign x \<longleftrightarrow> 2 ^ 31 \<le> unat (f32_bits x)"

definition fmag :: "f32 \<Rightarrow> nat" where
  "fmag x = unat (f32_bits x) mod 2 ^ 31"

definition mk :: "bool \<Rightarrow> nat \<Rightarrow> f32" where
  "mk s m = F32 (word_of_nat (if s then 2 ^ 31 + m else m))"

definition is_nan :: "f32 \<Rightarrow> bool" where "is_nan x \<longleftrightarrow> inf_mag < fmag x"
definition is_inf :: "f32 \<Rightarrow> bool" where "is_inf x \<longleftrightarrow> fmag x = inf_mag"
definition finite32 :: "f32 \<Rightarrow> bool" where "finite32 x \<longleftrightarrow> fmag x < inf_mag"

definition qnan :: f32 where "qnan = mk False (inf_mag + 2 ^ 22)"

lemma inf_mag_less: "inf_mag < 2 ^ 31"
  by (simp add: inf_mag_def)

lemma inf_mag_bounds [simp]: "inf_mag < 2147483648" "0 < inf_mag" "inf_mag \<noteq> 0" "inf_mag \<noteq> Suc 0"
  by (simp_all add: inf_mag_def)

lemma fmag_less: "fmag x < 2 ^ 31"
  by (simp add: fmag_def)

lemma unat_bits_mk: "m < 2 ^ 31 \<Longrightarrow> unat (f32_bits (mk s m)) = (if s then 2 ^ 31 + m else m)"
  by (auto simp: mk_def unat_of_nat take_bit_eq_mod)

lemma fmag_mk [simp]: "m < 2 ^ 31 \<Longrightarrow> fmag (mk s m) = m"
  by (auto simp: fmag_def unat_bits_mk)

lemma fsign_mk [simp]: "m < 2 ^ 31 \<Longrightarrow> fsign (mk s m) = s"
  by (auto simp: fsign_def unat_bits_mk)

lemma unat_bits_split: "unat (f32_bits x) = (if fsign x then 2 ^ 31 else 0) + fmag x"
proof (cases "fsign x")
  case True
  have "unat (f32_bits x) < 2 ^ LENGTH(32)"
    by (rule unsigned_less)
  then have "unat (f32_bits x) - 2 ^ 31 = fmag x"
    using True by (simp add: fsign_def fmag_def mod_if)
  then show ?thesis using True by (simp add: fsign_def)
next
  case False
  then show ?thesis by (simp add: fsign_def fmag_def)
qed

lemma mk_fsign_fmag [simp]: "mk (fsign x) (fmag x) = x"
proof -
  have "f32_bits (mk (fsign x) (fmag x)) = f32_bits x"
    by (intro word_unat_eq_iff [THEN iffD2])
       (simp only: unat_bits_mk [OF fmag_less] unat_bits_split [of x], simp)
  then show ?thesis by (rule f32.expand)
qed

lemma f32_eqI: "fsign x = fsign y \<Longrightarrow> fmag x = fmag y \<Longrightarrow> x = y"
  by (rule trans [OF mk_fsign_fmag [symmetric]]) (simp only: mk_fsign_fmag)

section \<open>Magnitudes and rounding\<close>

text \<open>
  The magnitude of a finite value in units of \<open>2^-149\<close>: subnormal below \<open>2^23\<close>, otherwise the
  hidden bit is added and the exponent field scales.
\<close>

definition mag_units :: "nat \<Rightarrow> nat" where
  "mag_units m =
     (if m < 2 ^ 23 then m else (2 ^ 23 + m mod 2 ^ 23) * 2 ^ (m div 2 ^ 23 - 1))"

definition fval :: "f32 \<Rightarrow> int" where
  "fval x = (if fsign x then - int (mag_units (fmag x)) else int (mag_units (fmag x)))"

text \<open>\<open>p / q\<close> rounded to the nearest integer, ties to the even one.\<close>

definition rne :: "nat \<Rightarrow> nat \<Rightarrow> nat" where
  "rne p q =
     (let d = p div q; r = p mod q
      in if 2 * r < q then d else if q < 2 * r then d + 1 else if even d then d else d + 1)"

text \<open>
  The magnitude nearest to \<open>p / q\<close> units. With \<open>e\<close> chosen so that \<open>p / (q 2^e)\<close> has at most 24
  bits, a carry out of the significand lands in the exponent field by itself, and anything past
  the largest finite magnitude is infinity.
\<close>

definition round_mag :: "nat \<Rightarrow> nat \<Rightarrow> nat" where
  "round_mag p q =
     (let e = floorlog 2 (p div q) - 24 in min inf_mag (e * 2 ^ 23 + rne p (q * 2 ^ e)))"

lemma round_mag_le: "round_mag p q \<le> inf_mag"
  by (simp add: round_mag_def Let_def)

lemma round_mag_less [simp]: "round_mag p q < 2147483648"
  using round_mag_le inf_mag_bounds(1) by (rule le_less_trans)

lemma rne_zero [simp]: "rne 0 q = 0"
  by (simp add: rne_def)

lemma round_mag_zero [simp]: "round_mag 0 q = 0"
  by (simp add: round_mag_def Let_def floorlog_def)

lemma rne_exact: "0 < q \<Longrightarrow> rne (k * q) q = k"
  by (simp add: rne_def Let_def)

lemma rne_lower: "p div q \<le> rne p q"
  by (simp add: rne_def Let_def)

lemma rne_upper: "rne p q \<le> p div q + 1"
  by (simp add: rne_def Let_def)

lemma div_le_div_cross:
  fixes p q p' q' :: nat
  assumes "0 < q" "0 < q'" "p * q' \<le> p' * q"
  shows "p div q \<le> p' div q'"
proof -
  have "p div q * q * q' \<le> p * q'"
    by (simp add: mult_le_mono1)
  also have "\<dots> \<le> p' * q" by (rule assms)
  finally have "p div q * q' * q \<le> p' * q" by (simp add: mult.commute mult.left_commute)
  then have "p div q * q' \<le> p'" using assms(1) by simp
  then show ?thesis using assms(2) by (simp add: less_eq_div_iff_mult_less_eq)
qed

lemma rne_mono:
  assumes q: "0 < q" "0 < q'" and le: "p * q' \<le> p' * q"
  shows "rne p q \<le> rne p' q'"
proof -
  define d r d' r' where "d = p div q" and "r = p mod q" and "d' = p' div q'" and "r' = p' mod q'"
  have dd: "d \<le> d'" using div_le_div_cross [OF q le] by (simp add: d_def d'_def)
  show ?thesis
  proof (cases "d = d'")
    case False
    then have "d + 1 \<le> d'" using dd by simp
    then show ?thesis
      using rne_upper [of p q] rne_lower [of p' q'] by (simp add: d_def d'_def)
  next
    case True
    have "p' = d' * q' + r'" by (simp only: d'_def r'_def div_mult_mod_eq)
    moreover have "p = d * q + r" by (simp only: d_def r_def div_mult_mod_eq)
    ultimately have p: "p = d * q + r" "p' = d * q' + r'" by (simp_all only: True)
    have cross: "r * q' \<le> r' * q"
      using le unfolding p by (simp add: algebra_simps)
    have half: "q \<le> 2 * r \<Longrightarrow> q' \<le> 2 * r'"
    proof -
      assume "q \<le> 2 * r"
      then have "q * q' \<le> 2 * (r * q')" by simp
      also have "\<dots> \<le> 2 * (r' * q)" using cross by simp
      finally have "q * q' \<le> q * (2 * r')" by (simp add: mult.commute mult.left_commute)
      then show ?thesis using q by simp
    qed
    have more: "q < 2 * r \<Longrightarrow> q' < 2 * r'"
    proof -
      assume "q < 2 * r"
      then have "q * q' < 2 * (r * q')" using q by simp
      also have "\<dots> \<le> 2 * (r' * q)" using cross by simp
      finally have "q * q' < q * (2 * r')" by (simp add: mult.commute mult.left_commute)
      then show ?thesis using q by simp
    qed
    show ?thesis
      using half more
      by (auto simp: rne_def Let_def simp flip: d_def r_def d'_def r'_def True)
  qed
qed

lemma floorlog_lower: "Suc k \<le> floorlog 2 n \<Longrightarrow> 2 ^ k \<le> n"
  using floorlog_geD [of "Suc k" 2 n] by simp

lemma floorlog_upper: "n < 2 ^ floorlog 2 n"
  by (cases "n = 0") (use floorlog_bounds [of n 2] in auto)

text \<open>The significand before rounding lies in \<open>[2^23, 2^24)\<close> once the exponent is positive.\<close>

lemma scaled_lower:
  assumes "0 < q" "0 < e" "e = floorlog 2 (p div q) - 24"
  shows "2 ^ 23 \<le> p div (q * 2 ^ e)"
proof -
  have "Suc (23 + e) \<le> floorlog 2 (p div q)" using assms(2,3) by simp
  then have "2 ^ (23 + e) \<le> p div q" by (rule floorlog_lower)
  then have "2 ^ 23 * 2 ^ e \<le> p div q" by (simp only: power_add)
  then have "2 ^ 23 \<le> p div q div 2 ^ e"
    by (simp only: less_eq_div_iff_mult_less_eq zero_less_power pos2)
  then show ?thesis by (simp only: div_mult2_eq)
qed

lemma scaled_upper:
  assumes "e = floorlog 2 (p div q) - 24"
  shows "p div (q * 2 ^ e) < 2 ^ 24"
proof -
  have "floorlog 2 (p div q) \<le> 24 + e" using assms by simp
  then have "(2::nat) ^ floorlog 2 (p div q) \<le> 2 ^ (24 + e)" by (rule power_increasing) simp
  with floorlog_upper have "p div q < 2 ^ (24 + e)" by (rule less_le_trans)
  then have "p div q < 2 ^ 24 * 2 ^ e" by (simp only: power_add)
  then have "p div q div 2 ^ e < 2 ^ 24"
    by (simp only: div_less_iff_less_mult zero_less_power pos2)
  then show ?thesis by (simp only: div_mult2_eq)
qed

lemma round_mag_mono:
  assumes q: "0 < q" "0 < q'" and le: "p * q' \<le> p' * q"
  shows "round_mag p q \<le> round_mag p' q'"
proof -
  define e e' where "e = floorlog 2 (p div q) - 24" and "e' = floorlog 2 (p' div q') - 24"
  have "e \<le> e'"
    using floorlog_mono [OF div_le_div_cross [OF q le], of 2] by (simp add: e_def e'_def)
  have "e * 2 ^ 23 + rne p (q * 2 ^ e) \<le> e' * 2 ^ 23 + rne p' (q' * 2 ^ e')"
  proof (cases "e = e'")
    case True
    have "rne p (q * 2 ^ e) \<le> rne p' (q' * 2 ^ e)"
      using q le by (intro rne_mono) (auto simp: mult.assoc [symmetric])
    then show ?thesis using True by simp
  next
    case False
    then have "e + 1 \<le> e'" "0 < e'" using \<open>e \<le> e'\<close> by simp_all
    have "rne p (q * 2 ^ e) \<le> 2 ^ 24"
      using rne_upper [of p "q * 2 ^ e"] scaled_upper [OF e_def] by linarith
    moreover have "2 ^ 23 \<le> rne p' (q' * 2 ^ e')"
      using scaled_lower [OF q(2) \<open>0 < e'\<close> e'_def] rne_lower le_trans by blast
    moreover have "(e + 1) * 2 ^ 23 \<le> e' * (2 ^ 23 :: nat)"
      using \<open>e + 1 \<le> e'\<close> by (rule mult_le_mono1)
    ultimately show ?thesis by simp
  qed
  then show ?thesis by (simp add: round_mag_def Let_def e_def e'_def)
qed


text \<open>The unit value of a magnitude is strictly monotone, so magnitudes order like values.\<close>

lemma mag_units_Suc: "mag_units m < mag_units (Suc m)"
proof (cases "Suc (m mod 2 ^ 23) = 2 ^ 23")
  case False
  then have "Suc m div 2 ^ 23 = m div 2 ^ 23" "Suc m mod 2 ^ 23 = Suc (m mod 2 ^ 23)"
    by (simp_all add: div_Suc mod_Suc)
  moreover have "Suc m < 2 ^ 23 \<longleftrightarrow> m < 2 ^ 23"
    using False by (cases "m < 2 ^ 23") auto
  ultimately show ?thesis by (simp add: mag_units_def)
next
  case True
  define e where "e = m div 2 ^ 23"
  have m: "m = e * 2 ^ 23 + (2 ^ 23 - 1)"
  proof -
    have "m = e * 2 ^ 23 + m mod 2 ^ 23" by (simp only: e_def div_mult_mod_eq)
    moreover have "m mod 2 ^ 23 = 2 ^ 23 - 1" using True by simp
    ultimately show ?thesis by (rule trans [OF _ arg_cong])
  qed
  have S: "Suc m div 2 ^ 23 = e + 1" "Suc m mod 2 ^ 23 = 0"
    using True by (simp_all add: div_Suc mod_Suc e_def)
  have big: "\<not> Suc m < 2 ^ 23" using m by simp
  have md: "m div 2 ^ 23 = e" by (simp only: e_def)
  show ?thesis
  proof (cases "e = 0")
    case True
    then show ?thesis using S big m by (simp add: mag_units_def)
  next
    case False
    then have "\<not> m < 2 ^ 23" using m by simp
    moreover have "2 ^ e = 2 * (2::nat) ^ (e - 1)"
      using False by (simp add: power_eq_if)
    moreover have "m mod 2 ^ 23 = 2 ^ 23 - 1" using True by simp
    ultimately show ?thesis using S big md by (simp add: mag_units_def)
  qed
qed

lemma mag_units_strict: "m < n \<Longrightarrow> mag_units m < mag_units n"
  by (rule lift_Suc_mono_less [of mag_units]) (rule mag_units_Suc)

lemma mag_units_less_iff [simp]: "mag_units m < mag_units n \<longleftrightarrow> m < n"
  by (metis mag_units_strict nat_neq_iff order_less_asym)

lemma mag_units_le_iff [simp]: "mag_units m \<le> mag_units n \<longleftrightarrow> m \<le> n"
  by (simp add: linorder_not_less [symmetric])

lemma mag_units_eq_iff [simp]: "mag_units m = mag_units n \<longleftrightarrow> m = n"
  by (metis mag_units_less_iff nat_neq_iff)

lemma mag_units_zero [simp]: "mag_units 0 = 0"
  by (simp add: mag_units_def)

lemma mag_units_pos [simp]: "0 < mag_units m \<longleftrightarrow> 0 < m"
  using mag_units_less_iff [of 0 m] by simp

lemma mag_units_zero_iff [simp]: "mag_units m = 0 \<longleftrightarrow> m = 0"
  using mag_units_eq_iff [of m 0] by simp

text \<open>A representable value is rounded to itself.\<close>

lemma round_mag_exact:
  assumes "m \<le> inf_mag" "0 < k"
  shows "round_mag (k * mag_units m) k = m"
proof (cases "m < 2 ^ 23")
  case True
  then have "floorlog 2 m \<le> 23" by (intro floorlog_leI) auto
  then show ?thesis
    using True assms rne_exact [of k m]
    by (simp add: round_mag_def mag_units_def mult.commute inf_mag_def)
next
  case False
  define e f where "e = m div 2 ^ 23 - 1" and "f = m mod 2 ^ 23"
  have m: "m = (e + 1) * 2 ^ 23 + f"
    using div_mult_mod_eq [of m "2 ^ 23"] False by (simp add: e_def f_def)
  have f: "f < 2 ^ 23" by (simp add: f_def)
  have u: "mag_units m = (2 ^ 23 + f) * 2 ^ e"
    using False by (simp add: mag_units_def e_def f_def)
  have bound: "2 ^ 23 \<le> (2 ^ 23 + f :: nat)" "2 ^ 23 + f < (2 ^ 24 :: nat)" using f by simp_all
  have "2 ^ 23 * 2 ^ e \<le> mag_units m" "mag_units m < 2 ^ 24 * 2 ^ e"
    unfolding u by (rule mult_le_mono1 [OF bound(1)], rule mult_less_mono1 [OF bound(2)]) simp
  then have "2 ^ (23 + e) \<le> mag_units m" "mag_units m < 2 ^ (24 + e)"
    by (simp_all only: power_add)
  then have "Suc (23 + e) \<le> floorlog 2 (mag_units m)" "floorlog 2 (mag_units m) \<le> 24 + e"
    by (intro floorlog_ge_SucI floorlog_leI; simp)+
  then have "floorlog 2 (mag_units m) - 24 = e" by simp
  moreover have "k * mag_units m div k = mag_units m" using assms(2) by simp
  moreover have "rne (k * mag_units m) (k * 2 ^ e) = 2 ^ 23 + f"
    using rne_exact [of "k * 2 ^ e" "2 ^ 23 + f"] assms(2)
    by (simp add: u ac_simps)
  ultimately show ?thesis
    using assms(1) m by (simp add: round_mag_def)
qed

section \<open>Arithmetic\<close>

definition fneg :: "f32 \<Rightarrow> f32" where
  "fneg x = (if is_nan x then qnan else mk (\<not> fsign x) (fmag x))"

definition fadd :: "f32 \<Rightarrow> f32 \<Rightarrow> f32" where
  "fadd x y =
     (if is_nan x \<or> is_nan y then qnan
      else if is_inf x then (if is_inf y \<and> fsign x \<noteq> fsign y then qnan else x)
      else if is_inf y then y
      else let v = fval x + fval y
           in if v = 0 then mk (fsign x \<and> fsign y) 0
              else mk (v < 0) (round_mag (nat \<bar>v\<bar>) 1))"

definition fmul :: "f32 \<Rightarrow> f32 \<Rightarrow> f32" where
  "fmul x y =
     (let s = (fsign x \<noteq> fsign y)
      in if is_nan x \<or> is_nan y then qnan
         else if is_inf x \<or> is_inf y
         then (if fmag x = 0 \<or> fmag y = 0 then qnan else mk s inf_mag)
         else mk s (round_mag (mag_units (fmag x) * mag_units (fmag y)) (2 ^ 149)))"

definition fdiv :: "f32 \<Rightarrow> f32 \<Rightarrow> f32" where
  "fdiv x y =
     (let s = (fsign x \<noteq> fsign y)
      in if is_nan x \<or> is_nan y then qnan
         else if is_inf x then (if is_inf y then qnan else mk s inf_mag)
         else if is_inf y then mk s 0
         else if fmag y = 0 then (if fmag x = 0 then qnan else mk s inf_mag)
         else mk s (round_mag (mag_units (fmag x) * 2 ^ 149) (mag_units (fmag y))))"

text \<open>The integer square root, two bits of the argument per step.\<close>

definition isqrt_step :: "nat \<Rightarrow> nat \<Rightarrow> nat" where
  "isqrt_step n r = (if (2 * r + 1) * (2 * r + 1) \<le> n then 2 * r + 1 else 2 * r)"

fun isqrt :: "nat \<Rightarrow> nat" where
  "isqrt n = (if n = 0 then 0 else isqrt_step n (isqrt (n div 4)))"

declare isqrt.simps [simp del]

text \<open>
  \<open>std::sqrt\<close> rounds the exact root. The root of \<open>n\<close> units is \<open>sqrt (n * 2^149)\<close> units; it is
  at least \<open>2^74\<close>, so its integer part \<open>r\<close> has all the bits that rounding looks at and half a
  unit more stands for any fraction below it.
\<close>

definition sqrt_mag :: "nat \<Rightarrow> nat \<Rightarrow> nat" where
  "sqrt_mag n r = round_mag (2 * r + (if r * r = n then 0 else 1)) 2"

definition fsqrt :: "f32 \<Rightarrow> f32" where
  "fsqrt x =
     (if is_nan x then qnan
      else if fmag x = 0 then x
      else if fsign x then qnan
      else if is_inf x then x
      else mk False (sqrt_mag (mag_units (fmag x) * 2 ^ 149)
                              (isqrt (mag_units (fmag x) * 2 ^ 149))))"

lemma isqrt_bounds: "isqrt n * isqrt n \<le> n \<and> n < (isqrt n + 1) * (isqrt n + 1)"
proof (induction n rule: isqrt.induct)
  case (1 n)
  show ?case
  proof (cases "n = 0")
    case True
    then show ?thesis by (simp add: isqrt.simps)
  next
    case False
    define r where "r = isqrt (n div 4)"
    have "r * r \<le> n div 4" "n div 4 < (r + 1) * (r + 1)"
      using 1 [OF False] by (simp_all add: r_def)
    then have "4 * (r * r) \<le> n" "n < 4 * ((r + 1) * (r + 1))"
      by linarith+
    then show ?thesis
      using False by (subst (1 2 3 4) isqrt.simps)
        (simp add: isqrt_step_def algebra_simps flip: r_def)
  qed
qed

text \<open>A decimal literal \<open>n / d\<close> of the source, and an \<open>int\<close> converted to \<open>float\<close>.\<close>

definition flit :: "int \<Rightarrow> nat \<Rightarrow> f32" where
  "flit n d = mk (n < 0) (round_mag (nat \<bar>n\<bar> * 2 ^ 149) d)"

definition f32_of_int :: "int \<Rightarrow> f32" where
  "f32_of_int n = flit n 1"

text \<open>The order key of a value that is not a NaN: signed magnitude, both zeros at 0.\<close>

definition fkey :: "f32 \<Rightarrow> int" where
  "fkey x = (if fsign x then - int (fmag x) else int (fmag x))"

instantiation f32 :: "{zero, one, plus, minus, uminus, times, inverse, ord}"
begin

definition zero_f32 :: f32 where "zero_f32 = mk False 0"
definition one_f32 :: f32 where "one_f32 = mk False (127 * 2 ^ 23)"
definition plus_f32 :: "f32 \<Rightarrow> f32 \<Rightarrow> f32" where "plus_f32 x y = fadd x y"
definition uminus_f32 :: "f32 \<Rightarrow> f32" where "uminus_f32 x = fneg x"
definition minus_f32 :: "f32 \<Rightarrow> f32 \<Rightarrow> f32" where "minus_f32 x y = fadd x (fneg y)"
definition times_f32 :: "f32 \<Rightarrow> f32 \<Rightarrow> f32" where "times_f32 x y = fmul x y"
definition divide_f32 :: "f32 \<Rightarrow> f32 \<Rightarrow> f32" where "divide_f32 x y = fdiv x y"
definition inverse_f32 :: "f32 \<Rightarrow> f32" where "inverse_f32 x = fdiv (mk False (127 * 2 ^ 23)) x"
definition less_f32 :: "f32 \<Rightarrow> f32 \<Rightarrow> bool" where
  "less_f32 x y \<longleftrightarrow> \<not> is_nan x \<and> \<not> is_nan y \<and> fkey x < fkey y"
definition less_eq_f32 :: "f32 \<Rightarrow> f32 \<Rightarrow> bool" where
  "less_eq_f32 x y \<longleftrightarrow> \<not> is_nan x \<and> \<not> is_nan y \<and> fkey x \<le> fkey y"
instance ..

end

text \<open>\<open>==\<close> of the language at any numeric type: on \<open>float\<close> zeros are equal and a NaN is not.\<close>

definition ceq :: "'a::ord \<Rightarrow> 'a \<Rightarrow> bool" where
  "ceq x y \<longleftrightarrow> x \<le> y \<and> y \<le> x"

lemma ceq_linorder [simp]: "ceq x y \<longleftrightarrow> x = (y :: 'b::linorder)"
  by (auto simp: ceq_def)

section \<open>Laws of the arithmetic\<close>

lemmas f32_ops = zero_f32_def one_f32_def plus_f32_def minus_f32_def uminus_f32_def times_f32_def
  divide_f32_def

lemma mk_eq_iff:
  assumes "m < 2 ^ 31" "n < 2 ^ 31"
  shows "mk s m = mk t n \<longleftrightarrow> s = t \<and> m = n"
proof
  assume eq: "mk s m = mk t n"
  have "fmag (mk s m) = m" "fsign (mk s m) = s" "fmag (mk t n) = n" "fsign (mk t n) = t"
    using assms by (simp_all only: fmag_mk fsign_mk)
  with eq show "s = t \<and> m = n" by simp
qed simp

lemma fmag_qnan [simp]: "fmag qnan = inf_mag + 2 ^ 22"
  by (simp add: qnan_def inf_mag_def)

lemma is_nan_qnan [simp]: "is_nan qnan"
  by (simp add: is_nan_def)

lemma mag_less: "m \<le> inf_mag \<Longrightarrow> m < 2147483648"
  by (rule le_less_trans [OF _ inf_mag_bounds(1)])

lemma is_nan_mk [simp]: "m \<le> inf_mag \<Longrightarrow> \<not> is_nan (mk s m)"
  by (simp add: is_nan_def mag_less)

lemma fadd_commute: "fadd x y = fadd y x"
proof -
  have "is_inf x \<Longrightarrow> is_inf y \<Longrightarrow> fsign x = fsign y \<Longrightarrow> x = y"
    by (rule f32_eqI) (simp_all add: is_inf_def)
  then show ?thesis by (auto simp: fadd_def Let_def add.commute)
qed

lemma fmul_commute: "fmul x y = fmul y x"
proof -
  have "(fsign x \<noteq> fsign y) = (fsign y \<noteq> fsign x)" by auto
  then show ?thesis
    by (simp add: fmul_def Let_def mult.commute [of "mag_units (fmag x)"] disj_commute conj_commute)
qed

lemma f32_add_commute: "x + y = y + (x :: f32)"
  by (simp add: plus_f32_def fadd_commute)

lemma f32_mul_commute: "x * y = y * (x :: f32)"
  by (simp add: times_f32_def fmul_commute)

lemma fmag_fneg: "\<not> is_nan x \<Longrightarrow> fmag (fneg x) = fmag x"
  using fmag_less [of x] by (simp add: fneg_def)

lemma is_nan_fneg [simp]: "is_nan (fneg x) \<longleftrightarrow> is_nan x"
  using fmag_less [of x] by (auto simp: fneg_def is_nan_def)

lemma fsign_fneg: "\<not> is_nan x \<Longrightarrow> fsign (fneg x) = (\<not> fsign x)"
  using fmag_less [of x] by (simp add: fneg_def)

lemma is_inf_fneg [simp]: "is_inf (fneg x) \<longleftrightarrow> is_inf x"
proof (cases "is_nan x")
  case True
  then show ?thesis by (auto simp: fneg_def is_inf_def is_nan_def)
next
  case False
  then show ?thesis by (simp add: is_inf_def fmag_fneg)
qed

lemma fval_fneg: "\<not> is_nan x \<Longrightarrow> fval (fneg x) = - fval x"
  by (simp add: fval_def fmag_fneg fsign_fneg)

text \<open>\<open>x - y\<close> and \<open>y - x\<close> differ in the sign bit only.\<close>

lemma fmag_minus_commute: "fmag (x - y) = fmag (y - x)" for x y :: f32
proof (cases "is_nan x \<or> is_nan y")
  case True
  then show ?thesis by (auto simp: minus_f32_def fadd_def)
next
  case False
  define v where "v = fval x - fval y"
  have v: "fval x - fval y = v" "fval y - fval x = - v" by (simp_all add: v_def)
  show ?thesis
    using False
    by (auto simp: minus_f32_def fadd_def Let_def fval_fneg fsign_fneg fmag_fneg v is_inf_def)
qed

lemma is_nan_fmag: "fmag x = fmag y \<Longrightarrow> is_nan x = is_nan y"
  by (simp add: is_nan_def)

text \<open>A square depends on the magnitude only.\<close>

lemma square_fmag: "fmag x = fmag y \<Longrightarrow> x * x = y * (y :: f32)"
  by (simp add: times_f32_def fmul_def is_nan_def is_inf_def)

lemma square_minus_commute: "(x - y) * (x - y) = (y - x) * (y - x :: f32)"
  by (rule square_fmag) (rule fmag_minus_commute)

lemma fadd_zero:
  assumes "\<not> is_nan x" "fmag x \<noteq> 0"
  shows "fadd x (mk s 0) = x"
proof (cases "is_inf x")
  case True
  then show ?thesis using assms by (simp add: fadd_def is_inf_def)
next
  case False
  then have le: "fmag x \<le> inf_mag" using assms(1) by (simp add: is_nan_def)
  have v: "fval (mk s 0) = 0" by (simp add: fval_def)
  have "fval x \<noteq> 0" using assms(2) by (simp add: fval_def)
  moreover have "nat \<bar>fval x\<bar> = mag_units (fmag x)" by (simp add: fval_def)
  moreover have "fval x < 0 \<longleftrightarrow> fsign x" using assms(2) by (simp add: fval_def)
  moreover have "round_mag (mag_units (fmag x)) 1 = fmag x"
    using round_mag_exact [OF le, of 1] by simp
  ultimately show ?thesis
    using assms False by (simp add: fadd_def v is_inf_def Let_def)
qed

section \<open>Order\<close>

lemma f32_less_irrefl [simp]: "\<not> x < (x :: f32)"
  by (simp add: less_f32_def)

lemma f32_less_trans [trans]: "x < y \<Longrightarrow> y < z \<Longrightarrow> x < (z :: f32)"
  by (auto simp: less_f32_def)

lemma f32_le_trans [trans]: "x \<le> y \<Longrightarrow> y \<le> z \<Longrightarrow> x \<le> (z :: f32)"
  by (auto simp: less_eq_f32_def)

lemma f32_le_less_trans [trans]: "x \<le> y \<Longrightarrow> y < z \<Longrightarrow> x < (z :: f32)"
  by (auto simp: less_f32_def less_eq_f32_def)

lemma f32_less_le_trans [trans]: "x < y \<Longrightarrow> y \<le> z \<Longrightarrow> x < (z :: f32)"
  by (auto simp: less_f32_def less_eq_f32_def)

lemma f32_less_imp_le: "x < y \<Longrightarrow> x \<le> (y :: f32)"
  by (auto simp: less_f32_def less_eq_f32_def)

lemma f32_less_asym: "x < y \<Longrightarrow> \<not> y < (x :: f32)"
  by (auto simp: less_f32_def)

lemma f32_refl: "\<not> is_nan x \<Longrightarrow> x \<le> (x :: f32)"
  by (simp add: less_eq_f32_def)

lemma f32_not_less: "\<not> is_nan x \<Longrightarrow> \<not> is_nan y \<Longrightarrow> \<not> x < y \<longleftrightarrow> y \<le> (x :: f32)"
  by (auto simp: less_f32_def less_eq_f32_def)

lemma f32_le_not_nan: "x \<le> y \<Longrightarrow> \<not> is_nan x \<and> \<not> is_nan (y :: f32)"
  by (simp add: less_eq_f32_def)

lemma f32_less_not_nan: "x < y \<Longrightarrow> \<not> is_nan x \<and> \<not> is_nan (y :: f32)"
  by (simp add: less_f32_def)

text \<open>On finite values the order is the order of the values.\<close>

lemma fkey_le_iff_fval: "fkey x \<le> fkey y \<longleftrightarrow> fval x \<le> fval y"
proof -
  have "- int m \<le> int n" "- int m < int n \<longleftrightarrow> m \<noteq> 0 \<or> n \<noteq> 0" for m n by auto
  moreover have "int m \<le> - int n \<longleftrightarrow> m = 0 \<and> n = 0" for m n by auto
  ultimately show ?thesis by (auto simp: fkey_def fval_def)
qed

lemma fkey_less_iff_fval: "fkey x < fkey y \<longleftrightarrow> fval x < fval y"
  using fkey_le_iff_fval [of y x] by (simp add: linorder_not_le [symmetric])

text \<open>Rounding an exact integer value into the order of representable ones.\<close>

lemma round_int_le:
  assumes "\<bar>v\<bar> \<le> \<bar>fval x\<bar>" "\<not> is_nan x"
  shows "round_mag (nat \<bar>v\<bar>) 1 \<le> fmag x"
proof -
  have "nat \<bar>v\<bar> \<le> mag_units (fmag x)" using assms(1) by (auto simp: fval_def split: if_splits)
  then have "round_mag (nat \<bar>v\<bar>) 1 \<le> round_mag (mag_units (fmag x)) 1"
    by (intro round_mag_mono) auto
  also have "\<dots> = fmag x"
    using assms(2) round_mag_exact [of "fmag x" 1] by (simp add: is_nan_def)
  finally show ?thesis .
qed

text \<open>The sum of values of opposite sign is no larger in magnitude than the larger of them.\<close>

lemma fadd_opposite_le:
  assumes "finite32 x" "finite32 y" "fsign x \<noteq> fsign y" "fmag y \<le> fmag x"
  shows "fmag (fadd x y) \<le> fmag x"
proof -
  have n: "\<not> is_nan x" "\<not> is_nan y" "\<not> is_inf x" "\<not> is_inf y"
    using assms by (auto simp: finite32_def is_nan_def is_inf_def)
  have "mag_units (fmag y) \<le> mag_units (fmag x)" using assms(4) by simp
  then have "\<bar>fval x + fval y\<bar> \<le> \<bar>fval x\<bar>"
    using assms(3) by (auto simp: fval_def)
  from round_int_le [OF this n(1)] show ?thesis
    using n by (simp add: fadd_def Let_def)
qed

section \<open>Kernel evaluation\<close>

text \<open>
  Closed terms over \<open>f32\<close> evaluate by \<open>simp\<close> with \<open>f32_eval\<close>: the operations unfold to
  arithmetic on numerals, and the two loops (bit length, square root) unfold on numerals only.
\<close>

lemma floorlog_numeral [simp]:
  "floorlog 2 (Suc 0) = 1"
  "floorlog 2 (1 :: nat) = 1"
  "floorlog 2 (numeral (Num.Bit0 n)) = Suc (floorlog 2 (numeral n))"
  "floorlog 2 (numeral (Num.Bit1 n)) = Suc (floorlog 2 (numeral n))"
  "floorlog 2 0 = 0"
proof -
  have half: "numeral (Num.Bit0 n) div (2::nat) = numeral n"
    "numeral (Num.Bit1 n) div (2::nat) = numeral n" by simp_all
  show "floorlog 2 (numeral (Num.Bit0 n)) = Suc (floorlog 2 (numeral n))"
    by (subst compute_floorlog) (simp add: half)
  show "floorlog 2 (numeral (Num.Bit1 n)) = Suc (floorlog 2 (numeral n))"
    by (subst compute_floorlog) (simp add: half)
  show "floorlog 2 (Suc 0) = 1" "floorlog 2 (1 :: nat) = 1" "floorlog 2 0 = 0"
    by (simp_all add: floorlog_def)
qed

lemma isqrt_numeral:
  "isqrt 0 = 0"
  "isqrt (Suc 0) = 1"
  "isqrt (numeral k) = isqrt_step (numeral k) (isqrt (numeral k div 4))"
  by (subst isqrt.simps, simp add: isqrt_step_def isqrt.simps [of 0])+

lemma isqrt_step_numeral:
  "isqrt_step (numeral n) 0 = 1"
  "isqrt_step (numeral n) (Suc 0) = (if 9 \<le> (numeral n :: nat) then 3 else 2)"
  "isqrt_step (numeral n) (numeral r) =
     (if numeral (Num.Bit1 r) * numeral (Num.Bit1 r) \<le> (numeral n :: nat)
      then numeral (Num.Bit1 r) else numeral (Num.Bit0 r))"
proof -
  have b: "2 * numeral r = (numeral (Num.Bit0 r) :: nat)"
    "numeral (Num.Bit0 r) + 1 = (numeral (Num.Bit1 r) :: nat)" by simp_all
  show "isqrt_step (numeral n) (numeral r) =
     (if numeral (Num.Bit1 r) * numeral (Num.Bit1 r) \<le> (numeral n :: nat)
      then numeral (Num.Bit1 r) else numeral (Num.Bit0 r))"
    unfolding isqrt_step_def b ..
qed (simp_all add: isqrt_step_def)

lemma sqrt_mag_numeral:
  "sqrt_mag n (numeral r) =
     round_mag (if numeral r * numeral r = n then numeral (Num.Bit0 r) else numeral (Num.Bit1 r)) 2"
  by (simp add: sqrt_mag_def)

lemmas f32_eval = f32_ops fadd_def fmul_def fdiv_def fneg_def fsqrt_def flit_def f32_of_int_def
  less_f32_def less_eq_f32_def fkey_def fval_def mag_units_def round_mag_def rne_def is_nan_def
  is_inf_def inf_mag_def qnan_def mk_def fsign_def fmag_def Let_def isqrt_numeral
  isqrt_step_numeral sqrt_mag_numeral

text \<open>The part of it that only compares.\<close>

lemmas f32_less = less_f32_def less_eq_f32_def fkey_def is_nan_def inf_mag_def fsign_def fmag_def

end
