(* ===== verification/Utility.thy ===== *)
theory Utility
  imports Float32
begin

text \<open>
  \<open>libs/Math/include/Utility.h\<close>: the scalar helpers of the math library, as templates over the
  number type (a type class here), and the two functions of \<open><algorithm>\<close> the engine calls.
\<close>

section \<open>Scalar templates\<close>

definition Abs :: "'a::{zero, ord, uminus} \<Rightarrow> 'a" where
  "Abs nbr = (if nbr < 0 then - nbr else nbr)"

text \<open>\<open>Clamp\<close> first swaps the bounds when they are the wrong way round.\<close>

definition Clamp :: "'a::ord \<Rightarrow> 'a \<Rightarrow> 'a \<Rightarrow> 'a" where
  "Clamp x lo hi =
     (let (lo', hi') = (if hi < lo then (hi, lo) else (lo, hi))
      in if x < lo' then lo' else if hi' < x then hi' else x)"

definition Min :: "'a::ord \<Rightarrow> 'a \<Rightarrow> 'a" where "Min x y = (if x < y then x else y)"
definition Max :: "'a::ord \<Rightarrow> 'a \<Rightarrow> 'a" where "Max x y = (if y < x then x else y)"

definition std_min :: "'a::ord \<Rightarrow> 'a \<Rightarrow> 'a" where "std_min a b = (if b < a then b else a)"
definition std_max :: "'a::ord \<Rightarrow> 'a \<Rightarrow> 'a" where "std_max a b = (if a < b then b else a)"

text \<open>\<open>std::abs\<close> clears the sign, also of a negative zero, which is not less than 0.\<close>

definition std_abs :: "'a::{zero, ord, uminus} \<Rightarrow> 'a" where
  "std_abs x = (if x < 0 then - x else if ceq x 0 then 0 else x)"

text \<open>
  \<open>Fact\<close> and \<open>Pow\<close> at \<open>int\<close>: a product outside the 32-bit range is a signed overflow, which the
  language leaves undefined. The loop counter runs over the listed indices.
\<close>

definition int_mul :: "int \<Rightarrow> int \<Rightarrow> int res" where
  "int_mul a b =
     (if - (2 ^ 31) \<le> a * b \<and> a * b < 2 ^ 31 then Inr (a * b)
      else Inl (UndefinedBehaviour ''signed overflow''))"

definition Fact :: "int \<Rightarrow> int res" where
  "Fact n =
     rbind (rfold (\<lambda>i result. int_mul result i) [2..Abs n] 1)
       (\<lambda>result. Inr (if n < 0 then - result else result))"

definition Pow :: "int \<Rightarrow> nat \<Rightarrow> int res" where
  "Pow x n =
     (if x = 0 then Inr 0 else rfold (\<lambda>_ result. int_mul result x) [1..int n] 1)"

section \<open>Facts\<close>

lemma Abs_field [simp]: "Abs (x :: 'a::linordered_idom) = \<bar>x\<bar>"
  by (simp add: Abs_def abs_if)

lemma std_abs_field [simp]: "std_abs (x :: 'a::linordered_idom) = \<bar>x\<bar>"
  by (simp add: std_abs_def abs_if)

lemma Min_linorder [simp]: "Min x y = min x (y :: 'a::linorder)"
  by (auto simp: Min_def min_def)

lemma Max_linorder [simp]: "Max x y = max x (y :: 'a::linorder)"
  by (auto simp: Max_def max_def)

lemma std_min_linorder [simp]: "std_min x y = min x (y :: 'a::linorder)"
  by (auto simp: std_min_def min_def)

lemma std_max_linorder [simp]: "std_max x y = max x (y :: 'a::linorder)"
  by (auto simp: std_max_def max_def)

lemma Clamp_linorder: "Clamp x lo hi = max (min lo hi) (min x (max lo (hi :: 'a::linorder)))"
  by (auto simp: Clamp_def Let_def max_def min_def)

text \<open>On \<open>float\<close> the clamp lands between its bounds, whichever way round they come.\<close>

lemma Clamp_f32:
  fixes x :: f32
  assumes "\<not> is_nan x" "\<not> is_nan lo" "\<not> is_nan hi"
  shows "(lo \<le> Clamp x lo hi \<and> Clamp x lo hi \<le> hi) \<or> (hi \<le> Clamp x lo hi \<and> Clamp x lo hi \<le> lo)"
  using assms by (auto simp: Clamp_def Let_def less_f32_def less_eq_f32_def)

lemma Fact_small: "Fact 12 = Inr 479001600" "Fact 13 = Inl (UndefinedBehaviour ''signed overflow'')"
  by (simp_all add: Fact_def Abs_def int_mul_def upto.simps)

lemma rfold_Pow:
  assumes "\<bar>x\<bar> ^ (n + length xs) < 2 ^ 31" "x \<noteq> 0"
  shows "rfold (\<lambda>_ result. int_mul result x) xs (x ^ n) = Inr (x ^ (n + length xs))"
  using assms
proof (induction xs arbitrary: n)
  case (Cons i xs)
  have "\<bar>x\<bar> ^ (n + 1) \<le> \<bar>x\<bar> ^ (n + length (i # xs))"
    using Cons.prems(2) by (intro power_increasing) auto
  then have "\<bar>x ^ (n + 1)\<bar> < 2 ^ 31" using Cons.prems(1) by (simp add: power_abs abs_mult)
  then have "int_mul (x ^ n) x = Inr (x ^ (n + 1))"
    by (simp add: int_mul_def mult.commute) linarith
  moreover have "rfold (\<lambda>_ result. int_mul result x) xs (x ^ (n + 1))
      = Inr (x ^ (n + 1 + length xs))"
    using Cons.prems by (intro Cons.IH) auto
  ultimately show ?case by simp
qed simp

end
