(* ===== verification/Vec2.thy ===== *)
theory Vec2
  imports Utility
begin

text \<open>
  \<open>libs/Math/include/Vec2.h\<close>: the two-dimensional vector template. The number type is a type
  variable, as in the source; the engine uses it at \<open>f32\<close> (\<open>Vec2F\<close>), and the laws that hold
  for exact arithmetic are proved at an ordered field. \<open>std::sqrt\<close>, which differs between the
  two, is the argument \<open>sq\<close> (\<open>fsqrt\<close> for \<open>float\<close>, \<open>sqrt\<close> for the reals).
\<close>

section \<open>The class and its operators\<close>

datatype 'a vec2 = Vec2 (X: 'a) (Y: 'a)

definition Zero :: "'a::zero vec2" where "Zero = Vec2 0 0"
definition One :: "'a::one vec2" where "One = Vec2 1 1"
definition Up :: "'a::{zero, one} vec2" where "Up = Vec2 0 1"
definition Down :: "'a::{zero, one, uminus} vec2" where "Down = Vec2 0 (- 1)"
definition Left :: "'a::{zero, one, uminus} vec2" where "Left = Vec2 (- 1) 0"
definition Right :: "'a::{zero, one} vec2" where "Right = Vec2 1 0"

text \<open>The integer literal \<open>2\<close> of the source, converted to the number type.\<close>

definition two :: "'a::{one, plus}" where "two = 1 + 1"

definition vec2_plus :: "'a::plus vec2 \<Rightarrow> 'a vec2 \<Rightarrow> 'a vec2" where
  "vec2_plus v vec = Vec2 (X v + X vec) (Y v + Y vec)"

instantiation vec2 :: (plus) plus
begin
definition plus_vec2 :: "'a vec2 \<Rightarrow> 'a vec2 \<Rightarrow> 'a vec2" where
  plus_vec2_is: "plus_vec2 = vec2_plus"
instance ..
end

lemma plus_vec2_def: "v + vec = Vec2 (X v + X vec) (Y v + Y vec)"
  by (simp add: plus_vec2_is vec2_plus_def)

definition vec2_minus :: "'a::minus vec2 \<Rightarrow> 'a vec2 \<Rightarrow> 'a vec2" where
  "vec2_minus v vec = Vec2 (X v - X vec) (Y v - Y vec)"

instantiation vec2 :: (minus) minus
begin
definition minus_vec2 :: "'a vec2 \<Rightarrow> 'a vec2 \<Rightarrow> 'a vec2" where
  minus_vec2_is: "minus_vec2 = vec2_minus"
instance ..
end

lemma minus_vec2_def: "v - vec = Vec2 (X v - X vec) (Y v - Y vec)"
  by (simp add: minus_vec2_is vec2_minus_def)

definition vec2_uminus :: "'a::uminus vec2 \<Rightarrow> 'a vec2" where
  "vec2_uminus v = Vec2 (- X v) (- Y v)"

instantiation vec2 :: (uminus) uminus
begin
definition uminus_vec2 :: "'a vec2 \<Rightarrow> 'a vec2" where
  uminus_vec2_is: "uminus_vec2 = vec2_uminus"
instance ..
end

lemma uminus_vec2_def: "- v = Vec2 (- X v) (- Y v)"
  by (simp add: uminus_vec2_is vec2_uminus_def)

definition vec2_times :: "'a::times vec2 \<Rightarrow> 'a vec2 \<Rightarrow> 'a vec2" where
  "vec2_times v vec = Vec2 (X v * X vec) (Y v * Y vec)"

instantiation vec2 :: (times) times
begin
definition times_vec2 :: "'a vec2 \<Rightarrow> 'a vec2 \<Rightarrow> 'a vec2" where
  times_vec2_is: "times_vec2 = vec2_times"
instance ..
end

lemma times_vec2_def: "v * vec = Vec2 (X v * X vec) (Y v * Y vec)"
  by (simp add: times_vec2_is vec2_times_def)

definition vscale :: "'a::times vec2 \<Rightarrow> 'a \<Rightarrow> 'a vec2" where
  "vscale v scalar = Vec2 (X v * scalar) (Y v * scalar)"

text \<open>Division throws on a zero divisor; \<open>vdiv_by\<close> is its last line, for a divisor known not to be 0.\<close>

definition vdiv_by :: "'a::divide vec2 \<Rightarrow> 'a \<Rightarrow> 'a vec2" where
  "vdiv_by v scalar = Vec2 (X v div scalar) (Y v div scalar)"

definition vdiv :: "'a::{zero, ord, divide} vec2 \<Rightarrow> 'a \<Rightarrow> 'a vec2 res" where
  "vdiv v scalar = (if ceq scalar 0 then Inl DivisionByZeroException else Inr (vdiv_by v scalar))"

definition vdivv :: "'a::{zero, ord, divide} vec2 \<Rightarrow> 'a vec2 \<Rightarrow> 'a vec2 res" where
  "vdivv v vec =
     (if ceq (X vec) 0 \<or> ceq (Y vec) 0 then Inl DivisionByZeroException
      else Inr (Vec2 (X v div X vec) (Y v div Y vec)))"

definition veq :: "'a::ord vec2 \<Rightarrow> 'a vec2 \<Rightarrow> bool" where
  "veq v vec \<longleftrightarrow> ceq (X v) (X vec) \<and> ceq (Y v) (Y vec)"

definition vneq :: "'a::ord vec2 \<Rightarrow> 'a vec2 \<Rightarrow> bool" where
  "vneq v vec \<longleftrightarrow> \<not> veq v vec"

definition vindex :: "'a vec2 \<Rightarrow> int \<Rightarrow> 'a res" where
  "vindex v index =
     (if index = 0 then Inr (X v) else if index = 1 then Inr (Y v) else Inl OutOfRangeException)"

section \<open>Products, lengths, directions\<close>

definition Dot :: "'a::{plus, times} vec2 \<Rightarrow> 'a vec2 \<Rightarrow> 'a" where
  "Dot v vec = X v * X vec + Y v * Y vec"

definition Length :: "('a \<Rightarrow> 'a) \<Rightarrow> 'a::{plus, times} vec2 \<Rightarrow> 'a" where
  "Length sq v = sq (X v * X v + Y v * Y v)"

definition SquareLength :: "'a::{plus, times} vec2 \<Rightarrow> 'a" where
  "SquareLength v = X v * X v + Y v * Y v"

definition Normalize :: "('a \<Rightarrow> 'a) \<Rightarrow> 'a::{plus, times, zero, ord, divide} vec2 \<Rightarrow> 'a vec2 res" where
  "Normalize sq v =
     (let length = Length sq v
      in if ceq length 0 then Inl DivisionByZeroException
         else Inr (Vec2 (X v div length) (Y v div length)))"

definition Normalized :: "('a \<Rightarrow> 'a) \<Rightarrow> 'a::{plus, times, zero, ord, divide} vec2 \<Rightarrow> 'a vec2 res" where
  "Normalized sq v = Normalize sq v"

text \<open>The floating-point branches compare with \<open>std::numeric_limits<T>::epsilon()\<close>.\<close>

definition IsPerpendicular :: "'a::{plus, times, zero, ord, uminus} \<Rightarrow> 'a vec2 \<Rightarrow> 'a vec2 \<Rightarrow> bool" where
  "IsPerpendicular epsilon v vec \<longleftrightarrow> Abs (Dot v vec) < epsilon"

definition IsParallel :: "'a::{minus, times, zero, ord, uminus} \<Rightarrow> 'a vec2 \<Rightarrow> 'a vec2 \<Rightarrow> bool" where
  "IsParallel epsilon v vec \<longleftrightarrow> Abs (X vec * Y v - Y vec * X v) < epsilon"

definition Project ::
  "('a \<Rightarrow> 'a) \<Rightarrow> 'a::{plus, times, zero, ord, divide} vec2 \<Rightarrow> 'a vec2 \<Rightarrow> 'a vec2 res" where
  "Project sq v vec =
     rbind (Normalized sq vec) (\<lambda>vecUnit. Inr (vscale vecUnit (Dot v vecUnit)))"

definition Reflect ::
  "('a \<Rightarrow> 'a) \<Rightarrow> 'a::{plus, minus, times, zero, one, ord, divide} vec2 \<Rightarrow> 'a vec2 \<Rightarrow> 'a vec2 res" where
  "Reflect sq v vec =
     rbind (Normalized sq vec) (\<lambda>normalised.
       Inr (v - vscale (v - normalised) two * normalised))"

definition Lerp :: "'a::{plus, minus, times} vec2 \<Rightarrow> 'a vec2 \<Rightarrow> 'a \<Rightarrow> 'a vec2" where
  "Lerp vec1 vec2 t = vec1 + vscale (vec2 - vec1) t"

definition Distance :: "('a \<Rightarrow> 'a) \<Rightarrow> 'a::{plus, minus, times} vec2 \<Rightarrow> 'a vec2 \<Rightarrow> 'a" where
  "Distance sq vec1 vec2 = Length sq (vec1 - vec2)"

text \<open>\<open>Rotate\<close>, given the cosine and the sine of the angle (\<open>Cos\<close>, \<open>Sin\<close> read tables).\<close>

definition Rotate :: "'a::{plus, minus, times} vec2 \<Rightarrow> 'a \<Rightarrow> 'a \<Rightarrow> 'a vec2" where
  "Rotate v c s = Vec2 (X v * c - Y v * s) (X v * s + Y v * c)"

section \<open>Facts\<close>

lemma vec2_sel [simp]:
  "X (v + w) = X v + X w" "Y (v + w) = Y v + Y w"
  "X (a - b) = X a - X b" "Y (a - b) = Y a - Y b"
  "X (vscale u s) = X u * s" "Y (vscale u s) = Y u * s"
  "X (vdiv_by c d) = X c div d" "Y (vdiv_by c d) = Y c div d"
  "X (m * n) = X m * X n" "Y (m * n) = Y m * Y n"
  by (simp_all add: plus_vec2_def minus_vec2_def vscale_def vdiv_by_def times_vec2_def)

lemma Zero_sel [simp]: "X Zero = 0" "Y Zero = 0"
  by (simp_all add: Zero_def)

lemma Up_sel [simp]: "X Up = 0" "Y Up = 1"
  by (simp_all add: Up_def)

lemma vec2_eqI: "X v = X w \<Longrightarrow> Y v = Y w \<Longrightarrow> v = w"
  by (rule vec2.expand) simp

lemma vec2_eq_iff: "v = w \<longleftrightarrow> X v = X w \<and> Y v = Y w"
  by (auto intro: vec2_eqI)

lemma two_numeral [simp]: "two = (2 :: 'a::linordered_idom)"
  by (simp add: two_def)

lemma two_f32: "two = F32 1073741824"
  by (simp add: two_def f32_eval)

lemma vdiv_two_f32: "vdiv v (two :: f32) = Inr (vdiv_by v two)"
  by (simp add: vdiv_def two_f32 ceq_def f32_eval)

lemma SquareLength_nonneg: "0 \<le> SquareLength (v :: 'a::linordered_idom vec2)"
  by (simp add: SquareLength_def)

lemma SquareLength_eq_0_iff [simp]:
  "SquareLength v = 0 \<longleftrightarrow> v = (Zero :: 'a::linordered_idom vec2)"
  by (cases v) (simp add: SquareLength_def Zero_def sum_squares_eq_zero_iff)

lemma SquareLength_minus_commute:
  "SquareLength (v - w) = SquareLength (w - v)" for v w :: "'a::linordered_idom vec2"
  by (simp add: SquareLength_def algebra_simps)

lemma SquareLength_minus_commute_f32:
  "SquareLength (v - w) = SquareLength (w - v)" for v w :: "f32 vec2"
  by (simp add: SquareLength_def square_minus_commute [of "X v"] square_minus_commute [of "Y v"])

lemma Length_real: "Length sqrt v = sqrt (SquareLength v)"
  by (simp add: Length_def SquareLength_def)

lemma Length_real_eq_0 [simp]: "Length sqrt v = 0 \<longleftrightarrow> v = Zero"
  by (simp add: Length_real)

lemma Length_real_nonneg [simp]: "0 \<le> Length sqrt v"
  by (simp add: Length_real SquareLength_nonneg)

lemma Length_real_square: "Length sqrt v * Length sqrt v = SquareLength v"
  by (simp add: Length_real SquareLength_nonneg)

text \<open>Over the reals \<open>Normalized\<close> throws exactly on the null vector and otherwise has length 1.\<close>

lemma Normalized_real:
  "Normalized sqrt v =
     (if v = Zero then Inl DivisionByZeroException else Inr (vdiv_by v (Length sqrt v)))"
  by (simp add: Normalized_def Normalize_def Let_def vdiv_by_def)

lemma unit_vdiv_by:
  assumes "v \<noteq> Zero"
  shows "SquareLength (vdiv_by v (Length sqrt v)) = 1"
proof -
  have "Length sqrt v \<noteq> 0" using assms by simp
  moreover have "X v * X v + Y v * Y v = Length sqrt v * Length sqrt v"
    by (simp add: Length_real_square SquareLength_def)
  ultimately show ?thesis by (simp add: SquareLength_def add_divide_distrib [symmetric])
qed

lemma Dot_unit:
  assumes "v \<noteq> Zero"
  shows "Dot v (vdiv_by v (Length sqrt v)) = Length sqrt v"
proof -
  have "Length sqrt v \<noteq> 0" using assms by simp
  moreover have "X v * X v + Y v * Y v = Length sqrt v * Length sqrt v"
    by (simp add: Length_real_square SquareLength_def)
  ultimately show ?thesis by (simp add: Dot_def add_divide_distrib [symmetric])
qed

lemma Dot_linear:
  fixes v :: "'a::linordered_field vec2"
  shows "Dot (v + w) n = Dot v n + Dot w n" "Dot (v - w) n = Dot v n - Dot w n"
    "Dot (vscale v s) n = s * Dot v n" "Dot n n = SquareLength n"
  by (simp_all add: Dot_def SquareLength_def algebra_simps)

lemma Dot_vscale_unit:
  fixes n :: "'a::linordered_field vec2"
  assumes "SquareLength n = 1"
  shows "Dot (vscale n s) n = s"
  using assms by (simp add: Dot_linear)

lemma Lerp_ends:
  "Lerp v w 0 = v" "Lerp v w 1 = w" for v :: "'a::linordered_field vec2"
  by (simp_all add: Lerp_def vec2_eqI)

lemma Rotate_keeps_length:
  fixes v :: "'a::linordered_field vec2"
  assumes "c * c + s * s = 1"
  shows "SquareLength (Rotate v c s) = SquareLength v"
proof -
  have "SquareLength (Rotate v c s) = (c * c + s * s) * SquareLength v"
    by (simp add: SquareLength_def Rotate_def algebra_simps)
  with assms show ?thesis by simp
qed

end
