(* ===== verification/Shape.thy ===== *)
theory Shape
  imports Vec2
begin

text \<open>
  \<open>libs/Math/include/Shape.h\<close>: circles, rectangles and polygons, and the nine overloads of
  \<open>Intersect\<close>. A private field \<open>_center\<close> of the source is \<open>c_center\<close> here, and so on.
  The templates are kept as such (one type variable). The last section proves the
  tests right in exact arithmetic: they decide whether the shapes have a point in common.
\<close>

section \<open>The shapes\<close>

record 'a circle =
  c_center :: "'a vec2"
  c_radius :: 'a

record 'a rectangle =
  r_minBound :: "'a vec2"
  r_maxBound :: "'a vec2"

record 'a polygon =
  p_vertices :: "'a vec2 list"

subsection \<open>Circle\<close>

definition Circle :: "'a::{zero, ord, uminus} vec2 \<Rightarrow> 'a \<Rightarrow> 'a circle" where
  "Circle center radius = \<lparr>c_center = center, c_radius = Abs radius\<rparr>"

definition SetCenter :: "'a circle \<Rightarrow> 'a vec2 \<Rightarrow> 'a circle" where
  "SetCenter c center = c\<lparr>c_center := center\<rparr>"

definition SetRadius :: "'a::{zero, ord, uminus} circle \<Rightarrow> 'a \<Rightarrow> 'a circle" where
  "SetRadius c radius = c\<lparr>c_radius := Abs radius\<rparr>"

definition circle_Contains :: "'a::{plus, minus, times, ord} circle \<Rightarrow> 'a vec2 \<Rightarrow> bool" where
  "circle_Contains c point \<longleftrightarrow> SquareLength (c_center c - point) \<le> c_radius c * c_radius c"

definition circle_plus :: "'a::{zero, ord, uminus, plus} circle \<Rightarrow> 'a vec2 \<Rightarrow> 'a circle" where
  "circle_plus c vec = Circle (c_center c + vec) (c_radius c)"

subsection \<open>Rectangle\<close>

definition Rectangle :: "'a vec2 \<Rightarrow> 'a vec2 \<Rightarrow> 'a rectangle" where
  "Rectangle minBound maxBound = \<lparr>r_minBound = minBound, r_maxBound = maxBound\<rparr>"

definition SetMinBound :: "'a rectangle \<Rightarrow> 'a vec2 \<Rightarrow> 'a rectangle" where
  "SetMinBound r minBound = r\<lparr>r_minBound := minBound\<rparr>"

definition SetMaxBound :: "'a rectangle \<Rightarrow> 'a vec2 \<Rightarrow> 'a rectangle" where
  "SetMaxBound r maxBound = r\<lparr>r_maxBound := maxBound\<rparr>"

definition rect_Contains :: "'a::ord rectangle \<Rightarrow> 'a vec2 \<Rightarrow> bool" where
  "rect_Contains r point =
     (if X (r_maxBound r) < X point \<or> X point < X (r_minBound r) then False
      else if Y (r_maxBound r) < Y point \<or> Y point < Y (r_minBound r) then False
      else True)"

text \<open>The divisor is the literal 2, so the check of \<open>operator/\<close> never throws (\<open>vdiv_two_f32\<close>).\<close>

definition rect_origin :: "'a::{plus, divide, one} rectangle \<Rightarrow> 'a vec2" where
  "rect_origin r = vdiv_by (r_minBound r + r_maxBound r) two"

definition rect_Size :: "'a::minus rectangle \<Rightarrow> 'a vec2" where
  "rect_Size r = r_maxBound r - r_minBound r"

definition HalfSize :: "'a::{plus, minus, divide, one} rectangle \<Rightarrow> 'a vec2" where
  "HalfSize r = vdiv_by (r_maxBound r - r_minBound r) two"

definition rect_plus :: "'a::plus rectangle \<Rightarrow> 'a vec2 \<Rightarrow> 'a rectangle" where
  "rect_plus r vec = Rectangle (r_minBound r + vec) (r_maxBound r + vec)"

definition FromCenter :: "'a::{plus, minus} vec2 \<Rightarrow> 'a vec2 \<Rightarrow> 'a rectangle" where
  "FromCenter center halfSize = Rectangle (center - halfSize) (center + halfSize)"

subsection \<open>Polygon\<close>

definition Polygon :: "'a vec2 list \<Rightarrow> 'a polygon" where
  "Polygon vertices = \<lparr>p_vertices = vertices\<rparr>"

definition VerticesCount :: "'a polygon \<Rightarrow> nat" where
  "VerticesCount p = length (p_vertices p)"

text \<open>The vertex count converted to the number type is the argument \<open>of_count\<close>.\<close>

definition poly_origin ::
  "(nat \<Rightarrow> 'a) \<Rightarrow> 'a::{zero, ord, plus, divide} polygon \<Rightarrow> 'a vec2 res" where
  "poly_origin of_count p =
     vdiv (foldl (\<lambda>center vertex. center + vertex) Zero (p_vertices p)) (of_count (VerticesCount p))"

definition poly_Size :: "'a::{zero, ord, minus} polygon \<Rightarrow> 'a vec2" where
  "poly_Size p =
     (let (minBound, maxBound) =
        foldl (\<lambda>(lo, hi) vertex.
            (Vec2 (Min (X lo) (X vertex)) (Min (Y lo) (Y vertex)),
             Vec2 (Max (X hi) (X vertex)) (Max (Y hi) (Y vertex))))
          (Zero, Zero) (p_vertices p)
      in maxBound - minBound)"

definition poly_plus :: "'a::plus polygon \<Rightarrow> 'a vec2 \<Rightarrow> 'a polygon" where
  "poly_plus p vec = Polygon (map (\<lambda>vertex. vertex + vec) (p_vertices p))"

section \<open>Intersect\<close>

definition Intersect_cc :: "'a::{plus, minus, times, ord} circle \<Rightarrow> 'a circle \<Rightarrow> bool" where
  "Intersect_cc circle1 circle2 =
     (let radiusSum = (c_radius circle1 + c_radius circle2) * (c_radius circle1 + c_radius circle2);
          distanceBetweenCenters = SquareLength (c_center circle1 - c_center circle2)
      in distanceBetweenCenters \<le> radiusSum)"

definition Intersect_rr :: "'a::ord rectangle \<Rightarrow> 'a rectangle \<Rightarrow> bool" where
  "Intersect_rr r1 r2 =
     (if X (r_maxBound r1) < X (r_minBound r2) \<or> X (r_maxBound r2) < X (r_minBound r1) then False
      else if Y (r_maxBound r1) < Y (r_minBound r2) \<or> Y (r_maxBound r2) < Y (r_minBound r1) then False
      else True)"

definition Intersect_rc ::
  "'a::{zero, plus, minus, times, ord} rectangle \<Rightarrow> 'a circle \<Rightarrow> bool" where
  "Intersect_rc rectangle circle =
     (let center = c_center circle;
          minBound = r_minBound rectangle;
          maxBound = r_maxBound rectangle;
          radius = c_radius circle;
          rectangle1 = Rectangle (minBound - Vec2 radius 0) (maxBound + Vec2 radius 0);
          rectangle2 = Rectangle (minBound - Vec2 0 radius) (maxBound + Vec2 0 radius);
          corners = [minBound, maxBound, Vec2 (X minBound) (Y maxBound), Vec2 (X maxBound) (Y minBound)]
      in if rect_Contains rectangle center then True
         else if rect_Contains rectangle1 center then True
         else if rect_Contains rectangle2 center then True
         else list_ex (circle_Contains circle) corners)"

definition Intersect_cr ::
  "'a::{zero, plus, minus, times, ord} circle \<Rightarrow> 'a rectangle \<Rightarrow> bool" where
  "Intersect_cr circle rectangle = Intersect_rc rectangle circle"

subsection \<open>Polygon against polygon: the separating axis test\<close>

text \<open>The index pairs of \<open>for (i = 0, j = n - 1; i < n; j = i++)\<close>.\<close>

definition edge_indices :: "nat \<Rightarrow> (nat \<times> nat) list" where
  "edge_indices n = map (\<lambda>i. (i, if i = 0 then n - 1 else i - 1)) [0..<n]"

text \<open>The interval a polygon projects to; the first vertex is read before the loop.\<close>

definition projection :: "'a::{plus, times, ord} vec2 \<Rightarrow> 'a polygon \<Rightarrow> 'a vec2 res" where
  "projection normal p =
     rbind (vec_at (p_vertices p) 0) (\<lambda>v0.
       Inr (foldl (\<lambda>pr vertex. Vec2 (Min (X pr) (Dot vertex normal)) (Max (Y pr) (Dot vertex normal)))
              (Vec2 (Dot v0 normal) (Dot v0 normal)) (p_vertices p)))"

definition edge_normal :: "'a::{minus, uminus} vec2 \<Rightarrow> 'a vec2 \<Rightarrow> 'a vec2" where
  "edge_normal vi vj = (let edge = vi - vj in Vec2 (- Y edge) (X edge))"

definition disjoint_on ::
  "'a::{plus, times, ord} vec2 \<Rightarrow> 'a polygon \<Rightarrow> 'a polygon \<Rightarrow> bool res" where
  "disjoint_on normal polygon1 polygon2 =
     rbind (projection normal polygon1) (\<lambda>projection1.
     rbind (projection normal polygon2) (\<lambda>projection2.
       Inr (Y projection1 < X projection2 \<or> Y projection2 < X projection1)))"

text \<open>One of the two loops over the edges of \<open>vs\<close>: true when an edge separates the polygons.\<close>

fun separated ::
  "'a::{plus, minus, uminus, times, ord} vec2 list \<Rightarrow> 'a polygon \<Rightarrow> 'a polygon
     \<Rightarrow> (nat \<times> nat) list \<Rightarrow> bool res" where
  "separated vs polygon1 polygon2 [] = Inr False"
| "separated vs polygon1 polygon2 ((i, j) # es) =
     rbind (vec_at vs i) (\<lambda>vi. rbind (vec_at vs j) (\<lambda>vj.
     rbind (disjoint_on (edge_normal vi vj) polygon1 polygon2) (\<lambda>d.
       if d then Inr True else separated vs polygon1 polygon2 es)))"

definition Intersect_pp ::
  "'a::{plus, minus, uminus, times, ord} polygon \<Rightarrow> 'a polygon \<Rightarrow> bool res" where
  "Intersect_pp polygon1 polygon2 =
     rbind (separated (p_vertices polygon1) polygon1 polygon2 (edge_indices (VerticesCount polygon1)))
       (\<lambda>s1. if s1 then Inr False else
     rbind (separated (p_vertices polygon2) polygon1 polygon2 (edge_indices (VerticesCount polygon2)))
       (\<lambda>s2. Inr (\<not> s2)))"

subsection \<open>Polygon against circle and rectangle\<close>

definition ClosestPointOnSegment ::
  "'a::{zero, one, plus, minus, times, divide, ord} vec2 \<Rightarrow> 'a vec2 \<Rightarrow> 'a vec2 \<Rightarrow> 'a vec2" where
  "ClosestPointOnSegment A B P =
     (let AB = B - A;
          t = (X (P - A) * X AB + Y (P - A) * Y AB) div SquareLength AB
      in if t \<le> 0 then A else if 1 \<le> t then B else A + vscale AB t)"

fun edge_touches ::
  "'a::{zero, one, plus, minus, times, divide, ord} vec2 list \<Rightarrow> 'a vec2 \<Rightarrow> 'a
     \<Rightarrow> (nat \<times> nat) list \<Rightarrow> bool res" where
  "edge_touches vs center radius [] = Inr False"
| "edge_touches vs center radius ((i, j) # es) =
     rbind (vec_at vs i) (\<lambda>p1. rbind (vec_at vs j) (\<lambda>p2.
       let closest = ClosestPointOnSegment p1 p2 center
       in if SquareLength (center - closest) \<le> radius * radius then Inr True
          else edge_touches vs center radius es))"

definition Intersect_pc ::
  "'a::{zero, one, plus, minus, times, divide, ord} polygon \<Rightarrow> 'a circle \<Rightarrow> bool res" where
  "Intersect_pc polygon circle =
     (if list_ex (circle_Contains circle) (p_vertices polygon) then Inr True
      else edge_touches (p_vertices polygon) (c_center circle) (c_radius circle)
             (edge_indices (VerticesCount polygon)))"

definition Intersect_cp ::
  "'a::{zero, one, plus, minus, times, divide, ord} circle \<Rightarrow> 'a polygon \<Rightarrow> bool res" where
  "Intersect_cp circle polygon = Intersect_pc polygon circle"

definition rect_to_polygon :: "'a rectangle \<Rightarrow> 'a polygon" where
  "rect_to_polygon r =
     Polygon [r_minBound r, Vec2 (X (r_minBound r)) (Y (r_maxBound r)), r_maxBound r,
              Vec2 (X (r_maxBound r)) (Y (r_minBound r))]"

definition Intersect_pr ::
  "'a::{plus, minus, uminus, times, ord} polygon \<Rightarrow> 'a rectangle \<Rightarrow> bool res" where
  "Intersect_pr polygon rectangle = Intersect_pp polygon (rect_to_polygon rectangle)"

definition Intersect_rp ::
  "'a::{plus, minus, uminus, times, ord} rectangle \<Rightarrow> 'a polygon \<Rightarrow> bool res" where
  "Intersect_rp rectangle polygon = Intersect_pr polygon rectangle"

section \<open>The tests decide common points\<close>

text \<open>The point sets the shapes stand for.\<close>

definition in_circle :: "'a::linordered_field circle \<Rightarrow> 'a vec2 \<Rightarrow> bool" where
  "in_circle c p \<longleftrightarrow> SquareLength (p - c_center c) \<le> c_radius c * c_radius c"

definition in_rect :: "'a::linordered_field rectangle \<Rightarrow> 'a vec2 \<Rightarrow> bool" where
  "in_rect r p \<longleftrightarrow> X (r_minBound r) \<le> X p \<and> X p \<le> X (r_maxBound r)
     \<and> Y (r_minBound r) \<le> Y p \<and> Y p \<le> Y (r_maxBound r)"

definition valid_rect :: "'a::linordered_field rectangle \<Rightarrow> bool" where
  "valid_rect r \<longleftrightarrow> X (r_minBound r) \<le> X (r_maxBound r) \<and> Y (r_minBound r) \<le> Y (r_maxBound r)"

inductive in_hull :: "'a::linordered_field vec2 list \<Rightarrow> 'a vec2 \<Rightarrow> bool" for vs where
  vertex: "v \<in> set vs \<Longrightarrow> in_hull vs v"
| segment: "in_hull vs p \<Longrightarrow> in_hull vs q \<Longrightarrow> 0 \<le> t \<Longrightarrow> t \<le> 1 \<Longrightarrow> in_hull vs (Lerp p q t)"

lemma Rectangle_sel [simp]: "r_minBound (Rectangle a b) = a" "r_maxBound (Rectangle a b) = b"
  by (simp_all add: Rectangle_def)

lemma Circle_sel [simp]: "c_center (Circle a r) = a" "c_radius (Circle a r) = Abs r"
  by (simp_all add: Circle_def)

lemma rect_Contains_iff: "rect_Contains r p \<longleftrightarrow> in_rect r p"
  for p :: "'a::linordered_field vec2"
  by (auto simp: rect_Contains_def in_rect_def not_less)

lemma circle_Contains_iff: "circle_Contains c p \<longleftrightarrow> in_circle c p"
  for p :: "'a::linordered_field vec2"
  using SquareLength_minus_commute [of p "c_center c"]
  by (simp add: circle_Contains_def in_circle_def)

lemma cauchy_schwarz:
  fixes v :: "'a::linordered_field vec2"
  shows "Dot v w * Dot v w \<le> SquareLength v * SquareLength w"
proof -
  have "SquareLength v * SquareLength w - Dot v w * Dot v w
      = (X v * Y w - Y v * X w) * (X v * Y w - Y v * X w)"
    by (simp add: Dot_def SquareLength_def algebra_simps)
  then show ?thesis by (metis diff_ge_0_iff_ge zero_le_square)
qed

lemma square_le_mult:
  fixes a b c d :: "'a::linordered_field"
  assumes "a \<le> b * b" "c \<le> d * d" "0 \<le> a" "0 \<le> c"
  shows "a * c \<le> (b * d) * (b * d)"
proof -
  have "a * c \<le> (b * b) * (d * d)" using assms by (intro mult_mono) auto
  then show ?thesis by (simp add: ac_simps)
qed

lemma le_of_squares:
  fixes a b :: "'a::linordered_field"
  assumes "a * a \<le> b * b" "0 \<le> b"
  shows "a \<le> b"
  by (rule power2_le_imp_le [OF _ assms(2)]) (simp add: power2_eq_square assms(1))

lemma triangle_circles:
  fixes p :: "'a::linordered_field vec2"
  assumes "in_circle c1 p" "in_circle c2 p" "0 \<le> c_radius c1" "0 \<le> c_radius c2"
  shows "SquareLength (c_center c1 - c_center c2)
           \<le> (c_radius c1 + c_radius c2) * (c_radius c1 + c_radius c2)"
proof -
  define u w where "u = p - c_center c2" and "w = p - c_center c1"
  have su: "SquareLength u \<le> c_radius c2 * c_radius c2" and sw: "SquareLength w \<le> c_radius c1 * c_radius c1"
    using assms(1,2) by (simp_all add: in_circle_def u_def w_def)
  have "Dot u w * Dot u w \<le> (c_radius c2 * c_radius c1) * (c_radius c2 * c_radius c1)"
    by (rule order_trans [OF cauchy_schwarz square_le_mult [OF su sw]]) (rule SquareLength_nonneg)+
  then have "(- Dot u w) * (- Dot u w) \<le> (c_radius c2 * c_radius c1) * (c_radius c2 * c_radius c1)"
    by simp
  then have d: "- Dot u w \<le> c_radius c2 * c_radius c1"
    by (rule le_of_squares) (simp add: assms)
  have "c_center c1 - c_center c2 = u - w" by (simp add: u_def w_def vec2_eqI)
  then have "SquareLength (c_center c1 - c_center c2)
      = SquareLength u + SquareLength w + 2 * (- Dot u w)"
    by (simp add: SquareLength_def Dot_def algebra_simps)
  also have "\<dots> \<le> c_radius c2 * c_radius c2 + c_radius c1 * c_radius c1 + 2 * (c_radius c2 * c_radius c1)"
    using su sw d by linarith
  finally show ?thesis by (simp add: algebra_simps)
qed


lemma circles_share_point:
  fixes c1 :: "'a::linordered_field circle"
  assumes "SquareLength (c_center c1 - c_center c2)
             \<le> (c_radius c1 + c_radius c2) * (c_radius c1 + c_radius c2)"
    and r: "0 \<le> c_radius c1" "0 \<le> c_radius c2"
  shows "\<exists>p. in_circle c1 p \<and> in_circle c2 p"
proof (cases "c_radius c1 + c_radius c2 = 0")
  case True
  then have "SquareLength (c_center c1 - c_center c2) \<le> 0" using assms(1) by simp
  then have "SquareLength (c_center c1 - c_center c2) = 0"
    by (rule order_antisym) (rule SquareLength_nonneg)
  then show ?thesis
    by (intro exI [of _ "c_center c1"]) (simp add: in_circle_def SquareLength_def)
next
  case False
  define s where "s = c_radius c1 + c_radius c2"
  have "s \<noteq> 0" "0 < s" using False r by (auto simp: s_def)
  define u where "u = c_center c2 - c_center c1"
  define d where "d = SquareLength u"
  have d: "d \<le> s * s" "0 \<le> d"
    using assms(1) SquareLength_minus_commute [of "c_center c1" "c_center c2"]
    by (simp_all add: d_def u_def s_def SquareLength_nonneg)
  define t where "t = c_radius c1 / s"
  define p where "p = c_center c1 + vscale u t"
  have 1: "SquareLength (p - c_center c1) = (t * t) * d"
    by (simp add: p_def d_def SquareLength_def algebra_simps)
  have 2: "SquareLength (p - c_center c2) = ((1 - t) * (1 - t)) * d"
    by (simp add: p_def d_def u_def SquareLength_def algebra_simps)
  have ts: "t * s = c_radius c1" "(1 - t) * s = c_radius c2"
    using \<open>s \<noteq> 0\<close> by (simp_all add: t_def left_diff_distrib) (simp add: s_def)
  have "(t * t) * d \<le> (t * t) * (s * s)" "((1 - t) * (1 - t)) * d \<le> ((1 - t) * (1 - t)) * (s * s)"
    using d by (intro mult_left_mono; simp)+
  moreover have "(t * t) * (s * s) = c_radius c1 * c_radius c1"
    "((1 - t) * (1 - t)) * (s * s) = c_radius c2 * c_radius c2"
    unfolding ts [symmetric] by (simp_all add: algebra_simps)
  ultimately have "in_circle c1 p \<and> in_circle c2 p"
    by (simp add: in_circle_def 1 2)
  then show ?thesis by blast
qed

lemma Intersect_rc_clamp:
  fixes r :: "'a::linordered_field rectangle"
  assumes "valid_rect r" "0 \<le> c_radius c"
    and "in_rect r p" "in_circle c p"
  shows "Intersect_rc r c"
proof -
  define cx cy rad where "cx = X (c_center c)" and "cy = Y (c_center c)" and "rad = c_radius c"
  define x0 x1 y0 y1 where "x0 = X (r_minBound r)" and "x1 = X (r_maxBound r)"
    and "y0 = Y (r_minBound r)" and "y1 = Y (r_maxBound r)"
  note d = cx_def cy_def rad_def x0_def x1_def y0_def y1_def
  define px py where "px = X p" and "py = Y p"
  have b: "x0 \<le> px" "px \<le> x1" "y0 \<le> py" "py \<le> y1" "0 \<le> rad"
    using assms by (simp_all add: in_rect_def d px_def py_def)
  have dist: "(px - cx) * (px - cx) + (py - cy) * (py - cy) \<le> rad * rad"
    using assms(4) by (simp add: in_circle_def SquareLength_def d px_def py_def)
  have dx: "(px - cx) * (px - cx) \<le> rad * rad" and dy: "(py - cy) * (py - cy) \<le> rad * rad"
    using dist zero_le_square [of "px - cx"] zero_le_square [of "py - cy"] by linarith+
  have sq: "a \<le> rad" "- a \<le> rad" if "a * a \<le> rad * rad" for a
    using that le_of_squares [of a rad] le_of_squares [of "- a" rad] b(5) by simp_all
  have bx: "cx \<le> px + rad" "px \<le> cx + rad" using sq [OF dx] by simp_all
  have by': "cy \<le> py + rad" "py \<le> cy + rad" using sq [OF dy] by simp_all
  have closer: "(q - c) * (q - c) \<le> (p - c) * (p - c)"
    if "(c \<le> q \<and> q \<le> p) \<or> (p \<le> q \<and> q \<le> c)" for q p c :: 'a
    using that
  proof
    assume "c \<le> q \<and> q \<le> p"
    then show ?thesis by (intro mult_mono) auto
  next
    assume "p \<le> q \<and> q \<le> c"
    then have "(c - q) * (c - q) \<le> (c - p) * (c - p)" by (intro mult_mono) auto
    then show ?thesis by (simp add: algebra_simps)
  qed
  have corner: "circle_Contains c (Vec2 qx qy)"
    if "(qx - cx) * (qx - cx) \<le> (px - cx) * (px - cx)" "(qy - cy) * (qy - cy) \<le> (py - cy) * (py - cy)"
    for qx qy
    using that dist by (simp add: circle_Contains_iff in_circle_def SquareLength_def d)
  have corners: "r_minBound r = Vec2 x0 y0" "r_maxBound r = Vec2 x1 y1"
    by (simp_all add: d)
  show ?thesis
  proof (cases "x0 \<le> cx \<and> cx \<le> x1 \<or> y0 \<le> cy \<and> cy \<le> y1")
    case True
    then show ?thesis
      using b bx by'
      by (auto simp: Intersect_rc_def Let_def rect_Contains_iff in_rect_def simp flip: d)
  next
    case False
    then have "(cx < x0 \<or> x1 < cx) \<and> (cy < y0 \<or> y1 < cy)" by auto
    then have "list_ex (circle_Contains c)
        [Vec2 x0 y0, Vec2 x1 y1, Vec2 x0 y1, Vec2 x1 y0]"
      using corner closer b by auto
    then show ?thesis
      by (simp add: Intersect_rc_def Let_def corners)
  qed
qed


lemma Intersect_rc_sound:
  fixes r :: "'a::linordered_field rectangle"
  assumes v: "valid_rect r" and rad: "0 \<le> c_radius c" and i: "Intersect_rc r c"
  shows "\<exists>p. in_rect r p \<and> in_circle c p"
proof -
  define cx cy where "cx = X (c_center c)" and "cy = Y (c_center c)"
  have sq: "(a - b) * (a - b) \<le> c_radius c * c_radius c" if "\<bar>a - b\<bar> \<le> c_radius c" for a b
    using mult_mono [OF that that] rad by simp
  have pt: "\<exists>p. in_rect r p \<and> in_circle c p"
    if "in_rect r q" "X q = cx \<and> \<bar>Y q - cy\<bar> \<le> c_radius c \<or> Y q = cy \<and> \<bar>X q - cx\<bar> \<le> c_radius c" for q
    using that sq by (intro exI [of _ q]) (auto simp: in_circle_def SquareLength_def cx_def cy_def)
  define cl :: "'a \<Rightarrow> 'a \<Rightarrow> 'a \<Rightarrow> 'a" where "cl lo hi x = max lo (min hi x)" for lo hi x
  have cl: "lo \<le> cl lo hi x" "cl lo hi x \<le> hi" if "lo \<le> hi" for lo hi x
    using that by (auto simp: cl_def)
  have near: "\<bar>cl lo hi x - x\<bar> \<le> d" if "lo - d \<le> x" "x \<le> hi + d" "lo \<le> hi" "0 \<le> d" for lo hi x d
    using that by (auto simp: cl_def max_def min_def abs_if)
  let ?lo = "r_minBound r" and ?hi = "r_maxBound r"
  from i consider "in_rect r (c_center c)"
    | "in_rect (Rectangle (?lo - Vec2 (c_radius c) 0) (?hi + Vec2 (c_radius c) 0)) (c_center c)"
    | "in_rect (Rectangle (?lo - Vec2 0 (c_radius c)) (?hi + Vec2 0 (c_radius c))) (c_center c)"
    | q where "circle_Contains c q" "in_rect r q"
    using v by (auto simp: Intersect_rc_def Let_def rect_Contains_iff valid_rect_def in_rect_def
        split: if_splits)
  then show ?thesis
  proof cases
    case 1
    then show ?thesis
      using rad by (intro exI [of _ "c_center c"]) (simp add: in_circle_def SquareLength_def)
  next
    case 2
    then show ?thesis
      using v rad cl [of "X ?lo" "X ?hi" cx] near [of "X ?lo" "c_radius c" cx "X ?hi"]
      by (intro pt [of "Vec2 (cl (X ?lo) (X ?hi) cx) cy"])
        (simp_all add: in_rect_def valid_rect_def cx_def cy_def)
  next
    case 3
    then show ?thesis
      using v rad cl [of "Y ?lo" "Y ?hi" cy] near [of "Y ?lo" "c_radius c" cy "Y ?hi"]
      by (intro pt [of "Vec2 cx (cl (Y ?lo) (Y ?hi) cy)"])
        (simp_all add: in_rect_def valid_rect_def cx_def cy_def)
  next
    case 4
    then show ?thesis by (auto simp: circle_Contains_iff)
  qed
qed

subsection \<open>The separating axis test misses no contact\<close>

lemma fold_bounds:
  fixes n :: "'a::linordered_field vec2"
  defines "f \<equiv> \<lambda>pr vertex. Vec2 (Min (X pr) (Dot vertex n)) (Max (Y pr) (Dot vertex n))"
  shows "X (foldl f pr vs) \<le> X pr \<and> Y pr \<le> Y (foldl f pr vs)
    \<and> (\<forall>v \<in> set vs. X (foldl f pr vs) \<le> Dot v n \<and> Dot v n \<le> Y (foldl f pr vs))"
proof (induction vs arbitrary: pr)
  case (Cons v vs)
  have "X (f pr v) \<le> X pr" "Y pr \<le> Y (f pr v)" "X (f pr v) \<le> Dot v n" "Dot v n \<le> Y (f pr v)"
    by (simp_all add: f_def)
  with Cons.IH [of "f pr v"] show ?case by auto
qed simp

lemma projection_bounds:
  assumes "projection n p = Inr pr" "in_hull (p_vertices p) q"
  shows "X pr \<le> Dot q n \<and> Dot q n \<le> Y pr"
  using assms(2)
proof (induction rule: in_hull.induct)
  case (vertex v)
  then show ?case
    using assms(1) fold_bounds [of n _ "p_vertices p"] by (auto simp: projection_def res_simps)
next
  case (segment u w t)
  have "Dot (Lerp u w t) n = (1 - t) * Dot u n + t * Dot w n"
    by (simp add: Lerp_def Dot_def algebra_simps)
  moreover have "(1 - t) * X pr + t * X pr \<le> (1 - t) * Dot u n + t * Dot w n"
    "(1 - t) * Dot u n + t * Dot w n \<le> (1 - t) * Y pr + t * Y pr"
    using segment by (intro add_mono mult_left_mono; simp)+
  ultimately show ?case by (simp add: algebra_simps)
qed

lemma disjoint_on_sound:
  assumes "disjoint_on n p1 p2 = Inr True" "in_hull (p_vertices p1) q" "in_hull (p_vertices p2) q"
  shows False
proof -
  obtain pr1 pr2 where "projection n p1 = Inr pr1" "projection n p2 = Inr pr2"
    and "Y pr1 < X pr2 \<or> Y pr2 < X pr1"
    using assms(1) by (auto simp: disjoint_on_def res_simps)
  with projection_bounds [of n p1 pr1 q] projection_bounds [of n p2 pr2 q] assms(2,3)
  show False by auto
qed

lemma separated_sound:
  assumes "separated vs p1 p2 es = Inr True" "in_hull (p_vertices p1) q" "in_hull (p_vertices p2) q"
  shows False
  using assms(1)
proof (induction es)
  case (Cons e es)
  then show ?case
    using disjoint_on_sound [OF _ assms(2,3)]
    by (cases e) (auto simp: res_simps split: if_splits)
qed simp

lemma projection_ok: "p_vertices p \<noteq> [] \<Longrightarrow> \<exists>pr. projection n p = Inr pr"
  by (simp add: projection_def)

lemma disjoint_on_ok:
  "p_vertices p1 \<noteq> [] \<Longrightarrow> p_vertices p2 \<noteq> [] \<Longrightarrow> \<exists>d. disjoint_on n p1 p2 = Inr d"
  by (simp add: disjoint_on_def projection_def)

lemma separated_ok:
  assumes "p_vertices p1 \<noteq> []" "p_vertices p2 \<noteq> []"
    and "\<forall>(i, j) \<in> set es. i < length vs \<and> j < length vs"
  shows "\<exists>b. separated vs p1 p2 es = Inr b"
  using assms(3)
proof (induction es)
  case (Cons e es)
  obtain i j where e: "e = (i, j)" by (cases e)
  obtain d where "disjoint_on (edge_normal (vs ! i) (vs ! j)) p1 p2 = Inr d"
    using disjoint_on_ok [OF assms(1,2)] by blast
  with Cons e show ?case by auto
qed auto

lemma edge_indices_bound: "(i, j) \<in> set (edge_indices n) \<Longrightarrow> i < n \<and> j < n"
  by (auto simp: edge_indices_def)

lemma Intersect_pp_ok:
  assumes "p_vertices p1 \<noteq> []" "p_vertices p2 \<noteq> []"
  shows "\<exists>b. Intersect_pp p1 p2 = Inr b"
proof -
  have "\<exists>b. separated vs p1 p2 (edge_indices (length vs)) = Inr b" for vs
    using edge_indices_bound by (intro separated_ok [OF assms]) blast
  then obtain a b where "separated (p_vertices p1) p1 p2 (edge_indices (VerticesCount p1)) = Inr a"
    "separated (p_vertices p2) p1 p2 (edge_indices (VerticesCount p2)) = Inr b"
    unfolding VerticesCount_def by blast
  then have "Intersect_pp p1 p2 = Inr (\<not> a \<and> \<not> b)" by (cases a) (simp_all add: Intersect_pp_def)
  then show ?thesis by (rule exI)
qed

subsection \<open>Symmetry on float\<close>

lemma Intersect_cc_commute_f32: "Intersect_cc c1 c2 = Intersect_cc c2 (c1 :: f32 circle)"
  by (simp add: Intersect_cc_def Let_def SquareLength_minus_commute_f32 [of "c_center c1"]
      f32_add_commute [of "c_radius c1"])

lemma Intersect_rr_commute: "Intersect_rr r1 r2 = Intersect_rr r2 r1"
  by (auto simp: Intersect_rr_def)

end
