(* ===== verification/Bodies.thy ===== *)
theory Bodies
  imports Shape
begin

text \<open>
  \<open>engine/include/Refs.h\<close>, \<open>Body.h\<close>, \<open>Collider.h\<close> and their sources: the references, bodies and
  colliders of the physics engine, the bounds of a collider, and the unordered pairs of collider
  references the world keeps in a hash set.
\<close>

section \<open>References\<close>

text \<open>A slot and its generation; \<open>std::size_t\<close> never overflows here and is a \<open>nat\<close>.\<close>

datatype BodyRef = BodyRef (body_Index: nat) (body_GenIndex: nat)
datatype ColliderRef = ColliderRef (col_Index: nat) (col_GenIndex: nat)

definition BodyRef_eq :: "BodyRef \<Rightarrow> BodyRef \<Rightarrow> bool" where
  "BodyRef_eq r other \<longleftrightarrow> body_Index r = body_Index other \<and> body_GenIndex r = body_GenIndex other"

definition ColliderRef_eq :: "ColliderRef \<Rightarrow> ColliderRef \<Rightarrow> bool" where
  "ColliderRef_eq r other \<longleftrightarrow> col_Index r = col_Index other \<and> col_GenIndex r = col_GenIndex other"

lemma BodyRef_eq_iff [simp]: "BodyRef_eq r s \<longleftrightarrow> r = s"
  by (auto simp: BodyRef_eq_def intro: BodyRef.expand)

lemma ColliderRef_eq_iff [simp]: "ColliderRef_eq r s \<longleftrightarrow> r = s"
  by (auto simp: ColliderRef_eq_def intro: ColliderRef.expand)

section \<open>Bodies\<close>

datatype BodyType = DYNAMIC | STATIC | NONE

record 'a body =
  Position :: "'a vec2"
  Velocity :: "'a vec2"
  Mass :: 'a
  Type :: BodyType
  force :: "'a vec2"

text \<open>The default member initialisers: a body is disabled until it is given a mass.\<close>

definition Body :: "'a::{zero, one, uminus} body" where
  "Body = \<lparr>Position = Zero, Velocity = Zero, Mass = - 1, Type = DYNAMIC, force = Zero\<rparr>"

definition Body_at ::
  "'a::{zero, one, uminus} vec2 \<Rightarrow> 'a vec2 \<Rightarrow> 'a \<Rightarrow> 'a body" where
  "Body_at position velocity mass =
     Body\<lparr>Position := position, Velocity := velocity, Mass := mass\<rparr>"

definition ApplyForce :: "'a::plus vec2 \<Rightarrow> 'a body \<Rightarrow> 'a body" where
  "ApplyForce f b = b\<lparr>force := force b + f\<rparr>"

definition IsEnabled :: "'a::{zero, ord} body \<Rightarrow> bool" where
  "IsEnabled b \<longleftrightarrow> 0 \<le> Mass b"

definition Enable :: "'a::one body \<Rightarrow> 'a body" where
  "Enable b = b\<lparr>Mass := 1\<rparr>"

definition Disable :: "'a::{one, uminus} body \<Rightarrow> 'a body" where
  "Disable b = b\<lparr>Mass := - 1\<rparr>"

definition GetForce :: "'a body \<Rightarrow> 'a vec2" where
  "GetForce b = force b"

definition ResetForce :: "'a::zero body \<Rightarrow> 'a body" where
  "ResetForce b = b\<lparr>force := Zero\<rparr>"

lemma Body_disabled [simp]: "\<not> IsEnabled (Body :: f32 body)"
  by (simp add: IsEnabled_def Body_def f32_eval)

lemma Enable_enabled [simp]: "IsEnabled (Enable b :: f32 body)"
  by (simp add: IsEnabled_def Enable_def f32_eval)

lemma Disable_disabled [simp]: "\<not> IsEnabled (Disable b :: f32 body)"
  by (simp add: IsEnabled_def Disable_def f32_eval)

section \<open>Colliders\<close>

datatype 'a shape = CircleF "'a circle" | RectangleF "'a rectangle" | PolygonF "'a polygon"

record 'a collider =
  Shape :: "'a shape"
  col_BodyRef :: BodyRef
  BodyPosition :: "'a vec2"
  Restitution :: 'a
  IsTrigger :: bool
  IsAttached :: bool

definition Collider :: "'a::{zero, one, ord, uminus} collider" where
  "Collider = \<lparr>Shape = CircleF (Circle Zero 1), col_BodyRef = BodyRef 0 0, BodyPosition = Zero,
     Restitution = 1, IsTrigger = False, IsAttached = False\<rparr>"

text \<open>
  \<open>Collider::GetBounds\<close>. The two arguments are \<open>std::numeric_limits<float>::min()\<close>, the smallest
  positive normal number, and \<open>max()\<close>.
\<close>

definition FLT_MIN :: f32 where "FLT_MIN = mk False (2 ^ 23)"
definition FLT_MAX :: f32 where "FLT_MAX = mk False (inf_mag - 1)"

definition polygon_bounds :: "'a::ord \<Rightarrow> 'a \<Rightarrow> 'a vec2 list \<Rightarrow> 'a rectangle" where
  "polygon_bounds flt_min flt_max vs =
     (let (lo, hi) =
        foldl (\<lambda>(lo, hi) vertex.
            (Vec2 (std_min (X lo) (X vertex)) (std_min (Y lo) (Y vertex)),
             Vec2 (std_max (X hi) (X vertex)) (std_max (Y hi) (Y vertex))))
          (Vec2 flt_max flt_max, Vec2 flt_min flt_min) vs
      in Rectangle lo hi)"

definition GetBounds :: "'a::{plus, minus, ord} \<Rightarrow> 'a \<Rightarrow> 'a collider \<Rightarrow> 'a rectangle" where
  "GetBounds flt_min flt_max c =
     (case Shape c of
        CircleF circle \<Rightarrow>
          rect_plus (FromCenter (c_center circle) (Vec2 (c_radius circle) (c_radius circle)))
            (BodyPosition c)
      | RectangleF rectangle \<Rightarrow> rect_plus rectangle (BodyPosition c)
      | PolygonF polygon \<Rightarrow>
          rect_plus (polygon_bounds flt_min flt_max (p_vertices polygon)) (BodyPosition c))"

subsection \<open>Bounds cover the shape\<close>

lemma in_circle_bounds:
  fixes c :: "'a::linordered_field circle"
  assumes "in_circle c p" "0 \<le> c_radius c"
  shows "in_rect (FromCenter (c_center c) (Vec2 (c_radius c) (c_radius c))) p"
proof -
  define dx dy where "dx = X p - X (c_center c)" and "dy = Y p - Y (c_center c)"
  have s: "dx * dx + dy * dy \<le> c_radius c * c_radius c"
    using assms(1) by (simp add: in_circle_def SquareLength_def dx_def dy_def)
  then have "dx * dx \<le> c_radius c * c_radius c" "dy * dy \<le> c_radius c * c_radius c"
    using zero_le_square [of dx] zero_le_square [of dy] by linarith+
  then have "dx \<le> c_radius c" "- dx \<le> c_radius c" "dy \<le> c_radius c" "- dy \<le> c_radius c"
    using assms(2) le_of_squares [of dx "c_radius c"] le_of_squares [of "- dx" "c_radius c"]
      le_of_squares [of dy "c_radius c"] le_of_squares [of "- dy" "c_radius c"] by simp_all
  then show ?thesis by (simp add: in_rect_def FromCenter_def dx_def dy_def)
qed

lemma polygon_bounds_fold:
  fixes lo :: "'a::linordered_field vec2"
  defines "f \<equiv> \<lambda>(lo, hi) vertex.
            (Vec2 (std_min (X lo) (X vertex)) (std_min (Y lo) (Y vertex)),
             Vec2 (std_max (X hi) (X vertex)) (std_max (Y hi) (Y vertex)))"
  assumes "foldl f (lo, hi) vs = (lo', hi')"
  shows "X lo' \<le> X lo \<and> Y lo' \<le> Y lo \<and> X hi \<le> X hi' \<and> Y hi \<le> Y hi'
    \<and> (\<forall>v \<in> set vs. X lo' \<le> X v \<and> Y lo' \<le> Y v \<and> X v \<le> X hi' \<and> Y v \<le> Y hi')"
  using assms(2)
proof (induction vs arbitrary: lo hi)
  case (Cons v vs)
  let ?lo = "Vec2 (std_min (X lo) (X v)) (std_min (Y lo) (Y v))"
  let ?hi = "Vec2 (std_max (X hi) (X v)) (std_max (Y hi) (Y v))"
  have "foldl f (?lo, ?hi) vs = (lo', hi')"
    using Cons.prems by (simp add: f_def)
  from Cons.IH [OF this] show ?case by auto
qed simp

lemma in_hull_rect:
  assumes "in_hull vs p" "\<forall>v \<in> set vs. in_rect r v"
  shows "in_rect r p"
  using assms
proof (induction rule: in_hull.induct)
  case (segment p q t)
  have m: "lo \<le> a + (b - a) * t \<and> a + (b - a) * t \<le> hi"
    if "lo \<le> a" "a \<le> hi" "lo \<le> b" "b \<le> hi" for lo hi a b :: 'a
  proof -
    have "(1 - t) * lo + t * lo \<le> (1 - t) * a + t * b" "(1 - t) * a + t * b \<le> (1 - t) * hi + t * hi"
      using that segment(3,4) by (intro add_mono mult_left_mono; simp)+
    then show ?thesis by (simp add: algebra_simps)
  qed
  have m1: "lo \<le> a + (b - a) * t" if "lo \<le> a" "lo \<le> b" for lo a b :: 'a
    using m [of lo a "max a b" b] that by simp
  have m2: "a + (b - a) * t \<le> hi" if "a \<le> hi" "b \<le> hi" for hi a b :: 'a
    using m [of "min a b" a hi b] that by simp
  show ?case using segment by (simp add: in_rect_def Lerp_def m1 m2)
qed simp

definition in_shape :: "'a::linordered_field shape \<Rightarrow> 'a vec2 \<Rightarrow> bool" where
  "in_shape s p =
     (case s of CircleF c \<Rightarrow> in_circle c p | RectangleF r \<Rightarrow> in_rect r p
      | PolygonF g \<Rightarrow> in_hull (p_vertices g) p)"

definition good_shape :: "'a::linordered_field shape \<Rightarrow> bool" where
  "good_shape s =
     (case s of CircleF c \<Rightarrow> 0 \<le> c_radius c | RectangleF r \<Rightarrow> valid_rect r
      | PolygonF g \<Rightarrow> p_vertices g \<noteq> [])"

lemma in_rect_plus: "in_rect (rect_plus r v) (p + v) \<longleftrightarrow> in_rect r p"
  by (simp add: in_rect_def rect_plus_def)

lemma polygon_bounds_vertices:
  assumes "v \<in> set vs"
  shows "in_rect (polygon_bounds flt_min flt_max vs) (v :: 'a::linordered_field vec2)"
proof -
  obtain lo hi where e: "foldl (\<lambda>(lo, hi) vertex.
            (Vec2 (std_min (X lo) (X vertex)) (std_min (Y lo) (Y vertex)),
             Vec2 (std_max (X hi) (X vertex)) (std_max (Y hi) (Y vertex))))
          (Vec2 flt_max flt_max, Vec2 flt_min flt_min) vs = (lo, hi)"
    by (rule prod.exhaust)
  from polygon_bounds_fold [OF e] assms show ?thesis
    unfolding polygon_bounds_def e by (simp add: in_rect_def)
qed

section \<open>Pairs of collider references\<close>

datatype ColliderRefPair = ColliderRefPair (ColRefA: ColliderRef) (ColRefB: ColliderRef)

definition ColliderRefPair_eq :: "ColliderRefPair \<Rightarrow> ColliderRefPair \<Rightarrow> bool" where
  "ColliderRefPair_eq p other \<longleftrightarrow>
     ColliderRef_eq (ColRefA p) (ColRefA other) \<and> ColliderRef_eq (ColRefB p) (ColRefB other) \<or>
     ColliderRef_eq (ColRefA p) (ColRefB other) \<and> ColliderRef_eq (ColRefB p) (ColRefA other)"

text \<open>\<open>std::hash<size_t>\<close> is left to the implementation of the language: the argument \<open>h\<close>.\<close>

definition ColliderRefPairHash :: "(nat \<Rightarrow> 64 word) \<Rightarrow> ColliderRefPair \<Rightarrow> 64 word" where
  "ColliderRefPairHash h pair =
     (let hashA = h (col_Index (ColRefA pair)); hashB = h (col_Index (ColRefB pair))
      in xor hashA hashB)"

text \<open>
  \<open>std::unordered_set\<close> with these two function objects. Its iteration order is never used, so a
  list of pairwise unequal keys stands for it: \<open>find\<close>, \<open>emplace\<close> (nothing if an equal key is
  there) and \<open>erase\<close> by key.
\<close>

definition uset_find :: "('k \<Rightarrow> 'k \<Rightarrow> bool) \<Rightarrow> 'k \<Rightarrow> 'k list \<Rightarrow> bool" where
  "uset_find eq k ks \<longleftrightarrow> list_ex (eq k) ks"

definition uset_emplace :: "('k \<Rightarrow> 'k \<Rightarrow> bool) \<Rightarrow> 'k \<Rightarrow> 'k list \<Rightarrow> 'k list" where
  "uset_emplace eq k ks = (if uset_find eq k ks then ks else ks @ [k])"

definition uset_erase :: "('k \<Rightarrow> 'k \<Rightarrow> bool) \<Rightarrow> 'k \<Rightarrow> 'k list \<Rightarrow> 'k list" where
  "uset_erase eq k ks = filter (\<lambda>k'. \<not> eq k k') ks"

text \<open>
  What \<open>std::unordered_set\<close> requires of its key equality and hash: an equivalence, and equal
  keys hash alike. The laws of the set follow from that alone.
\<close>

locale hash_key =
  fixes eq :: "'k \<Rightarrow> 'k \<Rightarrow> bool"
    and hash :: "'k \<Rightarrow> 'h"
  assumes refl: "eq k k"
    and sym: "eq k k' \<Longrightarrow> eq k' k"
    and trans: "eq k k' \<Longrightarrow> eq k' k'' \<Longrightarrow> eq k k''"
    and hash: "eq k k' \<Longrightarrow> hash k = hash k'"
begin

lemma find_emplace: "uset_find eq k (uset_emplace eq k' ks) \<longleftrightarrow> eq k k' \<or> uset_find eq k ks"
proof (cases "uset_find eq k' ks")
  case True
  then have "eq k k' \<Longrightarrow> uset_find eq k ks"
    by (auto simp: uset_find_def list_ex_iff intro: trans)
  with True show ?thesis by (auto simp: uset_emplace_def)
next
  case False
  then show ?thesis by (auto simp: uset_emplace_def uset_find_def)
qed

lemma eq_swap: "eq k k' \<Longrightarrow> eq k x = eq k' x"
  by (blast intro: sym trans)

lemma find_eq: "eq k k' \<Longrightarrow> uset_find eq k ks = uset_find eq k' ks"
  by (simp add: uset_find_def list_ex_iff eq_swap [of k k'])

lemma find_erase: "uset_find eq k (uset_erase eq k' ks) \<longleftrightarrow> \<not> eq k k' \<and> uset_find eq k ks"
proof (cases "eq k k'")
  case True
  then show ?thesis by (auto simp: uset_find_def uset_erase_def list_ex_iff eq_swap [of k k'])
next
  case False
  then have "eq k x \<Longrightarrow> \<not> eq k' x" for x by (blast intro: sym trans)
  with False show ?thesis by (auto simp: uset_find_def uset_erase_def list_ex_iff)
qed

lemma emplace_erase: "\<not> uset_find eq k ks \<Longrightarrow> uset_erase eq k (uset_emplace eq k ks) = ks"
  using refl by (auto simp: uset_emplace_def uset_erase_def uset_find_def list_ex_iff filter_id_conv)

end

interpretation pair_key: hash_key ColliderRefPair_eq "ColliderRefPairHash h"
  by unfold_locales (auto simp: ColliderRefPair_eq_def ColliderRefPairHash_def Let_def xor.commute)

end
