(* ===== verification/QuadTree.thy ===== *)
theory QuadTree
  imports Bodies
begin

text \<open>
  \<open>engine/include/QuadTree.h\<close> and \<open>engine/src/QuadTree.cpp\<close>: the broad phase. The nodes live in
  one vector sized at construction; a child pointer \<open>&Nodes[i]\<close> is the index \<open>i\<close>, a null
  pointer \<open>None\<close>. The recursion of \<open>Insert\<close> follows child pointers, so it takes fuel;
  \<open>MAX_DEPTH + 1\<close> is enough for every tree \<open>SetUpRoot\<close> and \<open>Insert\<close> can make (\<open>Insert_spec\<close>).
\<close>

section \<open>Nodes and the tree\<close>

record 'a aabb =
  Aabb :: "'a rectangle"
  ColRef :: ColliderRef

record 'a node =
  ColliderRefAabbs :: "'a aabb list"
  Bounds :: "'a rectangle"
  Children :: "nat option list"
  Depth :: nat

record 'a quadtree =
  nodeIndex :: nat
  Nodes :: "'a node list"

definition MAX_COL_NBR :: nat where "MAX_COL_NBR = 16"
definition MAX_DEPTH :: nat where "MAX_DEPTH = 1"

definition QuadNode :: "'a::zero node" where
  "QuadNode = \<lparr>ColliderRefAabbs = [], Bounds = Rectangle Zero Zero,
     Children = replicate 4 None, Depth = 0\<rparr>"

definition QuadTree_new :: "'a::zero quadtree res" where
  "QuadTree_new =
     rbind (rfold (\<lambda>i result. rmap (\<lambda>p. result + p) (Pow 4 i)) [0..<MAX_DEPTH + 1] 0)
       (\<lambda>result. Inr \<lparr>nodeIndex = 1, Nodes = vec_resize (nat result) QuadNode []\<rparr>)"

section \<open>Operations\<close>

definition node_at :: "'a quadtree \<Rightarrow> nat \<Rightarrow> 'a node res" where
  "node_at t i = vec_at (Nodes t) i"

definition node_upd :: "nat \<Rightarrow> ('a node \<Rightarrow> 'a node) \<Rightarrow> 'a quadtree \<Rightarrow> 'a quadtree res" where
  "node_upd i f t =
     rbind (node_at t i) (\<lambda>n. Inr (t\<lparr>Nodes := (Nodes t)[i := f n]\<rparr>))"

definition deref :: "nat option \<Rightarrow> nat res" where
  "deref p = (case p of None \<Rightarrow> Inl (UndefinedBehaviour ''null pointer'') | Some i \<Rightarrow> Inr i)"

text \<open>The four quadrants, from the node's own bounds.\<close>

definition quadrant ::
  "'a::{plus, minus, times, divide, one} rectangle \<Rightarrow> nat \<Rightarrow> 'a rectangle" where
  "quadrant bounds k =
     (let halfSize = vdiv_by (r_maxBound bounds - r_minBound bounds) two;
          minBound = r_minBound bounds
      in if k = 0 then Rectangle minBound (minBound + halfSize)
         else if k = 1 then
           Rectangle (Vec2 (X minBound) (Y minBound + Y halfSize))
                     (Vec2 (X minBound + X halfSize) (Y minBound + two * Y halfSize))
         else if k = 2 then
           Rectangle (Vec2 (X minBound + X halfSize) (Y minBound))
                     (Vec2 (X minBound + two * X halfSize) (Y minBound + Y halfSize))
         else
           Rectangle (Vec2 (X minBound + X halfSize) (Y minBound + Y halfSize))
                     (r_maxBound bounds))"

definition SubdivideNode ::
  "nat \<Rightarrow> 'a::{plus, minus, times, divide, one} quadtree \<Rightarrow> 'a quadtree res" where
  "SubdivideNode node t =
     rbind (node_at t node) (\<lambda>n.
     rbind (rfold (\<lambda>k t.
                rbind (node_upd node (\<lambda>n. n\<lparr>Children := (Children n)[k := Some (nodeIndex t + k)]\<rparr>) t)
                      (node_upd (nodeIndex t + k) (\<lambda>c. c\<lparr>Bounds := quadrant (Bounds n) k\<rparr>)))
              [0..<4] t) (\<lambda>t.
     rbind (rfold (\<lambda>k t. node_upd (nodeIndex t + k) (\<lambda>c. c\<lparr>Depth := Depth n + 1\<rparr>) t)
              [0..<4] t) (\<lambda>t.
       Inr (t\<lparr>nodeIndex := nodeIndex t + 4\<rparr>))))"

fun Insert ::
  "nat \<Rightarrow> nat \<Rightarrow> 'a::{plus, minus, times, divide, one, ord} aabb \<Rightarrow> 'a quadtree
     \<Rightarrow> 'a quadtree res" where
  "Insert 0 node a t = Inl (UndefinedBehaviour ''recursion'')"
| "Insert (Suc fuel) node a t =
     rbind (node_at t node) (\<lambda>n.
       if Children n ! 0 \<noteq> None then
         rfold (\<lambda>p t. rbind (deref p) (\<lambda>child.
                 rbind (node_at t child) (\<lambda>c.
                   if Intersect_rr (Aabb a) (Bounds c) then Insert fuel child a t else Inr t)))
           (Children n) t
       else if MAX_COL_NBR \<le> length (ColliderRefAabbs n) \<and> Depth n < MAX_DEPTH then
         rbind (SubdivideNode node t) (\<lambda>t.
         rbind (node_upd node (\<lambda>n. n\<lparr>ColliderRefAabbs := ColliderRefAabbs n @ [a]\<rparr>) t) (\<lambda>t.
         rbind (node_at t node) (\<lambda>n.
         rbind (rfold (\<lambda>p t. rbind (deref p) (\<lambda>child.
                 rfold (\<lambda>col t. rbind (node_at t child) (\<lambda>c.
                     if Intersect_rr (Aabb col) (Bounds c) then Insert fuel child col t else Inr t))
                   (ColliderRefAabbs n) t))
                 (Children n) t)
           (node_upd node (\<lambda>n. n\<lparr>ColliderRefAabbs := []\<rparr>)))))
       else node_upd node (\<lambda>n. n\<lparr>ColliderRefAabbs := ColliderRefAabbs n @ [a]\<rparr>) t)"

definition QuadTree_Insert ::
  "'a::{plus, minus, times, divide, one, ord} aabb \<Rightarrow> 'a quadtree \<Rightarrow> 'a quadtree res" where
  "QuadTree_Insert a t = Insert (MAX_DEPTH + 1) 0 a t"

definition SetUpRoot :: "'a rectangle \<Rightarrow> 'a quadtree \<Rightarrow> 'a quadtree res" where
  "SetUpRoot bounds t =
     rbind (node_upd 0 (\<lambda>n. n\<lparr>Bounds := bounds\<rparr>)
        (t\<lparr>Nodes := map (\<lambda>n. n\<lparr>ColliderRefAabbs := [],
              Children := replicate (length (Children n)) None\<rparr>) (Nodes t)\<rparr>))
       (\<lambda>t. Inr (t\<lparr>nodeIndex := 1\<rparr>))"

section \<open>What the tree stores\<close>

text \<open>
  The shapes a tree can have, between \<open>SetUpRoot\<close> and the next one: a single leaf, or a root
  without entries and four leaves holding \<open>Ls\<close>.
\<close>

definition leaf_node :: "'a rectangle \<Rightarrow> nat \<Rightarrow> 'a aabb list \<Rightarrow> 'a node" where
  "leaf_node b d as = \<lparr>ColliderRefAabbs = as, Bounds = b, Children = replicate 4 None, Depth = d\<rparr>"

definition pool :: "'a node list \<Rightarrow> bool" where
  "pool cs \<longleftrightarrow> length cs = 4 \<and>
     (\<forall>c \<in> set cs. ColliderRefAabbs c = [] \<and> Children c = replicate 4 None)"

definition leaf_tree :: "'a rectangle \<Rightarrow> 'a aabb list \<Rightarrow> 'a quadtree \<Rightarrow> bool" where
  "leaf_tree b as t \<longleftrightarrow>
     (\<exists>cs. pool cs \<and> t = \<lparr>nodeIndex = 1, Nodes = leaf_node b 0 as # cs\<rparr>)"

definition split_with ::
  "'a aabb list \<Rightarrow> 'a::{plus, minus, times, divide, one} rectangle \<Rightarrow> 'a aabb list list
     \<Rightarrow> nat \<Rightarrow> 'a quadtree" where
  "split_with rs b Ls i =
     \<lparr>nodeIndex = i,
      Nodes = [\<lparr>ColliderRefAabbs = rs, Bounds = b, Children = [Some 1, Some 2, Some 3, Some 4], Depth = 0\<rparr>,
               leaf_node (quadrant b 0) 1 (Ls ! 0), leaf_node (quadrant b 1) 1 (Ls ! 1),
               leaf_node (quadrant b 2) 1 (Ls ! 2), leaf_node (quadrant b 3) 1 (Ls ! 3)]\<rparr>"

definition split_tree ::
  "'a::{plus, minus, times, divide, one} rectangle \<Rightarrow> 'a aabb list list \<Rightarrow> 'a quadtree" where
  "split_tree b Ls = split_with [] b Ls 5"

text \<open>The abstract content: all entries in one leaf up to 16 of them, per quadrant after that.\<close>

definition in_quadrant ::
  "'a::{plus, minus, times, divide, one, ord} rectangle \<Rightarrow> nat \<Rightarrow> 'a aabb \<Rightarrow> bool" where
  "in_quadrant b k a = Intersect_rr (Aabb a) (quadrant b k)"

definition holds ::
  "'a::{plus, minus, times, divide, one, ord} rectangle \<Rightarrow> 'a aabb list \<Rightarrow> 'a quadtree \<Rightarrow> bool" where
  "holds b as t \<longleftrightarrow>
     (if length as \<le> MAX_COL_NBR then leaf_tree b as t
      else t = split_tree b (map (\<lambda>k. filter (in_quadrant b k) as) [0, 1, 2, 3]))"


section \<open>Insert\<close>

lemma lt4: "k < 4 \<longleftrightarrow> k = 0 \<or> k = 1 \<or> k = 2 \<or> k = (3::nat)"
  by auto

lemma upto4: "[0..<4] = [0, 1, 2, 3 :: nat]"
  by (simp add: upt_rec)

lemma leaf_node_sel [simp]:
  "ColliderRefAabbs (leaf_node b d as) = as" "Bounds (leaf_node b d as) = b"
  "Children (leaf_node b d as) = replicate 4 None" "Depth (leaf_node b d as) = d"
  by (simp_all add: leaf_node_def)

lemmas QuadTree_Insert_unfold = QuadTree_Insert_def [unfolded MAX_DEPTH_def one_add_one
    numeral_2_eq_2 Insert.simps(2) [of "Suc 0"]]

lemma QuadTree_Insert_split:
  assumes "node_at t 0 = Inr n" "Children n ! 0 \<noteq> None" "Children n = ps"
  shows "QuadTree_Insert a t =
    rfold (\<lambda>p t. rbind (deref p) (\<lambda>child. rbind (node_at t child) (\<lambda>c.
               if Intersect_rr (Aabb a) (Bounds c) then Insert (Suc 0) child a t else Inr t)))
      ps t"
  unfolding QuadTree_Insert_unfold assms(1) rbind_Inr using assms(2,3) by simp

lemma Insert_child:
  assumes "k < 4" "length Ls = 4"
  shows "Insert (Suc fuel) (Suc k) a (split_with rs b Ls i)
       = Inr (split_with rs b (Ls[k := Ls ! k @ [a]]) i)"
  using assms
  by (auto simp: lt4 split_with_def leaf_node_def node_at_def node_upd_def MAX_DEPTH_def)

lemma node_at_child:
  assumes "k < 4"
  shows "node_at (split_with rs b Ls i) (Suc k) = Inr (leaf_node (quadrant b k) 1 (Ls ! k))"
  using assms by (auto simp: lt4 split_with_def node_at_def)

lemma Insert_all_child:
  assumes "k < 4" "length Ls = 4"
  shows "rfold (\<lambda>col t. rbind (node_at t (Suc k)) (\<lambda>c.
              if Intersect_rr (Aabb col) (Bounds c) then Insert (Suc fuel) (Suc k) col t else Inr t))
            cols (split_with rs b Ls i)
       = Inr (split_with rs b (Ls[k := Ls ! k @ filter (in_quadrant b k) cols]) i)"
  using assms(2)
proof (induction cols arbitrary: Ls)
  case Nil
  then show ?case by simp
next
  case (Cons c cs)
  show ?case
  proof (cases "in_quadrant b k c")
    case True
    then have "Intersect_rr (Aabb c) (quadrant b k)" by (simp add: in_quadrant_def)
    with True Cons.IH [of "Ls[k := Ls ! k @ [c]]"] Cons.prems assms(1) show ?thesis
      by (simp add: node_at_child [OF assms(1)] Insert_child [OF assms(1)] del: Insert.simps)
  next
    case False
    then have "\<not> Intersect_rr (Aabb c) (quadrant b k)" by (simp add: in_quadrant_def)
    with False Cons.IH [of Ls] Cons.prems show ?thesis
      by (simp add: node_at_child [OF assms(1)] del: Insert.simps)
  qed
qed

text \<open>The loop over the four children distributes a list of entries over the quadrants.\<close>

lemma Insert_all_quadrant:
  assumes "j = k + 1" "k < 4"
  shows "rfold (\<lambda>col t. rbind (node_at t j) (\<lambda>c.
              if Intersect_rr (Aabb col) (Bounds c) then Insert (Suc fuel) j col t else Inr t))
            cols (split_with rs b [l0, l1, l2, l3] i)
       = Inr (split_with rs b
           ([l0, l1, l2, l3][k := [l0, l1, l2, l3] ! k @ filter (in_quadrant b k) cols]) i)"
proof -
  have j: "j = Suc k" using assms by simp
  show ?thesis unfolding j by (rule Insert_all_child) (simp_all add: assms)
qed

lemma distribute:
  assumes "length Ls = 4"
  shows "rfold (\<lambda>p t. rbind (deref p) (\<lambda>child.
            rfold (\<lambda>col t. rbind (node_at t child) (\<lambda>c.
               if Intersect_rr (Aabb col) (Bounds c) then Insert (Suc fuel) child col t else Inr t))
             cols t))
            [Some 1, Some 2, Some 3, Some 4] (split_with rs b Ls i)
       = Inr (split_with rs b
           (map (\<lambda>k. Ls ! k @ filter (in_quadrant b k) cols) [0, 1, 2, 3]) i)"
proof -
  obtain l0 l1 l2 l3 where Ls: "Ls = [l0, l1, l2, l3]"
    using assms by (auto simp: numeral_eq_Suc length_Suc_conv)
  show ?thesis
    by (simp add: deref_def Ls Insert_all_quadrant [of 1 0] Insert_all_quadrant [of 2 1]
        Insert_all_quadrant [of 3 2] Insert_all_quadrant [of 4 3]
        Insert_all_quadrant [of "Suc 0" 0, simplified] Insert_all_quadrant [of 2 "Suc 0", simplified]
        del: Insert.simps)
qed

lemma distribute_one:
  assumes "length Ls = 4"
  shows "rfold (\<lambda>p t. rbind (deref p) (\<lambda>child. rbind (node_at t child) (\<lambda>c.
               if Intersect_rr (Aabb a) (Bounds c) then Insert (Suc fuel) child a t else Inr t)))
            [Some 1, Some 2, Some 3, Some 4] (split_with rs b Ls i)
       = Inr (split_with rs b
           (map (\<lambda>k. Ls ! k @ filter (in_quadrant b k) [a]) [0, 1, 2, 3]) i)"
  using distribute [OF assms, of fuel "[a]" rs b i]
  by (simp only: rfold.simps(2) [of _ a] rfold_Nil_fun rbind_Inr)

lemma map4_nth: "k < 4 \<Longrightarrow> map f [0, 1, 2, 3 :: nat] ! k = f k"
  by (auto simp: lt4)

lemma SubdivideNode_leaf:
  assumes "leaf_tree b as t"
  shows "SubdivideNode 0 t = Inr (split_with as b (replicate 4 []) 5)"
  using assms
  by (auto simp: leaf_tree_def SubdivideNode_def node_at_def node_upd_def pool_def upto4
      numeral_eq_Suc length_Suc_conv leaf_node_def split_with_def)

text \<open>Three cases of an insertion: into a leaf with room, into a full leaf, below a node that was split.\<close>

lemma Insert_few:
  assumes "leaf_tree b as t" "length as < MAX_COL_NBR"
  shows "\<exists>t'. QuadTree_Insert a t = Inr t' \<and> holds b (as @ [a]) t'"
proof -
  from assms(1) obtain cs where t: "t = \<lparr>nodeIndex = 1, Nodes = leaf_node b 0 as # cs\<rparr>" "pool cs"
    by (auto simp: leaf_tree_def)
  with assms(2) have "QuadTree_Insert a t = Inr \<lparr>nodeIndex = 1, Nodes = leaf_node b 0 (as @ [a]) # cs\<rparr>"
    by (simp add: QuadTree_Insert_unfold node_at_def node_upd_def leaf_node_def)
  moreover have "holds b (as @ [a]) \<lparr>nodeIndex = 1, Nodes = leaf_node b 0 (as @ [a]) # cs\<rparr>"
    using assms(2) t by (auto simp: holds_def leaf_tree_def)
  ultimately show ?thesis by blast
qed

lemma Insert_full:
  assumes leaf: "leaf_tree b as t" and full: "length as = MAX_COL_NBR"
  shows "QuadTree_Insert a t
    = Inr (split_tree b (map (\<lambda>k. filter (in_quadrant b k) (as @ [a])) [0, 1, 2, 3]))"
proof -
  have n: "node_at t 0 = Inr (leaf_node b 0 as)" using leaf by (auto simp: leaf_tree_def node_at_def)
  have push: "node_upd 0 (\<lambda>n. n\<lparr>ColliderRefAabbs := ColliderRefAabbs n @ [a]\<rparr>)
      (split_with as b (replicate 4 []) 5) = Inr (split_with (as @ [a]) b (replicate 4 []) 5)"
    by (simp add: node_upd_def node_at_def split_with_def)
  have root: "node_at (split_with rs b Ls i) 0 =
      Inr \<lparr>ColliderRefAabbs = rs, Bounds = b, Children = [Some 1, Some 2, Some 3, Some 4], Depth = 0\<rparr>" for rs Ls i
    by (simp add: node_at_def split_with_def)
  have clear: "node_upd 0 (\<lambda>n. n\<lparr>ColliderRefAabbs := []\<rparr>) (split_with rs b Ls i)
      = Inr (split_with [] b Ls i)" for rs Ls i
    by (simp add: node_upd_def node_at_def split_with_def)
  have nth4: "replicate 4 [] ! k = []" if "k < 4" for k :: nat
    using that by simp
  show ?thesis
    using distribute [of "replicate 4 []" 0 "as @ [a]" "as @ [a]" b 5] full
    by (simp add: QuadTree_Insert_unfold n SubdivideNode_leaf [OF leaf] push root clear split_tree_def del: Insert.simps)
qed

lemma Insert_below:
  fixes b as a
  defines "t \<equiv> split_tree b (map (\<lambda>k. filter (in_quadrant b k) as) [0, 1, 2, 3])"
  shows "QuadTree_Insert a t
    = Inr (split_tree b (map (\<lambda>k. filter (in_quadrant b k) (as @ [a])) [0, 1, 2, 3]))"
proof -
  let ?Ls = "map (\<lambda>k. filter (in_quadrant b k) as) [0, 1, 2, 3]"
  have t: "t = split_with [] b ?Ls 5" by (simp add: t_def split_tree_def)
  have root: "node_at t 0 =
      Inr \<lparr>ColliderRefAabbs = [], Bounds = b, Children = [Some 1, Some 2, Some 3, Some 4], Depth = 0\<rparr>"
    by (simp add: t node_at_def split_with_def)
  have "QuadTree_Insert a t =
      rfold (\<lambda>p t. rbind (deref p) (\<lambda>child. rbind (node_at t child) (\<lambda>c.
               if Intersect_rr (Aabb a) (Bounds c) then Insert (Suc 0) child a t else Inr t)))
        [Some 1, Some 2, Some 3, Some 4] t"
    by (rule QuadTree_Insert_split [OF root]) simp_all
  also have "\<dots> = Inr (split_with [] b (map (\<lambda>k. ?Ls ! k @ filter (in_quadrant b k) [a]) [0, 1, 2, 3]) 5)"
    unfolding t by (rule distribute_one) simp
  also have "map (\<lambda>k. ?Ls ! k @ filter (in_quadrant b k) [a]) [0, 1, 2, 3]
      = map (\<lambda>k. filter (in_quadrant b k) (as @ [a])) [0, 1, 2, 3]"
    by simp
  finally show ?thesis by (simp only: split_tree_def)
qed

lemma Insert_spec:
  assumes "holds b as t"
  shows "\<exists>t'. QuadTree_Insert a t = Inr t' \<and> holds b (as @ [a]) t'"
proof (cases "length as \<le> MAX_COL_NBR")
  case True
  then have leaf: "leaf_tree b as t" using assms by (simp add: holds_def)
  show ?thesis
  proof (cases "length as < MAX_COL_NBR")
    case True
    then show ?thesis by (rule Insert_few [OF leaf])
  next
    case False
    with \<open>length as \<le> MAX_COL_NBR\<close> have "length as = MAX_COL_NBR" by simp
    then show ?thesis using Insert_full [OF leaf, of a] by (simp add: holds_def)
  qed
next
  case False
  with assms show ?thesis using Insert_below [where b = b and as = as and a = a] by (simp add: holds_def)
qed


section \<open>SetUpRoot and the sequence of inserts of a frame\<close>

text \<open>What every operation keeps of the storage: five nodes, four child slots each, the root at depth 0.\<close>

definition wf_tree :: "'a quadtree \<Rightarrow> bool" where
  "wf_tree t \<longleftrightarrow> length (Nodes t) = 5 \<and> Depth (Nodes t ! 0) = 0
     \<and> (\<forall>n \<in> set (Nodes t). length (Children n) = 4)"

lemma QuadTree_new_eq:
  "QuadTree_new = Inr \<lparr>nodeIndex = 1, Nodes = replicate 5 QuadNode\<rparr>"
  by (simp add: QuadTree_new_def MAX_DEPTH_def Pow_def int_mul_def upt_rec)

lemma QuadTree_new_wf: "\<exists>t. QuadTree_new = Inr t \<and> wf_tree t"
  by (simp add: QuadTree_new_eq wf_tree_def QuadNode_def)

lemma holds_wf: "holds b as t \<Longrightarrow> wf_tree t"
  by (auto simp: holds_def wf_tree_def leaf_tree_def pool_def split_tree_def split_with_def
      split: if_splits)

lemma SetUpRoot_holds:
  assumes "wf_tree t"
  shows "\<exists>t'. SetUpRoot b t = Inr t' \<and> holds b [] t'"
proof -
  from assms obtain n0 n1 n2 n3 n4 where n: "Nodes t = [n0, n1, n2, n3, n4]"
    by (auto simp: wf_tree_def numeral_eq_Suc length_Suc_conv)
  let ?c = "\<lambda>n. n\<lparr>ColliderRefAabbs := [], Children := replicate 4 None\<rparr>"
  have "SetUpRoot b t
      = Inr \<lparr>nodeIndex = 1, Nodes = leaf_node b 0 [] # map ?c [n1, n2, n3, n4]\<rparr>"
    using assms n
    by (simp add: SetUpRoot_def node_upd_def node_at_def wf_tree_def leaf_node_def)
  moreover have "holds b [] \<lparr>nodeIndex = 1, Nodes = leaf_node b 0 [] # map ?c [n1, n2, n3, n4]\<rparr>"
    by (auto simp: holds_def leaf_tree_def pool_def)
  ultimately show ?thesis by blast
qed

text \<open>Inserting keeps the storage well formed: the loop contract, on the body of the frame's loop.\<close>

interpretation inserts: loop_body QuadTree_Insert "\<lambda>t. \<exists>as. holds b as t" "\<lambda>_. True"
  by unfold_locales (use Insert_spec in blast)

lemma inserts_hold:
  assumes "holds b as t"
  shows "\<exists>t'. rfold QuadTree_Insert as' t = Inr t' \<and> holds b (as @ as') t'"
  using assms
proof (induction as' arbitrary: as t)
  case (Cons a as')
  obtain t' where "QuadTree_Insert a t = Inr t'" "holds b (as @ [a]) t'"
    using Insert_spec [OF Cons.prems] by blast
  with Cons.IH [of "as @ [a]" t'] show ?case by simp
qed simp

lemma inserts_wf:
  assumes "rfold QuadTree_Insert as' t = Inr t'" "holds b as t"
  shows "wf_tree t'"
proof -
  have "\<exists>as. holds b as t'"
    by (rule inserts.loop_keeps [OF assms(1)]) (use assms(2) in auto)
  then show ?thesis by (auto intro: holds_wf)
qed

section \<open>No pair is lost: the quadrants cover the root\<close>

lemma quadrants_cover:
  fixes b :: "'a::linordered_field rectangle"
  assumes "in_rect b p"
  shows "\<exists>k < 4. in_rect (quadrant b k) p"
proof -
  define k :: nat where "k = (if X p \<le> X (r_minBound b) + (X (r_maxBound b) - X (r_minBound b)) / 2
      then (if Y p \<le> Y (r_minBound b) + (Y (r_maxBound b) - Y (r_minBound b)) / 2 then 0 else 1)
      else (if Y p \<le> Y (r_minBound b) + (Y (r_maxBound b) - Y (r_minBound b)) / 2 then 2 else 3))"
  have "k < 4" by (simp add: k_def)
  moreover have "in_rect (quadrant b k) p"
    using assms by (auto simp: k_def quadrant_def in_rect_def Let_def diff_divide_distrib)
  ultimately show ?thesis by blast
qed

lemma in_rect_Intersect: "in_rect r p \<Longrightarrow> in_rect s p \<Longrightarrow> Intersect_rr r s"
  by (auto simp: Intersect_rr_def in_rect_def not_less)

end
