(* ===== verification/Contact.thy ===== *)
theory Contact
  imports Bodies
begin

text \<open>
  \<open>engine/include/Contact.h\<close> and \<open>engine/src/Contact.cpp\<close>: the response to one physical
  collision. A contact points at two bodies and two colliders of the world. The colliders are
  only read, and the two bodies are different objects (the world only builds a contact for two
  different body references that both pass its check), so a contact holds both by value and the
  index each body came from; the world writes the bodies back at these indices.
\<close>

section \<open>Contacts\<close>

record 'a colliding_body =
  cb_addr :: nat
  cb_body :: "'a body"
  cb_collider :: "'a collider"

record 'a contact =
  CB0 :: "'a colliding_body"
  CB1 :: "'a colliding_body"
  Normal :: "'a vec2"
  ct_Restitution :: 'a
  Penetration :: 'a

definition Contact :: "'a::{zero, one} colliding_body \<Rightarrow> 'a colliding_body \<Rightarrow> 'a contact" where
  "Contact cb0 cb1 =
     \<lparr>CB0 = cb0, CB1 = cb1, Normal = Zero, ct_Restitution = 1, Penetration = 0\<rparr>"

abbreviation body0 :: "'a contact \<Rightarrow> 'a body" where "body0 c \<equiv> cb_body (CB0 c)"
abbreviation body1 :: "'a contact \<Rightarrow> 'a body" where "body1 c \<equiv> cb_body (CB1 c)"
abbreviation shape0 :: "'a contact \<Rightarrow> 'a shape" where "shape0 c \<equiv> Shape (cb_collider (CB0 c))"
abbreviation shape1 :: "'a contact \<Rightarrow> 'a shape" where "shape1 c \<equiv> Shape (cb_collider (CB1 c))"

definition upd_body0 :: "('a body \<Rightarrow> 'a body) \<Rightarrow> 'a contact \<Rightarrow> 'a contact" where
  "upd_body0 f c = c\<lparr>CB0 := (CB0 c)\<lparr>cb_body := f (body0 c)\<rparr>\<rparr>"

definition upd_body1 :: "('a body \<Rightarrow> 'a body) \<Rightarrow> 'a contact \<Rightarrow> 'a contact" where
  "upd_body1 f c = c\<lparr>CB1 := (CB1 c)\<lparr>cb_body := f (body1 c)\<rparr>\<rparr>"

definition swap_bodies :: "'a contact \<Rightarrow> 'a contact" where
  "swap_bodies c = c\<lparr>CB0 := CB1 c, CB1 := CB0 c\<rparr>"

lemma swap_bodies_sel [simp]:
  "CB0 (swap_bodies c) = CB1 c" "CB1 (swap_bodies c) = CB0 c"
  by (simp_all add: swap_bodies_def)

lemma upd_body_sel [simp]:
  "CB0 (upd_body0 f c) = (CB0 c)\<lparr>cb_body := f (body0 c)\<rparr>" "CB1 (upd_body0 f c) = CB1 c"
  "CB1 (upd_body1 f c) = (CB1 c)\<lparr>cb_body := f (body1 c)\<rparr>" "CB0 (upd_body1 f c) = CB0 c"
  "Normal (upd_body0 f c) = Normal c" "Normal (upd_body1 f c) = Normal c"
  "Penetration (upd_body0 f c) = Penetration c" "Penetration (upd_body1 f c) = Penetration c"
  "ct_Restitution (upd_body0 f c) = ct_Restitution c" "ct_Restitution (upd_body1 f c) = ct_Restitution c"
  by (simp_all add: upd_body0_def upd_body1_def)

section \<open>Velocities and positions\<close>

definition CalculateSeparateVelocity :: "'a::{plus, minus, times} contact \<Rightarrow> 'a" where
  "CalculateSeparateVelocity c =
     (let relativeVelocity = Velocity (body0 c) - Velocity (body1 c)
      in Dot relativeVelocity (Normal c))"

definition ResolveVelocityAndInterpenetration ::
  "'a::{zero, one, plus, minus, uminus, times, divide, ord} contact \<Rightarrow> 'a contact" where
  "ResolveVelocityAndInterpenetration c =
     (let separatingVelocity = CalculateSeparateVelocity c
      in if 0 < separatingVelocity then c
      else
     (let newSeparatingVelocity = - separatingVelocity * ct_Restitution c;
          deltaVelocity = newSeparatingVelocity - separatingVelocity;
          inverseMass1 = 1 div Mass (body0 c);
          inverseMass2 = 1 div Mass (body1 c);
          totalInverseMass = inverseMass1 + inverseMass2
      in if totalInverseMass \<le> 0 then c
      else
     (let impulse = deltaVelocity div totalInverseMass;
          impulsePerIMass = vscale (Normal c) impulse;
          c = (if Type (body0 c) = DYNAMIC
               then upd_body0 (\<lambda>b. b\<lparr>Velocity := Velocity b + vscale impulsePerIMass inverseMass1\<rparr>) c else c);
          c = (if Type (body1 c) = DYNAMIC
               then upd_body1 (\<lambda>b. b\<lparr>Velocity := Velocity b - vscale impulsePerIMass inverseMass2\<rparr>) c else c);
          c = (if Type (body0 c) = STATIC
               then upd_body1 (\<lambda>b. b\<lparr>Velocity := Velocity b - vscale impulsePerIMass inverseMass1\<rparr>) c else c)
      in if Type (body1 c) = STATIC
         then upd_body0 (\<lambda>b. b\<lparr>Velocity := Velocity b + vscale impulsePerIMass inverseMass2\<rparr>) c else c)))"

definition ResolveInterpenetration ::
  "'a::{zero, one, plus, minus, times, divide, ord} contact \<Rightarrow> 'a contact" where
  "ResolveInterpenetration c =
     (if Penetration c \<le> 0 then c
      else
     (let inverseMass1 = 1 div Mass (body0 c);
          inverseMass2 = 1 div Mass (body1 c);
          totalInverseMass = inverseMass1 + inverseMass2
      in if totalInverseMass \<le> 0 then c
      else
     (let movePerIMass = vscale (Normal c) (Penetration c div totalInverseMass);
          c = (if Type (body0 c) = DYNAMIC
               then upd_body0 (\<lambda>b. b\<lparr>Position := Position b + vscale movePerIMass inverseMass1\<rparr>) c else c)
      in if Type (body1 c) = DYNAMIC
         then upd_body1 (\<lambda>b. b\<lparr>Position := Position b - vscale movePerIMass inverseMass2\<rparr>) c else c)))"

section \<open>Resolve\<close>

text \<open>The branches of the switch: they set the normal and the penetration.\<close>

definition contact_circle_circle ::
  "('a \<Rightarrow> 'a) \<Rightarrow> 'a::{zero, one, plus, minus, times, divide, ord} circle \<Rightarrow> 'a circle
     \<Rightarrow> 'a contact \<Rightarrow> 'a contact res" where
  "contact_circle_circle sq circle0 circle1 c =
     (let delta = Position (body0 c) + c_center circle0 - Position (body1 c) - c_center circle1
      in rbind (if 0 < Length sq delta then Normalized sq delta else Inr Up) (\<lambda>n.
           Inr (c\<lparr>Normal := n,
                  Penetration := c_radius circle0 + c_radius circle1 - Length sq delta\<rparr>)))"

definition contact_circle_rect ::
  "('a \<Rightarrow> 'a) \<Rightarrow> 'a::{zero, one, plus, minus, times, divide, ord} circle \<Rightarrow> 'a rectangle
     \<Rightarrow> 'a contact \<Rightarrow> 'a contact res" where
  "contact_circle_rect sq circle rectangle c =
     (let closest = Vec2
            (Clamp (X (Position (body0 c)) + X (c_center circle))
               (X (r_minBound rectangle) + X (Position (body1 c)))
               (X (r_maxBound rectangle) + X (Position (body1 c))))
            (Clamp (Y (Position (body0 c)) + Y (c_center circle))
               (Y (r_minBound rectangle) + Y (Position (body1 c)))
               (Y (r_maxBound rectangle) + Y (Position (body1 c))));
          delta = Position (body0 c) + c_center circle - closest;
          distance = Length sq delta
      in rbind (if 0 < distance then Normalized sq delta else Inr Up) (\<lambda>n.
           Inr (c\<lparr>Penetration := c_radius circle - distance, Normal := n\<rparr>)))"

definition contact_rect_rect ::
  "'a::{zero, one, plus, minus, uminus, times, divide, ord} rectangle \<Rightarrow> 'a rectangle
     \<Rightarrow> 'a contact \<Rightarrow> 'a contact" where
  "contact_rect_rect rect0 rect1 c =
     (let delta = Position (body0 c) + rect_origin rect0 - Position (body1 c) - rect_origin rect1;
          penetration = HalfSize rect0 + HalfSize rect1 - Vec2 (std_abs (X delta)) (std_abs (Y delta))
      in if X penetration < Y penetration
         then c\<lparr>Penetration := X penetration,
                Normal := if 0 < X delta then Vec2 1 0 else Vec2 (- 1) 0\<rparr>
         else c\<lparr>Penetration := Y penetration,
                Normal := if 0 < Y delta then Vec2 0 1 else Vec2 0 (- 1)\<rparr>)"

text \<open>What follows the switch: the mass-weighted restitution, then velocities, then positions.\<close>

definition resolve_response ::
  "'a::{zero, one, plus, minus, uminus, times, divide, ord} contact \<Rightarrow> 'a contact" where
  "resolve_response c =
     (let mass1 = Mass (body0 c); mass2 = Mass (body1 c);
          rest1 = Restitution (cb_collider (CB0 c)); rest2 = Restitution (cb_collider (CB1 c));
          c = c\<lparr>ct_Restitution := (mass1 * rest1 + mass2 * rest2) div (mass1 + mass2)\<rparr>
      in ResolveInterpenetration (ResolveVelocityAndInterpenetration c))"

text \<open>
  A rectangle against a circle swaps the two, resolves the swapped contact by a recursive call,
  and then falls out of the switch into the response of the outer call.
\<close>

function Resolve ::
  "('a \<Rightarrow> 'a) \<Rightarrow> 'a::{zero, one, plus, minus, uminus, times, divide, ord} contact
     \<Rightarrow> 'a contact res" where
  "Resolve sq c =
     rbind (case shape0 c of
              CircleF circle0 \<Rightarrow>
                (case shape1 c of
                   CircleF circle1 \<Rightarrow> contact_circle_circle sq circle0 circle1 c
                 | RectangleF rectangle \<Rightarrow> contact_circle_rect sq circle0 rectangle c
                 | PolygonF _ \<Rightarrow> Inr c)
            | RectangleF rect0 \<Rightarrow>
                (case shape1 c of
                   CircleF _ \<Rightarrow> Resolve sq (swap_bodies c)
                 | RectangleF rect1 \<Rightarrow> Inr (contact_rect_rect rect0 rect1 c)
                 | PolygonF _ \<Rightarrow> Inr c)
            | PolygonF _ \<Rightarrow> Inr c)
       (\<lambda>c. Inr (resolve_response c))"
  by pat_completeness auto

termination
  by (relation "measure (\<lambda>(sq, c). case shape0 c of RectangleF _ \<Rightarrow> 1 | _ \<Rightarrow> 0)")
    (auto simp: swap_bodies_def split: shape.splits)

declare Resolve.simps [simp del]


section \<open>The response in exact arithmetic\<close>

text \<open>The masses of enabled bodies that can take part in a response.\<close>

definition massive :: "'a::linordered_field contact \<Rightarrow> bool" where
  "massive c \<longleftrightarrow> 0 < Mass (body0 c) \<and> 0 < Mass (body1 c)"

definition impulse :: "'a::linordered_field contact \<Rightarrow> 'a" where
  "impulse c = (- CalculateSeparateVelocity c * ct_Restitution c - CalculateSeparateVelocity c)
     / (1 / Mass (body0 c) + 1 / Mass (body1 c))"

lemma massive_total:
  assumes "massive c"
  shows "0 < 1 / Mass (body0 c) + 1 / Mass (body1 c)"
  using assms by (simp add: massive_def add_pos_pos)

lemma velocity_leaves:
  "Position (body0 (ResolveVelocityAndInterpenetration c)) = Position (body0 c)"
  "Position (body1 (ResolveVelocityAndInterpenetration c)) = Position (body1 c)"
  "Mass (body0 (ResolveVelocityAndInterpenetration c)) = Mass (body0 c)"
  "Mass (body1 (ResolveVelocityAndInterpenetration c)) = Mass (body1 c)"
  "Type (body0 (ResolveVelocityAndInterpenetration c)) = Type (body0 c)"
  "Type (body1 (ResolveVelocityAndInterpenetration c)) = Type (body1 c)"
  "Normal (ResolveVelocityAndInterpenetration c) = Normal c"
  "Penetration (ResolveVelocityAndInterpenetration c) = Penetration c"
  "ct_Restitution (ResolveVelocityAndInterpenetration c) = ct_Restitution c"
  "cb_collider (CB0 (ResolveVelocityAndInterpenetration c)) = cb_collider (CB0 c)"
  "cb_collider (CB1 (ResolveVelocityAndInterpenetration c)) = cb_collider (CB1 c)"
  "cb_addr (CB0 (ResolveVelocityAndInterpenetration c)) = cb_addr (CB0 c)"
  "cb_addr (CB1 (ResolveVelocityAndInterpenetration c)) = cb_addr (CB1 c)"
  by (simp_all add: ResolveVelocityAndInterpenetration_def Let_def)

lemma interpenetration_leaves:
  "Velocity (body0 (ResolveInterpenetration c)) = Velocity (body0 c)"
  "Velocity (body1 (ResolveInterpenetration c)) = Velocity (body1 c)"
  "Mass (body0 (ResolveInterpenetration c)) = Mass (body0 c)"
  "Mass (body1 (ResolveInterpenetration c)) = Mass (body1 c)"
  "Type (body0 (ResolveInterpenetration c)) = Type (body0 c)"
  "Type (body1 (ResolveInterpenetration c)) = Type (body1 c)"
  "Normal (ResolveInterpenetration c) = Normal c"
  "Penetration (ResolveInterpenetration c) = Penetration c"
  "ct_Restitution (ResolveInterpenetration c) = ct_Restitution c"
  "cb_collider (CB0 (ResolveInterpenetration c)) = cb_collider (CB0 c)"
  "cb_collider (CB1 (ResolveInterpenetration c)) = cb_collider (CB1 c)"
  "cb_addr (CB0 (ResolveInterpenetration c)) = cb_addr (CB0 c)"
  "cb_addr (CB1 (ResolveInterpenetration c)) = cb_addr (CB1 c)"
  by (simp_all add: ResolveInterpenetration_def Let_def)

lemmas response_leaves = velocity_leaves interpenetration_leaves

lemma velocity_dynamic:
  fixes c :: "'a::linordered_field contact"
  assumes "massive c" "CalculateSeparateVelocity c \<le> 0" "Type (body0 c) = DYNAMIC" "Type (body1 c) = DYNAMIC"
  shows "Velocity (body0 (ResolveVelocityAndInterpenetration c))
       = Velocity (body0 c) + vscale (Normal c) (impulse c / Mass (body0 c))"
    and "Velocity (body1 (ResolveVelocityAndInterpenetration c))
       = Velocity (body1 c) - vscale (Normal c) (impulse c / Mass (body1 c))"
  using assms massive_total [OF assms(1)]
  by (auto simp: ResolveVelocityAndInterpenetration_def impulse_def Let_def intro!: vec2_eqI)

lemma velocity_static:
  fixes c :: "'a::linordered_field contact"
  assumes "massive c" "CalculateSeparateVelocity c \<le> 0" "Type (body0 c) = DYNAMIC" "Type (body1 c) = STATIC"
  shows "Velocity (body0 (ResolveVelocityAndInterpenetration c))
       = Velocity (body0 c) + vscale (Normal c) (impulse c * (1 / Mass (body0 c) + 1 / Mass (body1 c)))"
    and "Velocity (body1 (ResolveVelocityAndInterpenetration c)) = Velocity (body1 c)"
  using assms massive_total [OF assms(1)]
  by (auto simp: ResolveVelocityAndInterpenetration_def impulse_def Let_def distrib_left mult.assoc
      intro!: vec2_eqI)

lemma impulse_total:
  assumes "massive c"
  shows "impulse c / Mass (body0 c) + impulse c / Mass (body1 c)
       = - (1 + ct_Restitution c) * CalculateSeparateVelocity c"
proof -
  have "impulse c / Mass (body0 c) + impulse c / Mass (body1 c)
      = impulse c * (1 / Mass (body0 c) + 1 / Mass (body1 c))"
    by (simp add: distrib_left)
  also have "\<dots> = - CalculateSeparateVelocity c * ct_Restitution c - CalculateSeparateVelocity c"
    using massive_total [OF assms] unfolding impulse_def
    by (intro nonzero_mult_div_cancel_right times_divide_eq_left [THEN trans]) simp
  finally show ?thesis by (simp add: algebra_simps)
qed

subsection \<open>Positions\<close>

lemma interpenetration_dynamic:
  fixes c :: "'a::linordered_field contact"
  assumes "massive c" "0 < Penetration c" "Type (body0 c) = DYNAMIC"
    and t: "Type (body1 c) = DYNAMIC"
  shows "Position (body0 (ResolveInterpenetration c)) - Position (body1 (ResolveInterpenetration c))
       = Position (body0 c) - Position (body1 c) + vscale (Normal c) (Penetration c)"
proof -
  define i j where "i = 1 / Mass (body0 c)" and "j = 1 / Mass (body1 c)"
  have ij: "0 < i + j" using massive_total [OF assms(1)] by (simp add: i_def j_def)
  have e: "a * (p / (i + j)) * i + a * (p / (i + j)) * j = a * p" for a p
  proof -
    have "a * (p / (i + j)) * i + a * (p / (i + j)) * j = (a * p * i + a * p * j) / (i + j)"
      by (simp add: add_divide_distrib)
    also have "\<dots> = a * p * (i + j) / (i + j)" by (simp only: distrib_left)
    finally show ?thesis using ij by simp
  qed
  have 0: "Position (body0 (ResolveInterpenetration c))
      = Position (body0 c) + vscale (vscale (Normal c) (Penetration c / (i + j))) i"
    and 1: "Position (body1 (ResolveInterpenetration c))
      = Position (body1 c) - vscale (vscale (Normal c) (Penetration c / (i + j))) j"
    using assms ij by (auto simp: ResolveInterpenetration_def Let_def i_def j_def)
  show ?thesis
    unfolding 0 1 using e [of "X (Normal c)" "Penetration c"] e [of "Y (Normal c)" "Penetration c"]
    by (intro vec2_eqI) (simp_all add: algebra_simps)
qed

section \<open>Resolve in exact arithmetic\<close>

text \<open>Every branch that meets a pair of circles or rectangles produces a unit normal.\<close>

lemma unit_of_delta:
  obtains n where "(if 0 < Length sqrt v then Normalized sqrt v else Inr Up) = Inr n"
    "SquareLength n = 1" "v = vscale n (Length sqrt v)"
proof (cases "v = Zero")
  case True
  show thesis
    by (rule that [of Up]) (simp_all add: True SquareLength_def Length_def vec2_eqI)
next
  case False
  then have p: "0 < Length sqrt v"
    using Length_real_nonneg [of v] Length_real_eq_0 [of v] by linarith
  show thesis
    by (rule that [of "vdiv_by v (Length sqrt v)"])
      (use p False in \<open>simp_all add: Normalized_real unit_vdiv_by vec2_eqI\<close>)
qed

lemma circle_circle_real:
  fixes c :: "real contact"
  defines "delta \<equiv> \<lambda>circle0 circle1.
    Position (body0 c) + c_center circle0 - Position (body1 c) - c_center circle1"
  obtains n where "contact_circle_circle sqrt circle0 circle1 c
      = Inr (c\<lparr>Normal := n,
               Penetration := c_radius circle0 + c_radius circle1 - Length sqrt (delta circle0 circle1)\<rparr>)"
    "SquareLength n = 1" "delta circle0 circle1 = vscale n (Length sqrt (delta circle0 circle1))"
proof -
  obtain n where n: "(if 0 < Length sqrt (delta circle0 circle1)
      then Normalized sqrt (delta circle0 circle1) else Inr Up) = Inr n"
    "SquareLength n = 1" "delta circle0 circle1 = vscale n (Length sqrt (delta circle0 circle1))"
    by (rule unit_of_delta)
  show thesis
    by (rule that [OF _ n(2,3)])
      (simp only: contact_circle_circle_def Let_def n(1) [unfolded delta_def] rbind.simps delta_def)
qed

lemma circle_rect_real:
  fixes c :: "real contact"
  obtains n d where "contact_circle_rect sqrt circle rectangle c
      = Inr (c\<lparr>Penetration := c_radius circle - d, Normal := n\<rparr>)"
    "SquareLength n = 1" "0 \<le> d"
proof -
  define closest where "closest = Vec2
            (Clamp (X (Position (body0 c)) + X (c_center circle))
               (X (r_minBound rectangle) + X (Position (body1 c)))
               (X (r_maxBound rectangle) + X (Position (body1 c))))
            (Clamp (Y (Position (body0 c)) + Y (c_center circle))
               (Y (r_minBound rectangle) + Y (Position (body1 c)))
               (Y (r_maxBound rectangle) + Y (Position (body1 c))))"
  define v where "v = Position (body0 c) + c_center circle - closest"
  obtain n where n: "(if 0 < Length sqrt v then Normalized sqrt v else Inr Up) = Inr n"
    "SquareLength n = 1"
    by (rule unit_of_delta)
  have "contact_circle_rect sqrt circle rectangle c
      = Inr (c\<lparr>Penetration := c_radius circle - Length sqrt v, Normal := n\<rparr>)"
    unfolding contact_circle_rect_def Let_def closest_def [symmetric] v_def [symmetric] n(1)
    by (simp only: rbind.simps)
  then show thesis by (rule that [OF _ n(2)]) simp
qed

lemma rect_rect_unit: "SquareLength (Normal (contact_rect_rect r0 r1 (c :: 'a::linordered_field contact))) = 1"
  by (simp add: contact_rect_rect_def Let_def SquareLength_def)

lemma resolve_response_position:
  fixes c :: "'a::linordered_field contact"
  assumes "massive c" "0 < Penetration c" "Type (body0 c) = DYNAMIC" "Type (body1 c) = DYNAMIC"
  shows "Position (body0 (resolve_response c)) - Position (body1 (resolve_response c))
       = Position (body0 c) - Position (body1 c) + vscale (Normal c) (Penetration c)"
proof -
  define d where "d = ResolveVelocityAndInterpenetration
    (c\<lparr>ct_Restitution := (Mass (body0 c) * Restitution (cb_collider (CB0 c))
        + Mass (body1 c) * Restitution (cb_collider (CB1 c))) / (Mass (body0 c) + Mass (body1 c))\<rparr>)"
  have "massive d" "0 < Penetration d" "Type (body0 d) = DYNAMIC" "Type (body1 d) = DYNAMIC"
    using assms by (simp_all add: d_def response_leaves massive_def)
  from interpenetration_dynamic [OF this] show ?thesis
    by (simp add: resolve_response_def Let_def flip: d_def) (simp add: d_def response_leaves)
qed

lemma resolve_response_leaves:
  "Mass (body0 (resolve_response c)) = Mass (body0 c)" "Mass (body1 (resolve_response c)) = Mass (body1 c)"
  "Type (body0 (resolve_response c)) = Type (body0 c)" "Type (body1 (resolve_response c)) = Type (body1 c)"
  "Normal (resolve_response c) = Normal c" "Penetration (resolve_response c) = Penetration c"
  "cb_collider (CB0 (resolve_response c)) = cb_collider (CB0 c)"
  "cb_collider (CB1 (resolve_response c)) = cb_collider (CB1 c)"
  "cb_addr (CB0 (resolve_response c)) = cb_addr (CB0 c)"
  "cb_addr (CB1 (resolve_response c)) = cb_addr (CB1 c)"
  by (simp_all add: resolve_response_def Let_def response_leaves)

lemma Resolve_circles:
  "shape0 c = CircleF circle0 \<Longrightarrow> shape1 c = CircleF circle1 \<Longrightarrow>
   Resolve sq c = rmap resolve_response (contact_circle_circle sq circle0 circle1 c)"
  by (subst Resolve.simps) (simp add: rmap_rbind)

lemma Resolve_circle_rect:
  "shape0 c = CircleF circle \<Longrightarrow> shape1 c = RectangleF r \<Longrightarrow>
   Resolve sq c = rmap resolve_response (contact_circle_rect sq circle r c)"
  by (subst Resolve.simps) (simp add: rmap_rbind)

lemma Resolve_rects:
  "shape0 c = RectangleF r0 \<Longrightarrow> shape1 c = RectangleF r1 \<Longrightarrow>
   Resolve sq c = Inr (resolve_response (contact_rect_rect r0 r1 c))"
  by (subst Resolve.simps) simp

lemma Resolve_rect_circle:
  "shape0 c = RectangleF r \<Longrightarrow> shape1 c = CircleF circle \<Longrightarrow>
   Resolve sq c = rmap resolve_response (Resolve sq (swap_bodies c))"
  by (subst Resolve.simps) (simp add: rmap_rbind)

lemma Resolve_polygon:
  "shape0 c = PolygonF g \<or> shape1 c = PolygonF g \<Longrightarrow> Resolve sq c = Inr (resolve_response c)"
  by (subst Resolve.simps) (auto split: shape.splits)

end
