(* ===== verification/World.thy ===== *)
theory World
  imports QuadTree Contact
begin

text \<open>
  \<open>engine/include/World.h\<close> and \<open>engine/src/World.cpp\<close>: the physics world. The game owns the world
  and is its contact listener, so the callbacks change the state the world is part of: the
  operations here work on any extension of the world record, and the callbacks of the listener
  are functions on that extension. \<open>contactListener\<close> says whether the pointer is set. The
  engine is not a template: numbers are \<open>f32\<close>. The \<open>HeapAllocator\<close> member only counts bytes and
  is left out.
\<close>

section \<open>State\<close>

record world =
  bodies :: "f32 body list"
  colliders :: "f32 collider list"
  colRefPairs :: "ColliderRefPair list"
  contactListener :: bool
  BodyGenIndices :: "nat list"
  ColliderGenIndices :: "nat list"
  quadTree :: "f32 quadtree"

record 'z listener =
  OnTriggerEnter :: "ColliderRef \<Rightarrow> ColliderRef \<Rightarrow> 'z world_scheme \<Rightarrow> 'z world_scheme res"
  OnTriggerExit :: "ColliderRef \<Rightarrow> ColliderRef \<Rightarrow> 'z world_scheme \<Rightarrow> 'z world_scheme res"
  OnCollisionEnter :: "ColliderRef \<Rightarrow> ColliderRef \<Rightarrow> 'z world_scheme \<Rightarrow> 'z world_scheme res"
  OnCollisionExit :: "ColliderRef \<Rightarrow> ColliderRef \<Rightarrow> 'z world_scheme \<Rightarrow> 'z world_scheme res"

section \<open>Bodies and colliders\<close>

definition World_SetUp :: "nat \<Rightarrow> 'z world_scheme \<Rightarrow> 'z world_scheme" where
  "World_SetUp initSize w = w\<lparr>
     bodies := vec_resize initSize Body (bodies w),
     BodyGenIndices := vec_resize initSize 0 (BodyGenIndices w),
     colliders := vec_resize initSize Collider (colliders w),
     ColliderGenIndices := vec_resize initSize 0 (ColliderGenIndices w)\<rparr>"

definition World_TearDown :: "'z world_scheme \<Rightarrow> 'z world_scheme" where
  "World_TearDown w = w\<lparr>bodies := [], BodyGenIndices := [], colliders := [],
     ColliderGenIndices := [], colRefPairs := []\<rparr>"

definition SetContactListener :: "bool \<Rightarrow> 'z world_scheme \<Rightarrow> 'z world_scheme" where
  "SetContactListener listener w = w\<lparr>contactListener := listener\<rparr>"

definition GetBody :: "BodyRef \<Rightarrow> 'z world_scheme \<Rightarrow> f32 body res" where
  "GetBody r w =
     rbind (vec_at (BodyGenIndices w) (body_Index r)) (\<lambda>g.
       if g \<noteq> body_GenIndex r then Inl (RuntimeError ''No body found !'')
       else vec_at (bodies w) (body_Index r))"

text \<open>A write through the reference \<open>GetBody\<close> returns; the same for colliders below.\<close>

definition with_body :: "BodyRef \<Rightarrow> (f32 body \<Rightarrow> f32 body) \<Rightarrow> 'z world_scheme \<Rightarrow> 'z world_scheme res" where
  "with_body r f w = rbind (GetBody r w) (\<lambda>b. Inr (w\<lparr>bodies := (bodies w)[body_Index r := f b]\<rparr>))"

definition CreateBody :: "'z world_scheme \<Rightarrow> (BodyRef \<times> 'z world_scheme) res" where
  "CreateBody w =
     (let it = find_if (\<lambda>body. \<not> IsEnabled body) (bodies w)
      in if it \<noteq> length (bodies w) then
           rbind (vec_at (BodyGenIndices w) it) (\<lambda>g.
             let bodyRef = BodyRef it g in rmap (Pair bodyRef) (with_body bodyRef Enable w))
         else
           let previousSize = length (bodies w);
               w = w\<lparr>bodies := vec_resize (previousSize * 2) Body (bodies w),
                     BodyGenIndices := vec_resize (previousSize * 2) 0 (BodyGenIndices w)\<rparr>
           in rbind (vec_at (BodyGenIndices w) previousSize) (\<lambda>g.
                let bodyRef = BodyRef previousSize g
                in rmap (Pair bodyRef) (with_body bodyRef Enable w)))"

definition DestroyBody :: "BodyRef \<Rightarrow> 'z world_scheme \<Rightarrow> 'z world_scheme res" where
  "DestroyBody r w = with_body r Disable w"

definition GetCollider :: "ColliderRef \<Rightarrow> 'z world_scheme \<Rightarrow> f32 collider res" where
  "GetCollider r w =
     rbind (vec_at (ColliderGenIndices w) (col_Index r)) (\<lambda>g.
       if g \<noteq> col_GenIndex r then Inl (RuntimeError ''No collider found !'')
       else vec_at (colliders w) (col_Index r))"

definition with_collider ::
  "ColliderRef \<Rightarrow> (f32 collider \<Rightarrow> f32 collider) \<Rightarrow> 'z world_scheme \<Rightarrow> 'z world_scheme res" where
  "with_collider r f w =
     rbind (GetCollider r w) (\<lambda>c. Inr (w\<lparr>colliders := (colliders w)[col_Index r := f c]\<rparr>))"

definition CreateCollider :: "BodyRef \<Rightarrow> 'z world_scheme \<Rightarrow> (ColliderRef \<times> 'z world_scheme) res" where
  "CreateCollider bodyRef w =
     (let attach = (\<lambda>c. c\<lparr>IsAttached := True, col_BodyRef := bodyRef\<rparr>);
          it = find_if (\<lambda>collider. \<not> IsAttached collider) (colliders w)
      in if it \<noteq> length (colliders w) then
           rbind (vec_at (ColliderGenIndices w) it) (\<lambda>g.
             let colRef = ColliderRef it g in rmap (Pair colRef) (with_collider colRef attach w))
         else
           let previousSize = length (colliders w);
               w = w\<lparr>colliders := vec_resize (previousSize * 2) Collider (colliders w),
                     ColliderGenIndices := vec_resize (previousSize * 2) 0 (ColliderGenIndices w)\<rparr>
           in rbind (vec_at (ColliderGenIndices w) previousSize) (\<lambda>g.
                let colRef = ColliderRef previousSize g
                in rmap (Pair colRef) (with_collider colRef attach w)))"

definition DestroyCollider :: "ColliderRef \<Rightarrow> 'z world_scheme \<Rightarrow> 'z world_scheme res" where
  "DestroyCollider r w = with_collider r (\<lambda>c. c\<lparr>IsAttached := False\<rparr>) w"

section \<open>One step of the simulation\<close>

definition update_body ::
  "'a::{zero, one, plus, times, divide, ord} \<Rightarrow> 'a body \<Rightarrow> 'a body res" where
  "update_body deltaTime b =
     (if \<not> IsEnabled b then Inr b
      else if Type b = STATIC then Inr b
      else rbind (vdiv (GetForce b) (Mass b)) (\<lambda>acceleration.
        let b = b\<lparr>Velocity := Velocity b + vscale acceleration deltaTime\<rparr>;
            b = b\<lparr>Position := Position b + vscale (Velocity b) deltaTime\<rparr>
        in Inr (ResetForce b)))"

definition UpdateBodies :: "f32 \<Rightarrow> 'z world_scheme \<Rightarrow> 'z world_scheme res" where
  "UpdateBodies deltaTime w =
     rmap (\<lambda>bs. w\<lparr>bodies := bs\<rparr>) (res_map (update_body deltaTime) (bodies w))"

text \<open>The bounds of a world collider, with the limits of \<open>float\<close>.\<close>

abbreviation bounds_of :: "f32 collider \<Rightarrow> f32 rectangle" where
  "bounds_of \<equiv> GetBounds FLT_MIN FLT_MAX"

definition track_collider ::
  "nat \<Rightarrow> f32 vec2 \<times> f32 vec2 \<times> 'z world_scheme \<Rightarrow> (f32 vec2 \<times> f32 vec2 \<times> 'z world_scheme) res" where
  "track_collider i s =
     (let (minBounds, maxBounds, w) = s in
      rbind (vec_at (colliders w) i) (\<lambda>collider.
        if \<not> IsAttached collider then Inr (minBounds, maxBounds, w)
        else rbind (GetBody (col_BodyRef collider) w) (\<lambda>b.
          let collider = collider\<lparr>BodyPosition := Position b\<rparr>;
              bounds = bounds_of collider
          in Inr (Vec2 (std_min (X minBounds) (X (r_minBound bounds)))
                       (std_min (Y minBounds) (Y (r_minBound bounds))),
                  Vec2 (std_max (X maxBounds) (X (r_maxBound bounds)))
                       (std_max (Y maxBounds) (Y (r_maxBound bounds))),
                  w\<lparr>colliders := (colliders w)[i := collider]\<rparr>))))"

definition insert_collider :: "nat \<Rightarrow> 'z world_scheme \<Rightarrow> 'z world_scheme res" where
  "insert_collider i w =
     rbind (vec_at (colliders w) i) (\<lambda>collider.
       if IsAttached collider then
         rbind (vec_at (ColliderGenIndices w) i) (\<lambda>g.
           rmap (\<lambda>t. w\<lparr>quadTree := t\<rparr>)
             (QuadTree_Insert \<lparr>Aabb = bounds_of collider, ColRef = ColliderRef i g\<rparr> (quadTree w)))
       else Inr w)"

definition SetUpQuadTree :: "'z world_scheme \<Rightarrow> 'z world_scheme res" where
  "SetUpQuadTree w =
     (let maxBounds = Vec2 FLT_MIN FLT_MIN;
          minBounds = Vec2 FLT_MAX FLT_MAX
      in rbind (rfold track_collider [0..<length (colliders w)] (minBounds, maxBounds, w))
           (\<lambda>(minBounds, maxBounds, w).
              rbind (SetUpRoot (Rectangle minBounds maxBounds) (quadTree w)) (\<lambda>t.
                rfold insert_collider [0..<length (colliders w)] (w\<lparr>quadTree := t\<rparr>))))"

definition Overlap :: "f32 collider \<Rightarrow> f32 collider \<Rightarrow> 'z world_scheme \<Rightarrow> bool res" where
  "Overlap colA colB w =
     rbind (GetBody (col_BodyRef colA) w) (\<lambda>bodyA.
     rbind (GetBody (col_BodyRef colB) w) (\<lambda>bodyB.
       let posA = Position bodyA; posB = Position bodyB in
       case Shape colA of
         CircleF circle \<Rightarrow>
           (case Shape colB of
              CircleF circleB \<Rightarrow> Inr (Intersect_cc (circle_plus circle posA) (circle_plus circleB posB))
            | RectangleF rectB \<Rightarrow> Inr (Intersect_cr (circle_plus circle posA) (rect_plus rectB posB))
            | PolygonF polB \<Rightarrow> Intersect_cp (circle_plus circle posA) (poly_plus polB posB))
       | RectangleF rect \<Rightarrow>
           (case Shape colB of
              CircleF circleB \<Rightarrow> Inr (Intersect_rc (rect_plus rect posA) (circle_plus circleB posB))
            | RectangleF rectB \<Rightarrow> Inr (Intersect_rr (rect_plus rect posA) (rect_plus rectB posB))
            | PolygonF polB \<Rightarrow> Intersect_rp (rect_plus rect posA) (poly_plus polB posB))
       | PolygonF pol \<Rightarrow>
           (case Shape colB of
              CircleF circleB \<Rightarrow> Intersect_pc (poly_plus pol posA) (circle_plus circleB posB)
            | RectangleF rectB \<Rightarrow> Intersect_pr (poly_plus pol posA) (rect_plus rectB posB)
            | PolygonF polB \<Rightarrow> Intersect_pp (poly_plus pol posA) (poly_plus polB posB))))"

text \<open>Building a contact on two bodies of the world, resolving it, and the writes it makes.\<close>

definition resolve_bodies :: "f32 collider \<Rightarrow> f32 collider \<Rightarrow> 'z world_scheme \<Rightarrow> 'z world_scheme res" where
  "resolve_bodies col1 col2 w =
     rbind (GetBody (col_BodyRef col1) w) (\<lambda>b1. rbind (GetBody (col_BodyRef col2) w) (\<lambda>b2.
       rbind (Resolve fsqrt (Contact
                 \<lparr>cb_addr = body_Index (col_BodyRef col1), cb_body = b1, cb_collider = col1\<rparr>
                 \<lparr>cb_addr = body_Index (col_BodyRef col2), cb_body = b2, cb_collider = col2\<rparr>)) (\<lambda>contact.
         Inr (w\<lparr>bodies := (bodies w)[cb_addr (CB0 contact) := body0 contact,
                                       cb_addr (CB1 contact) := body1 contact]\<rparr>))))"

definition notify ::
  "('z world_scheme \<Rightarrow> 'z world_scheme res) \<Rightarrow> 'z world_scheme \<Rightarrow> 'z world_scheme res" where
  "notify event w = (if contactListener w then event w else Inr w)"

definition process_pair ::
  "'z listener \<Rightarrow> ColliderRef \<Rightarrow> ColliderRef \<Rightarrow> 'z world_scheme \<Rightarrow> 'z world_scheme res" where
  "process_pair L r1 r2 w =
     rbind (GetCollider r1 w) (\<lambda>col1. rbind (GetCollider r2 w) (\<lambda>col2.
       if BodyRef_eq (col_BodyRef col1) (col_BodyRef col2) then Inr w
       else if \<not> IsTrigger col2 \<and> \<not> IsTrigger col1 then
         rbind (Overlap col1 col2 w) (\<lambda>overlap.
           if overlap then
             rbind (resolve_bodies col1 col2 w) (notify (OnCollisionEnter L r1 r2))
           else notify (OnCollisionExit L r1 r2) w)
       else if \<not> contactListener w then Inr w
       else
         let colPair = ColliderRefPair r1 r2 in
         if uset_find ColliderRefPair_eq colPair (colRefPairs w) then
           rbind (Overlap col1 col2 w) (\<lambda>overlap.
             if \<not> overlap then
               rbind (OnTriggerExit L (ColRefA colPair) (ColRefB colPair) w) (\<lambda>w.
                 Inr (w\<lparr>colRefPairs := uset_erase ColliderRefPair_eq colPair (colRefPairs w)\<rparr>))
             else Inr w)
         else
           rbind (Overlap col1 col2 w) (\<lambda>overlap.
             if overlap then
               rbind (OnTriggerEnter L (ColRefA colPair) (ColRefB colPair) w) (\<lambda>w.
                 Inr (w\<lparr>colRefPairs := uset_emplace ColliderRefPair_eq colPair (colRefPairs w)\<rparr>))
             else Inr w)))"

text \<open>
  The two nested loops of a leaf, \<open>i\<close> from 0 to \<open>n - 2\<close> and \<open>j\<close> from \<open>i + 1\<close> to \<open>n - 1\<close>, as the
  list of index pairs they visit. The entries are read from the node as it is at the start:
  no callback changes the tree.
\<close>

definition index_pairs :: "nat \<Rightarrow> (nat \<times> nat) list" where
  "index_pairs n = concat (map (\<lambda>i. map (Pair i) [i + 1..<n]) [0..<n - 1])"

definition leaf_collisions ::
  "'z listener \<Rightarrow> f32 aabb list \<Rightarrow> 'z world_scheme \<Rightarrow> 'z world_scheme res" where
  "leaf_collisions L as w =
     (if as = [] then Inr w
      else rfold (\<lambda>(i, j) w. rbind (vec_at as i) (\<lambda>a. rbind (vec_at as j) (\<lambda>b.
              process_pair L (ColRef a) (ColRef b) w))) (index_pairs (length as)) w)"

fun UpdateQuadTreeCollisions ::
  "nat \<Rightarrow> 'z listener \<Rightarrow> nat \<Rightarrow> 'z world_scheme \<Rightarrow> 'z world_scheme res" where
  "UpdateQuadTreeCollisions 0 L node w = Inl (UndefinedBehaviour ''recursion'')"
| "UpdateQuadTreeCollisions (Suc fuel) L node w =
     rbind (node_at (quadTree w) node) (\<lambda>n.
       if Children n ! 0 = None then leaf_collisions L (ColliderRefAabbs n) w
       else rfold (\<lambda>p w. rbind (deref p) (\<lambda>child. UpdateQuadTreeCollisions fuel L child w))
              (Children n) w)"

definition World_Update :: "'z listener \<Rightarrow> f32 \<Rightarrow> 'z world_scheme \<Rightarrow> 'z world_scheme res" where
  "World_Update L deltaTime w =
     rbind (UpdateBodies deltaTime w) (\<lambda>w.
     rbind (SetUpQuadTree w) (\<lambda>w.
       UpdateQuadTreeCollisions (MAX_DEPTH + 1) L 0 w))"


section \<open>Slots and references\<close>

definition valid_body :: "'z world_scheme \<Rightarrow> BodyRef \<Rightarrow> bool" where
  "valid_body w r \<longleftrightarrow> body_Index r < length (bodies w) \<and> body_Index r < length (BodyGenIndices w)
     \<and> BodyGenIndices w ! body_Index r = body_GenIndex r"

definition valid_collider :: "'z world_scheme \<Rightarrow> ColliderRef \<Rightarrow> bool" where
  "valid_collider w r \<longleftrightarrow> col_Index r < length (colliders w) \<and> col_Index r < length (ColliderGenIndices w)
     \<and> ColliderGenIndices w ! col_Index r = col_GenIndex r"

lemma GetBody_valid [simp]: "valid_body w r \<Longrightarrow> GetBody r w = Inr (bodies w ! body_Index r)"
  by (simp add: GetBody_def valid_body_def)

lemma GetCollider_valid [simp]: "valid_collider w r \<Longrightarrow> GetCollider r w = Inr (colliders w ! col_Index r)"
  by (simp add: GetCollider_def valid_collider_def)

lemma GetBody_Inr [res_simps]: "GetBody r w = Inr b \<longleftrightarrow> valid_body w r \<and> b = bodies w ! body_Index r"
  by (auto simp: GetBody_def valid_body_def rbind_eq_Inr vec_at_Inr split: if_splits)

lemma GetCollider_Inr [res_simps]:
  "GetCollider r w = Inr c \<longleftrightarrow> valid_collider w r \<and> c = colliders w ! col_Index r"
  by (auto simp: GetCollider_def valid_collider_def rbind_eq_Inr vec_at_Inr split: if_splits)

lemma with_body_valid [simp]:
  "valid_body w r \<Longrightarrow>
   with_body r f w = Inr (w\<lparr>bodies := (bodies w)[body_Index r := f (bodies w ! body_Index r)]\<rparr>)"
  by (simp add: with_body_def)

lemma with_collider_valid [simp]:
  "valid_collider w r \<Longrightarrow>
   with_collider r f w
     = Inr (w\<lparr>colliders := (colliders w)[col_Index r := f (colliders w ! col_Index r)]\<rparr>)"
  by (simp add: with_collider_def)

text \<open>Generation indices are as many as slots, an invariant of every operation.\<close>

definition slots :: "'z world_scheme \<Rightarrow> bool" where
  "slots w \<longleftrightarrow> length (BodyGenIndices w) = length (bodies w)
     \<and> length (ColliderGenIndices w) = length (colliders w)"

lemma slots_SetUp: "slots w \<Longrightarrow> slots (World_SetUp n w)"
  by (simp add: slots_def World_SetUp_def)

lemma slots_TearDown: "slots (World_TearDown w)"
  by (simp add: slots_def World_TearDown_def)

text \<open>
  A created body is the first disabled slot, or the first of as many new slots as there were;
  every other body stays as it was.
\<close>

lemma CreateBody_free:
  assumes "slots w" "find_if (\<lambda>b. \<not> IsEnabled b) (bodies w) = i" "i < length (bodies w)"
  shows "CreateBody w = Inr (BodyRef i (BodyGenIndices w ! i),
     w\<lparr>bodies := (bodies w)[i := Enable (bodies w ! i)]\<rparr>)"
proof -
  have "valid_body w (BodyRef i (BodyGenIndices w ! i))"
    using assms by (simp add: valid_body_def slots_def)
  then show ?thesis using assms by (simp add: CreateBody_def slots_def)
qed

lemma CreateBody_full:
  assumes "slots w" "\<forall>b \<in> set (bodies w). IsEnabled b" "bodies w \<noteq> []"
  shows "CreateBody w = Inr (BodyRef (length (bodies w)) 0,
     w\<lparr>bodies := bodies w @ Enable Body # replicate (length (bodies w) - 1) Body,
        BodyGenIndices := BodyGenIndices w @ replicate (length (bodies w)) 0\<rparr>)"
proof -
  define n where "n = length (bodies w)"
  have n: "0 < n" "length (BodyGenIndices w) = n" using assms by (auto simp: n_def slots_def)
  have "find_if (\<lambda>b. \<not> IsEnabled b) (bodies w) = n"
    unfolding n_def find_if_end using assms(2) by blast
  moreover have "replicate n (Body :: f32 body) = Body # replicate (n - 1) Body"
    using n by (cases n) auto
  ultimately show ?thesis using n
    by (simp add: CreateBody_def vec_resize_def valid_body_def nth_append list_update_append
        mult_2_right flip: n_def)
qed

text \<open>
  Destroying a body does not change its generation index: the old reference is still accepted,
  and the next body created in the slot gets the very same reference.
\<close>

lemma DestroyBody_spec:
  assumes "valid_body w r"
  shows "DestroyBody r w = Inr (w\<lparr>bodies := (bodies w)[body_Index r := Disable (bodies w ! body_Index r)]\<rparr>)"
  using assms by (simp add: DestroyBody_def)

lemma CreateCollider_free:
  assumes "slots w" "find_if (\<lambda>c. \<not> IsAttached c) (colliders w) = i" "i < length (colliders w)"
  shows "CreateCollider b w = Inr (ColliderRef i (ColliderGenIndices w ! i),
     w\<lparr>colliders := (colliders w)[i := (colliders w ! i)\<lparr>IsAttached := True, col_BodyRef := b\<rparr>]\<rparr>)"
proof -
  have "valid_collider w (ColliderRef i (ColliderGenIndices w ! i))"
    using assms by (simp add: valid_collider_def slots_def)
  then show ?thesis using assms by (simp add: CreateCollider_def slots_def Let_def)
qed

lemma CreateCollider_full:
  assumes "slots w" "\<forall>c \<in> set (colliders w). IsAttached c" "colliders w \<noteq> []"
  shows "CreateCollider b w = Inr (ColliderRef (length (colliders w)) 0,
     w\<lparr>colliders := colliders w @ Collider\<lparr>IsAttached := True, col_BodyRef := b\<rparr>
                     # replicate (length (colliders w) - 1) Collider,
        ColliderGenIndices := ColliderGenIndices w @ replicate (length (colliders w)) 0\<rparr>)"
proof -
  define n where "n = length (colliders w)"
  have n: "0 < n" "length (ColliderGenIndices w) = n" using assms by (auto simp: n_def slots_def)
  have "find_if (\<lambda>c. \<not> IsAttached c) (colliders w) = n"
    unfolding n_def find_if_end using assms(2) by blast
  moreover have "replicate n (Collider :: f32 collider) = Collider # replicate (n - 1) Collider"
    using n by (cases n) auto
  ultimately show ?thesis using n
    by (simp add: CreateCollider_def Let_def vec_resize_def valid_collider_def nth_append list_update_append
        mult_2_right flip: n_def)
qed

end
