(* ===== verification/Simulation.thy ===== *)
theory Simulation
  imports World
begin

text \<open>
  What one update of the world (\<open>World_Update\<close>) guarantees: it never faults from a safe state,
  keeps the state safe, and leaves everything but motion alone. The contract between the world
  and its listener is the locale \<open>contact_client\<close>; the second half states what the broad phase
  hands to the narrow phase and how the trigger events follow the overlaps.
\<close>

section \<open>What motion leaves alone\<close>

definition steady :: "f32 body \<Rightarrow> f32 body \<Rightarrow> bool" where
  "steady b b' \<longleftrightarrow> Type b' = Type b \<and> Mass b' = Mass b \<and> (Type b = STATIC \<longrightarrow> Position b' = Position b)"

definition still :: "f32 collider \<Rightarrow> f32 collider" where
  "still c = c\<lparr>BodyPosition := Zero\<rparr>"

definition frame :: "'z world_scheme \<Rightarrow> 'z world_scheme \<Rightarrow> bool" where
  "frame w w' \<longleftrightarrow> BodyGenIndices w' = BodyGenIndices w \<and> ColliderGenIndices w' = ColliderGenIndices w
     \<and> contactListener w' = contactListener w
     \<and> map still (colliders w') = map still (colliders w)
     \<and> list_all2 steady (bodies w) (bodies w')"

lemma steady_refl [simp]: "steady b b"
  by (simp add: steady_def)

lemma steady_trans: "steady a b \<Longrightarrow> steady b c \<Longrightarrow> steady a c"
  by (simp add: steady_def)

lemma frame_refl [simp]: "frame w w"
  by (simp add: frame_def list_all2_refl)

lemma frame_trans [trans]: "frame u v \<Longrightarrow> frame v w \<Longrightarrow> frame u w"
  unfolding frame_def using list_all2_trans [of steady steady steady] steady_trans by fastforce

lemma frame_length:
  assumes "frame w w'"
  shows "length (bodies w') = length (bodies w)" "length (colliders w') = length (colliders w)"
  using assms by (auto simp: frame_def list_all2_lengthD dest: map_eq_imp_length_eq)

lemma frame_body: "frame w w' \<Longrightarrow> i < length (bodies w) \<Longrightarrow> steady (bodies w ! i) (bodies w' ! i)"
  by (simp add: frame_def list_all2_nthD)

lemma frame_collider:
  assumes "frame w w'" "i < length (colliders w)"
  shows "still (colliders w' ! i) = still (colliders w ! i)"
proof -
  have "map still (colliders w') ! i = map still (colliders w) ! i"
    using assms(1) by (simp add: frame_def)
  then show ?thesis using assms frame_length [OF assms(1)] by simp
qed

lemma still_eq:
  assumes "still c = still c'"
  shows "Shape c = Shape c'" "col_BodyRef c = col_BodyRef c'" "IsTrigger c = IsTrigger c'"
    "IsAttached c = IsAttached c'" "Restitution c = Restitution c'"
  using assms by (cases c; cases c'; simp add: still_def)+

lemma frame_valid_body: "frame w w' \<Longrightarrow> valid_body w' r = valid_body w r"
  using frame_length [of w w'] by (auto simp: valid_body_def frame_def)

lemma frame_valid_collider: "frame w w' \<Longrightarrow> valid_collider w' r = valid_collider w r"
  using frame_length [of w w'] by (auto simp: valid_collider_def frame_def)

section \<open>Safe states\<close>

definition shape_ok :: "f32 shape \<Rightarrow> bool" where
  "shape_ok s = (case s of PolygonF g \<Rightarrow> p_vertices g \<noteq> [] | _ \<Rightarrow> True)"

definition collider_ok :: "'z world_scheme \<Rightarrow> f32 collider \<Rightarrow> bool" where
  "collider_ok w c \<longleftrightarrow> (IsAttached c \<longrightarrow> valid_body w (col_BodyRef c) \<and> shape_ok (Shape c))"

definition movable :: "f32 body \<Rightarrow> bool" where
  "movable b \<longleftrightarrow> (IsEnabled b \<and> Type b \<noteq> STATIC \<longrightarrow> \<not> ceq (Mass b) 0)"

definition safe :: "'z world_scheme \<Rightarrow> bool" where
  "safe w \<longleftrightarrow> slots w \<and> (\<forall>c \<in> set (colliders w). collider_ok w c) \<and> (\<forall>b \<in> set (bodies w). movable b)"

lemma steady_movable: "steady b b' \<Longrightarrow> movable b' = movable b"
  by (auto simp: steady_def movable_def IsEnabled_def)

lemma frame_safe:
  assumes "frame w w'" "safe w"
  shows "safe w'"
proof -
  have "collider_ok w' c'" if "c' \<in> set (colliders w')" for c'
  proof -
    obtain i where i: "i < length (colliders w')" "c' = colliders w' ! i"
      using \<open>c' \<in> set (colliders w')\<close> by (auto simp: in_set_conv_nth)
    then have e: "still c' = still (colliders w ! i)" "i < length (colliders w)"
      using frame_collider [OF assms(1)] frame_length [OF assms(1)] by auto
    then have "collider_ok w (colliders w ! i)"
      using assms(2) by (simp add: safe_def)
    then show ?thesis
      using still_eq [OF e(1)] by (simp add: collider_ok_def frame_valid_body [OF assms(1)])
  qed
  moreover have "movable b'" if "b' \<in> set (bodies w')" for b'
    using that assms steady_movable frame_body [OF assms(1)] frame_length [OF assms(1)]
    by (metis in_set_conv_nth safe_def)
  moreover have "slots w'"
    using assms frame_length [OF assms(1)] by (simp add: safe_def slots_def frame_def)
  ultimately show ?thesis by (simp add: safe_def)
qed

section \<open>Integration of motion\<close>

text \<open>Semi-implicit Euler: the new velocity moves the body; static and disabled bodies stay.\<close>

lemma update_body_dynamic:
  assumes "IsEnabled b" "Type b \<noteq> STATIC" "\<not> ceq (Mass b) 0"
  shows "update_body dt b = Inr (b\<lparr>
    Velocity := Velocity b + vscale (vdiv_by (force b) (Mass b)) dt,
    Position := Position b + vscale (Velocity b + vscale (vdiv_by (force b) (Mass b)) dt) dt,
    force := Zero\<rparr>)"
  using assms by (simp add: update_body_def vdiv_def GetForce_def ResetForce_def)

lemma update_body_still: "\<not> IsEnabled b \<or> Type b = STATIC \<Longrightarrow> update_body dt b = Inr b"
  by (auto simp: update_body_def)

lemma update_body_safe:
  assumes "movable b"
  shows "\<exists>b'. update_body dt b = Inr b' \<and> steady b b'"
proof (cases "IsEnabled b \<and> Type b \<noteq> STATIC")
  case True
  then show ?thesis
    using assms by (auto simp: movable_def update_body_dynamic steady_def)
next
  case False
  then show ?thesis by (auto simp: update_body_still)
qed

lemma UpdateBodies_safe:
  assumes "safe w"
  shows "\<exists>bs. UpdateBodies dt w = Inr (w\<lparr>bodies := bs\<rparr>) \<and> frame w (w\<lparr>bodies := bs\<rparr>)"
proof -
  have "ok (res_map (update_body dt) (bodies w))"
    by (rule res_map_ok) (use assms update_body_safe in \<open>fastforce simp: safe_def ok_iff\<close>)
  then obtain bs where bs: "res_map (update_body dt) (bodies w) = Inr bs"
    by (auto simp: ok_iff)
  then have "list_all2 (\<lambda>b b'. update_body dt b = Inr b') (bodies w) bs"
    by (simp add: res_map_Inr)
  then have "list_all2 steady (bodies w) bs"
  proof (rule list.rel_mono_strong)
    fix b b' assume "b \<in> set (bodies w)" "update_body dt b = Inr b'"
    moreover have "movable b" using assms \<open>b \<in> set (bodies w)\<close> by (simp add: safe_def)
    ultimately show "steady b b'" using update_body_safe [of b dt] by auto
  qed
  with bs show ?thesis by (auto simp: UpdateBodies_def frame_def)
qed


section \<open>The narrow phase never faults\<close>

lemma edge_touches_ok:
  assumes "\<forall>(i, j) \<in> set es. i < length vs \<and> j < length vs"
  shows "\<exists>b. edge_touches vs center radius es = Inr b"
  using assms
proof (induction es)
  case (Cons e es)
  then show ?case by (cases e) (auto simp: Let_def)
qed auto

lemma Intersect_pc_ok: "\<exists>b. Intersect_pc g c = Inr b"
proof -
  have "\<exists>b. edge_touches (p_vertices g) (c_center c) (c_radius c)
        (edge_indices (VerticesCount g)) = Inr b"
    using edge_indices_bound by (intro edge_touches_ok) (fastforce simp: VerticesCount_def)
  then show ?thesis by (auto simp: Intersect_pc_def)
qed

lemma Overlap_ok:
  assumes "valid_body w (col_BodyRef c1)" "valid_body w (col_BodyRef c2)"
    and "shape_ok (Shape c1)" "shape_ok (Shape c2)"
  shows "\<exists>b. Overlap c1 c2 w = Inr b"
proof -
  have ne: "p_vertices (poly_plus g p) \<noteq> []" if "p_vertices g \<noteq> []" for g and p :: "f32 vec2"
    using that by (simp add: poly_plus_def Polygon_def)
  have re: "p_vertices (rect_to_polygon r) \<noteq> []" for r :: "f32 rectangle"
    by (simp add: rect_to_polygon_def Polygon_def)
  show ?thesis
    using assms
    by (auto simp: Overlap_def Let_def Intersect_cp_def Intersect_rp_def Intersect_pr_def
        shape_ok_def 
        intro: Intersect_pc_ok Intersect_pp_ok [OF ne re] Intersect_pp_ok [OF ne ne]
        split: shape.splits)
qed

lemma delta_normal_ok:
  "\<exists>n. (if 0 < Length fsqrt v then Normalized fsqrt v else Inr Up) = Inr n"
proof (cases "0 < Length fsqrt v")
  case True
  then have "\<not> ceq (Length fsqrt v) 0"
    using f32_less_le_trans [of 0 "Length fsqrt v" 0] by (auto simp: ceq_def)
  with True show ?thesis by (simp add: Normalized_def Normalize_def Let_def)
next
  case False
  then show ?thesis by auto
qed

text \<open>What a resolved contact keeps, up to the swap of its two bodies.\<close>

definition cb_steady :: "f32 colliding_body \<Rightarrow> f32 colliding_body \<Rightarrow> bool" where
  "cb_steady a b \<longleftrightarrow> cb_addr b = cb_addr a \<and> steady (cb_body a) (cb_body b)
     \<and> cb_collider b = cb_collider a \<and> force (cb_body b) = force (cb_body a)"

definition contact_frame :: "f32 contact \<Rightarrow> f32 contact \<Rightarrow> bool" where
  "contact_frame c d \<longleftrightarrow> cb_steady (CB0 c) (CB0 d) \<and> cb_steady (CB1 c) (CB1 d)
     \<or> cb_steady (CB0 c) (CB1 d) \<and> cb_steady (CB1 c) (CB0 d)"

lemma cb_steady_trans: "cb_steady a b \<Longrightarrow> cb_steady b c \<Longrightarrow> cb_steady a c"
  by (auto simp: cb_steady_def intro: steady_trans)

lemma resolve_response_steady:
  "cb_steady (CB0 c) (CB0 (resolve_response c))" "cb_steady (CB1 c) (CB1 (resolve_response c))"
proof -
  have v: "cb_steady (CB0 d) (CB0 (ResolveVelocityAndInterpenetration d))"
    "cb_steady (CB1 d) (CB1 (ResolveVelocityAndInterpenetration d))" for d
    by (simp_all add: cb_steady_def steady_def response_leaves, simp_all add:
        ResolveVelocityAndInterpenetration_def Let_def)
  have p: "cb_steady (CB0 d) (CB0 (ResolveInterpenetration d))"
    "cb_steady (CB1 d) (CB1 (ResolveInterpenetration d))" for d
    by (auto simp: cb_steady_def steady_def ResolveInterpenetration_def Let_def)
  show "cb_steady (CB0 c) (CB0 (resolve_response c))" "cb_steady (CB1 c) (CB1 (resolve_response c))"
    unfolding resolve_response_def Let_def
    by (rule cb_steady_trans [OF _ p(1)], rule cb_steady_trans [OF _ v(1)], simp add: cb_steady_def)
      (rule cb_steady_trans [OF _ p(2)], rule cb_steady_trans [OF _ v(2)], simp add: cb_steady_def)
qed

lemma contact_frame_response: "contact_frame c d \<Longrightarrow> contact_frame c (resolve_response d)"
  unfolding contact_frame_def
  using resolve_response_steady cb_steady_trans by blast

lemma contact_frame_swap: "contact_frame (swap_bodies c) d \<Longrightarrow> contact_frame c d"
  by (auto simp: contact_frame_def)

lemma contact_frame_normal:
  "CB0 d = CB0 c \<Longrightarrow> CB1 d = CB1 c \<Longrightarrow> contact_frame c d"
  by (simp add: contact_frame_def cb_steady_def)

lemma contact_circle_circle_ok:
  "\<exists>d. contact_circle_circle fsqrt a b c = Inr d \<and> CB0 d = CB0 c \<and> CB1 d = CB1 c"
  using delta_normal_ok [of "Position (body0 c) + c_center a - Position (body1 c) - c_center b"]
  unfolding contact_circle_circle_def Let_def by (auto simp del: if_split)

lemma contact_circle_rect_ok:
  "\<exists>d. contact_circle_rect fsqrt a b c = Inr d \<and> CB0 d = CB0 c \<and> CB1 d = CB1 c"
proof -
  define v where "v = Position (body0 c) + c_center a - Vec2
          (Clamp (X (Position (body0 c)) + X (c_center a))
             (X (r_minBound b) + X (Position (body1 c))) (X (r_maxBound b) + X (Position (body1 c))))
          (Clamp (Y (Position (body0 c)) + Y (c_center a))
             (Y (r_minBound b) + Y (Position (body1 c))) (Y (r_maxBound b) + Y (Position (body1 c))))"
  obtain n where "(if 0 < Length fsqrt v then Normalized fsqrt v else Inr Up) = Inr n"
    using delta_normal_ok by blast
  then show ?thesis
    unfolding contact_circle_rect_def Let_def v_def [symmetric] by (auto simp del: if_split)
qed

lemma Resolve_polygon_ok:
  "shape0 c = PolygonF g \<or> shape1 c = PolygonF g \<Longrightarrow> \<exists>d. Resolve fsqrt c = Inr d \<and> contact_frame c d"
  using Resolve_polygon [of c g] contact_frame_response [OF contact_frame_normal [of c c]] by auto

lemma Resolve_circle_ok:
  assumes "shape0 c = CircleF a"
  shows "\<exists>d. Resolve fsqrt c = Inr d \<and> contact_frame c d"
proof (cases "shape1 c")
  case (CircleF b)
  obtain d where "contact_circle_circle fsqrt a b c = Inr d" "CB0 d = CB0 c" "CB1 d = CB1 c"
    using contact_circle_circle_ok [of a b c] by blast
  with Resolve_circles [OF assms CircleF, of fsqrt] show ?thesis
    by (simp add: contact_frame_response contact_frame_normal)
next
  case (RectangleF b)
  obtain d where "contact_circle_rect fsqrt a b c = Inr d" "CB0 d = CB0 c" "CB1 d = CB1 c"
    using contact_circle_rect_ok [of a b c] by blast
  with Resolve_circle_rect [OF assms RectangleF, of fsqrt] show ?thesis
    by (simp add: contact_frame_response contact_frame_normal)
qed (blast intro: Resolve_polygon_ok)

lemma Resolve_rectangle_ok:
  assumes "shape0 c = RectangleF r"
  shows "\<exists>d. Resolve fsqrt c = Inr d \<and> contact_frame c d"
proof (cases "shape1 c")
  case (CircleF a)
  then obtain d where "Resolve fsqrt (swap_bodies c) = Inr d" "contact_frame (swap_bodies c) d"
    using Resolve_circle_ok [of "swap_bodies c" a] by auto
  then show ?thesis
    using Resolve_rect_circle [OF assms CircleF, of fsqrt] contact_frame_swap contact_frame_response by auto
next
  case (RectangleF r')
  have "contact_frame c (contact_rect_rect r r' c)"
    by (rule contact_frame_normal) (simp_all add: contact_rect_rect_def Let_def)
  then show ?thesis using Resolve_rects [OF assms RectangleF] contact_frame_response by auto
qed (blast intro: Resolve_polygon_ok)

lemma Resolve_ok: "\<exists>d. Resolve fsqrt c = Inr d \<and> contact_frame c d"
  by (cases "shape0 c") (blast intro: Resolve_circle_ok Resolve_rectangle_ok Resolve_polygon_ok)+

text \<open>A contact leaves the accumulated forces alone.\<close>

lemma resolve_bodies_force:
  assumes "resolve_bodies c1 c2 w = Inr w'" "col_BodyRef c1 \<noteq> col_BodyRef c2"
  shows "map force (bodies w') = map force (bodies w)"
proof -
  define i j where "i = body_Index (col_BodyRef c1)" and "j = body_Index (col_BodyRef c2)"
  let ?c = "Contact \<lparr>cb_addr = i, cb_body = bodies w ! i, cb_collider = c1\<rparr>
                    \<lparr>cb_addr = j, cb_body = bodies w ! j, cb_collider = c2\<rparr>"
  have v: "valid_body w (col_BodyRef c1)" "valid_body w (col_BodyRef c2)"
    using assms(1) by (auto simp: resolve_bodies_def res_simps)
  then have ij: "i < length (bodies w)" "j < length (bodies w)" "i \<noteq> j"
    using assms(2) by (auto simp: i_def j_def valid_body_def intro: BodyRef.expand)
  obtain d where d: "Resolve fsqrt ?c = Inr d" "contact_frame ?c d"
    using Resolve_ok by blast
  then have "w' = w\<lparr>bodies := (bodies w)[cb_addr (CB0 d) := body0 d, cb_addr (CB1 d) := body1 d]\<rparr>"
    using assms(1) v by (simp add: resolve_bodies_def i_def j_def)
  then show ?thesis
    using d(2) ij
    by (auto simp: contact_frame_def cb_steady_def Contact_def nth_list_update intro!: nth_equalityI)
qed

section \<open>The contract of the listener\<close>

text \<open>
  A client keeps an invariant \<open>client\<close> of its own state. Motion cannot break it, and each
  callback, started where it holds, returns, moves at most bodies that are not static, and leaves
  the set of trigger pairs and the tree to the world.
\<close>

definition event_ok ::
  "('z world_scheme \<Rightarrow> bool) \<Rightarrow> ('z world_scheme \<Rightarrow> 'z world_scheme res) \<Rightarrow> bool" where
  "event_ok client event \<longleftrightarrow> (\<forall>w. safe w \<longrightarrow> client w \<longrightarrow>
     (\<exists>w'. event w = Inr w' \<and> frame w w' \<and> client w' \<and> colRefPairs w' = colRefPairs w
        \<and> colliders w' = colliders w \<and> quadTree w' = quadTree w))"

locale contact_client =
  fixes L :: "'z listener"
    and client :: "'z world_scheme \<Rightarrow> bool"
  assumes motion: "client w \<Longrightarrow> frame w w' \<Longrightarrow> world.more w' = world.more w \<Longrightarrow> client w'"
    and trigger_enter: "event_ok client (OnTriggerEnter L a b)"
    and trigger_exit: "event_ok client (OnTriggerExit L a b)"
    and collision_enter: "event_ok client (OnCollisionEnter L a b)"
    and collision_exit: "event_ok client (OnCollisionExit L a b)"
begin

text \<open>One frame's steps all stay in \<open>live w0\<close>: the states reached from \<open>w0\<close> inside an update.\<close>

definition live :: "'z world_scheme \<Rightarrow> 'z world_scheme \<Rightarrow> bool" where
  "live w0 w \<longleftrightarrow> frame w0 w \<and> safe w \<and> client w"

lemma live_refl: "safe w \<Longrightarrow> client w \<Longrightarrow> live w w"
  by (simp add: live_def)

lemma live_trans: "live u v \<Longrightarrow> live v w \<Longrightarrow> live u w"
  by (auto simp: live_def intro: frame_trans)

lemma live_motion:
  assumes "live w0 w" "frame w w'" "world.more w' = world.more w"
  shows "live w0 w'"
  using assms by (auto simp: live_def intro: frame_trans frame_safe motion)

lemma event_live:
  assumes "event_ok client event" "live w0 w"
  shows "\<exists>w'. event w = Inr w' \<and> live w0 w' \<and> colRefPairs w' = colRefPairs w
    \<and> colliders w' = colliders w \<and> quadTree w' = quadTree w"
  using assms frame_trans frame_safe unfolding event_ok_def live_def by blast

lemma notify_live:
  assumes "event_ok client event" "live w0 w"
  shows "\<exists>w'. notify event w = Inr w' \<and> live w0 w' \<and> colRefPairs w' = colRefPairs w
    \<and> colliders w' = colliders w \<and> quadTree w' = quadTree w"
  using event_live [OF assms] assms(2) by (simp add: notify_def)

lemma resolve_bodies_live:
  assumes "live w0 w" "valid_body w (col_BodyRef c1)" "valid_body w (col_BodyRef c2)"
    and "col_BodyRef c1 \<noteq> col_BodyRef c2"
  shows "\<exists>w'. resolve_bodies c1 c2 w = Inr w' \<and> live w0 w' \<and> colRefPairs w' = colRefPairs w
    \<and> colliders w' = colliders w \<and> quadTree w' = quadTree w"
proof -
  define i j where "i = body_Index (col_BodyRef c1)" and "j = body_Index (col_BodyRef c2)"
  have ij: "i < length (bodies w)" "j < length (bodies w)" "i \<noteq> j"
    using assms(2-4) by (auto simp: i_def j_def valid_body_def intro: BodyRef.expand)
  let ?c = "Contact \<lparr>cb_addr = i, cb_body = bodies w ! i, cb_collider = c1\<rparr>
                    \<lparr>cb_addr = j, cb_body = bodies w ! j, cb_collider = c2\<rparr>"
  obtain d where d: "Resolve fsqrt ?c = Inr d" "contact_frame ?c d"
    using Resolve_ok by blast
  let ?w = "w\<lparr>bodies := (bodies w)[cb_addr (CB0 d) := body0 d, cb_addr (CB1 d) := body1 d]\<rparr>"
  have "resolve_bodies c1 c2 w = Inr ?w"
    using assms(2,3) d(1) by (simp add: resolve_bodies_def i_def j_def)
  moreover have "frame w ?w"
    using d(2) ij
    by (auto simp: frame_def contact_frame_def cb_steady_def Contact_def list_all2_conv_all_nth
        nth_list_update)
  ultimately show ?thesis
    using live_motion [OF assms(1), of ?w] by simp
qed

text \<open>An entry of the tree refers to an attached collider.\<close>

definition entry_ok :: "'z world_scheme \<Rightarrow> ColliderRef \<Rightarrow> bool" where
  "entry_ok w r \<longleftrightarrow> valid_collider w r \<and> IsAttached (colliders w ! col_Index r)"

lemma entry_ok_frame:
  assumes "frame w w'" "entry_ok w r"
  shows "entry_ok w' r"
proof -
  have "col_Index r < length (colliders w)" using assms(2) by (simp add: entry_ok_def valid_collider_def)
  from still_eq(4) [OF frame_collider [OF assms(1) this]] show ?thesis
    using assms by (simp add: entry_ok_def frame_valid_collider)
qed

lemma entry_body:
  assumes "safe w" "entry_ok w r"
  shows "valid_body w (col_BodyRef (colliders w ! col_Index r))"
    "shape_ok (Shape (colliders w ! col_Index r))"
  using assms by (auto simp: safe_def entry_ok_def valid_collider_def collider_ok_def)

lemma process_pair_live:
  assumes "live w0 w" "entry_ok w r1" "entry_ok w r2"
  shows "\<exists>w'. process_pair L r1 r2 w = Inr w' \<and> live w0 w' \<and> quadTree w' = quadTree w"
proof -
  define col1 col2 where "col1 = colliders w ! col_Index r1" and "col2 = colliders w ! col_Index r2"
  have s: "safe w" using assms(1) by (simp add: live_def)
  have g: "GetCollider r1 w = Inr col1" "GetCollider r2 w = Inr col2"
    using assms(2,3) by (simp_all add: entry_ok_def col1_def col2_def)
  have v: "valid_body w (col_BodyRef col1)" "valid_body w (col_BodyRef col2)"
    "shape_ok (Shape col1)" "shape_ok (Shape col2)"
    using entry_body [OF s assms(2)] entry_body [OF s assms(3)] by (simp_all add: col1_def col2_def)
  obtain overlap where o: "Overlap col1 col2 w = Inr overlap"
    using Overlap_ok [OF v] by blast
  have pairs: "live w0 (w'\<lparr>colRefPairs := ps\<rparr>)" if "live w0 w'" for w' ps
    using that by (rule live_motion) (simp_all add: frame_def list_all2_refl)
  consider (same) "col_BodyRef col1 = col_BodyRef col2"
    | (solid) "col_BodyRef col1 \<noteq> col_BodyRef col2" "\<not> IsTrigger col2 \<and> \<not> IsTrigger col1"
    | (trigger) "col_BodyRef col1 \<noteq> col_BodyRef col2" "\<not> (\<not> IsTrigger col2 \<and> \<not> IsTrigger col1)"
    by blast
  then show ?thesis
  proof cases
    case same
    then show ?thesis using assms(1) by (simp add: process_pair_def g)
  next
    case solid
    show ?thesis
    proof (cases overlap)
      case True
      obtain w1 where w1: "resolve_bodies col1 col2 w = Inr w1" "live w0 w1" "quadTree w1 = quadTree w"
        using resolve_bodies_live [OF assms(1) v(1,2) solid(1)] by blast
      then show ?thesis
        using notify_live [OF collision_enter w1(2), of r1 r2] solid True
        by (auto simp: process_pair_def g o)
    next
      case False
      then show ?thesis
        using notify_live [OF collision_exit assms(1), of r1 r2] solid
        by (auto simp: process_pair_def g o)
    qed
  next
    case trigger
    then show ?thesis
      using event_live [OF trigger_enter assms(1), of r1 r2]
        event_live [OF trigger_exit assms(1), of r1 r2] assms(1) pairs
      by (auto simp: process_pair_def g o Let_def)
  qed
qed

lemma leaf_collisions_live:
  assumes "live w0 w" "\<forall>a \<in> set as. entry_ok w (ColRef a)"
  shows "\<exists>w'. leaf_collisions L as w = Inr w' \<and> live w0 w' \<and> quadTree w' = quadTree w"
proof (cases "as = []")
  case True
  then show ?thesis using assms by (simp add: leaf_collisions_def)
next
  case False
  let ?P = "\<lambda>v. live w v \<and> quadTree v = quadTree w"
  have lw: "live w w" using assms(1) by (auto simp: live_def)
  have "\<exists>w'. rfold (\<lambda>(i, j) w. rbind (vec_at as i) (\<lambda>a. rbind (vec_at as j) (\<lambda>b.
              process_pair L (ColRef a) (ColRef b) w))) (index_pairs (length as)) w = Inr w' \<and> ?P w'"
  proof (rule rfold_total)
    show "?P w" using lw by simp
  next
    fix x v assume x: "x \<in> set (index_pairs (length as))" and v: "?P v"
    obtain i j where ij: "x = (i, j)" "i < length as" "j < length as"
      using x by (auto simp: index_pairs_def)
    have "entry_ok v (ColRef (as ! i))" "entry_ok v (ColRef (as ! j))"
      using assms(2) ij v entry_ok_frame [of w v] by (auto simp: live_def)
    with process_pair_live [of w v] v ij show "\<exists>s'. (case x of (i, j) \<Rightarrow> \<lambda>w. rbind (vec_at as i)
        (\<lambda>a. rbind (vec_at as j) (\<lambda>b. process_pair L (ColRef a) (ColRef b) w))) v = Inr s' \<and> ?P s'"
      by auto
  qed
  then show ?thesis
    using False assms(1) live_trans by (fastforce simp: leaf_collisions_def)
qed

end


section \<open>What the broad phase hands over\<close>

text \<open>The body positions copied into the colliders, and the entries inserted into the tree.\<close>

definition synced :: "'z world_scheme \<Rightarrow> f32 collider \<Rightarrow> f32 collider" where
  "synced w c =
     (if IsAttached c then c\<lparr>BodyPosition := Position (bodies w ! body_Index (col_BodyRef c))\<rparr> else c)"

definition entry :: "'z world_scheme \<Rightarrow> nat \<Rightarrow> f32 aabb" where
  "entry w i = \<lparr>Aabb = bounds_of (colliders w ! i), ColRef = ColliderRef i (ColliderGenIndices w ! i)\<rparr>"

definition entries :: "'z world_scheme \<Rightarrow> nat \<Rightarrow> f32 aabb list" where
  "entries w n = map (entry w) (filter (\<lambda>i. IsAttached (colliders w ! i)) [0..<n])"

lemma synced_sel [simp]:
  "still (synced w c) = still c" "IsAttached (synced w c) = IsAttached c"
  "col_BodyRef (synced w c) = col_BodyRef c" "Shape (synced w c) = Shape c"
  by (simp_all add: synced_def still_def)

lemma synced_frame: "frame w (w\<lparr>colliders := map (synced w) (colliders w), quadTree := t\<rparr>)"
  by (simp add: frame_def list_all2_refl)

lemma track_all:
  assumes "safe w" "k \<le> length (colliders w)"
  shows "\<exists>lo' hi'. rfold track_collider [0..<k] (lo, hi, w)
    = Inr (lo', hi', w\<lparr>colliders := map (synced w) (take k (colliders w)) @ drop k (colliders w)\<rparr>)"
  using assms(2)
proof (induction k)
  case 0
  then show ?case by simp
next
  case (Suc k)
  let ?cs = "map (synced w) (take k (colliders w)) @ drop k (colliders w)"
  let ?w = "w\<lparr>colliders := ?cs\<rparr>"
  obtain lo' hi' where ih: "rfold track_collider [0..<k] (lo, hi, w) = Inr (lo', hi', ?w)"
    using Suc by auto
  have k: "k < length (colliders w)" using Suc.prems by simp
  have at: "?cs ! k = colliders w ! k" "length ?cs = length (colliders w)"
    using k by (auto simp: nth_append)
  have upd: "?cs[k := c] = map (synced w) (take k (colliders w)) @ c # drop (Suc k) (colliders w)" for c
    using k by (simp add: list_update_append flip: Cons_nth_drop_Suc)
  have app: "map (synced w) (take (Suc k) (colliders w)) @ drop (Suc k) (colliders w)
      = ?cs[k := synced w (colliders w ! k)]"
    using k by (simp add: upd take_Suc_conv_app_nth)
  have "collider_ok w (colliders w ! k)" using assms(1) k by (simp add: safe_def)
  then have body: "GetBody (col_BodyRef (colliders w ! k)) ?w
      = Inr (bodies w ! body_Index (col_BodyRef (colliders w ! k)))" if "IsAttached (colliders w ! k)"
    using that by (simp add: collider_ok_def GetBody_Inr valid_body_def)
  have "\<exists>lo'' hi''. track_collider k (lo', hi', ?w)
      = Inr (lo'', hi'', w\<lparr>colliders := ?cs[k := synced w (colliders w ! k)]\<rparr>)"
  proof (cases "IsAttached (colliders w ! k)")
    case True
    show ?thesis
      using True k at body [OF True] by (simp add: track_collider_def Let_def synced_def)
  next
    case False
    have "?cs[k := synced w (colliders w ! k)] = ?cs"
      using False at k by (simp add: synced_def) (metis at(1) list_update_id)
    with False k at show ?thesis by (simp add: track_collider_def Let_def)
  qed
  then show ?case
    unfolding app by (simp add: rfold_append ih)
qed

lemma insert_all:
  assumes "slots w" "holds b [] (quadTree w)" "k \<le> length (colliders w)"
  shows "\<exists>t. rfold insert_collider [0..<k] w = Inr (w\<lparr>quadTree := t\<rparr>) \<and> holds b (entries w k) t"
  using assms(3)
proof (induction k)
  case 0
  show ?case
    by (rule exI [of _ "quadTree w"]) (use assms(2) in \<open>simp add: entries_def\<close>)
next
  case (Suc k)
  then obtain t where t: "rfold insert_collider [0..<k] w = Inr (w\<lparr>quadTree := t\<rparr>)"
    "holds b (entries w k) t" by auto
  have k: "k < length (colliders w)" using Suc.prems by simp
  show ?case
  proof (cases "IsAttached (colliders w ! k)")
    case True
    obtain t' where "QuadTree_Insert (entry w k) t = Inr t'" "holds b (entries w k @ [entry w k]) t'"
      using Insert_spec [OF t(2)] by blast
    moreover from this have "insert_collider k (w\<lparr>quadTree := t\<rparr>) = Inr (w\<lparr>quadTree := t'\<rparr>)"
      using True k assms(1) by (simp add: insert_collider_def entry_def slots_def)
    moreover have "entries w (Suc k) = entries w k @ [entry w k]"
      using True by (simp add: entries_def)
    ultimately show ?thesis using t(1) by (intro exI [of _ t']) (simp add: rfold_append)
  next
    case False
    then have "insert_collider k (w\<lparr>quadTree := t\<rparr>) = Inr (w\<lparr>quadTree := t\<rparr>)"
      using k by (simp add: insert_collider_def)
    moreover have "entries w (Suc k) = entries w k"
      using False by (simp add: entries_def)
    ultimately show ?thesis using t by (intro exI [of _ t]) (simp add: rfold_append)
  qed
qed

lemma SetUpQuadTree_spec:
  assumes "safe w" "wf_tree (quadTree w)"
  shows "\<exists>b t. let w' = w\<lparr>colliders := map (synced w) (colliders w), quadTree := t\<rparr>
    in SetUpQuadTree w = Inr w' \<and> holds b (entries w' (length (colliders w'))) t"
proof -
  let ?w = "w\<lparr>colliders := map (synced w) (colliders w)\<rparr>"
  obtain lo hi where tr: "rfold track_collider [0..<length (colliders w)]
      (Vec2 FLT_MAX FLT_MAX, Vec2 FLT_MIN FLT_MIN, w) = Inr (lo, hi, ?w)"
    using track_all [OF assms(1) order_refl, of "Vec2 FLT_MAX FLT_MAX" "Vec2 FLT_MIN FLT_MIN"] by auto
  obtain t0 where t0: "SetUpRoot (Rectangle lo hi) (quadTree w) = Inr t0" "holds (Rectangle lo hi) [] t0"
    using SetUpRoot_holds [OF assms(2)] by blast
  have "slots (?w\<lparr>quadTree := t0\<rparr>)" using assms(1) by (simp add: safe_def slots_def)
  from insert_all [OF this, of "Rectangle lo hi" "length (colliders w)"] t0(2)
  obtain t where t: "rfold insert_collider [0..<length (colliders w)] (?w\<lparr>quadTree := t0\<rparr>)
      = Inr (?w\<lparr>quadTree := t\<rparr>)" "holds (Rectangle lo hi) (entries (?w\<lparr>quadTree := t0\<rparr>) (length (colliders w))) t"
    by auto
  have "SetUpQuadTree w = Inr (?w\<lparr>quadTree := t\<rparr>)"
    using t(1) by (simp add: SetUpQuadTree_def Let_def tr t0)
  moreover have "entries (?w\<lparr>quadTree := t0\<rparr>) n = entries (?w\<lparr>quadTree := t\<rparr>) n" for n
    by (simp add: entries_def entry_def)
  ultimately show ?thesis using t(2) by (auto simp: Let_def)
qed

text \<open>Up to 16 attached colliders the narrow phase is one pass over all pairs.\<close>

lemma collisions_leaf:
  assumes "holds b as (quadTree w)" "length as \<le> MAX_COL_NBR"
  shows "UpdateQuadTreeCollisions (Suc fuel) L 0 w = leaf_collisions L as w"
proof -
  obtain cs where "quadTree w = \<lparr>nodeIndex = 1, Nodes = leaf_node b 0 as # cs\<rparr>"
    using assms by (auto simp: holds_def leaf_tree_def)
  then show ?thesis by (simp add: node_at_def)
qed

lemma collisions_child:
  assumes "quadTree w = split_tree b (map (\<lambda>k. filter (in_quadrant b k) as) [0, 1, 2, 3])" "k < 4"
  shows "UpdateQuadTreeCollisions (Suc fuel) L (Suc k) w
       = leaf_collisions L (filter (in_quadrant b k) as) w"
  using assms(2) map4_nth [OF assms(2), of "\<lambda>k. filter (in_quadrant b k) as"]
  by (simp add: assms(1) split_tree_def node_at_child)

context contact_client
begin

lemma collisions_live:
  assumes "live w0 w" "holds b as (quadTree w)" "\<forall>a \<in> set as. entry_ok w (ColRef a)"
  shows "\<exists>w'. UpdateQuadTreeCollisions (MAX_DEPTH + 1) L 0 w = Inr w' \<and> live w0 w'
    \<and> quadTree w' = quadTree w"
proof (cases "length as \<le> MAX_COL_NBR")
  case True
  then show ?thesis
    using leaf_collisions_live [OF assms(1,3)] collisions_leaf [OF assms(2) True, of MAX_DEPTH L]
    by (simp del: UpdateQuadTreeCollisions.simps)
next
  case False
  let ?t = "split_tree b (map (\<lambda>k. filter (in_quadrant b k) as) [0, 1, 2, 3])"
  have t: "quadTree w = ?t" using False assms(2) by (simp add: holds_def)
  let ?P = "\<lambda>v. live w v \<and> quadTree v = ?t"
  have lw: "live w w" using assms(1) by (auto simp: live_def)
  have "\<exists>w'. rfold (\<lambda>p w. rbind (deref p) (\<lambda>child. UpdateQuadTreeCollisions (Suc 0) L child w))
      [Some 1, Some 2, Some 3, Some 4] w = Inr w' \<and> ?P w'"
  proof (rule rfold_total)
    show "?P w" using lw t by simp
  next
    fix p v assume p: "p \<in> set [Some 1, Some 2, Some 3, Some 4 :: nat option]" and v: "?P v"
    then obtain k where k: "p = Some (Suc k)" "k < 4"
      by (auto simp: numeral_eq_Suc)
    have "\<forall>a \<in> set (filter (in_quadrant b k) as). entry_ok v (ColRef a)"
      using assms(3) v entry_ok_frame [of w v] by (auto simp: live_def)
    with leaf_collisions_live [of w v] v show
      "\<exists>s'. rbind (deref p) (\<lambda>child. UpdateQuadTreeCollisions (Suc 0) L child v) = Inr s' \<and> ?P s'"
      using collisions_child [of v b as k 0 L] k by (simp add: deref_def del: UpdateQuadTreeCollisions.simps)
  qed
  moreover have "node_at (quadTree w) 0 = Inr \<lparr>ColliderRefAabbs = [], Bounds = b,
      Children = [Some 1, Some 2, Some 3, Some 4], Depth = 0\<rparr>"
    by (simp add: t split_tree_def split_with_def node_at_def)
  ultimately obtain w' where
    "UpdateQuadTreeCollisions (Suc (Suc 0)) L 0 w = Inr w'" "live w w'" "quadTree w' = quadTree w"
    using t by (auto simp: UpdateQuadTreeCollisions.simps(2) [of "Suc 0"]
        simp del: UpdateQuadTreeCollisions.simps rfold.simps)
  then show ?thesis using assms(1) live_trans by (auto simp: MAX_DEPTH_def)
qed

text \<open>An update returns, and only motion and what the client does have changed.\<close>

theorem World_Update_live:
  assumes "safe w" "client w" "wf_tree (quadTree w)"
  shows "\<exists>w'. World_Update L dt w = Inr w' \<and> live w w' \<and> wf_tree (quadTree w')"
proof -
  obtain bs where b: "UpdateBodies dt w = Inr (w\<lparr>bodies := bs\<rparr>)" "frame w (w\<lparr>bodies := bs\<rparr>)"
    using UpdateBodies_safe [OF assms(1)] by blast
  let ?w1 = "w\<lparr>bodies := bs\<rparr>"
  have l1: "live w ?w1" using live_motion [OF live_refl b(2)] assms by simp
  obtain r t where st: "SetUpQuadTree ?w1
      = Inr (?w1\<lparr>colliders := map (synced ?w1) (colliders w), quadTree := t\<rparr>)"
    "holds r (entries (?w1\<lparr>colliders := map (synced ?w1) (colliders w), quadTree := t\<rparr>)
       (length (colliders w))) t"
    using SetUpQuadTree_spec [of ?w1] l1 assms(3) by (auto simp: live_def Let_def)
  let ?w2 = "?w1\<lparr>colliders := map (synced ?w1) (colliders w), quadTree := t\<rparr>"
  have "frame ?w1 ?w2" using synced_frame [of ?w1 t] by simp
  then have l2: "live w ?w2" by (rule live_motion [OF l1]) simp
  have "slots ?w2" using l2 by (simp add: live_def safe_def)
  then have "\<forall>a \<in> set (entries ?w2 (length (colliders w))). entry_ok ?w2 (ColRef a)"
    by (auto simp: entries_def entry_def entry_ok_def valid_collider_def slots_def)
  with collisions_live [OF l2, of r] st(2) obtain w' where
    "UpdateQuadTreeCollisions (MAX_DEPTH + 1) L 0 ?w2 = Inr w'" "live w w'" "quadTree w' = t"
    by auto
  moreover have "wf_tree t" using st(2) by (rule holds_wf)
  ultimately show ?thesis by (simp add: World_Update_def b st)
qed

end

end
