(* ===== verification/Triggers.thy ===== *)
theory Triggers
  imports Simulation
begin

text \<open>
  The trigger events of \<open>World::UpdateQuadTreeCollisions\<close>: a log of the callbacks shows that for
  every pair of colliders enter and exit events alternate, and that the set of pairs is the set
  of those entered and not yet left. The last section: an update does not look at the state of
  the client, so renaming that state commutes with it.
\<close>

section \<open>Invariants of an update\<close>

definition kept :: "'z world_scheme \<Rightarrow> 'z world_scheme \<Rightarrow> bool" where
  "kept w w' \<longleftrightarrow> colRefPairs w' = colRefPairs w \<and> contactListener w' = contactListener w
     \<and> world.more w' = world.more w"

lemma kept_refl [simp]: "kept w w"
  by (simp add: kept_def)

lemma kept_trans: "kept u v \<Longrightarrow> kept v w \<Longrightarrow> kept u w"
  by (simp add: kept_def)

lemma UpdateBodies_kept: "UpdateBodies dt w = Inr w' \<Longrightarrow> kept w w'"
  by (auto simp: UpdateBodies_def kept_def rmap_eq_Inr)

lemma track_collider_kept:
  assumes "track_collider i (lo, hi, w) = Inr (lo', hi', w')"
  shows "kept w w'"
  using assms by (auto simp: track_collider_def kept_def rbind_eq_Inr Let_def split: if_splits)

lemma insert_collider_kept: "insert_collider i w = Inr w' \<Longrightarrow> kept w w'"
  by (auto simp: insert_collider_def kept_def rbind_eq_Inr rmap_eq_Inr split: if_splits)

lemma SetUpQuadTree_kept:
  assumes "SetUpQuadTree w = Inr w'"
  shows "kept w w'"
proof -
  obtain lo hi w1 t where tr: "rfold track_collider [0..<length (colliders w)]
      (Vec2 FLT_MAX FLT_MAX, Vec2 FLT_MIN FLT_MIN, w) = Inr (lo, hi, w1)"
    and ins: "rfold insert_collider [0..<length (colliders w1)] (w1\<lparr>quadTree := t\<rparr>) = Inr w'"
    using assms by (auto simp: SetUpQuadTree_def Let_def rbind_eq_Inr)
  have "kept w (snd (snd (lo, hi, w1)))"
    by (rule rfold_inv [OF tr, where P = "\<lambda>s. kept w (snd (snd s))"])
      (use track_collider_kept kept_trans in \<open>fastforce+\<close>)
  moreover have "kept w1 (w1\<lparr>quadTree := t\<rparr>)" by (simp add: kept_def)
  moreover have "kept (w1\<lparr>quadTree := t\<rparr>) w'"
    by (rule rfold_inv [OF ins, where P = "kept (w1\<lparr>quadTree := t\<rparr>)"])
      (auto intro: kept_trans insert_collider_kept)
  ultimately show ?thesis by (auto intro: kept_trans)
qed

lemma collisions_inv:
  assumes "UpdateQuadTreeCollisions fuel L node w = Inr w'" "P w"
    and pair: "\<And>r1 r2 w w'. P w \<Longrightarrow> process_pair L r1 r2 w = Inr w' \<Longrightarrow> P w'"
  shows "P w'"
  using assms(1,2)
proof (induction fuel arbitrary: node w w')
  case (Suc fuel)
  have leaf: "P w'" if "leaf_collisions L as w = Inr w'" for as
  proof (cases "as = []")
    case True
    then show ?thesis using that Suc.prems(2) by (simp add: leaf_collisions_def)
  next
    case False
    then have "rfold (\<lambda>(i, j) w. rbind (vec_at as i) (\<lambda>a. rbind (vec_at as j) (\<lambda>b.
              process_pair L (ColRef a) (ColRef b) w))) (index_pairs (length as)) w = Inr w'"
      using that by (simp add: leaf_collisions_def)
    then show ?thesis
      by (rule rfold_inv [where P = P]) (auto simp: rbind_eq_Inr Suc.prems(2) intro: pair)
  qed
  obtain n where n: "node_at (quadTree w) node = Inr n"
    using Suc.prems(1) by (auto simp: rbind_eq_Inr)
  show ?case
  proof (cases "Children n ! 0 = None")
    case True
    then show ?thesis using Suc.prems(1) n leaf by simp
  next
    case False
    then have "rfold (\<lambda>p w. rbind (deref p) (\<lambda>child. UpdateQuadTreeCollisions fuel L child w))
        (Children n) w = Inr w'"
      using Suc.prems(1) n by auto
    then show ?thesis
      by (rule rfold_inv [where P = P]) (auto simp: rbind_eq_Inr Suc.prems(2) intro: Suc.IH)
  qed
qed simp

text \<open>What only pairs can change, and every pair keeps, every update keeps.\<close>

lemma World_Update_inv:
  assumes "World_Update L dt w = Inr w'" "P w"
    and motion: "\<And>w w'. P w \<Longrightarrow> kept w w' \<Longrightarrow> P w'"
    and pair: "\<And>r1 r2 w w'. P w \<Longrightarrow> process_pair L r1 r2 w = Inr w' \<Longrightarrow> P w'"
  shows "P w'"
proof -
  obtain w1 w2 where "UpdateBodies dt w = Inr w1" "SetUpQuadTree w1 = Inr w2"
    and u: "UpdateQuadTreeCollisions (MAX_DEPTH + 1) L 0 w2 = Inr w'"
    using assms(1) by (auto simp: World_Update_def rbind_eq_Inr)
  then have "P w2"
    using motion [OF assms(2) UpdateBodies_kept] motion [OF _ SetUpQuadTree_kept] by blast
  then show ?thesis by (rule collisions_inv [where P = P, OF u]) (rule pair)
qed

section \<open>The log of trigger events\<close>

datatype trigger_event = Enter ColliderRefPair | Exit ColliderRefPair

definition log_event :: "trigger_event \<Rightarrow> trigger_event list world_scheme \<Rightarrow> trigger_event list world_scheme res" where
  "log_event e w = Inr (w\<lparr>world.more := world.more w @ [e]\<rparr>)"

text \<open>A listener that writes the trigger events to the log.\<close>

definition recorder :: "trigger_event list listener" where
  "recorder = \<lparr>
     OnTriggerEnter = \<lambda>a b. log_event (Enter (ColliderRefPair a b)),
     OnTriggerExit = \<lambda>a b. log_event (Exit (ColliderRefPair a b)),
     OnCollisionEnter = \<lambda>a b. Inr,
     OnCollisionExit = \<lambda>a b. Inr\<rparr>"

text \<open>
  Reading a log for the pair \<open>p\<close>: inside after an enter, outside after an exit; a second enter
  while inside, or an exit while outside, has no reading.
\<close>

fun reads :: "ColliderRefPair \<Rightarrow> bool \<Rightarrow> trigger_event list \<Rightarrow> bool option" where
  "reads p inside [] = Some inside"
| "reads p inside (Enter q # es) =
     (if \<not> ColliderRefPair_eq p q then reads p inside es
      else if inside then None else reads p True es)"
| "reads p inside (Exit q # es) =
     (if \<not> ColliderRefPair_eq p q then reads p inside es
      else if inside then reads p False es else None)"

lemma reads_append:
  "reads p inside (es @ fs) = (case reads p inside es of None \<Rightarrow> None | Some i \<Rightarrow> reads p i fs)"
  by (induction p inside es rule: reads.induct) auto

definition log_matches :: "trigger_event list world_scheme \<Rightarrow> bool" where
  "log_matches w \<longleftrightarrow>
     (\<forall>p. reads p False (world.more w) = Some (uset_find ColliderRefPair_eq p (colRefPairs w)))"

lemma log_matches_enter:
  assumes "log_matches w" "\<not> uset_find ColliderRefPair_eq q (colRefPairs w)"
  shows "log_matches (w\<lparr>world.more := world.more w @ [Enter q],
           colRefPairs := uset_emplace ColliderRefPair_eq q (colRefPairs w)\<rparr>)"
  using assms pair_key.find_eq [of _ q]
  by (auto simp: log_matches_def reads_append pair_key.find_emplace)

lemma log_matches_exit:
  assumes "log_matches w" "uset_find ColliderRefPair_eq q (colRefPairs w)"
  shows "log_matches (w\<lparr>world.more := world.more w @ [Exit q],
           colRefPairs := uset_erase ColliderRefPair_eq q (colRefPairs w)\<rparr>)"
  using assms pair_key.find_eq [of _ q]
  by (auto simp: log_matches_def reads_append pair_key.find_erase)

lemma resolve_bodies_kept: "resolve_bodies c1 c2 w = Inr w' \<Longrightarrow> kept w w'"
  by (auto simp: resolve_bodies_def kept_def rbind_eq_Inr)

lemma log_matches_kept: "log_matches w \<Longrightarrow> kept w w' \<Longrightarrow> log_matches w'"
  by (simp add: log_matches_def kept_def)

lemma process_pair_log:
  assumes "log_matches w" "process_pair recorder r1 r2 w = Inr w'"
  shows "log_matches w'"
  using assms(2) log_matches_kept [OF assms(1) resolve_bodies_kept] assms(1)
    log_matches_enter [OF assms(1), of "ColliderRefPair r1 r2"]
    log_matches_exit [OF assms(1), of "ColliderRefPair r1 r2"]
  by (auto simp: process_pair_def recorder_def log_event_def notify_def Let_def rbind_eq_Inr
      split: if_splits)

lemma World_Update_log:
  assumes "World_Update recorder dt w = Inr w'" "log_matches w"
  shows "log_matches w'"
  by (rule World_Update_inv [where P = log_matches, OF assms])
    (auto intro: log_matches_kept process_pair_log)

text \<open>Together with the contract, for any number of updates.\<close>

interpretation recorder: contact_client recorder "\<lambda>_. True"
  by unfold_locales
    (auto simp: recorder_def event_ok_def log_event_def frame_def list_all2_refl)

fun updates :: "'z listener \<Rightarrow> f32 list \<Rightarrow> 'z world_scheme \<Rightarrow> 'z world_scheme res" where
  "updates L [] w = Inr w"
| "updates L (dt # dts) w = rbind (World_Update L dt w) (updates L dts)"

section \<open>Updates do not look at the state of the client\<close>

lemma rename_updates [simp]:
  "(world.more_update h w)\<lparr>bodies := bs\<rparr> = world.more_update h (w\<lparr>bodies := bs\<rparr>)"
  "(world.more_update h w)\<lparr>colliders := cs\<rparr> = world.more_update h (w\<lparr>colliders := cs\<rparr>)"
  "(world.more_update h w)\<lparr>colRefPairs := ps\<rparr> = world.more_update h (w\<lparr>colRefPairs := ps\<rparr>)"
  "(world.more_update h w)\<lparr>contactListener := l\<rparr> = world.more_update h (w\<lparr>contactListener := l\<rparr>)"
  "(world.more_update h w)\<lparr>quadTree := t\<rparr> = world.more_update h (w\<lparr>quadTree := t\<rparr>)"
  by (cases w; simp)+

lemma rename_reads [simp]:
  "GetBody r (world.more_update h w) = GetBody r w"
  "GetCollider c (world.more_update h w) = GetCollider c w"
  "valid_body (world.more_update h w) = valid_body w"
  "valid_collider (world.more_update h w) = valid_collider w"
  by (auto simp: GetBody_def GetCollider_def valid_body_def valid_collider_def cong: if_cong)

lemma Overlap_rename [simp]: "Overlap c1 c2 (world.more_update h w) = Overlap c1 c2 w"
  by (simp only: Overlap_def rename_reads)

lemma with_body_rename:
  "with_body r f (world.more_update h w) = rmap (world.more_update h) (with_body r f w)"
  by (simp add: with_body_def rmap_of_rbind)

lemma UpdateBodies_rename:
  "UpdateBodies dt (world.more_update h w) = rmap (world.more_update h) (UpdateBodies dt w)"
  by (simp add: UpdateBodies_def rmap_rmap)

lemma track_collider_rename:
  "track_collider i (lo, hi, world.more_update h w)
     = rmap (\<lambda>(lo, hi, w). (lo, hi, world.more_update h w)) (track_collider i (lo, hi, w))"
  by (auto simp: track_collider_def Let_def rmap_of_rbind intro!: rbind_cong)

lemma insert_collider_rename:
  "insert_collider i (world.more_update h w) = rmap (world.more_update h) (insert_collider i w)"
  by (auto simp: insert_collider_def rmap_of_rbind rmap_rmap intro!: rbind_cong)

lemma SetUpQuadTree_rename:
  "SetUpQuadTree (world.more_update h w) = rmap (world.more_update h) (SetUpQuadTree w)"
proof -
  let ?m = "\<lambda>(lo, hi, w). (lo, hi, world.more_update h w)"
  have tr: "rfold track_collider is (?m s) = rmap ?m (rfold track_collider is s)" for "is" s
    by (rule rfold_rename) (auto simp: track_collider_rename)
  have ins: "rfold insert_collider is (world.more_update h v)
      = rmap (world.more_update h) (rfold insert_collider is v)" for "is" v
    by (rule rfold_rename) (rule insert_collider_rename)
  show ?thesis
    using tr [of _ "(Vec2 FLT_MAX FLT_MAX, Vec2 FLT_MIN FLT_MIN, w)"]
    by (auto simp: SetUpQuadTree_def Let_def rbind_rmap rmap_of_rbind ins intro!: rbind_cong)
qed

lemma resolve_bodies_rename:
  "resolve_bodies c1 c2 (world.more_update h w) = rmap (world.more_update h) (resolve_bodies c1 c2 w)"
  by (auto simp: resolve_bodies_def rmap_of_rbind intro!: rbind_cong)

text \<open>A renaming of the client state that the callbacks respect.\<close>

locale client_renaming =
  fixes L :: "'z listener"
    and h :: "'z \<Rightarrow> 'z"
  assumes enter: "OnTriggerEnter L a b (world.more_update h w)
        = rmap (world.more_update h) (OnTriggerEnter L a b w)"
    and exit: "OnTriggerExit L a b (world.more_update h w)
        = rmap (world.more_update h) (OnTriggerExit L a b w)"
    and touch: "OnCollisionEnter L a b (world.more_update h w)
        = rmap (world.more_update h) (OnCollisionEnter L a b w)"
    and leave: "OnCollisionExit L a b (world.more_update h w)
        = rmap (world.more_update h) (OnCollisionExit L a b w)"
begin

lemma process_pair_rename:
  "process_pair L r1 r2 (world.more_update h w)
     = rmap (world.more_update h) (process_pair L r1 r2 w)"
  by (simp add: process_pair_def Let_def notify_def resolve_bodies_rename rbind_rmap rmap_of_rbind
      enter exit touch leave if_distrib [of "rmap (world.more_update h)"] cong: rbind_cong if_cong)

lemma leaf_collisions_rename:
  "leaf_collisions L as (world.more_update h w)
     = rmap (world.more_update h) (leaf_collisions L as w)"
  unfolding leaf_collisions_def
  by (auto simp: rmap_of_rbind process_pair_rename intro!: rfold_rename rbind_cong)

lemma collisions_rename:
  "UpdateQuadTreeCollisions fuel L node (world.more_update h w)
     = rmap (world.more_update h) (UpdateQuadTreeCollisions fuel L node w)"
proof (induction fuel arbitrary: node w)
  case (Suc fuel)
  then show ?case
    by (auto simp: rmap_of_rbind leaf_collisions_rename intro!: rfold_rename rbind_cong)
qed simp

lemma World_Update_rename:
  "World_Update L dt (world.more_update h w)
     = rmap (world.more_update h) (World_Update L dt w)"
  by (simp add: World_Update_def UpdateBodies_rename SetUpQuadTree_rename rbind_rmap rmap_of_rbind
      collisions_rename del: UpdateQuadTreeCollisions.simps)

end

end
