(* ===== verification/Input.thy ===== *)
theory Input
  imports Vec2
begin

text \<open>
  \<open>common/include/Input.h\<close> and \<open>common/include/Metrics.h\<close>: the input byte of a player, an input
  stamped with its frame, and the sizes of the playing field. A \<open>short\<close> frame number is an \<open>int\<close>
  here; \<open>short_range\<close> says when it fits.
\<close>

section \<open>Inputs\<close>

type_synonym Input = "8 word"

definition kJump :: Input where "kJump = push_bit 0 1"
definition kLeft :: Input where "kLeft = push_bit 1 1"
definition kRight :: Input where "kRight = push_bit 2 1"
definition kKick :: Input where "kKick = push_bit 3 1"

text \<open>\<open>input & mask\<close> used as a condition.\<close>

definition pressed :: "Input \<Rightarrow> Input \<Rightarrow> bool" where
  "pressed input m \<longleftrightarrow> and input m \<noteq> 0"

record FrameInput =
  fi_input :: Input
  frame_nbr :: int

definition FrameInput :: FrameInput where
  "FrameInput = \<lparr>fi_input = 0, frame_nbr = 0\<rparr>"

definition short_range :: "int \<Rightarrow> bool" where
  "short_range n \<longleftrightarrow> - (2 ^ 15) \<le> n \<and> n < 2 ^ 15"

lemma pressed_masks [simp]:
  "pressed 0 m = False" "pressed kJump kJump" "pressed kLeft kLeft" "pressed kRight kRight" "pressed kKick kKick"
  by (simp_all add: pressed_def kJump_def kLeft_def kRight_def kKick_def)

lemma pressed_or: "pressed (or a b) m \<longleftrightarrow> pressed a m \<or> pressed b m"
  by (simp add: pressed_def bit.conj_disj_distrib2 or_eq_0_iff)

lemma masks_distinct:
  "\<not> pressed kJump kLeft" "\<not> pressed kJump kRight" "\<not> pressed kJump kKick"
  "\<not> pressed kLeft kRight" "\<not> pressed kLeft kKick" "\<not> pressed kRight kKick"
  by (simp_all add: pressed_def kJump_def kLeft_def kRight_def kKick_def)

section \<open>Metrics\<close>

definition MeterRatio :: f32 where "MeterRatio = flit 100 1"

definition PixelsToMeters :: "f32 \<Rightarrow> f32" where "PixelsToMeters pixels = pixels div MeterRatio"
definition MetersToPixels :: "f32 \<Rightarrow> f32" where "MetersToPixels meters = meters * MeterRatio"

text \<open>A \<open>float\<close> converted to \<open>int\<close> is truncated; the two uses are in range.\<close>

definition int_of_f32 :: "f32 \<Rightarrow> int" where
  "int_of_f32 x = (if fsign x then - (int (mag_units (fmag x) div 2 ^ 149))
     else int (mag_units (fmag x) div 2 ^ 149))"

definition kFPS :: int where "kFPS = 60"
definition kWindowWidth :: int where "kWindowWidth = int_of_f32 (MetersToPixels (f32_of_int 12))"
definition kWindowHeight :: int where "kWindowHeight = int_of_f32 (MetersToPixels (f32_of_int 8))"

definition kBallRadiusSmall :: f32 where "kBallRadiusSmall = MetersToPixels (flit 2 10)"
definition kBallRadiusMedium :: f32 where "kBallRadiusMedium = MetersToPixels (flit 3 10)"
definition kBallRadiusLarge :: f32 where "kBallRadiusLarge = MetersToPixels (flit 4 10)"

definition kGroundSize :: "f32 vec2" where
  "kGroundSize = Vec2 (f32_of_int kWindowWidth div flit 7 1) (f32_of_int kWindowHeight div flit 5 1)"
definition kGoalSize :: "f32 vec2" where
  "kGoalSize = Vec2 (MetersToPixels (flit 6 10)) (f32_of_int kWindowHeight div flit 3 1)"
definition kPlayerRadius :: f32 where "kPlayerRadius = MetersToPixels (flit 5 10)"
definition kFixedDeltaTime :: f32 where "kFixedDeltaTime = 1 div f32_of_int kFPS"
definition kGameFrameNbr :: int where "kGameFrameNbr = 5400"

text \<open>The field in numbers: \<open>0.3f * 100\<close> and \<open>0.6f * 100\<close> are one ulp above 30 and 60.\<close>

lemma window_size [simp]: "kWindowWidth = 1200" "kWindowHeight = 800"
  by (simp_all add: kWindowWidth_def kWindowHeight_def MetersToPixels_def MeterRatio_def
      int_of_f32_def f32_eval)

lemma metrics_values:
  "kBallRadiusSmall = F32 0x41A00000" "kBallRadiusMedium = F32 0x41F00001"
  "kBallRadiusLarge = F32 0x42200000" "kPlayerRadius = F32 0x42480000"
  "kGroundSize = Vec2 (F32 0x432B6DB7) (F32 0x43200000)"
  "kGoalSize = Vec2 (F32 0x42700001) (F32 0x43855555)" "kFixedDeltaTime = F32 0x3C888889"
  by (simp_all add: kBallRadiusSmall_def kBallRadiusMedium_def kBallRadiusLarge_def kPlayerRadius_def
      kGroundSize_def kGoalSize_def kFixedDeltaTime_def kFPS_def MetersToPixels_def MeterRatio_def f32_eval)

lemma MetersToPixels_PixelsToMeters:
  "MetersToPixels (PixelsToMeters (flit 1200 1)) = flit 1200 1"
  by (simp add: MetersToPixels_def PixelsToMeters_def MeterRatio_def f32_eval)

end
