(* ===== verification/Game.thy ===== *)
theory Game
  imports Triggers Input
begin

text \<open>
  \<open>common/include/Game.h\<close> and \<open>common/src/Game.cpp\<close>: the football game on top of the physics
  world. The game owns its world and is its contact listener, so the game record extends the
  world record and the callbacks are functions on the game. The private fields keep their names
  without the trailing underscore.
\<close>

section \<open>State\<close>

datatype BallType = kFootball | kBasketball | kBaseball | kVolleyball | kTennisball | kCount
datatype GameState = kMenu | kInGame | kGameFinished

record game = world +
  state :: GameState
  input :: Input
  other_player_input :: Input
  body_refs :: "BodyRef list"
  col_refs :: "ColliderRef list"
  ground_col_ref :: ColliderRef
  player_blue_body_ref :: BodyRef
  player_blue_col_ref :: ColliderRef
  player_blue_feet_col_ref :: ColliderRef
  is_player_blue_grounded :: bool
  player_blue_kick_time :: f32
  can_player_blue_kick :: bool
  blue_score :: int
  player_red_col_ref :: ColliderRef
  player_red_feet_col_ref :: ColliderRef
  player_red_kick_time :: f32
  can_player_red_kick :: bool
  ball_type :: BallType
  ball_body_ref :: BodyRef
  ball_col_ref :: ColliderRef
  ball_radius :: f32
  red_score :: int
  left_goal_col_ref :: ColliderRef
  right_goal_col_ref :: ColliderRef
  player_red_body_ref :: BodyRef
  is_player_red_grounded :: bool
  player_nbr :: int

definition kBallGravity :: f32 where "kBallGravity = flit 1000 1"
definition kPlayerGravity :: f32 where "kPlayerGravity = flit 2500 1"
definition kWalkSpeed :: f32 where "kWalkSpeed = flit 1500 1"
definition kMaxSpeed :: f32 where "kMaxSpeed = flit 1200 1"
definition kJumpSpeed :: f32 where "kJumpSpeed = flit (- 75000) 1"
definition kShootForce :: f32 where "kShootForce = flit 25000 1"

text \<open>The default member initialisers; the quadtree allocates its nodes when it is constructed.\<close>

definition Game :: "game res" where
  "Game = rmap (\<lambda>t. \<lparr>bodies = [], colliders = [], colRefPairs = [], contactListener = False,
     BodyGenIndices = [], ColliderGenIndices = [], quadTree = t,
     state = kMenu, input = 0, other_player_input = 0, body_refs = [], col_refs = [],
     ground_col_ref = ColliderRef 0 0, player_blue_body_ref = BodyRef 0 0,
     player_blue_col_ref = ColliderRef 0 0, player_blue_feet_col_ref = ColliderRef 0 0,
     is_player_blue_grounded = False, player_blue_kick_time = 1, can_player_blue_kick = False,
     blue_score = 0, player_red_col_ref = ColliderRef 0 0, player_red_feet_col_ref = ColliderRef 0 0,
     player_red_kick_time = 1, can_player_red_kick = False, ball_type = kFootball,
     ball_body_ref = BodyRef 0 0, ball_col_ref = ColliderRef 0 0, ball_radius = kBallRadiusMedium,
     red_score = 0, left_goal_col_ref = ColliderRef 0 0, right_goal_col_ref = ColliderRef 0 0,
     player_red_body_ref = BodyRef 0 0, is_player_red_grounded = False, player_nbr = - 1\<rparr>) QuadTree_new"

section \<open>Callbacks\<close>

definition half_width :: f32 where "half_width = f32_of_int kWindowWidth * flit 5 10"
definition half_height :: f32 where "half_height = f32_of_int kWindowHeight * flit 5 10"

definition ball_start :: "f32 vec2" where "ball_start = Vec2 half_width half_height"

definition blue_start :: "f32 vec2" where
  "blue_start = Vec2 (f32_of_int kWindowWidth * flit 33 100) (f32_of_int kWindowHeight * flit 66 100)"

definition red_start :: "f32 vec2" where
  "red_start = Vec2 (f32_of_int kWindowWidth - f32_of_int kWindowWidth * flit 33 100)
                    (f32_of_int kWindowHeight * flit 66 100)"

definition ResetPositions :: "game \<Rightarrow> game res" where
  "ResetPositions g =
     rbind (with_body (ball_body_ref g) (\<lambda>b. b\<lparr>Position := ball_start, Velocity := Zero\<rparr>) g) (\<lambda>g.
     rbind (with_body (player_blue_body_ref g) (\<lambda>b. b\<lparr>Position := blue_start, Velocity := Zero\<rparr>) g) (\<lambda>g.
       with_body (player_red_body_ref g) (\<lambda>b. b\<lparr>Position := red_start, Velocity := Zero\<rparr>) g))"

text \<open>The two references are the given ones, in either order.\<close>

definition between :: "ColliderRef \<Rightarrow> ColliderRef \<Rightarrow> ColliderRef \<Rightarrow> ColliderRef \<Rightarrow> bool" where
  "between a b col1 col2 \<longleftrightarrow> ColliderRef_eq col1 a \<and> ColliderRef_eq col2 b
     \<or> ColliderRef_eq col2 a \<and> ColliderRef_eq col1 b"

definition Game_OnTriggerEnter :: "ColliderRef \<Rightarrow> ColliderRef \<Rightarrow> game \<Rightarrow> game res" where
  "Game_OnTriggerEnter col1 col2 g =
     (let g = (if between (player_blue_feet_col_ref g) (ball_col_ref g) col1 col2
               then g\<lparr>can_player_blue_kick := True\<rparr> else g);
          g = (if between (player_red_feet_col_ref g) (ball_col_ref g) col1 col2
               then g\<lparr>can_player_red_kick := True\<rparr> else g)
      in rbind (if between (left_goal_col_ref g) (ball_col_ref g) col1 col2
                then ResetPositions (g\<lparr>red_score := red_score g + 1\<rparr>) else Inr g) (\<lambda>g.
           if between (right_goal_col_ref g) (ball_col_ref g) col1 col2
           then ResetPositions (g\<lparr>blue_score := blue_score g + 1\<rparr>) else Inr g))"

definition Game_OnTriggerExit :: "ColliderRef \<Rightarrow> ColliderRef \<Rightarrow> game \<Rightarrow> game res" where
  "Game_OnTriggerExit col1 col2 g =
     (let g = (if between (player_blue_feet_col_ref g) (ball_col_ref g) col1 col2
               then g\<lparr>can_player_blue_kick := False\<rparr> else g)
      in Inr (if between (player_red_feet_col_ref g) (ball_col_ref g) col1 col2
              then g\<lparr>can_player_red_kick := False\<rparr> else g))"

definition Game_OnCollisionEnter :: "ColliderRef \<Rightarrow> ColliderRef \<Rightarrow> game \<Rightarrow> game res" where
  "Game_OnCollisionEnter col1 col2 g =
     Inr (if between (player_blue_col_ref g) (ground_col_ref g) col1 col2
          then g\<lparr>is_player_blue_grounded := True\<rparr>
          else if between (player_red_col_ref g) (ground_col_ref g) col1 col2
          then g\<lparr>is_player_red_grounded := True\<rparr>
          else g)"

definition Game_OnCollisionExit :: "ColliderRef \<Rightarrow> ColliderRef \<Rightarrow> game \<Rightarrow> game res" where
  "Game_OnCollisionExit col1 col2 g = Inr g"

definition game_listener :: "unit game_ext listener" where
  "game_listener = \<lparr>OnTriggerEnter = Game_OnTriggerEnter, OnTriggerExit = Game_OnTriggerExit,
     OnCollisionEnter = Game_OnCollisionEnter, OnCollisionExit = Game_OnCollisionExit\<rparr>"

section \<open>One frame\<close>

text \<open>
  The four conditions of \<open>ProcessInput\<close> for one player. They are written twice per player in
  the source, once for each side of the network.
\<close>

definition press :: "bool \<Rightarrow> BodyRef \<Rightarrow> f32 vec2 \<Rightarrow> game \<Rightarrow> game res" where
  "press cond r f g = (if cond then with_body r (ApplyForce f) g else Inr g)"

definition blue_input :: "Input \<Rightarrow> game \<Rightarrow> game res" where
  "blue_input inp g =
     rbind (press (pressed inp kRight) (player_blue_body_ref g) (Vec2 kWalkSpeed 0) g) (\<lambda>g.
     rbind (press (pressed inp kLeft) (player_blue_body_ref g) (Vec2 (- kWalkSpeed) 0) g) (\<lambda>g.
     rbind (if pressed inp kJump \<and> is_player_blue_grounded g
            then rmap (\<lambda>g. g\<lparr>is_player_blue_grounded := False\<rparr>)
                   (with_body (player_blue_body_ref g) (ApplyForce (Vec2 0 kJumpSpeed)) g)
            else Inr g) (\<lambda>g.
       if pressed inp kKick \<and> can_player_blue_kick g \<and> 1 \<le> player_blue_kick_time g
       then rmap (\<lambda>g. g\<lparr>player_blue_kick_time := 0\<rparr>)
              (with_body (ball_body_ref g) (ApplyForce (Vec2 kShootForce (- kShootForce))) g)
       else Inr g)))"

definition red_input :: "Input \<Rightarrow> game \<Rightarrow> game res" where
  "red_input inp g =
     rbind (press (pressed inp kRight) (player_red_body_ref g) (Vec2 kWalkSpeed 0) g) (\<lambda>g.
     rbind (press (pressed inp kLeft) (player_red_body_ref g) (Vec2 (- kWalkSpeed) 0) g) (\<lambda>g.
     rbind (if pressed inp kJump \<and> is_player_red_grounded g
            then rmap (\<lambda>g. g\<lparr>is_player_red_grounded := False\<rparr>)
                   (with_body (player_red_body_ref g) (ApplyForce (Vec2 0 kJumpSpeed)) g)
            else Inr g) (\<lambda>g.
       if pressed inp kKick \<and> can_player_red_kick g \<and> 1 \<le> player_red_kick_time g
       then rmap (\<lambda>g. g\<lparr>player_red_kick_time := 0\<rparr>)
              (with_body (ball_body_ref g) (ApplyForce (Vec2 (- kShootForce) (- kShootForce))) g)
       else Inr g)))"

definition ProcessInput :: "game \<Rightarrow> game res" where
  "ProcessInput g =
     (if player_nbr g = 0
      then rbind (blue_input (input g) g) (\<lambda>g. red_input (other_player_input g) g)
      else rbind (red_input (input g) g) (\<lambda>g. blue_input (other_player_input g) g))"

definition limit_speed :: "f32 body \<Rightarrow> f32 body" where
  "limit_speed b =
     (if kMaxSpeed < X (Velocity b) then b\<lparr>Velocity := Vec2 kMaxSpeed (Y (Velocity b))\<rparr>
      else if X (Velocity b) < - kMaxSpeed then b\<lparr>Velocity := Vec2 (- kMaxSpeed) (Y (Velocity b))\<rparr>
      else b)"

text \<open>Speed limit, gravity, and friction when \<open>slows\<close> (on the ground, neither direction pressed).\<close>

definition player_body_step :: "bool \<Rightarrow> f32 body \<Rightarrow> f32 body" where
  "player_body_step slows b =
     (let b = ApplyForce (Vec2 0 kPlayerGravity) (limit_speed b)
      in if slows then b\<lparr>Velocity := Lerp (Velocity b) Zero (1 div flit 10 1)\<rparr> else b)"

definition idle :: "Input \<Rightarrow> bool" where
  "idle inp \<longleftrightarrow> \<not> pressed inp kRight \<and> \<not> pressed inp kLeft"

definition collider_step :: "ColliderRef \<Rightarrow> game \<Rightarrow> game res" where
  "collider_step r g =
     rbind (GetCollider r g) (\<lambda>col.
       if BodyRef_eq (col_BodyRef col) (ball_body_ref g)
       then with_body (col_BodyRef col) (ApplyForce (Vec2 0 kBallGravity)) g
       else if BodyRef_eq (col_BodyRef col) (player_blue_body_ref g)
       then with_body (col_BodyRef col)
              (player_body_step (idle (if player_nbr g = 0 then input g else other_player_input g)
                 \<and> is_player_blue_grounded g)) g
       else if BodyRef_eq (col_BodyRef col) (player_red_body_ref g)
       then with_body (col_BodyRef col)
              (player_body_step (idle (if player_nbr g = 1 then input g else other_player_input g)
                 \<and> is_player_red_grounded g)) g
       else Inr g)"

definition FixedUpdate :: "game \<Rightarrow> game res" where
  "FixedUpdate g =
     (case state g of
        kMenu \<Rightarrow> Inr g
      | kInGame \<Rightarrow>
          rbind (World_Update game_listener kFixedDeltaTime g) (\<lambda>g.
          rbind (ProcessInput
                   (g\<lparr>player_blue_kick_time := player_blue_kick_time g + kFixedDeltaTime,
                      player_red_kick_time := player_red_kick_time g + kFixedDeltaTime\<rparr>)) (\<lambda>g.
            rfold collider_step (col_refs g) g))
      | kGameFinished \<Rightarrow> Inr g)"

definition Game_Update :: "game \<Rightarrow> game res" where
  "Game_Update g = FixedUpdate g"

section \<open>Setting up, copying, ending\<close>

definition create_body :: "f32 vec2 \<Rightarrow> (f32 body \<Rightarrow> f32 body) \<Rightarrow> game \<Rightarrow> (BodyRef \<times> game) res" where
  "create_body position f g =
     rbind (CreateBody g) (\<lambda>(r, g).
       rmap (Pair r) (with_body r (\<lambda>b. f (b\<lparr>Position := position\<rparr>))
         (g\<lparr>body_refs := body_refs g @ [r]\<rparr>)))"

definition create_collider ::
  "BodyRef \<Rightarrow> (f32 collider \<Rightarrow> f32 collider) \<Rightarrow> game \<Rightarrow> (ColliderRef \<times> game) res" where
  "create_collider r f g =
     rbind (CreateCollider r g) (\<lambda>(c, g).
       rmap (Pair c) (with_collider c f (g\<lparr>col_refs := col_refs g @ [c]\<rparr>)))"

text \<open>Mass, restitution and radius of a ball, from the values before; \<open>kCount\<close> has no case.\<close>

definition ball_settings :: "BallType \<Rightarrow> f32 \<times> f32 \<times> f32 \<Rightarrow> f32 \<times> f32 \<times> f32" where
  "ball_settings t old =
     (case t of
        kFootball \<Rightarrow> (1, flit 15 10, kBallRadiusMedium)
      | kVolleyball \<Rightarrow> (flit 5 10, flit 25 10, kBallRadiusMedium)
      | kBasketball \<Rightarrow> (1, flit 19 10, kBallRadiusLarge)
      | kTennisball \<Rightarrow> (flit 5 10, flit 295 100, kBallRadiusSmall)
      | kBaseball \<Rightarrow> (1, 1, kBallRadiusSmall)
      | kCount \<Rightarrow> old)"

definition CreateBall :: "game \<Rightarrow> game res" where
  "CreateBall g =
     rbind (create_body ball_start id g) (\<lambda>(ballBodyRef, g).
     rbind (create_collider ballBodyRef (\<lambda>c. c\<lparr>BodyPosition := ball_start\<rparr>) g) (\<lambda>(ballColRef, g).
     rbind (GetBody ballBodyRef g) (\<lambda>ballBody. rbind (GetCollider ballColRef g) (\<lambda>ballCol.
       let (mass, restitution, radius) =
             ball_settings (ball_type g) (Mass ballBody, Restitution ballCol, ball_radius g)
       in rbind (with_body ballBodyRef (\<lambda>b. b\<lparr>Mass := mass\<rparr>) g) (\<lambda>g.
            rmap (\<lambda>g. g\<lparr>ball_body_ref := ballBodyRef, ball_radius := radius, ball_col_ref := ballColRef\<rparr>)
              (with_collider ballColRef
                 (\<lambda>c. c\<lparr>Restitution := restitution, Shape := CircleF (Circle Zero radius)\<rparr>) g))))))"

definition create_static :: "f32 vec2 \<Rightarrow> game \<Rightarrow> (BodyRef \<times> game) res" where
  "create_static position = create_body position (\<lambda>b. b\<lparr>Type := STATIC, Mass := 1\<rparr>)"

definition static_rect :: "f32 vec2 \<Rightarrow> f32 vec2 \<Rightarrow> f32 vec2 \<Rightarrow> f32 collider \<Rightarrow> f32 collider" where
  "static_rect lo hi position c =
     c\<lparr>Shape := RectangleF (Rectangle lo hi), BodyPosition := position, Restitution := 0\<rparr>"

definition wall_position :: "nat \<Rightarrow> f32 vec2" where
  "wall_position k =
     (if k = 0 then Vec2 half_width (f32_of_int kWindowHeight - Y kGroundSize)
      else if k = 1 then Vec2 half_width 0
      else if k = 2 then Vec2 0 half_height
      else if k = 3 then Vec2 (f32_of_int kWindowWidth) half_height
      else if k = 4 then Vec2 0 (f32_of_int kWindowHeight - Y kGroundSize - Y kGoalSize)
      else Vec2 (f32_of_int kWindowWidth) (f32_of_int kWindowHeight - Y kGroundSize - Y kGoalSize))"

definition goal_roof :: "f32 vec2 \<Rightarrow> f32 collider \<Rightarrow> f32 collider" where
  "goal_roof = static_rect (Vec2 (- X kGoalSize) 0) (Vec2 (X kGoalSize) (Y kGoalSize div flit 10 1))"

definition goal_trigger :: "f32 vec2 \<Rightarrow> f32 collider \<Rightarrow> f32 collider" where
  "goal_trigger position c =
     static_rect (Vec2 0 0) (Vec2 (X kGoalSize div flit 10 1) (Y kGoalSize)) position (c\<lparr>IsTrigger := True\<rparr>)"

definition CreateTerrain :: "game \<Rightarrow> game res" where
  "CreateTerrain g =
     rbind (create_static (wall_position 0) g) (\<lambda>(groundRef, g).
     rbind (create_collider groundRef
        (static_rect (Vec2 (- f32_of_int kWindowWidth * flit 5 10) 0) (Vec2 half_width (Y kGroundSize))
           (wall_position 0)) g) (\<lambda>(groundColRef, g).
     let g = g\<lparr>ground_col_ref := groundColRef\<rparr> in
     rbind (create_static (wall_position 1) g) (\<lambda>(roofRef, g).
     rbind (create_collider roofRef
        (static_rect (Vec2 (- f32_of_int kWindowWidth * flit 5 10) 0) (Vec2 half_width 0)
           (wall_position 1)) g) (\<lambda>(roofColRef, g).
     rbind (create_static (wall_position 2) g) (\<lambda>(leftWallRef, g).
     rbind (create_collider leftWallRef
        (static_rect (Vec2 0 (- f32_of_int kWindowHeight * flit 5 10)) (Vec2 0 half_height)
           (wall_position 2)) g) (\<lambda>(leftWallColRef, g).
     rbind (create_static (wall_position 3) g) (\<lambda>(rightWallRef, g).
     rbind (create_collider rightWallRef
        (static_rect (Vec2 0 (- f32_of_int kWindowHeight * flit 5 10)) (Vec2 0 half_height)
           (wall_position 3)) g) (\<lambda>(rightWallColRef, g).
     rbind (create_static (wall_position 4) g) (\<lambda>(leftGoalRef, g).
     rbind (create_collider leftGoalRef (goal_roof (wall_position 4)) g) (\<lambda>(leftGoalColRefRoof, g).
     rbind (create_collider leftGoalRef (goal_trigger (wall_position 4)) g) (\<lambda>(leftGoalColRef, g).
     let g = g\<lparr>left_goal_col_ref := leftGoalColRef\<rparr> in
     rbind (create_static (wall_position 5) g) (\<lambda>(rightGoalRef, g).
     rbind (create_collider rightGoalRef (goal_roof (wall_position 5)) g) (\<lambda>(rightGoalColRefRoof, g).
     rbind (create_collider rightGoalRef (goal_trigger (wall_position 5)) g) (\<lambda>(rightGoalColRef, g).
       Inr (g\<lparr>right_goal_col_ref := rightGoalColRef\<rparr>)))))))))))))))"

definition player_shape :: "f32 vec2 \<Rightarrow> f32 collider \<Rightarrow> f32 collider" where
  "player_shape position c =
     c\<lparr>Shape := CircleF (Circle Zero kPlayerRadius), BodyPosition := position, Restitution := 0\<rparr>"

definition feet_shape :: "f32 \<Rightarrow> f32 collider \<Rightarrow> f32 collider" where
  "feet_shape x c =
     c\<lparr>Shape := CircleF (Circle (Vec2 x 0) (kPlayerRadius * flit 5 10)), IsTrigger := True,
       Restitution := 1\<rparr>"

definition CreatePlayers :: "game \<Rightarrow> game res" where
  "CreatePlayers g =
     rbind (create_body blue_start (\<lambda>b. b\<lparr>Mass := 1\<rparr>) g) (\<lambda>(p1BodyRef, g).
     rbind (create_collider p1BodyRef (player_shape blue_start) g) (\<lambda>(p1ColRef, g).
     let g = g\<lparr>player_blue_body_ref := p1BodyRef, player_blue_col_ref := p1ColRef\<rparr> in
     rbind (create_collider p1BodyRef (feet_shape (kPlayerRadius * two)) g) (\<lambda>(p1FeetsColRef, g).
     let g = g\<lparr>player_blue_feet_col_ref := p1FeetsColRef\<rparr> in
     rbind (create_body red_start (\<lambda>b. b\<lparr>Mass := 1\<rparr>) g) (\<lambda>(p2BodyRef, g).
     rbind (create_collider p2BodyRef (player_shape red_start) g) (\<lambda>(p2ColRef, g).
     let g = g\<lparr>player_red_body_ref := p2BodyRef, player_red_col_ref := p2ColRef\<rparr> in
     rbind (create_collider p2BodyRef (feet_shape (- kPlayerRadius * two)) g) (\<lambda>(p2FeetsColRef, g).
       Inr (g\<lparr>player_red_feet_col_ref := p2FeetsColRef\<rparr>)))))))"

definition Game_Setup :: "game \<Rightarrow> game res" where
  "Game_Setup g =
     rbind (CreateBall (SetContactListener True (World_SetUp 100 g))) (\<lambda>g.
     rbind (CreateTerrain g) CreatePlayers)"

definition Game_TearDown :: "game \<Rightarrow> game" where
  "Game_TearDown g = World_TearDown (g\<lparr>player_nbr := - 1, body_refs := [], col_refs := []\<rparr>)"

definition StartGame :: "game \<Rightarrow> game res" where
  "StartGame g = rmap (\<lambda>g. g\<lparr>state := kInGame\<rparr>) (Game_Setup g)"

definition GetState :: "game \<Rightarrow> GameState" where "GetState g = state g"

definition Copy :: "game \<Rightarrow> game \<Rightarrow> game" where
  "Copy g other =
     (let g = g\<lparr>bodies := bodies other, colliders := colliders other, colRefPairs := colRefPairs other,
                contactListener := contactListener other, BodyGenIndices := BodyGenIndices other,
                ColliderGenIndices := ColliderGenIndices other, quadTree := quadTree other\<rparr>;
          g = SetContactListener True g
      in g\<lparr>input := input other, other_player_input := other_player_input other,
           player_blue_kick_time := player_blue_kick_time other,
           player_red_kick_time := player_red_kick_time other,
           can_player_blue_kick := can_player_blue_kick other,
           can_player_red_kick := can_player_red_kick other,
           is_player_blue_grounded := is_player_blue_grounded other,
           is_player_red_grounded := is_player_red_grounded other,
           blue_score := blue_score other, red_score := red_score other\<rparr>)"

definition GetBallRadius :: "game \<Rightarrow> f32" where "GetBallRadius g = ball_radius g"
definition GetBallPosition :: "game \<Rightarrow> f32 vec2 res" where
  "GetBallPosition g = rmap Position (GetBody (ball_body_ref g) g)"
definition GetBallVelocity :: "game \<Rightarrow> f32 vec2 res" where
  "GetBallVelocity g = rmap Velocity (GetBody (ball_body_ref g) g)"
definition GetBallType :: "game \<Rightarrow> BallType" where "GetBallType g = ball_type g"
definition GetPlayerBluePos :: "game \<Rightarrow> f32 vec2 res" where
  "GetPlayerBluePos g = rmap Position (GetBody (player_blue_body_ref g) g)"
definition GetPlayerRedPos :: "game \<Rightarrow> f32 vec2 res" where
  "GetPlayerRedPos g = rmap Position (GetBody (player_red_body_ref g) g)"
definition GetBlueScore :: "game \<Rightarrow> int" where "GetBlueScore g = blue_score g"
definition GetRedScore :: "game \<Rightarrow> int" where "GetRedScore g = red_score g"
definition Game_SetPlayerInput :: "Input \<Rightarrow> game \<Rightarrow> game" where
  "Game_SetPlayerInput inp g = g\<lparr>input := inp\<rparr>"
definition Game_SetOtherPlayerInput :: "Input \<Rightarrow> game \<Rightarrow> game" where
  "Game_SetOtherPlayerInput inp g = g\<lparr>other_player_input := inp\<rparr>"
definition SetBallType :: "BallType \<Rightarrow> game \<Rightarrow> game" where "SetBallType t g = g\<lparr>ball_type := t\<rparr>"
definition EndGame :: "game \<Rightarrow> game" where "EndGame g = g\<lparr>state := kGameFinished\<rparr>"

definition Restart :: "game \<Rightarrow> game" where
  "Restart g = Game_TearDown (g\<lparr>state := kMenu, input := 0, other_player_input := 0,
     blue_score := 0, red_score := 0\<rparr>)"

text \<open>
  The checksum adds the bits of twelve floats read as \<open>int\<close>. The sum of the source overflows
  (a signed overflow, undefined in the language); the word addition is what it compiles to.
\<close>

definition CheckSum :: "game \<Rightarrow> 32 word res" where
  "CheckSum g =
     rbind (GetBody (player_blue_body_ref g) g) (\<lambda>p1. rbind (GetBody (player_red_body_ref g) g) (\<lambda>p2.
     rbind (GetBody (ball_body_ref g) g) (\<lambda>ball.
       Inr (f32_bits (X (Position p1)) + f32_bits (Y (Position p1))
          + f32_bits (X (Velocity p1)) + f32_bits (Y (Velocity p1))
          + f32_bits (X (Position p2)) + f32_bits (Y (Position p2))
          + f32_bits (X (Velocity p2)) + f32_bits (Y (Velocity p2))
          + f32_bits (X (Position ball)) + f32_bits (Y (Position ball))
          + f32_bits (X (Velocity ball)) + f32_bits (Y (Velocity ball))))))"

end
