(* ===== verification/Game_Safety.thy ===== *)
theory Game_Safety
  imports Game
begin

text \<open>
  The game as a client of the world: its callbacks meet the world's contract, so that a frame of
  the game always returns and keeps the game ready for the next one.
\<close>

section \<open>The callbacks meet the contract\<close>

text \<open>The game's body references are valid and none of them is a wall.\<close>

definition actor :: "game \<Rightarrow> BodyRef \<Rightarrow> bool" where
  "actor g r \<longleftrightarrow> valid_body g r \<and> Type (bodies g ! body_Index r) \<noteq> STATIC"

definition game_ok :: "game \<Rightarrow> bool" where
  "game_ok g \<longleftrightarrow> actor g (ball_body_ref g) \<and> actor g (player_blue_body_ref g)
     \<and> actor g (player_red_body_ref g)"

lemma actor_frame: "frame g h \<Longrightarrow> actor h r = actor g r"
  using frame_body [of g h "body_Index r"] frame_valid_body [of g h r]
  by (cases "body_Index r < length (bodies g)")
    (auto simp: actor_def steady_def, auto simp: valid_body_def)

lemma same_more:
  assumes "world.more g = world.more (h :: game)"
  shows "ball_body_ref g = ball_body_ref h" "player_blue_body_ref g = player_blue_body_ref h"
    "player_red_body_ref g = player_red_body_ref h" "col_refs g = col_refs h"
  using assms by (cases g; cases h; simp)+

lemma game_ok_motion: "game_ok g \<Longrightarrow> frame g h \<Longrightarrow> world.more h = world.more g \<Longrightarrow> game_ok h"
  by (simp add: game_ok_def actor_frame same_more [of h g])

text \<open>Changing one non-static body without touching its type or mass is motion.\<close>

lemma with_body_frame:
  assumes "actor g r" "\<And>b. Type (f b) = Type b \<and> Mass (f b) = Mass b"
  shows "\<exists>h. with_body r f g = Inr h \<and> frame g h \<and> world.more h = world.more g
    \<and> colRefPairs h = colRefPairs g \<and> colliders h = colliders g \<and> quadTree h = quadTree g"
proof -
  let ?h = "g\<lparr>bodies := (bodies g)[body_Index r := f (bodies g ! body_Index r)]\<rparr>"
  have "with_body r f g = Inr ?h" using assms(1) by (simp add: actor_def)
  moreover have "frame g ?h"
    using assms by (auto simp: frame_def list_all2_conv_all_nth nth_list_update steady_def actor_def
        valid_body_def)
  ultimately show ?thesis by simp
qed

lemma with_body_actor:
  assumes "game_ok g" "r \<in> {ball_body_ref g, player_blue_body_ref g, player_red_body_ref g}"
    and "\<And>b. Type (f b) = Type b \<and> Mass (f b) = Mass b"
  shows "\<exists>h. with_body r f g = Inr h \<and> frame g h \<and> game_ok h \<and> world.more h = world.more g
    \<and> colRefPairs h = colRefPairs g \<and> colliders h = colliders g \<and> quadTree h = quadTree g"
proof -
  have "actor g r" using assms(1,2) by (auto simp: game_ok_def)
  from with_body_frame [OF this assms(3)] game_ok_motion [OF assms(1)] show ?thesis by blast
qed

lemma ResetPositions_ok:
  assumes "game_ok g"
  shows "\<exists>h. ResetPositions g = Inr h \<and> frame g h \<and> game_ok h \<and> colRefPairs h = colRefPairs g
    \<and> colliders h = colliders g \<and> quadTree h = quadTree g \<and> world.more h = world.more g"
proof -
  let ?f = "\<lambda>p b. b\<lparr>Position := p, Velocity := Zero\<rparr> :: f32 body"
  obtain g1 where 1: "with_body (ball_body_ref g) (?f ball_start) g = Inr g1" "frame g g1" "game_ok g1"
    "world.more g1 = world.more g" "colRefPairs g1 = colRefPairs g" "colliders g1 = colliders g"
    "quadTree g1 = quadTree g"
    using with_body_actor [OF assms, of "ball_body_ref g" "?f ball_start"] by auto
  obtain g2 where 2: "with_body (player_blue_body_ref g1) (?f blue_start) g1 = Inr g2" "frame g1 g2"
    "game_ok g2" "world.more g2 = world.more g1" "colRefPairs g2 = colRefPairs g1"
    "colliders g2 = colliders g1" "quadTree g2 = quadTree g1"
    using with_body_actor [OF 1(3), of "player_blue_body_ref g1" "?f blue_start"] by auto
  obtain g3 where 3: "with_body (player_red_body_ref g2) (?f red_start) g2 = Inr g3" "frame g2 g3"
    "game_ok g3" "world.more g3 = world.more g2" "colRefPairs g3 = colRefPairs g2"
    "colliders g3 = colliders g2" "quadTree g3 = quadTree g2"
    using with_body_actor [OF 2(3), of "player_red_body_ref g2" "?f red_start"] by auto
  have "frame g g3" using frame_trans [OF 1(2) frame_trans [OF 2(2) 3(2)]] .
  then show ?thesis using 1 2 3 by (simp add: ResetPositions_def)
qed

text \<open>A change of flags or scores is invisible to the world.\<close>

lemma frame_more:
  assumes "bodies h = bodies g" "colliders h = colliders g" "BodyGenIndices h = BodyGenIndices g"
    "ColliderGenIndices h = ColliderGenIndices g" "contactListener h = contactListener g"
  shows "frame g h"
  using assms by (simp add: frame_def list_all2_refl)

lemma frame_of_updates [simp]:
  "frame w (g\<lparr>can_player_blue_kick := b\<rparr>) = frame w g" "frame w (g\<lparr>can_player_red_kick := b\<rparr>) = frame w g"
  "frame w (g\<lparr>red_score := s\<rparr>) = frame w g" "frame w (g\<lparr>blue_score := s\<rparr>) = frame w g"
  "frame w (g\<lparr>is_player_blue_grounded := b\<rparr>) = frame w g"
  "frame w (g\<lparr>is_player_red_grounded := b\<rparr>) = frame w g"
  "frame w (g\<lparr>player_blue_kick_time := t\<rparr>) = frame w g"
  "frame w (g\<lparr>player_red_kick_time := t\<rparr>) = frame w g"
  "frame w (g\<lparr>input := i\<rparr>) = frame w g" "frame w (g\<lparr>other_player_input := i\<rparr>) = frame w g"
  for w :: game
  by (simp_all add: frame_def)

lemma game_ok_updates [simp]:
  "game_ok (g\<lparr>can_player_blue_kick := b\<rparr>) = game_ok g" "game_ok (g\<lparr>can_player_red_kick := b\<rparr>) = game_ok g"
  "game_ok (g\<lparr>red_score := s\<rparr>) = game_ok g" "game_ok (g\<lparr>blue_score := s\<rparr>) = game_ok g"
  "game_ok (g\<lparr>is_player_blue_grounded := b\<rparr>) = game_ok g"
  "game_ok (g\<lparr>is_player_red_grounded := b\<rparr>) = game_ok g"
  "game_ok (g\<lparr>player_blue_kick_time := t\<rparr>) = game_ok g"
  "game_ok (g\<lparr>player_red_kick_time := t\<rparr>) = game_ok g"
  "game_ok (g\<lparr>input := i\<rparr>) = game_ok g" "game_ok (g\<lparr>other_player_input := i\<rparr>) = game_ok g"
  by (simp_all add: game_ok_def actor_def valid_body_def)

lemma trigger_enter_ok: "event_ok game_ok (Game_OnTriggerEnter a b)"
  unfolding event_ok_def
proof (intro allI impI)
  fix g assume "game_ok g"
  define g0 where "g0 = (let g = (if between (player_blue_feet_col_ref g) (ball_col_ref g) a b
               then g\<lparr>can_player_blue_kick := True\<rparr> else g)
      in (if between (player_red_feet_col_ref g) (ball_col_ref g) a b
               then g\<lparr>can_player_red_kick := True\<rparr> else g))"
  have g0: "frame g g0 \<and> game_ok g0 \<and> colRefPairs g0 = colRefPairs g \<and> colliders g0 = colliders g
      \<and> quadTree g0 = quadTree g"
    using \<open>game_ok g\<close> by (simp add: g0_def)
  define goal where "goal c g u = (if c then ResetPositions (u g) else Inr g)" for c g and u :: "game \<Rightarrow> game"
  have goal: "\<exists>h. goal c g0 u = Inr h \<and> frame g h \<and> game_ok h \<and> colRefPairs h = colRefPairs g
      \<and> colliders h = colliders g \<and> quadTree h = quadTree g"
    if "frame g g0 \<and> game_ok g0 \<and> colRefPairs g0 = colRefPairs g \<and> colliders g0 = colliders g
      \<and> quadTree g0 = quadTree g"
      "u = (\<lambda>g. g\<lparr>red_score := red_score g + 1\<rparr>) \<or> u = (\<lambda>g. g\<lparr>blue_score := blue_score g + 1\<rparr>)"
    for c g0 u
  proof (cases c)
    case True
    have "game_ok (u g0)" "frame g (u g0)" "colRefPairs (u g0) = colRefPairs g"
      "colliders (u g0) = colliders g" "quadTree (u g0) = quadTree g" using that by auto
    with ResetPositions_ok [of "u g0"] True show ?thesis
      by (auto simp: goal_def intro: frame_trans)
  next
    case False
    with that show ?thesis by (auto simp: goal_def)
  qed
  obtain g1 where g1: "goal (between (left_goal_col_ref g0) (ball_col_ref g0) a b) g0
        (\<lambda>g. g\<lparr>red_score := red_score g + 1\<rparr>) = Inr g1"
    "frame g g1 \<and> game_ok g1 \<and> colRefPairs g1 = colRefPairs g \<and> colliders g1 = colliders g
      \<and> quadTree g1 = quadTree g"
    using goal [OF g0, of "\<lambda>g. g\<lparr>red_score := red_score g + 1\<rparr>"] by blast
  obtain g2 where g2: "goal (between (right_goal_col_ref g1) (ball_col_ref g1) a b) g1
        (\<lambda>g. g\<lparr>blue_score := blue_score g + 1\<rparr>) = Inr g2"
    "frame g g2 \<and> game_ok g2 \<and> colRefPairs g2 = colRefPairs g \<and> colliders g2 = colliders g
      \<and> quadTree g2 = quadTree g"
    using goal [OF g1(2), of "\<lambda>g. g\<lparr>blue_score := blue_score g + 1\<rparr>"] by blast
  have "Game_OnTriggerEnter a b g = Inr g2"
    unfolding Game_OnTriggerEnter_def Let_def
    using g1(1) g2(1) by (simp add: goal_def g0_def Let_def)
  then show "\<exists>w'. Game_OnTriggerEnter a b g = Inr w' \<and> frame g w' \<and> game_ok w'
      \<and> colRefPairs w' = colRefPairs g \<and> colliders w' = colliders g \<and> quadTree w' = quadTree g"
    using g2(2) by blast
qed

interpretation client: contact_client game_listener game_ok
proof unfold_locales
  show "game_ok w \<Longrightarrow> frame w w' \<Longrightarrow> world.more w' = world.more w \<Longrightarrow> game_ok w'" for w w'
    by (rule game_ok_motion)
  show "event_ok game_ok (OnTriggerEnter game_listener a b)" for a b
    using trigger_enter_ok by (simp add: game_listener_def)
  show "event_ok game_ok (OnTriggerExit game_listener a b)" for a b
    by (auto simp: game_listener_def event_ok_def Game_OnTriggerExit_def Let_def)
  show "event_ok game_ok (OnCollisionEnter game_listener a b)" for a b
    by (auto simp: game_listener_def event_ok_def Game_OnCollisionEnter_def)
  show "event_ok game_ok (OnCollisionExit game_listener a b)" for a b
    by (auto simp: game_listener_def event_ok_def Game_OnCollisionExit_def)
qed


section \<open>What no update of the world changes\<close>

text \<open>The configuration of a match: everything but the world, the flags, the clocks and the scores.\<close>

definition config :: "game \<Rightarrow> (GameState \<times> Input \<times> Input \<times> BodyRef list \<times> ColliderRef list)
    \<times> (BodyRef \<times> BodyRef \<times> BodyRef) \<times> ColliderRef list \<times> BallType \<times> f32 \<times> int" where
  "config g = ((state g, input g, other_player_input g, body_refs g, col_refs g),
     (ball_body_ref g, player_blue_body_ref g, player_red_body_ref g),
     [ground_col_ref g, ball_col_ref g, player_blue_col_ref g, player_blue_feet_col_ref g,
      player_red_col_ref g, player_red_feet_col_ref g, left_goal_col_ref g, right_goal_col_ref g],
     ball_type g, ball_radius g, player_nbr g)"

lemma config_more: "world.more g = world.more h \<Longrightarrow> config g = config h"
  by (cases g; cases h; simp add: config_def)

lemma config_updates [simp]:
  "config (g\<lparr>can_player_blue_kick := b\<rparr>) = config g" "config (g\<lparr>can_player_red_kick := b\<rparr>) = config g"
  "config (g\<lparr>red_score := s\<rparr>) = config g" "config (g\<lparr>blue_score := s\<rparr>) = config g"
  "config (g\<lparr>is_player_blue_grounded := b\<rparr>) = config g"
  "config (g\<lparr>is_player_red_grounded := b\<rparr>) = config g"
  "config (g\<lparr>player_blue_kick_time := t\<rparr>) = config g"
  "config (g\<lparr>player_red_kick_time := t\<rparr>) = config g"
  "config (g\<lparr>bodies := bs\<rparr>) = config g" "config (g\<lparr>colRefPairs := ps\<rparr>) = config g"
  by (simp_all add: config_def)

lemma with_body_config: "with_body r f g = Inr h \<Longrightarrow> config h = config g"
  by (auto simp: with_body_def rbind_eq_Inr)

lemma ResetPositions_config: "ResetPositions g = Inr h \<Longrightarrow> config h = config g"
  by (auto simp: ResetPositions_def rbind_eq_Inr dest!: with_body_config)

lemma callbacks_config:
  "Game_OnTriggerEnter a b g = Inr h \<Longrightarrow> config h = config g"
  "Game_OnTriggerExit a b g = Inr h \<Longrightarrow> config h = config g"
  "Game_OnCollisionEnter a b g = Inr h \<Longrightarrow> config h = config g"
  "Game_OnCollisionExit a b g = Inr h \<Longrightarrow> config h = config g"
  by (auto simp: Game_OnTriggerEnter_def Game_OnTriggerExit_def Game_OnCollisionEnter_def
      Game_OnCollisionExit_def Let_def rbind_eq_Inr dest!: ResetPositions_config split: if_splits)

lemma resolve_bodies_config: "resolve_bodies c1 c2 g = Inr h \<Longrightarrow> config h = config g"
  by (drule resolve_bodies_kept, rule config_more) (simp add: kept_def)

lemma process_pair_config:
  assumes "process_pair game_listener r1 r2 g = Inr h"
  shows "config h = config g"
  using assms
  by (auto simp: process_pair_def game_listener_def notify_def Let_def rbind_eq_Inr
      dest!: callbacks_config resolve_bodies_config split: if_splits)

lemma World_Update_config: "World_Update game_listener dt g = Inr h \<Longrightarrow> config h = config g"
  by (rule World_Update_inv [where P = "\<lambda>h. config h = config g"])
    (auto simp: kept_def dest: process_pair_config config_more)

section \<open>A frame of the game\<close>

definition calm :: "game \<Rightarrow> game \<Rightarrow> bool" where
  "calm g h \<longleftrightarrow> frame g h \<and> game_ok h \<and> quadTree h = quadTree g \<and> col_refs h = col_refs g
     \<and> colliders h = colliders g"

lemma calm_trans: "calm f g \<Longrightarrow> calm g h \<Longrightarrow> calm f h"
  by (auto simp: calm_def intro: frame_trans)

lemma calm_refl: "game_ok g \<Longrightarrow> calm g g"
  by (simp add: calm_def)

lemma calm_ok: "calm g h \<Longrightarrow> game_ok h"
  by (simp add: calm_def)

text \<open>Sequencing two calm steps.\<close>

lemma calm_rbind:
  assumes "\<exists>h. m = Inr h \<and> calm g h" "\<And>h. calm g h \<Longrightarrow> \<exists>k. f h = Inr k \<and> calm h k"
  shows "\<exists>k. rbind m f = Inr k \<and> calm g k"
  using assms calm_trans by fastforce

lemma calm_body:
  assumes "game_ok g" "r \<in> {ball_body_ref g, player_blue_body_ref g, player_red_body_ref g}"
    and "\<And>b. Type (f b) = Type b \<and> Mass (f b) = Mass b"
  shows "\<exists>h. with_body r f g = Inr h \<and> calm g h"
  using with_body_actor [OF assms] by (auto simp: calm_def dest: same_more(4))

lemma calm_map:
  assumes "\<exists>h. m = Inr h \<and> calm g h" "\<And>h. game_ok h \<Longrightarrow> calm h (u h)"
  shows "\<exists>h. rmap u m = Inr h \<and> calm g h"
  using assms calm_trans calm_ok by fastforce

lemma ApplyForce_keeps [simp]: "Type (ApplyForce f b) = Type b" "Mass (ApplyForce f b) = Mass b"
  by (simp_all add: ApplyForce_def)

lemma player_body_step_keeps [simp]:
  "Type (player_body_step s b) = Type b" "Mass (player_body_step s b) = Mass b"
  by (simp_all add: player_body_step_def limit_speed_def Let_def)

lemma calm_flags [simp]:
  assumes "game_ok h"
  shows "calm h (h\<lparr>is_player_blue_grounded := b\<rparr>)" "calm h (h\<lparr>is_player_red_grounded := b\<rparr>)"
    "calm h (h\<lparr>player_blue_kick_time := t\<rparr>)" "calm h (h\<lparr>player_red_kick_time := t\<rparr>)"
  using assms by (simp_all add: calm_def)

lemma press_calm:
  assumes "game_ok g" "r \<in> {ball_body_ref g, player_blue_body_ref g, player_red_body_ref g}"
  shows "\<exists>h. press c r f g = Inr h \<and> calm g h"
  using calm_body [OF assms, of "ApplyForce f"] calm_refl [OF assms(1)] by (simp add: press_def)

lemma act_calm:
  assumes "game_ok g" "r \<in> {ball_body_ref g, player_blue_body_ref g, player_red_body_ref g}"
    and "\<And>h. game_ok h \<Longrightarrow> calm h (u h)"
  shows "\<exists>h. (if c then rmap u (with_body r (ApplyForce f) g) else Inr g) = Inr h \<and> calm g h"
  using calm_map [OF calm_body [OF assms(1,2), of "ApplyForce f"] assms(3)] calm_refl [OF assms(1)]
  by simp

lemma blue_input_calm:
  assumes "game_ok g"
  shows "\<exists>h. blue_input inp g = Inr h \<and> calm g h"
  unfolding blue_input_def
proof (intro calm_rbind)
  show "\<exists>h. press (pressed inp kRight) (player_blue_body_ref g) (Vec2 kWalkSpeed 0) g = Inr h \<and> calm g h"
    by (rule press_calm) (simp_all add: assms)
qed ((rule press_calm act_calm; simp add: calm_ok)+)

lemma red_input_calm:
  assumes "game_ok g"
  shows "\<exists>h. red_input inp g = Inr h \<and> calm g h"
  unfolding red_input_def
proof (intro calm_rbind)
  show "\<exists>h. press (pressed inp kRight) (player_red_body_ref g) (Vec2 kWalkSpeed 0) g = Inr h \<and> calm g h"
    by (rule press_calm) (simp_all add: assms)
qed ((rule press_calm act_calm; simp add: calm_ok)+)

lemma ProcessInput_calm:
  assumes "game_ok g"
  shows "\<exists>h. ProcessInput g = Inr h \<and> calm g h"
proof (cases "player_nbr g = 0")
  case True
  then show ?thesis unfolding ProcessInput_def if_P [OF True]
    by (intro calm_rbind blue_input_calm red_input_calm) (simp_all add: assms calm_ok)
next
  case False
  then show ?thesis unfolding ProcessInput_def if_not_P [OF False]
    by (intro calm_rbind blue_input_calm red_input_calm) (simp_all add: assms calm_ok)
qed

lemma collider_step_calm:
  assumes "game_ok g" "valid_collider g r"
  shows "\<exists>h. collider_step r g = Inr h \<and> calm g h"
  using assms by (auto simp: collider_step_def intro!: calm_body calm_refl)

lemma collider_steps_calm:
  assumes "game_ok g" "\<forall>r \<in> set rs. valid_collider g r"
  shows "\<exists>h. rfold collider_step rs g = Inr h \<and> calm g h"
proof (rule rfold_total)
  show "calm g g" by (rule calm_refl) fact
next
  fix r h assume "r \<in> set rs" "calm g h"
  moreover from this have "valid_collider h r"
    using assms(2) frame_valid_collider by (auto simp: calm_def)
  ultimately show "\<exists>k. collider_step r h = Inr k \<and> calm g k"
    using collider_step_calm [of h r] calm_trans calm_ok by blast
qed

text \<open>The state every frame starts and ends in.\<close>

definition ready :: "game \<Rightarrow> bool" where
  "ready g \<longleftrightarrow> safe g \<and> game_ok g \<and> wf_tree (quadTree g)
     \<and> (\<forall>r \<in> set (col_refs g). valid_collider g r)"

lemma ready_calm: "ready g \<Longrightarrow> calm g h \<Longrightarrow> ready h"
  by (auto simp: ready_def calm_def frame_valid_collider intro: frame_safe)

lemma FixedUpdate_ready:
  assumes "ready g"
  shows "\<exists>h. FixedUpdate g = Inr h \<and> ready h \<and> frame g h"
proof (cases "state g")
  case kInGame
  obtain g1 where 1: "World_Update game_listener kFixedDeltaTime g = Inr g1" "client.live g g1"
    "wf_tree (quadTree g1)"
    using client.World_Update_live [of g kFixedDeltaTime] assms by (auto simp: ready_def)
  have live: "frame g g1" "safe g1" "game_ok g1" using 1(2) by (simp_all add: client.live_def)
  have refs: "col_refs g1 = col_refs g"
    using World_Update_config [OF 1(1)] by (simp add: config_def)
  let ?g2 = "g1\<lparr>player_blue_kick_time := player_blue_kick_time g1 + kFixedDeltaTime,
                player_red_kick_time := player_red_kick_time g1 + kFixedDeltaTime\<rparr>"
  have 2: "game_ok ?g2" "frame g ?g2" "safe ?g2" using live frame_safe [of g ?g2] assms
    by (simp_all add: ready_def)
  obtain g3 where 3: "ProcessInput ?g2 = Inr g3" "calm ?g2 g3"
    using ProcessInput_calm [OF 2(1)] by blast
  have r3: "ready g3"
    by (rule ready_calm [OF _ 3(2)])
      (use 2 1(3) assms refs frame_valid_collider [OF 2(2)] in \<open>simp add: ready_def\<close>)
  then have "game_ok g3" "\<forall>r \<in> set (col_refs g3). valid_collider g3 r" by (simp_all add: ready_def)
  from collider_steps_calm [OF this]
  obtain g4 where 4: "rfold collider_step (col_refs g3) g3 = Inr g4" "calm g3 g4" by blast
  have "frame g g4"
  proof -
    have "frame ?g2 g3" "frame g3 g4" using 3(2) 4(2) by (simp_all only: calm_def)
    then show ?thesis by (intro frame_trans [OF frame_trans [OF 2(2)]])
  qed
  moreover have "ready g4" by (rule ready_calm [OF r3 4(2)])
  ultimately show ?thesis using kInGame 1(1) 3(1) 4(1) by (simp add: FixedUpdate_def)
qed (use assms in \<open>auto simp: FixedUpdate_def\<close>)

end
