(* ===== verification/Kickoff.thy ===== *)
theory Kickoff
  imports Game_Safety
begin

text \<open>
  \<open>Game::StartGame\<close> on a game whose world is empty (a new game, or one after \<open>Restart\<close>): the
  nine bodies and thirteen colliders it creates, in order, and that the game is then ready.
\<close>

section \<open>Filling the slots in order\<close>

text \<open>The first slots hold \<open>bs\<close> and \<open>cs\<close>, all in use; the rest of the hundred are fresh.\<close>

definition laid :: "game \<Rightarrow> f32 body list \<Rightarrow> f32 collider list \<Rightarrow> bool" where
  "laid g bs cs \<longleftrightarrow> length bs \<le> 100 \<and> length cs \<le> 100
     \<and> bodies g = bs @ replicate (100 - length bs) Body \<and> BodyGenIndices g = replicate 100 0
     \<and> colliders g = cs @ replicate (100 - length cs) Collider \<and> ColliderGenIndices g = replicate 100 0
     \<and> body_refs g = map (\<lambda>i. BodyRef i 0) [0..<length bs]
     \<and> col_refs g = map (\<lambda>i. ColliderRef i 0) [0..<length cs]
     \<and> list_all IsEnabled bs \<and> list_all IsAttached cs"

text \<open>The fields that the slots do not show.\<close>

definition rest :: "game \<Rightarrow> game" where
  "rest g = g\<lparr>bodies := [], colliders := [], BodyGenIndices := [], ColliderGenIndices := [],
     body_refs := [], col_refs := []\<rparr>"

lemma laid_updates [simp]:
  "laid (g\<lparr>ground_col_ref := c\<rparr>) = laid g" "laid (g\<lparr>left_goal_col_ref := c\<rparr>) = laid g"
  "laid (g\<lparr>right_goal_col_ref := c\<rparr>) = laid g" "laid (g\<lparr>ball_body_ref := b\<rparr>) = laid g"
  "laid (g\<lparr>ball_col_ref := c\<rparr>) = laid g" "laid (g\<lparr>ball_radius := r\<rparr>) = laid g"
  "laid (g\<lparr>player_blue_body_ref := b\<rparr>) = laid g" "laid (g\<lparr>player_blue_col_ref := c\<rparr>) = laid g"
  "laid (g\<lparr>player_blue_feet_col_ref := c\<rparr>) = laid g" "laid (g\<lparr>player_red_body_ref := b\<rparr>) = laid g"
  "laid (g\<lparr>player_red_col_ref := c\<rparr>) = laid g" "laid (g\<lparr>player_red_feet_col_ref := c\<rparr>) = laid g"
  "laid (g\<lparr>state := s\<rparr>) = laid g" "laid (g\<lparr>contactListener := l\<rparr>) = laid g"
  by (intro ext; simp add: laid_def)+

lemma rest_updates [simp]:
  "rest (g\<lparr>ground_col_ref := c\<rparr>) = (rest g)\<lparr>ground_col_ref := c\<rparr>"
  "rest (g\<lparr>left_goal_col_ref := c\<rparr>) = (rest g)\<lparr>left_goal_col_ref := c\<rparr>"
  "rest (g\<lparr>right_goal_col_ref := c\<rparr>) = (rest g)\<lparr>right_goal_col_ref := c\<rparr>"
  "rest (g\<lparr>ball_body_ref := b\<rparr>) = (rest g)\<lparr>ball_body_ref := b\<rparr>"
  "rest (g\<lparr>ball_col_ref := c\<rparr>) = (rest g)\<lparr>ball_col_ref := c\<rparr>"
  "rest (g\<lparr>ball_radius := r\<rparr>) = (rest g)\<lparr>ball_radius := r\<rparr>"
  "rest (g\<lparr>player_blue_body_ref := b\<rparr>) = (rest g)\<lparr>player_blue_body_ref := b\<rparr>"
  "rest (g\<lparr>player_blue_col_ref := c\<rparr>) = (rest g)\<lparr>player_blue_col_ref := c\<rparr>"
  "rest (g\<lparr>player_blue_feet_col_ref := c\<rparr>) = (rest g)\<lparr>player_blue_feet_col_ref := c\<rparr>"
  "rest (g\<lparr>player_red_body_ref := b\<rparr>) = (rest g)\<lparr>player_red_body_ref := b\<rparr>"
  "rest (g\<lparr>player_red_col_ref := c\<rparr>) = (rest g)\<lparr>player_red_col_ref := c\<rparr>"
  "rest (g\<lparr>player_red_feet_col_ref := c\<rparr>) = (rest g)\<lparr>player_red_feet_col_ref := c\<rparr>"
  "rest (g\<lparr>state := s\<rparr>) = (rest g)\<lparr>state := s\<rparr>"
  "rest (g\<lparr>contactListener := l\<rparr>) = (rest g)\<lparr>contactListener := l\<rparr>"
  by (simp_all add: rest_def)

lemma replicate_step: "0 < n \<Longrightarrow> replicate n x = x # replicate (n - 1) x"
  by (cases n) auto

lemma create_body_laid:
  assumes "laid g bs cs" "length bs < 100"
    and "IsEnabled (f ((Enable Body)\<lparr>Position := p\<rparr>))"
  shows "\<exists>h. create_body p f g = Inr (BodyRef (length bs) 0, h)
    \<and> laid h (bs @ [f ((Enable Body)\<lparr>Position := p\<rparr>)]) cs \<and> rest h = rest g"
proof -
  let ?k = "length bs" and ?b = "f ((Enable Body)\<lparr>Position := p\<rparr>)"
  have bodies: "bodies g = bs @ Body # replicate (99 - ?k) Body"
    using assms(1,2) replicate_step [of "100 - ?k" Body] by (simp add: laid_def)
  have "find_if (\<lambda>b. \<not> IsEnabled b) (bodies g) = ?k"
  proof -
    have "\<forall>b \<in> set bs. IsEnabled b" using assms(1) by (simp add: laid_def list_all_iff)
    then show ?thesis unfolding bodies by (auto simp: find_if_append)
  qed
  moreover have sl: "slots g" "?k < length (bodies g)" "BodyGenIndices g ! ?k = 0"
    using assms(1,2) by (auto simp: slots_def laid_def)
  ultimately have "CreateBody g = Inr (BodyRef ?k 0, g\<lparr>bodies := (bodies g)[?k := Enable (bodies g ! ?k)]\<rparr>)"
    using CreateBody_free by metis
  then have cr: "CreateBody g = Inr (BodyRef ?k 0, g\<lparr>bodies := bs @ Enable Body # replicate (99 - ?k) Body\<rparr>)"
    by (simp add: bodies)
  let ?h = "g\<lparr>body_refs := body_refs g @ [BodyRef ?k 0], bodies := bs @ ?b # replicate (99 - ?k) Body\<rparr>"
  have "create_body p f g = Inr (BodyRef ?k 0, ?h)"
    using assms(1,2) by (simp add: create_body_def cr valid_body_def laid_def)
  moreover have "laid ?h (bs @ [?b]) cs" using assms by (simp add: laid_def)
  moreover have "rest ?h = rest g" by (simp add: rest_def)
  ultimately show ?thesis by blast
qed

definition attached_to :: "BodyRef \<Rightarrow> f32 collider" where
  "attached_to r = Collider\<lparr>IsAttached := True, col_BodyRef := r\<rparr>"

lemma create_collider_laid:
  assumes "laid g bs cs" "length cs < 100" "IsAttached (f (attached_to r))"
  shows "\<exists>h. create_collider r f g = Inr (ColliderRef (length cs) 0, h)
    \<and> laid h bs (cs @ [f (attached_to r)]) \<and> rest h = rest g"
proof -
  let ?k = "length cs" and ?c = "f (attached_to r)"
  have cols: "colliders g = cs @ Collider # replicate (99 - ?k) Collider"
    using assms(1,2) replicate_step [of "100 - ?k" Collider] by (simp add: laid_def)
  have "find_if (\<lambda>c. \<not> IsAttached c) (colliders g) = ?k"
  proof -
    have "\<forall>c \<in> set cs. IsAttached c" using assms(1) by (simp add: laid_def list_all_iff)
    then show ?thesis unfolding cols by (auto simp: find_if_append Collider_def)
  qed
  moreover have sl: "slots g" "?k < length (colliders g)" "ColliderGenIndices g ! ?k = 0"
    using assms(1,2) by (auto simp: slots_def laid_def)
  ultimately have "CreateCollider r g = Inr (ColliderRef ?k 0,
      g\<lparr>colliders := (colliders g)[?k := (colliders g ! ?k)\<lparr>IsAttached := True, col_BodyRef := r\<rparr>]\<rparr>)"
    using CreateCollider_free by metis
  then have cr: "CreateCollider r g = Inr (ColliderRef ?k 0,
      g\<lparr>colliders := cs @ attached_to r # replicate (99 - ?k) Collider\<rparr>)"
    by (simp add: cols attached_to_def)
  let ?h = "g\<lparr>col_refs := col_refs g @ [ColliderRef ?k 0], colliders := cs @ ?c # replicate (99 - ?k) Collider\<rparr>"
  have "create_collider r f g = Inr (ColliderRef ?k 0, ?h)"
    using assms(1,2) by (simp add: create_collider_def cr valid_collider_def laid_def)
  moreover have "laid ?h bs (cs @ [?c])" using assms by (simp add: laid_def)
  moreover have "rest ?h = rest g" by (simp add: rest_def)
  ultimately show ?thesis by blast
qed

section \<open>The pieces of the match\<close>

definition ball_piece :: "BallType \<Rightarrow> f32 \<Rightarrow> f32 body \<times> f32 collider \<times> f32" where
  "ball_piece t radius0 =
     (let (mass, restitution, radius) = ball_settings t (1, 1, radius0)
      in (Body\<lparr>Position := ball_start, Mass := mass\<rparr>,
          (attached_to (BodyRef 0 0))\<lparr>BodyPosition := ball_start, Restitution := restitution,
             Shape := CircleF (Circle Zero radius)\<rparr>,
          radius))"

definition wall_body :: "nat \<Rightarrow> f32 body" where
  "wall_body k = Body\<lparr>Position := wall_position k, Type := STATIC, Mass := 1\<rparr>"

definition player_body :: "f32 vec2 \<Rightarrow> f32 body" where
  "player_body p = Body\<lparr>Position := p, Mass := 1\<rparr>"

lemma enabled_one [simp]: "IsEnabled (b\<lparr>Mass := 1\<rparr> :: f32 body)" "IsEnabled (Enable Body\<lparr>Position := p\<rparr> :: f32 body)"
  by (simp_all add: IsEnabled_def Enable_def f32_eval)

lemma ball_mass: "fst (ball_settings t (1, r, d)) \<in> {1, flit 5 10}"
  by (cases t) (simp_all add: ball_settings_def)

lemma CreateBall_laid:
  assumes "laid g [] []"
  shows "\<exists>h. CreateBall g = Inr h \<and> (\<exists>b c r. ball_piece (ball_type g) (ball_radius g) = (b, c, r)
    \<and> laid h [b] [c]
    \<and> rest h = (rest g)\<lparr>ball_body_ref := BodyRef 0 0, ball_col_ref := ColliderRef 0 0, ball_radius := r\<rparr>)"
proof -
  obtain g1 where g1: "create_body ball_start id g = Inr (BodyRef 0 0, g1)"
    "laid g1 [Enable Body\<lparr>Position := ball_start\<rparr>] []" "rest g1 = rest g"
    using create_body_laid [OF assms, of id ball_start] by auto
  let ?c = "(attached_to (BodyRef 0 0))\<lparr>BodyPosition := ball_start\<rparr>"
  obtain g2 where g2: "create_collider (BodyRef 0 0) (\<lambda>c. c\<lparr>BodyPosition := ball_start\<rparr>) g1
      = Inr (ColliderRef 0 0, g2)"
    "laid g2 [Enable Body\<lparr>Position := ball_start\<rparr>] [?c]" "rest g2 = rest g"
    using create_collider_laid [OF g1(2), of "\<lambda>c. c\<lparr>BodyPosition := ball_start\<rparr>" "BodyRef 0 0"] g1(3)
    by (auto simp: attached_to_def)
  have eq: "ball_type g2 = ball_type g" "ball_radius g2 = ball_radius g"
    using arg_cong [OF g2(3), of ball_type] arg_cong [OF g2(3), of ball_radius] by (simp_all add: rest_def)
  obtain m e r where s: "ball_settings (ball_type g) (1, 1, ball_radius g) = (m, e, r)"
    by (cases "ball_settings (ball_type g) (1, 1, ball_radius g)") auto
  let ?b' = "Enable Body\<lparr>Position := ball_start, Mass := m\<rparr>"
  let ?c' = "?c\<lparr>Restitution := e, Shape := CircleF (Circle Zero r)\<rparr>"
  let ?g3 = "g2\<lparr>bodies := ?b' # replicate 99 Body, colliders := ?c' # replicate 99 Collider\<rparr>"
  let ?h = "?g3\<lparr>ball_body_ref := BodyRef 0 0, ball_radius := r, ball_col_ref := ColliderRef 0 0\<rparr>"
  have v: "valid_body g2 (BodyRef 0 0)" "valid_collider g2 (ColliderRef 0 0)"
    using g2(2) by (simp_all add: laid_def valid_body_def valid_collider_def)
  have sl: "bodies g2 = Enable Body\<lparr>Position := ball_start\<rparr> # replicate 99 Body"
    "colliders g2 = ?c # replicate 99 Collider"
    using g2(2) by (simp_all add: laid_def)
  have v2: "valid_collider (g2\<lparr>bodies := bs\<rparr>) (ColliderRef 0 0)" for bs
    using v(2) by (simp add: valid_collider_def)
  have "CreateBall g = Inr ?h"
    using s by (simp add: CreateBall_def g1(1) g2(1) v v2 sl eq Enable_def attached_to_def Collider_def Let_def)
  moreover have "IsEnabled ?b'"
    using ball_mass [of "ball_type g" 1 "ball_radius g"] s by (auto simp: IsEnabled_def f32_eval)
  then have "laid ?h [?b'] [?c']"
    using g2(2) by (simp add: laid_def attached_to_def)
  moreover have "rest ?h = (rest g)\<lparr>ball_body_ref := BodyRef 0 0, ball_col_ref := ColliderRef 0 0, ball_radius := r\<rparr>"
  proof -
    have "rest ?h = (rest g2)\<lparr>ball_body_ref := BodyRef 0 0, ball_col_ref := ColliderRef 0 0, ball_radius := r\<rparr>"
      by (simp add: rest_def)
    then show ?thesis by (simp add: g2(3))
  qed
  moreover have "ball_piece (ball_type g) (ball_radius g) = (?b', ?c', r)"
    by (simp add: ball_piece_def s Enable_def)
  ultimately show ?thesis by blast
qed


lemma create_static_laid:
  assumes "laid g bs cs" "length bs < 100"
  shows "\<exists>h. create_static (wall_position k) g = Inr (BodyRef (length bs) 0, h)
    \<and> laid h (bs @ [wall_body k]) cs \<and> rest h = rest g"
  using create_body_laid [OF assms, of "\<lambda>b. b\<lparr>Type := STATIC, Mass := 1\<rparr>" "wall_position k"]
  by (simp add: create_static_def wall_body_def Enable_def IsEnabled_def f32_eval)

lemma attached_still [simp]:
  "IsAttached (attached_to r)" "IsAttached (static_rect lo hi p c) = IsAttached c"
  "IsAttached (goal_roof p c) = IsAttached c" "IsAttached (goal_trigger p c) = IsAttached c"
  "IsAttached (player_shape p c) = IsAttached c" "IsAttached (feet_shape x c) = IsAttached c"
  by (simp_all add: attached_to_def static_rect_def goal_roof_def goal_trigger_def player_shape_def
      feet_shape_def)

text \<open>The six fixed bodies and the eight colliders on them; the goals are colliders 6 and 8.\<close>

definition wall_colliders :: "f32 collider list" where
  "wall_colliders =
     [static_rect (Vec2 (- f32_of_int kWindowWidth * flit 5 10) 0) (Vec2 half_width (Y kGroundSize))
        (wall_position 0) (attached_to (BodyRef 1 0)),
      static_rect (Vec2 (- f32_of_int kWindowWidth * flit 5 10) 0) (Vec2 half_width 0)
        (wall_position 1) (attached_to (BodyRef 2 0)),
      static_rect (Vec2 0 (- f32_of_int kWindowHeight * flit 5 10)) (Vec2 0 half_height)
        (wall_position 2) (attached_to (BodyRef 3 0)),
      static_rect (Vec2 0 (- f32_of_int kWindowHeight * flit 5 10)) (Vec2 0 half_height)
        (wall_position 3) (attached_to (BodyRef 4 0)),
      goal_roof (wall_position 4) (attached_to (BodyRef 5 0)),
      goal_trigger (wall_position 4) (attached_to (BodyRef 5 0)),
      goal_roof (wall_position 5) (attached_to (BodyRef 6 0)),
      goal_trigger (wall_position 5) (attached_to (BodyRef 6 0))]"

text \<open>One creation step of a sequence, for a continuation \<open>K\<close>.\<close>

lemma static_step:
  assumes "laid g bs cs" "length bs < 100"
    and "\<And>h. laid h (bs @ [wall_body k]) cs \<Longrightarrow> rest h = rest g \<Longrightarrow>
           \<exists>r. K (BodyRef (length bs) 0) h = Inr r \<and> Q r"
  shows "\<exists>r. rbind (create_static (wall_position k) g) (\<lambda>(b, h). K b h) = Inr r \<and> Q r"
  using create_static_laid [OF assms(1,2), of k] assms(3) by auto

lemma collider_step':
  assumes "laid g bs cs" "length cs < 100" "IsAttached (f (attached_to r))"
    and "\<And>h. laid h bs (cs @ [f (attached_to r)]) \<Longrightarrow> rest h = rest g \<Longrightarrow>
           \<exists>x. K (ColliderRef (length cs) 0) h = Inr x \<and> Q x"
  shows "\<exists>x. rbind (create_collider r f g) (\<lambda>(c, h). K c h) = Inr x \<and> Q x"
  using create_collider_laid [where f = f, OF assms(1-3)] assms(4) by auto

lemma body_step:
  assumes "laid g bs cs" "length bs < 100" "IsEnabled (f ((Enable Body)\<lparr>Position := p\<rparr>))"
    and "\<And>h. laid h (bs @ [f ((Enable Body)\<lparr>Position := p\<rparr>)]) cs \<Longrightarrow> rest h = rest g \<Longrightarrow>
           \<exists>r. K (BodyRef (length bs) 0) h = Inr r \<and> Q r"
  shows "\<exists>r. rbind (create_body p f g) (\<lambda>(b, h). K b h) = Inr r \<and> Q r"
  using create_body_laid [where f = f, OF assms(1-3)] assms(4) by auto

lemma laid_refs:
  assumes "laid g bs cs"
  shows "laid (g\<lparr>ground_col_ref := c\<rparr>) bs cs" "laid (g\<lparr>left_goal_col_ref := c\<rparr>) bs cs"
    "laid (g\<lparr>player_blue_body_ref := b, player_blue_col_ref := c\<rparr>) bs cs"
    "laid (g\<lparr>player_blue_feet_col_ref := c\<rparr>) bs cs"
    "laid (g\<lparr>player_red_body_ref := b, player_red_col_ref := c\<rparr>) bs cs"
  using assms by simp_all

lemma CreateTerrain_laid:
  assumes "laid g [b] [c]"
  shows "\<exists>h. CreateTerrain g = Inr h
    \<and> laid h (b # map wall_body [0, 1, 2, 3, 4, 5]) (c # wall_colliders)
    \<and> rest h = (rest g)\<lparr>ground_col_ref := ColliderRef 1 0, left_goal_col_ref := ColliderRef 6 0,
         right_goal_col_ref := ColliderRef 8 0\<rparr>"
  unfolding CreateTerrain_def Let_def
  by ((rule static_step collider_step', (assumption | rule assms | rule laid_refs, assumption),
        simp, simp?)+) (simp_all add: wall_colliders_def numeral_eq_Suc)


definition player_colliders :: "f32 collider list" where
  "player_colliders =
     [player_shape blue_start (attached_to (BodyRef 7 0)),
      feet_shape (kPlayerRadius * two) (attached_to (BodyRef 7 0)),
      player_shape red_start (attached_to (BodyRef 8 0)),
      feet_shape (- kPlayerRadius * two) (attached_to (BodyRef 8 0))]"

lemma enabled_mass [simp]: "IsEnabled (b\<lparr>Position := p, Mass := 1\<rparr> :: f32 body)"
  by (simp add: IsEnabled_def f32_eval)

lemma CreatePlayers_laid:
  assumes "laid g bs cs" "length bs = 7" "length cs = 9"
  shows "\<exists>h. CreatePlayers g = Inr h
    \<and> laid h (bs @ [player_body blue_start, player_body red_start]) (cs @ player_colliders)
    \<and> rest h = (rest g)\<lparr>player_blue_body_ref := BodyRef 7 0, player_blue_col_ref := ColliderRef 9 0,
         player_blue_feet_col_ref := ColliderRef 10 0, player_red_body_ref := BodyRef 8 0,
         player_red_col_ref := ColliderRef 11 0, player_red_feet_col_ref := ColliderRef 12 0\<rparr>"
  unfolding CreatePlayers_def Let_def
  by ((rule body_step collider_step', (assumption | rule assms(1) | rule laid_refs, assumption),
        simp add: assms(2,3), simp, simp?)+)
    (simp_all add: player_colliders_def player_body_def assms(2,3) Enable_def numeral_eq_Suc)

section \<open>The state at kick-off\<close>

definition empty_world :: "game \<Rightarrow> bool" where
  "empty_world g \<longleftrightarrow> bodies g = [] \<and> colliders g = [] \<and> BodyGenIndices g = [] \<and> ColliderGenIndices g = []
     \<and> body_refs g = [] \<and> col_refs g = [] \<and> colRefPairs g = [] \<and> wf_tree (quadTree g)"

definition match_bodies :: "f32 body \<Rightarrow> f32 body list" where
  "match_bodies b = b # map wall_body [0, 1, 2, 3, 4, 5] @ [player_body blue_start, player_body red_start]"

definition match_colliders :: "f32 collider \<Rightarrow> f32 collider list" where
  "match_colliders c = c # wall_colliders @ player_colliders"

definition match_refs :: "f32 \<Rightarrow> game \<Rightarrow> game" where
  "match_refs r g = g\<lparr>contactListener := True, state := kInGame,
     ball_body_ref := BodyRef 0 0, ball_col_ref := ColliderRef 0 0, ball_radius := r,
     ground_col_ref := ColliderRef 1 0, left_goal_col_ref := ColliderRef 6 0,
     right_goal_col_ref := ColliderRef 8 0,
     player_blue_body_ref := BodyRef 7 0, player_blue_col_ref := ColliderRef 9 0,
     player_blue_feet_col_ref := ColliderRef 10 0,
     player_red_body_ref := BodyRef 8 0, player_red_col_ref := ColliderRef 11 0,
     player_red_feet_col_ref := ColliderRef 12 0\<rparr>"

lemma StartGame_laid:
  assumes "empty_world g" "ball_piece (ball_type g) (ball_radius g) = (b, c, r)"
  shows "\<exists>h. StartGame g = Inr h \<and> laid h (match_bodies b) (match_colliders c)
    \<and> rest h = match_refs r (rest g)"
proof -
  let ?g0 = "SetContactListener True (World_SetUp 100 g)"
  have l0: "laid ?g0 [] []"
    using assms(1) by (simp add: laid_def empty_world_def World_SetUp_def SetContactListener_def)
  have r0: "rest ?g0 = (rest g)\<lparr>contactListener := True\<rparr>"
    by (simp add: rest_def World_SetUp_def SetContactListener_def)
  have "ball_type ?g0 = ball_type g" "ball_radius ?g0 = ball_radius g"
    by (simp_all add: World_SetUp_def SetContactListener_def)
  with CreateBall_laid [OF l0] assms(2) obtain g1 where g1: "CreateBall ?g0 = Inr g1" "laid g1 [b] [c]"
    "rest g1 = (rest ?g0)\<lparr>ball_body_ref := BodyRef 0 0, ball_col_ref := ColliderRef 0 0, ball_radius := r\<rparr>"
    by auto
  obtain g2 where g2: "CreateTerrain g1 = Inr g2"
    "laid g2 (b # map wall_body [0, 1, 2, 3, 4, 5]) (c # wall_colliders)"
    "rest g2 = (rest g1)\<lparr>ground_col_ref := ColliderRef 1 0, left_goal_col_ref := ColliderRef 6 0,
         right_goal_col_ref := ColliderRef 8 0\<rparr>"
    using CreateTerrain_laid [OF g1(2)] by blast
  obtain g3 where g3: "CreatePlayers g2 = Inr g3"
    "laid g3 (match_bodies b) (match_colliders c)"
    "rest g3 = (rest g2)\<lparr>player_blue_body_ref := BodyRef 7 0, player_blue_col_ref := ColliderRef 9 0,
         player_blue_feet_col_ref := ColliderRef 10 0, player_red_body_ref := BodyRef 8 0,
         player_red_col_ref := ColliderRef 11 0, player_red_feet_col_ref := ColliderRef 12 0\<rparr>"
    using CreatePlayers_laid [OF g2(2)] by (auto simp: wall_colliders_def match_bodies_def match_colliders_def)
  have "StartGame g = Inr (g3\<lparr>state := kInGame\<rparr>)"
    by (simp add: StartGame_def Game_Setup_def g1(1) g2(1) g3(1))
  moreover have "rest (g3\<lparr>state := kInGame\<rparr>) = match_refs r (rest g)"
    by (simp add: g3(3) g2(3) g1(3) r0 match_refs_def)
  ultimately show ?thesis using g3(2) by simp
qed

lemma ball_piece_facts:
  assumes "ball_piece t r0 = (b, c, r)"
  shows "movable b" "IsEnabled b" "Type b = DYNAMIC" "force b = Zero" "Velocity b = Zero"
    "Position b = ball_start" "col_BodyRef c = BodyRef 0 0" "shape_ok (Shape c)" "IsAttached c"
    "\<not> IsTrigger c" "Shape c = CircleF (Circle Zero r)"
proof -
  obtain m e d where s: "ball_settings t (1, 1, r0) = (m, e, d)"
    by (cases "ball_settings t (1, 1, r0)") auto
  have "m = 1 \<or> m = flit 5 10" using ball_mass [of t 1 r0] s by simp
  then have "IsEnabled b \<and> movable b"
    using assms s by (auto simp: ball_piece_def IsEnabled_def movable_def ceq_def f32_eval)
  then show "movable b" "IsEnabled b" by simp_all
  show "Type b = DYNAMIC" "force b = Zero" "Velocity b = Zero" "Position b = ball_start"
    "col_BodyRef c = BodyRef 0 0" "shape_ok (Shape c)" "IsAttached c" "\<not> IsTrigger c"
    "Shape c = CircleF (Circle Zero r)"
    using assms s by (auto simp: ball_piece_def Body_def attached_to_def Collider_def shape_ok_def)
qed

lemma wall_shapes:
  "\<forall>c \<in> set wall_colliders. shape_ok (Shape c) \<and> body_Index (col_BodyRef c) < 9 \<and> body_GenIndex (col_BodyRef c) = 0"
  "\<forall>c \<in> set player_colliders. shape_ok (Shape c) \<and> body_Index (col_BodyRef c) < 9 \<and> body_GenIndex (col_BodyRef c) = 0"
  by (simp_all add: wall_colliders_def player_colliders_def static_rect_def goal_roof_def goal_trigger_def
      player_shape_def feet_shape_def attached_to_def shape_ok_def)

lemma default_body: "movable (Body :: f32 body)" "\<not> IsAttached (Collider :: f32 collider)"
  by (simp_all add: movable_def Collider_def)

lemma body_one_movable [simp]: "movable (b\<lparr>Mass := 1\<rparr>)"
  by (simp add: movable_def ceq_def f32_eval)

text \<open>The game is ready for its first frame.\<close>

lemma match_ready:
  assumes "laid h (match_bodies b) (match_colliders c)" "rest h = match_refs r (rest g)"
    and "ball_piece t r0 = (b, c, r)" "empty_world g"
  shows "ready h"
proof -
  have refs: "ball_body_ref h = BodyRef 0 0" "player_blue_body_ref h = BodyRef 7 0"
    "player_red_body_ref h = BodyRef 8 0" "quadTree h = quadTree g"
    using arg_cong [OF assms(2), of ball_body_ref] arg_cong [OF assms(2), of player_blue_body_ref]
      arg_cong [OF assms(2), of player_red_body_ref] arg_cong [OF assms(2), of quadTree]
    by (simp_all add: rest_def match_refs_def)
  note ball = ball_piece_facts [OF assms(3)]
  have len: "length (match_bodies b) = 9" "length (match_colliders c) = 13"
    by (simp_all add: match_bodies_def match_colliders_def wall_colliders_def player_colliders_def)
  have bodies: "bodies h = match_bodies b @ replicate 91 Body" "BodyGenIndices h = replicate 100 0"
    and cols: "colliders h = match_colliders c @ replicate 87 Collider" "ColliderGenIndices h = replicate 100 0"
    and crefs: "col_refs h = map (\<lambda>i. ColliderRef i 0) [0..<13]"
    using assms(1) len by (simp_all add: laid_def)
  have vb: "valid_body h r" if "body_Index r < 9" "body_GenIndex r = 0" for r
    using that by (simp add: valid_body_def bodies len)
  have "\<forall>b \<in> set (bodies h). movable b"
    using ball(1) by (auto simp: bodies match_bodies_def wall_body_def player_body_def default_body)
  moreover have "\<forall>c \<in> set (colliders h). collider_ok h c"
    using wall_shapes ball(7,8) vb
    by (auto simp: cols match_colliders_def default_body collider_ok_def)
  moreover have "slots h" using bodies cols len by (simp add: slots_def)
  ultimately have "safe h" by (simp add: safe_def)
  moreover have "game_ok h"
    using vb ball(3)
    by (simp add: game_ok_def actor_def refs bodies match_bodies_def player_body_def Body_def nth_append)
  moreover have "\<forall>r \<in> set (col_refs h). valid_collider h r"
    using len by (auto simp: crefs valid_collider_def cols)
  ultimately show ?thesis using assms(4) refs(4) by (simp add: ready_def empty_world_def)
qed

lemma StartGame_ready:
  assumes "empty_world g"
  shows "\<exists>h. StartGame g = Inr h \<and> ready h \<and> state h = kInGame"
proof -
  obtain b c r where p: "ball_piece (ball_type g) (ball_radius g) = (b, c, r)"
    by (cases "ball_piece (ball_type g) (ball_radius g)") auto
  obtain h where h: "StartGame g = Inr h" "laid h (match_bodies b) (match_colliders c)"
    "rest h = match_refs r (rest g)"
    using StartGame_laid [OF assms p] by blast
  have "state h = kInGame"
    using arg_cong [OF h(3), of state] by (simp add: rest_def match_refs_def)
  with h(1) match_ready [OF h(2,3) p assms] show ?thesis by simp
qed

lemma Game_empty: "\<exists>g. Game = Inr g \<and> empty_world g"
proof -
  obtain t :: "f32 quadtree" where t: "QuadTree_new = Inr t" "wf_tree t"
    using QuadTree_new_wf by blast
  show ?thesis unfolding Game_def t(1) using t(2) by (simp add: empty_world_def)
qed

lemma Restart_empty: "wf_tree (quadTree g) \<Longrightarrow> empty_world (Restart g)"
  by (simp add: Restart_def Game_TearDown_def World_TearDown_def empty_world_def)

end
