(* ===== verification/Physics_Spec.thy ===== *)
theory Physics_Spec
  imports Triggers Kickoff
begin

text \<open>
  What the physics promises: the intersection tests decide whether two shapes share a point, the
  quadtree keeps every pair that meets inside its root together, the contact response follows the
  laws of collision, and slots of the world are reused the way \<open>CreateBody\<close> does it. The
  geometric laws hold over every ordered field (or the reals, where a root is taken); where single
  precision breaks one, the counterexample is stated on bits.
\<close>

section \<open>Shapes\<close>

text \<open>Two axis-parallel rectangles intersect, as the code tests it, exactly when they have a
  common point; touching borders count.\<close>

lemma Intersect_rr_common_point:
  fixes r :: "'a::linordered_field rectangle"
  assumes "valid_rect r" "valid_rect s"
  shows "Intersect_rr r s \<longleftrightarrow> (\<exists>p. in_rect r p \<and> in_rect s p)"
proof
  assume i: "Intersect_rr r s"
  let ?p = "Vec2 (max (X (r_minBound r)) (X (r_minBound s))) (max (Y (r_minBound r)) (Y (r_minBound s)))"
  have "in_rect r ?p \<and> in_rect s ?p"
    using assms i by (auto simp: Intersect_rr_def in_rect_def valid_rect_def not_less split: if_splits)
  then show "\<exists>p. in_rect r p \<and> in_rect s p" ..
next
  assume "\<exists>p. in_rect r p \<and> in_rect s p"
  then show "Intersect_rr r s"
    by (auto simp: Intersect_rr_def in_rect_def not_less)
qed

text \<open>Two circles of non-negative radius intersect, as the code tests it without a square root,
  exactly when they have a common point.\<close>

lemma Intersect_cc_common_point:
  fixes c1 :: "'a::linordered_field circle"
  assumes "0 \<le> c_radius c1" "0 \<le> c_radius c2"
  shows "Intersect_cc c1 c2 \<longleftrightarrow> (\<exists>p. in_circle c1 p \<and> in_circle c2 p)"
  using circles_share_point [OF _ assms] triangle_circles [OF _ _ assms]
  by (auto simp: Intersect_cc_def Let_def)





text \<open>The closest point of a segment is at least as close as every other point of it; a segment
  of length zero included.\<close>

lemma ClosestPointOnSegment_nearest:
  fixes A :: "'a::linordered_field vec2"
  assumes "0 \<le> s" "s \<le> 1"
  shows "SquareLength (P - ClosestPointOnSegment A B P) \<le> SquareLength (P - Lerp A B s)"
proof -
  define AB L d where "AB = B - A" and "L = SquareLength (B - A)"
    and "d = X (P - A) * X AB + Y (P - A) * Y AB"
  define f where "f t = SquareLength (P - (A + vscale AB t))" for t
  have f: "f t = SquareLength (P - A) - 2 * t * d + t * t * L" for t
    by (simp add: f_def SquareLength_def AB_def L_def d_def algebra_simps)
  have L: "0 \<le> L" by (simp add: L_def SquareLength_nonneg)
  have goal: "f t \<le> f s" if "(s - t) * ((s + t) * L - 2 * d) \<ge> 0" for t
    using that by (simp add: f algebra_simps)
  show ?thesis
  proof (cases "L = 0")
    case True
    then have "A = B" using SquareLength_eq_0_iff [of "B - A"]
      by (auto simp: L_def Zero_def minus_vec2_def intro: vec2_eqI)
    then show ?thesis
      by (simp add: ClosestPointOnSegment_def Lerp_def SquareLength_def)
  next
    case False
    then have "0 < L" using L by simp
    define t where "t = d / L"
    have d: "d = t * L" using \<open>0 < L\<close> by (simp add: t_def)
    have "0 \<le> (s - t) * ((s + t) * L - 2 * d)"
    proof -
      have "(s - t) * ((s + t) * L - 2 * d) = ((s - t) * (s - t)) * L"
        unfolding d by (simp add: algebra_simps)
      then show ?thesis using L by (simp only: mult_nonneg_nonneg zero_le_square)
    qed
    moreover have "t \<le> 0 \<Longrightarrow> f 0 \<le> f s"
    proof -
      assume "t \<le> 0"
      then have "d \<le> 0" "0 \<le> s * L" using assms L by (simp_all add: d mult_nonpos_nonneg)
      then have "0 \<le> s * (s * L - 2 * d)" using assms by (intro mult_nonneg_nonneg) auto
      then show ?thesis by (intro goal) simp
    qed
    moreover have "1 \<le> t \<Longrightarrow> f 1 \<le> f s"
    proof -
      assume "1 \<le> t"
      have "(s + 1) * L \<le> (2 * t) * L" using \<open>1 \<le> t\<close> assms L by (intro mult_right_mono) auto
      then have "(s + 1) * L \<le> 2 * d" by (simp only: d mult.assoc)
      then show ?thesis
        using assms by (intro goal) (simp add: mult_nonpos_nonpos)
    qed
    ultimately have "f (if t \<le> 0 then 0 else if 1 \<le> t then 1 else t) \<le> f s"
      using goal by auto
    moreover have "ClosestPointOnSegment A B P
        = A + vscale AB (if t \<le> 0 then 0 else if 1 \<le> t then 1 else t)"
      by (auto simp: ClosestPointOnSegment_def Let_def t_def d_def L_def AB_def intro!: vec2_eqI)
    ultimately show ?thesis by (simp add: f_def Lerp_def AB_def)
  qed
qed



section \<open>The quadtree\<close>

text \<open>Setting up the root and inserting any list of boxes succeeds (the fuel of the recursion and the
  preallocated nodes suffice) and the tree then holds exactly them: one leaf up to 16, the boxes of
  each quadrant after that.\<close>

lemma tree_contents:
  fixes b :: "'a::{plus, minus, times, divide, one, ord} rectangle"
  assumes "wf_tree t"
  shows "\<exists>t1 t2. SetUpRoot b t = Inr t1 \<and> rfold QuadTree_Insert as t1 = Inr t2 \<and> holds b as t2"
proof -
  obtain t1 where t1: "SetUpRoot b t = Inr t1" "holds b [] t1"
    using SetUpRoot_holds [OF assms] by blast
  with inserts_hold [OF t1(2), of as] show ?thesis by auto
qed



text \<open>
  In single precision the four quadrants do not quite cover the root: \<open>2 * halfSize\<close> is rounded,
  so a sliver at the far side of quadrants 1 and 2 can belong to none of them.
\<close>

definition sliver_root :: "f32 rectangle" where
  "sliver_root = Rectangle (Vec2 (- 1) (- 1)) (Vec2 (F32 0x33800000) (F32 0x33800000))"

definition sliver_aabb :: "f32 aabb" where
  "sliver_aabb =
     \<lparr>Aabb = Rectangle (Vec2 (F32 0x33800000) (- 1)) (Vec2 (F32 0x33800000) (- 1)),
      ColRef = ColliderRef 0 0\<rparr>"

text \<open>On floats a box that meets the root of the tree can meet none of its four quadrants, so a
  split drops it.\<close>

lemma sliver_in_no_quadrant:
  "Intersect_rr (Aabb sliver_aabb) sliver_root
     \<and> filter (\<lambda>k. in_quadrant sliver_root k sliver_aabb) [0, 1, 2, 3] = []"
proof -
  have half: "(F32 0x33800000 - (- 1)) div F32 1073741824 = F32 0x3F000000"
    by (simp add: f32_eval)
  have low: "- 1 + F32 0x3F000000 = F32 0xBF000000" "- 1 = F32 0xBF800000"
    by (simp_all add: f32_eval)
  have high: "- 1 + F32 1073741824 * F32 0x3F000000 = F32 0"
    by (simp add: f32_eval)
  have quad: "quadrant sliver_root k =
     (if k = 0 then Rectangle (Vec2 (- 1) (- 1)) (Vec2 (F32 0xBF000000) (F32 0xBF000000))
      else if k = 1 then Rectangle (Vec2 (- 1) (F32 0xBF000000)) (Vec2 (F32 0xBF000000) (F32 0))
      else if k = 2 then Rectangle (Vec2 (F32 0xBF000000) (- 1)) (Vec2 (F32 0) (F32 0xBF000000))
      else Rectangle (Vec2 (F32 0xBF000000) (F32 0xBF000000))
             (Vec2 (F32 0x33800000) (F32 0x33800000)))" for k
    by (simp add: quadrant_def sliver_root_def two_f32 half low(1) high Let_def vec2_eq_iff
        plus_vec2_def)
  have "\<not> in_quadrant sliver_root k sliver_aabb" for k
    unfolding in_quadrant_def quad low(2) sliver_aabb_def
    by (simp add: Intersect_rr_def f32_less)
  moreover have "Intersect_rr (Aabb sliver_aabb) sliver_root"
    unfolding sliver_aabb_def sliver_root_def low(2) by (simp add: Intersect_rr_def f32_less)
  ultimately show ?thesis by simp
qed

section \<open>Contacts\<close>






text \<open>Against a static body only the share of the penetration that the static body's mass has in the total is taken
  back: the overlap is not removed in one step.\<close>

lemma interpenetration_static:
  fixes c :: "'a::linordered_field contact"
  assumes "massive c" "0 < Penetration c" "Type (body0 c) = DYNAMIC" "Type (body1 c) = STATIC"
  shows "Position (body0 (ResolveInterpenetration c)) - Position (body1 (ResolveInterpenetration c))
       = Position (body0 c) - Position (body1 c)
         + vscale (Normal c) (Penetration c * (Mass (body1 c) / (Mass (body0 c) + Mass (body1 c))))"
proof -
  have m: "0 < Mass (body0 c)" "0 < Mass (body1 c)" using assms(1) by (auto simp: massive_def)
  have e: "p / ((1 / Mass (body0 c) + 1 / Mass (body1 c)) * Mass (body0 c))
      = p * Mass (body1 c) / (Mass (body0 c) + Mass (body1 c))" for p
  proof -
    have "1 / Mass (body0 c) + 1 / Mass (body1 c)
        = (Mass (body0 c) + Mass (body1 c)) / (Mass (body0 c) * Mass (body1 c))"
      using m by (simp add: add_frac_eq add.commute)
    then show ?thesis using m by simp
  qed
  show ?thesis
    using assms massive_total [OF assms(1)]
    by (intro vec2_eqI) (simp_all add: ResolveInterpenetration_def Let_def e mult.assoc)
qed



text \<open>With the rectangle first, the position is corrected once by the recursive call and once
  more, by the same penetration, after it.\<close>

lemma rect_circle_twice:
  fixes c :: "'a::linordered_field contact"
  assumes "shape0 c = RectangleF r" "shape1 c = CircleF circle" "massive c"
    and "Type (body0 c) = DYNAMIC" "Type (body1 c) = DYNAMIC"
    and once: "Resolve sq (swap_bodies c) = Inr d" and pen: "0 < Penetration d"
  shows "\<exists>e. Resolve sq c = Inr e \<and>
     Position (body0 e) - Position (body1 e)
       = Position (body0 d) - Position (body1 d) + vscale (Normal d) (Penetration d)"
proof -
  have "rmap resolve_response (contact_circle_rect sq circle r (swap_bodies c)) = Inr d"
    using once assms(1,2) by (simp add: Resolve_circle_rect)
  then obtain d0 where d0: "contact_circle_rect sq circle r (swap_bodies c) = Inr d0"
    and d: "d = resolve_response d0"
    by (auto simp: rmap_eq_Inr)
  have same: "body0 d0 = body1 c" "body1 d0 = body0 c"
    using d0 by (auto simp: contact_circle_rect_def swap_bodies_def Let_def rbind_eq_Inr)
  have "massive d" "Type (body0 d) = DYNAMIC" "Type (body1 d) = DYNAMIC"
    using assms(3-5) same by (simp_all add: d resolve_response_leaves massive_def)
  from resolve_response_position [OF this(1) pen this(2,3)] show ?thesis
    by (simp add: Resolve_rect_circle [OF assms(1,2)] once)
qed

section \<open>Slots of the world\<close>

text \<open>In a world that has slots, CreateBody returns a valid reference to an enabled body that was
  free (or is new), and changes no other body and no collider.\<close>

lemma CreateBody_cases:
  assumes "slots w" "bodies w \<noteq> []"
  shows "\<exists>r w'. CreateBody w = Inr (r, w') \<and> slots w' \<and> valid_body w' r
    \<and> IsEnabled (bodies w' ! body_Index r)
    \<and> (body_Index r < length (bodies w) \<longrightarrow> \<not> IsEnabled (bodies w ! body_Index r))
    \<and> length (bodies w) \<le> length (bodies w')
    \<and> (\<forall>i < length (bodies w). i \<noteq> body_Index r \<longrightarrow> bodies w' ! i = bodies w ! i)
    \<and> colliders w' = colliders w"
proof (cases "\<exists>b \<in> set (bodies w). \<not> IsEnabled b")
  case True
  define i where "i = find_if (\<lambda>b. \<not> IsEnabled b) (bodies w)"
  have i: "i < length (bodies w)" using True by (simp add: i_def find_if_less_iff)
  then have "\<not> IsEnabled (bodies w ! i)"
    using find_if_found [of "\<lambda>b. \<not> IsEnabled b" "bodies w"] by (simp add: i_def)
  with CreateBody_free [OF assms(1) i_def [symmetric] i] i assms(1) show ?thesis
    by (auto simp: slots_def valid_body_def)
next
  case False
  with CreateBody_full [OF assms(1) _ assms(2)] assms show ?thesis
    by (auto simp: slots_def valid_body_def nth_append)
qed

text \<open>In a world without slots CreateBody resizes to twice nothing and accesses a body out of range.\<close>

lemma CreateBody_empty:
  assumes "bodies w = []" "BodyGenIndices w = []"
  shows "CreateBody w = Inl (UndefinedBehaviour ''index'')"
  using assms by (simp add: CreateBody_def vec_at_def)

text \<open>C33: generations are never counted up: a reference to a destroyed body stays valid, and the next
  CreateBody hands out the same reference again.\<close>

theorem stale_reference:
  assumes "slots w" "valid_body w r" "\<forall>i < body_Index r. IsEnabled (bodies w ! i)"
  shows "\<exists>w' w''. DestroyBody r w = Inr w' \<and> valid_body w' r \<and> CreateBody w' = Inr (r, w'')"
proof -
  define i where "i = body_Index r"
  have i: "i < length (bodies w)" "BodyGenIndices w ! i = body_GenIndex r"
    using assms(2) by (auto simp: valid_body_def i_def)
  let ?w = "w\<lparr>bodies := (bodies w)[i := Disable (bodies w ! i)]\<rparr>"
  have f: "find_if (\<lambda>b. \<not> IsEnabled b) (bodies ?w) = i"
    by (rule find_if_unique) (use i assms(3) in \<open>auto simp: i_def\<close>)
  have sl: "slots ?w" using assms(1) by (simp add: slots_def)
  have "CreateBody ?w = Inr (BodyRef i (BodyGenIndices ?w ! i),
      ?w\<lparr>bodies := (bodies ?w)[i := Enable (bodies ?w ! i)]\<rparr>)"
    by (rule CreateBody_free [OF sl f]) (simp add: i)
  moreover have "BodyRef i (BodyGenIndices ?w ! i) = r"
    using i by (simp add: i_def)
  moreover have "valid_body ?w r" using assms(2) by (simp add: valid_body_def)
  ultimately show ?thesis
    using DestroyBody_spec [OF assms(2)] by (simp flip: i_def)
qed

theorem stale_reference_witness:
  "\<exists>w :: world. \<exists>w' w''. DestroyBody (BodyRef 0 0) w = Inr w' \<and> valid_body w' (BodyRef 0 0)
     \<and> CreateBody w' = Inr (BodyRef 0 0, w'')"
proof -
  obtain t :: "f32 quadtree" where "wf_tree t" using QuadTree_new_wf by blast
  let ?w = "\<lparr>bodies = [Enable Body], colliders = [], colRefPairs = [], contactListener = True,
    BodyGenIndices = [0], ColliderGenIndices = [], quadTree = t\<rparr> :: world"
  show ?thesis
    by (intro exI [of _ ?w] stale_reference) (simp_all add: slots_def valid_body_def)
qed

section \<open>Frames\<close>

text \<open>C17: over any sequence of updates a client sees the enter and exit events of every pair of colliders
  alternate, beginning with an enter, and the pairs it is inside of are the ones the world records.\<close>

theorem updates_log:
  assumes "safe w" "wf_tree (quadTree w)" "log_matches w"
  shows "\<exists>w'. updates recorder dts w = Inr w' \<and> safe w' \<and> frame w w' \<and> log_matches w'"
  using assms
proof (induction dts arbitrary: w)
  case (Cons dt dts)
  obtain w1 where w1: "World_Update recorder dt w = Inr w1" "recorder.live w w1" "wf_tree (quadTree w1)"
    using recorder.World_Update_live [OF Cons.prems(1) _ Cons.prems(2)] by blast
  have "safe w1" "frame w w1" using w1(2) by (auto simp: recorder.live_def)
  moreover have "log_matches w1" by (rule World_Update_log [OF w1(1) Cons.prems(3)])
  ultimately show ?case
    using Cons.IH [OF _ w1(3)] w1(1) by (auto intro: frame_trans)
qed simp

theorem updates_log_witness:
  "\<exists>w w'. updates recorder [kFixedDeltaTime, kFixedDeltaTime] w = Inr w' \<and> safe w' \<and> frame w w'
     \<and> log_matches w'"
proof -
  obtain t :: "f32 quadtree" where t: "wf_tree t" using QuadTree_new_wf by blast
  let ?w = "\<lparr>bodies = [Enable Body], colliders = [Collider\<lparr>IsAttached := True\<rparr>], colRefPairs = [],
    contactListener = True, BodyGenIndices = [0], ColliderGenIndices = [0], quadTree = t, \<dots> = []\<rparr>
      :: trigger_event list world_scheme"
  have m: "\<not> ceq 1 (0 :: f32)"
    by (simp add: ceq_def f32_less one_f32_def zero_f32_def mk_def inf_mag_def)
  have "\<exists>w'. updates recorder [kFixedDeltaTime, kFixedDeltaTime] ?w = Inr w' \<and> safe w' \<and> frame ?w w' \<and> log_matches w'"
    by (rule updates_log) (use t m in \<open>simp_all add: slots_def safe_def collider_ok_def
      valid_body_def shape_ok_def movable_def Enable_def Body_def log_matches_def uset_find_def Collider_def\<close>)
  then show ?thesis by blast
qed

end
