(* ===== verification/Determinism.thy ===== *)
theory Determinism
  imports Kickoff
begin

text \<open>
  Both peers simulate the same match: the game of one is the \<open>mirror\<close> of the other's, with local
  and remote input exchanged and the other player number. A frame commutes with \<open>mirror\<close>, bit for
  bit. The delicate point is the order in which the two inputs are processed, local input first
  on either side: both players may kick the ball in one frame, and floating-point addition is not
  associative. The sum is the same because the force on the ball is zero before.
\<close>

section \<open>The mirror image\<close>

definition mirror :: "game \<Rightarrow> game" where
  "mirror g = g\<lparr>input := other_player_input g, other_player_input := input g,
     player_nbr := 1 - player_nbr g\<rparr>"

definition mirror_more :: "unit game_ext \<Rightarrow> unit game_ext" where
  "mirror_more x = world.more (mirror (world.extend \<lparr>bodies = [], colliders = [], colRefPairs = [],
     contactListener = False, BodyGenIndices = [], ColliderGenIndices = [],
     quadTree = \<lparr>nodeIndex = 0, Nodes = []\<rparr>\<rparr> x))"

lemma mirror_rename: "mirror g = world.more_update mirror_more g"
  by (cases g) (simp add: mirror_def mirror_more_def world.defs)

lemma mirror_mirror [simp]: "mirror (mirror g) = g"
  by (cases g) (simp add: mirror_def)

lemma mirror_sel [simp]:
  "bodies (mirror g) = bodies g" "colliders (mirror g) = colliders g" "quadTree (mirror g) = quadTree g"
  "contactListener (mirror g) = contactListener g" "colRefPairs (mirror g) = colRefPairs g"
  "BodyGenIndices (mirror g) = BodyGenIndices g" "ColliderGenIndices (mirror g) = ColliderGenIndices g"
  "state (mirror g) = state g" "input (mirror g) = other_player_input g"
  "other_player_input (mirror g) = input g" "player_nbr (mirror g) = 1 - player_nbr g"
  "col_refs (mirror g) = col_refs g" "ball_body_ref (mirror g) = ball_body_ref g"
  "player_blue_body_ref (mirror g) = player_blue_body_ref g"
  "player_red_body_ref (mirror g) = player_red_body_ref g"
  "ball_col_ref (mirror g) = ball_col_ref g" "ground_col_ref (mirror g) = ground_col_ref g"
  "player_blue_col_ref (mirror g) = player_blue_col_ref g"
  "player_red_col_ref (mirror g) = player_red_col_ref g"
  "player_blue_feet_col_ref (mirror g) = player_blue_feet_col_ref g"
  "player_red_feet_col_ref (mirror g) = player_red_feet_col_ref g"
  "left_goal_col_ref (mirror g) = left_goal_col_ref g" "right_goal_col_ref (mirror g) = right_goal_col_ref g"
  "is_player_blue_grounded (mirror g) = is_player_blue_grounded g"
  "is_player_red_grounded (mirror g) = is_player_red_grounded g"
  "can_player_blue_kick (mirror g) = can_player_blue_kick g"
  "can_player_red_kick (mirror g) = can_player_red_kick g"
  "player_blue_kick_time (mirror g) = player_blue_kick_time g"
  "player_red_kick_time (mirror g) = player_red_kick_time g"
  "blue_score (mirror g) = blue_score g" "red_score (mirror g) = red_score g"
  by (simp_all add: mirror_def)

lemma mirror_updates [simp]:
  "(mirror g)\<lparr>can_player_blue_kick := b\<rparr> = mirror (g\<lparr>can_player_blue_kick := b\<rparr>)"
  "(mirror g)\<lparr>can_player_red_kick := b\<rparr> = mirror (g\<lparr>can_player_red_kick := b\<rparr>)"
  "(mirror g)\<lparr>is_player_blue_grounded := b\<rparr> = mirror (g\<lparr>is_player_blue_grounded := b\<rparr>)"
  "(mirror g)\<lparr>is_player_red_grounded := b\<rparr> = mirror (g\<lparr>is_player_red_grounded := b\<rparr>)"
  "(mirror g)\<lparr>red_score := s\<rparr> = mirror (g\<lparr>red_score := s\<rparr>)"
  "(mirror g)\<lparr>blue_score := s\<rparr> = mirror (g\<lparr>blue_score := s\<rparr>)"
  "(mirror g)\<lparr>player_blue_kick_time := t\<rparr> = mirror (g\<lparr>player_blue_kick_time := t\<rparr>)"
  "(mirror g)\<lparr>player_red_kick_time := t\<rparr> = mirror (g\<lparr>player_red_kick_time := t\<rparr>)"
  by (simp_all add: mirror_def)

lemma with_body_mirror [simp]: "with_body r f (mirror g) = rmap mirror (with_body r f g)"
  unfolding mirror_rename by (rule with_body_rename)

lemma GetCollider_mirror [simp]: "GetCollider r (mirror g) = GetCollider r g"
  unfolding mirror_rename by (rule rename_reads)

lemma GetBody_mirror [simp]: "GetBody r (mirror g) = GetBody r g"
  unfolding mirror_rename by (rule rename_reads)

lemma ResetPositions_mirror [simp]: "ResetPositions (mirror g) = rmap mirror (ResetPositions g)"
  by (simp add: ResetPositions_def rbind_rmap rmap_of_rbind)

lemma rmap_if: "rmap m (if c then a else b) = (if c then rmap m a else rmap m b)"
  by simp

lemma mirror_fun: "world.more_update mirror_more = mirror"
  by (rule ext) (rule mirror_rename [symmetric])

lemma callbacks_mirror:
  "Game_OnTriggerEnter a b (mirror g) = rmap mirror (Game_OnTriggerEnter a b g)"
  "Game_OnTriggerExit a b (mirror g) = rmap mirror (Game_OnTriggerExit a b g)"
  "Game_OnCollisionEnter a b (mirror g) = rmap mirror (Game_OnCollisionEnter a b g)"
  "Game_OnCollisionExit a b (mirror g) = rmap mirror (Game_OnCollisionExit a b g)"
  by (simp_all add: Game_OnTriggerEnter_def Game_OnTriggerExit_def
      Game_OnCollisionEnter_def Game_OnCollisionExit_def Let_def rmap_of_rbind rbind_rmap rmap_if
      cong: if_cong)

interpretation mirrored: client_renaming game_listener mirror_more
  by unfold_locales (simp_all add: game_listener_def mirror_fun callbacks_mirror)

lemma World_Update_mirror:
  "World_Update game_listener dt (mirror g) = rmap mirror (World_Update game_listener dt g)"
  unfolding mirror_rename by (rule mirrored.World_Update_rename)


section \<open>The inputs of a frame as one update\<close>

text \<open>A write to one body, as a total function on games whose references are valid.\<close>

definition on_body :: "BodyRef \<Rightarrow> (f32 body \<Rightarrow> f32 body) \<Rightarrow> game \<Rightarrow> game" where
  "on_body r f g = g\<lparr>bodies := (bodies g)[body_Index r := f (bodies g ! body_Index r)]\<rparr>"

definition walk :: "Input \<Rightarrow> bool \<Rightarrow> f32 body \<Rightarrow> f32 body" where
  "walk inp jumps b =
     (let b = (if pressed inp kRight then ApplyForce (Vec2 kWalkSpeed 0) b else b);
          b = (if pressed inp kLeft then ApplyForce (Vec2 (- kWalkSpeed) 0) b else b)
      in if jumps then ApplyForce (Vec2 0 kJumpSpeed) b else b)"

definition kicked :: "bool \<Rightarrow> f32 \<Rightarrow> f32 body \<Rightarrow> f32 body" where
  "kicked kicks x b = (if kicks then ApplyForce (Vec2 x (- kShootForce)) b else b)"

definition blue_jumps :: "Input \<Rightarrow> game \<Rightarrow> bool" where
  "blue_jumps inp g \<longleftrightarrow> pressed inp kJump \<and> is_player_blue_grounded g"
definition blue_kicks :: "Input \<Rightarrow> game \<Rightarrow> bool" where
  "blue_kicks inp g \<longleftrightarrow> pressed inp kKick \<and> can_player_blue_kick g \<and> 1 \<le> player_blue_kick_time g"
definition red_jumps :: "Input \<Rightarrow> game \<Rightarrow> bool" where
  "red_jumps inp g \<longleftrightarrow> pressed inp kJump \<and> is_player_red_grounded g"
definition red_kicks :: "Input \<Rightarrow> game \<Rightarrow> bool" where
  "red_kicks inp g \<longleftrightarrow> pressed inp kKick \<and> can_player_red_kick g \<and> 1 \<le> player_red_kick_time g"

definition blue_act :: "Input \<Rightarrow> game \<Rightarrow> game" where
  "blue_act inp g = (on_body (ball_body_ref g) (kicked (blue_kicks inp g) kShootForce)
     (on_body (player_blue_body_ref g) (walk inp (blue_jumps inp g)) g))\<lparr>
       is_player_blue_grounded := is_player_blue_grounded g \<and> \<not> blue_jumps inp g,
       player_blue_kick_time := if blue_kicks inp g then 0 else player_blue_kick_time g\<rparr>"

definition red_act :: "Input \<Rightarrow> game \<Rightarrow> game" where
  "red_act inp g = (on_body (ball_body_ref g) (kicked (red_kicks inp g) (- kShootForce))
     (on_body (player_red_body_ref g) (walk inp (red_jumps inp g)) g))\<lparr>
       is_player_red_grounded := is_player_red_grounded g \<and> \<not> red_jumps inp g,
       player_red_kick_time := if red_kicks inp g then 0 else player_red_kick_time g\<rparr>"

text \<open>Valid references to three different bodies.\<close>

definition three_bodies :: "game \<Rightarrow> bool" where
  "three_bodies g \<longleftrightarrow> valid_body g (ball_body_ref g) \<and> valid_body g (player_blue_body_ref g)
     \<and> valid_body g (player_red_body_ref g)
     \<and> distinct (map body_Index [ball_body_ref g, player_blue_body_ref g, player_red_body_ref g])"

lemma on_body_sel [simp]:
  "valid_body (on_body r f g) = valid_body g" "ball_body_ref (on_body r f g) = ball_body_ref g"
  "player_blue_body_ref (on_body r f g) = player_blue_body_ref g"
  "player_red_body_ref (on_body r f g) = player_red_body_ref g"
  "is_player_blue_grounded (on_body r f g) = is_player_blue_grounded g"
  "is_player_red_grounded (on_body r f g) = is_player_red_grounded g"
  "can_player_blue_kick (on_body r f g) = can_player_blue_kick g"
  "can_player_red_kick (on_body r f g) = can_player_red_kick g"
  "player_blue_kick_time (on_body r f g) = player_blue_kick_time g"
  "player_red_kick_time (on_body r f g) = player_red_kick_time g"
  by (auto simp: on_body_def valid_body_def)

lemma with_body_on: "valid_body g r \<Longrightarrow> with_body r f g = Inr (on_body r f g)"
  by (simp add: on_body_def)

lemma on_body_id [simp]: "on_body r (\<lambda>b. b) g = g"
  by (simp add: on_body_def)

lemma on_body_on_body:
  assumes "valid_body g r"
  shows "on_body r f (on_body r h g) = on_body r (\<lambda>b. f (h b)) g"
  using assms by (simp add: on_body_def valid_body_def)

lemma press_on:
  "valid_body g r \<Longrightarrow> press c r f g = Inr (on_body r (\<lambda>b. if c then ApplyForce f b else b) g)"
  by (simp add: press_def with_body_on del: with_body_valid)

lemma act_on:
  "valid_body g r \<Longrightarrow> (if c then rmap u (with_body r (ApplyForce f) g) else Inr g)
     = Inr (if c then u (on_body r (ApplyForce f) g) else g)"
  by (simp add: with_body_on del: with_body_valid)

lemma valid_flags [simp]:
  "valid_body (g\<lparr>is_player_blue_grounded := b\<rparr>) = valid_body g"
  "valid_body (g\<lparr>is_player_red_grounded := b\<rparr>) = valid_body g"
  "valid_body (g\<lparr>player_blue_kick_time := t\<rparr>) = valid_body g"
  "valid_body (g\<lparr>player_red_kick_time := t\<rparr>) = valid_body g"
  by (auto simp: valid_body_def)

lemma on_body_flags [simp]:
  "on_body r f (g\<lparr>is_player_blue_grounded := b\<rparr>) = (on_body r f g)\<lparr>is_player_blue_grounded := b\<rparr>"
  "on_body r f (g\<lparr>is_player_red_grounded := b\<rparr>) = (on_body r f g)\<lparr>is_player_red_grounded := b\<rparr>"
  "on_body r f (g\<lparr>player_blue_kick_time := t\<rparr>) = (on_body r f g)\<lparr>player_blue_kick_time := t\<rparr>"
  "on_body r f (g\<lparr>player_red_kick_time := t\<rparr>) = (on_body r f g)\<lparr>player_red_kick_time := t\<rparr>"
  by (simp_all add: on_body_def)

lemma flags_id [simp]:
  "(g\<lparr>is_player_blue_grounded := is_player_blue_grounded g\<rparr>) = g"
  "(g\<lparr>is_player_red_grounded := is_player_red_grounded g\<rparr>) = g"
  "(g\<lparr>player_blue_kick_time := player_blue_kick_time g\<rparr>) = g"
  "(g\<lparr>player_red_kick_time := player_red_kick_time g\<rparr>) = g"
  for g :: game
  by simp_all

lemma walk_parts:
  "walk inp j = (\<lambda>b. (if j then ApplyForce (Vec2 0 kJumpSpeed) else (\<lambda>b. b))
     (if pressed inp kLeft
      then ApplyForce (Vec2 (- kWalkSpeed) 0) (if pressed inp kRight then ApplyForce (Vec2 kWalkSpeed 0) b else b)
      else if pressed inp kRight then ApplyForce (Vec2 kWalkSpeed 0) b else b))"
  by (rule ext) (simp add: walk_def Let_def)

lemma kicked_cases [simp]:
  "kicked True x = ApplyForce (Vec2 x (- kShootForce))" "kicked False x = (\<lambda>b. b)"
  by (simp_all add: kicked_def fun_eq_iff)

lemma kicks_kept [simp]:
  "blue_kicks inp (on_body r f g) = blue_kicks inp g" "red_kicks inp (on_body r f g) = red_kicks inp g"
  "blue_kicks inp (g\<lparr>is_player_blue_grounded := b\<rparr>) = blue_kicks inp g"
  "red_kicks inp (g\<lparr>is_player_red_grounded := b\<rparr>) = red_kicks inp g"
  by (simp_all add: blue_kicks_def red_kicks_def)

lemma blue_input_act:
  assumes "three_bodies g"
  shows "blue_input inp g = Inr (blue_act inp g)"
proof -
  have v: "valid_body g (player_blue_body_ref g)" "valid_body g (ball_body_ref g)"
    using assms by (simp_all add: three_bodies_def)
  let ?two = "\<lambda>b. if pressed inp kLeft
      then ApplyForce (Vec2 (- kWalkSpeed) 0) (if pressed inp kRight then ApplyForce (Vec2 kWalkSpeed 0) b else b)
      else if pressed inp kRight then ApplyForce (Vec2 kWalkSpeed 0) b else b"
  have eq: "blue_input inp g = rbind
      (if blue_jumps inp g
       then rmap (\<lambda>g. g\<lparr>is_player_blue_grounded := False\<rparr>)
              (with_body (player_blue_body_ref g) (ApplyForce (Vec2 0 kJumpSpeed))
                (on_body (player_blue_body_ref g) ?two g))
       else Inr (on_body (player_blue_body_ref g) ?two g)) (\<lambda>h.
      if blue_kicks inp h
      then rmap (\<lambda>g. g\<lparr>player_blue_kick_time := 0\<rparr>)
             (with_body (ball_body_ref h) (ApplyForce (Vec2 kShootForce (- kShootForce))) h)
      else Inr h)"
    by (simp add: blue_input_def press_on v on_body_on_body [OF v(1)] blue_jumps_def blue_kicks_def
        del: with_body_valid)
  show ?thesis
    unfolding eq blue_act_def walk_parts
    by (cases "blue_jumps inp g"; cases "blue_kicks inp g")
      (simp_all add: v with_body_on on_body_on_body [OF v(1)] del: with_body_valid)
qed

lemma red_input_act:
  assumes "three_bodies g"
  shows "red_input inp g = Inr (red_act inp g)"
proof -
  have v: "valid_body g (player_red_body_ref g)" "valid_body g (ball_body_ref g)"
    using assms by (simp_all add: three_bodies_def)
  let ?two = "\<lambda>b. if pressed inp kLeft
      then ApplyForce (Vec2 (- kWalkSpeed) 0) (if pressed inp kRight then ApplyForce (Vec2 kWalkSpeed 0) b else b)
      else if pressed inp kRight then ApplyForce (Vec2 kWalkSpeed 0) b else b"
  have eq: "red_input inp g = rbind
      (if red_jumps inp g
       then rmap (\<lambda>g. g\<lparr>is_player_red_grounded := False\<rparr>)
              (with_body (player_red_body_ref g) (ApplyForce (Vec2 0 kJumpSpeed))
                (on_body (player_red_body_ref g) ?two g))
       else Inr (on_body (player_red_body_ref g) ?two g)) (\<lambda>h.
      if red_kicks inp h
      then rmap (\<lambda>g. g\<lparr>player_red_kick_time := 0\<rparr>)
             (with_body (ball_body_ref h) (ApplyForce (Vec2 (- kShootForce) (- kShootForce))) h)
      else Inr h)"
    by (simp add: red_input_def press_on v on_body_on_body [OF v(1)] red_jumps_def red_kicks_def
        del: with_body_valid)
  show ?thesis
    unfolding eq red_act_def walk_parts
    by (cases "red_jumps inp g"; cases "red_kicks inp g")
      (simp_all add: v with_body_on on_body_on_body [OF v(1)] del: with_body_valid)
qed


section \<open>The order of the two inputs does not matter\<close>

lemma on_body_commute:
  assumes "body_Index r \<noteq> body_Index s"
  shows "on_body r f (on_body s h g) = on_body s h (on_body r f g)"
  using assms by (simp add: on_body_def list_update_swap)

lemma on_body_cong:
  "f (bodies g ! body_Index r) = h (bodies g ! body_Index r) \<Longrightarrow> on_body r f g = on_body r h g"
  by (simp add: on_body_def)

lemma zero_plus_kick:
  "0 + kShootForce = kShootForce" "0 + (- kShootForce) = - kShootForce"
  "kShootForce + 0 = kShootForce" "- kShootForce + 0 = - kShootForce"
  by (simp_all add: kShootForce_def f32_eval)

lemma kicks_commute:
  assumes "force b = Zero"
  shows "kicked r (- kShootForce) (kicked l kShootForce b) = kicked l kShootForce (kicked r (- kShootForce) b)"
  using assms
  by (cases r; cases l)
    (simp_all add: ApplyForce_def plus_vec2_def zero_plus_kick f32_add_commute)

lemma kicks_other [simp]:
  "blue_kicks inp (g\<lparr>is_player_red_grounded := b, player_red_kick_time := t\<rparr>) = blue_kicks inp g"
  "red_kicks inp (g\<lparr>is_player_blue_grounded := b, player_blue_kick_time := t\<rparr>) = red_kicks inp g"
  "blue_jumps inp (g\<lparr>is_player_red_grounded := b, player_red_kick_time := t\<rparr>) = blue_jumps inp g"
  "red_jumps inp (g\<lparr>is_player_blue_grounded := b, player_blue_kick_time := t\<rparr>) = red_jumps inp g"
  "blue_jumps inp (on_body r f g) = blue_jumps inp g" "red_jumps inp (on_body r f g) = red_jumps inp g"
  by (simp_all add: blue_kicks_def red_kicks_def blue_jumps_def red_jumps_def)

lemma acts_commute:
  assumes "three_bodies g" "force (bodies g ! body_Index (ball_body_ref g)) = Zero"
  shows "red_act b (blue_act a g) = blue_act a (red_act b g)"
proof -
  let ?ball = "ball_body_ref g" and ?blue = "player_blue_body_ref g" and ?red = "player_red_body_ref g"
  let ?kr = "kicked (red_kicks b g) (- kShootForce)" and ?kb = "kicked (blue_kicks a g) kShootForce"
  let ?wr = "walk b (red_jumps b g)" and ?wb = "walk a (blue_jumps a g)"
  have d: "body_Index ?ball \<noteq> body_Index ?blue" "body_Index ?ball \<noteq> body_Index ?red"
    "body_Index ?blue \<noteq> body_Index ?red" and v: "valid_body g ?ball"
    using assms(1) by (auto simp: three_bodies_def)
  let ?g = "on_body ?red ?wr (on_body ?blue ?wb g)"
  have f: "force (bodies ?g ! body_Index ?ball) = Zero"
    using assms(2) d by (simp add: on_body_def)
  have "on_body ?ball ?kr (on_body ?red ?wr (on_body ?ball ?kb (on_body ?blue ?wb g)))
      = on_body ?ball ?kr (on_body ?ball ?kb ?g)"
    using on_body_commute [of ?red ?ball] d(2) by simp
  also have "\<dots> = on_body ?ball (\<lambda>x. ?kr (?kb x)) ?g"
    using v by (intro on_body_on_body) simp
  also have "\<dots> = on_body ?ball (\<lambda>x. ?kb (?kr x)) ?g"
    by (rule on_body_cong) (rule kicks_commute [OF f])
  also have "\<dots> = on_body ?ball ?kb (on_body ?ball ?kr ?g)"
    using v by (intro on_body_on_body [symmetric]) simp
  also have "\<dots> = on_body ?ball ?kb (on_body ?blue ?wb (on_body ?ball ?kr (on_body ?red ?wr g)))"
    using on_body_commute [of ?blue ?ball] on_body_commute [of ?blue ?red] d by simp
  finally show ?thesis by (simp add: red_act_def blue_act_def)
qed

lemma three_bodies_acts:
  "three_bodies g \<Longrightarrow> three_bodies (blue_act inp g)" "three_bodies g \<Longrightarrow> three_bodies (red_act inp g)"
  by (simp_all add: three_bodies_def blue_act_def red_act_def)

lemma acts_mirror [simp]:
  "blue_act inp (mirror g) = mirror (blue_act inp g)" "red_act inp (mirror g) = mirror (red_act inp g)"
  by (simp_all add: blue_act_def red_act_def blue_kicks_def red_kicks_def blue_jumps_def red_jumps_def
      on_body_def mirror_def)

lemma ProcessInput_mirror:
  assumes "three_bodies g" "force (bodies g ! body_Index (ball_body_ref g)) = Zero"
    and "player_nbr g \<in> {0, 1}"
  shows "ProcessInput (mirror g) = rmap mirror (ProcessInput g)"
proof -
  have m: "three_bodies (mirror g)"
    using assms(1) by (simp add: three_bodies_def valid_body_def)
  have i: "input (blue_act a g) = input g" "input (red_act a g) = input g"
    "other_player_input (blue_act a g) = other_player_input g"
    "other_player_input (red_act a g) = other_player_input g" for a
    by (simp_all add: blue_act_def red_act_def on_body_def)
  note acts = blue_input_act red_input_act three_bodies_acts acts_commute [OF assms(1,2)]
  show ?thesis
    using assms(1,3) m
    by (auto simp: ProcessInput_def acts i three_bodies_acts [OF m, unfolded acts_mirror])
qed

lemma collider_step_mirror:
  assumes "player_nbr g \<in> {0, 1}"
  shows "collider_step r (mirror g) = rmap mirror (collider_step r g)"
  using assms
  by (auto simp: collider_step_def rmap_of_rbind rmap_if del: with_body_valid intro!: rbind_cong)


section \<open>After an update no force is left on a moving body\<close>

lemma UpdateBodies_force:
  assumes "UpdateBodies dt w = Inr w'" "i < length (bodies w)"
    and "IsEnabled (bodies w ! i)" "Type (bodies w ! i) \<noteq> STATIC"
  shows "force (bodies w' ! i) = Zero"
proof -
  have "list_all2 (\<lambda>b b'. update_body dt b = Inr b') (bodies w) (bodies w')"
    using assms(1) by (auto simp: UpdateBodies_def rmap_eq_Inr res_map_Inr)
  then have "update_body dt (bodies w ! i) = Inr (bodies w' ! i)"
    using assms(2) by (rule list_all2_nthD)
  moreover have "force b' = Zero"
    if "update_body dt b = Inr b'" "IsEnabled b" "Type b \<noteq> STATIC" for b b' :: "f32 body"
    using that by (auto simp: update_body_def rbind_eq_Inr Let_def ResetForce_def)
  ultimately show ?thesis using assms(3,4) by blast
qed

lemma with_body_force:
  assumes "with_body r f g = Inr h" "\<And>b. force (f b) = force b"
  shows "map force (bodies h) = map force (bodies g)"
proof -
  have "body_Index r < length (bodies g)"
    "h = g\<lparr>bodies := (bodies g)[body_Index r := f (bodies g ! body_Index r)]\<rparr>"
    using assms(1) by (auto simp: with_body_def rbind_eq_Inr GetBody_Inr valid_body_def)
  then show ?thesis
    using assms(2) by (auto simp: nth_list_update intro!: nth_equalityI)
qed

lemma ResetPositions_force:
  assumes "ResetPositions g = Inr h"
  shows "map force (bodies h) = map force (bodies g)"
proof -
  obtain g1 g2 where s: "with_body (ball_body_ref g) (\<lambda>b. b\<lparr>Position := ball_start, Velocity := Zero\<rparr>) g = Inr g1"
    "with_body (player_blue_body_ref g1) (\<lambda>b. b\<lparr>Position := blue_start, Velocity := Zero\<rparr>) g1 = Inr g2"
    "with_body (player_red_body_ref g2) (\<lambda>b. b\<lparr>Position := red_start, Velocity := Zero\<rparr>) g2 = Inr h"
    using assms by (auto simp: ResetPositions_def rbind_eq_Inr)
  from with_body_force [OF s(1)] with_body_force [OF s(2)] with_body_force [OF s(3)] show ?thesis
    by simp
qed

lemma callbacks_force:
  "Game_OnTriggerEnter a b g = Inr h \<Longrightarrow> map force (bodies h) = map force (bodies g)"
  "Game_OnTriggerExit a b g = Inr h \<Longrightarrow> map force (bodies h) = map force (bodies g)"
  "Game_OnCollisionEnter a b g = Inr h \<Longrightarrow> map force (bodies h) = map force (bodies g)"
  "Game_OnCollisionExit a b g = Inr h \<Longrightarrow> map force (bodies h) = map force (bodies g)"
  by (auto simp: Game_OnTriggerEnter_def Game_OnTriggerExit_def Game_OnCollisionEnter_def
      Game_OnCollisionExit_def Let_def rbind_eq_Inr dest!: ResetPositions_force split: if_splits)

lemma process_pair_force:
  assumes "process_pair game_listener r1 r2 g = Inr h"
  shows "map force (bodies h) = map force (bodies g)"
  using assms
  by (auto simp: process_pair_def game_listener_def notify_def Let_def rbind_eq_Inr
      dest!: callbacks_force resolve_bodies_force split: if_splits)

lemma World_Update_force:
  assumes "World_Update game_listener dt g = Inr h" "safe g" "wf_tree (quadTree g)"
    and "i < length (bodies g)" "IsEnabled (bodies g ! i)" "Type (bodies g ! i) \<noteq> STATIC"
  shows "force (bodies h ! i) = Zero"
proof -
  obtain g1 g2 where u: "UpdateBodies dt g = Inr g1" "SetUpQuadTree g1 = Inr g2"
    "UpdateQuadTreeCollisions (MAX_DEPTH + 1) game_listener 0 g2 = Inr h"
    using assms(1) by (auto simp: World_Update_def rbind_eq_Inr)
  obtain bs where "g1 = g\<lparr>bodies := bs\<rparr>" and fr: "frame g g1"
    using UpdateBodies_safe [OF assms(2), of dt] u(1) by auto
  then have "safe g1" "wf_tree (quadTree g1)" using frame_safe [OF fr assms(2)] assms(3) by simp_all
  then have "bodies g2 = bodies g1" using SetUpQuadTree_spec [of g1] u(2) by (auto simp: Let_def)
  moreover have "map force (bodies h) = map force (bodies g2)"
    by (rule collisions_inv [where P = "\<lambda>h. map force (bodies h) = map force (bodies g2)", OF u(3)])
      (auto dest: process_pair_force)
  ultimately have m: "map force (bodies h) = map force (bodies g1)" by simp
  have l: "i < length (bodies g1)" using frame_length [OF fr] assms(4) by simp
  then have "force (bodies h ! i) = force (bodies g1 ! i)"
    using arg_cong [OF m, of "\<lambda>l. l ! i"] arg_cong [OF m, of length] by simp
  then show ?thesis using UpdateBodies_force [OF u(1) assms(4-6)] by simp
qed

section \<open>Frames commute with the mirror\<close>

text \<open>What the two peers need for lockstep: a ready game between players 0 and 1, three bodies.\<close>

definition fair :: "game \<Rightarrow> bool" where
  "fair g \<longleftrightarrow> ready g \<and> three_bodies g \<and> IsEnabled (bodies g ! body_Index (ball_body_ref g))
     \<and> player_nbr g \<in> {0, 1}"

lemma config_three_bodies:
  assumes "config h = config g" "frame g h"
  shows "three_bodies h = three_bodies g"
  using assms(1) frame_valid_body [OF assms(2)] by (simp add: three_bodies_def config_def)

lemma press_config: "press c r f g = Inr h \<Longrightarrow> config h = config g"
  by (auto simp: press_def dest: with_body_config split: if_splits)

lemma act_config:
  assumes "(if c then rmap u (with_body r f g) else Inr g) = Inr h" "\<And>k. config (u k) = config k"
  shows "config h = config g"
  using assms by (auto simp: rmap_eq_Inr dest: with_body_config split: if_splits)

lemma blue_input_config:
  assumes "blue_input inp g = Inr h"
  shows "config h = config g"
proof -
  obtain g1 g2 g3 where s: "press (pressed inp kRight) (player_blue_body_ref g) (Vec2 kWalkSpeed 0) g = Inr g1"
    "press (pressed inp kLeft) (player_blue_body_ref g1) (Vec2 (- kWalkSpeed) 0) g1 = Inr g2"
    "(if pressed inp kJump \<and> is_player_blue_grounded g2
      then rmap (\<lambda>g. g\<lparr>is_player_blue_grounded := False\<rparr>)
             (with_body (player_blue_body_ref g2) (ApplyForce (Vec2 0 kJumpSpeed)) g2) else Inr g2) = Inr g3"
    "(if pressed inp kKick \<and> can_player_blue_kick g3 \<and> 1 \<le> player_blue_kick_time g3
      then rmap (\<lambda>g. g\<lparr>player_blue_kick_time := 0\<rparr>)
             (with_body (ball_body_ref g3) (ApplyForce (Vec2 kShootForce (- kShootForce))) g3)
      else Inr g3) = Inr h"
    using assms unfolding blue_input_def rbind_eq_Inr by blast
  show ?thesis
    using press_config [OF s(1)] press_config [OF s(2)] act_config [OF s(3)] act_config [OF s(4)] by simp
qed

lemma red_input_config:
  assumes "red_input inp g = Inr h"
  shows "config h = config g"
proof -
  obtain g1 g2 g3 where s: "press (pressed inp kRight) (player_red_body_ref g) (Vec2 kWalkSpeed 0) g = Inr g1"
    "press (pressed inp kLeft) (player_red_body_ref g1) (Vec2 (- kWalkSpeed) 0) g1 = Inr g2"
    "(if pressed inp kJump \<and> is_player_red_grounded g2
      then rmap (\<lambda>g. g\<lparr>is_player_red_grounded := False\<rparr>)
             (with_body (player_red_body_ref g2) (ApplyForce (Vec2 0 kJumpSpeed)) g2) else Inr g2) = Inr g3"
    "(if pressed inp kKick \<and> can_player_red_kick g3 \<and> 1 \<le> player_red_kick_time g3
      then rmap (\<lambda>g. g\<lparr>player_red_kick_time := 0\<rparr>)
             (with_body (ball_body_ref g3) (ApplyForce (Vec2 (- kShootForce) (- kShootForce))) g3)
      else Inr g3) = Inr h"
    using assms unfolding red_input_def rbind_eq_Inr by blast
  show ?thesis
    using press_config [OF s(1)] press_config [OF s(2)] act_config [OF s(3)] act_config [OF s(4)] by simp
qed

lemma ProcessInput_config: "ProcessInput g = Inr h \<Longrightarrow> config h = config g"
  by (auto simp: ProcessInput_def rbind_eq_Inr dest!: blue_input_config red_input_config split: if_splits)

lemma collider_step_config: "collider_step r g = Inr h \<Longrightarrow> config h = config g"
  by (auto simp: collider_step_def rbind_eq_Inr dest!: with_body_config split: if_splits)

lemma FixedUpdate_config:
  assumes "FixedUpdate g = Inr h"
  shows "config h = config g"
proof (cases "state g")
  case kInGame
  obtain g1 where g1: "World_Update game_listener kFixedDeltaTime g = Inr g1"
    using assms kInGame by (auto simp: FixedUpdate_def rbind_eq_Inr)
  let ?g2 = "g1\<lparr>player_blue_kick_time := player_blue_kick_time g1 + kFixedDeltaTime,
                player_red_kick_time := player_red_kick_time g1 + kFixedDeltaTime\<rparr>"
  obtain g3 where g3: "ProcessInput ?g2 = Inr g3" "rfold collider_step (col_refs g3) g3 = Inr h"
    using assms kInGame g1 by (auto simp: FixedUpdate_def rbind_eq_Inr)
  have "config g3 = config ?g2" by (rule ProcessInput_config [OF g3(1)])
  moreover have "config h = config g3"
    by (rule rfold_inv [where P = "\<lambda>h. config h = config g3", OF g3(2)])
      (auto dest: collider_step_config)
  ultimately show ?thesis using World_Update_config [OF g1] by simp
qed (use assms in \<open>auto simp: FixedUpdate_def\<close>)

lemma FixedUpdate_fair:
  assumes "fair g"
  shows "\<exists>h. FixedUpdate g = Inr h \<and> fair h \<and> config h = config g"
proof -
  obtain h where h: "FixedUpdate g = Inr h" "ready h" "frame g h"
    using FixedUpdate_ready assms by (auto simp: fair_def)
  note c = FixedUpdate_config [OF h(1)]
  have i: "body_Index (ball_body_ref g) < length (bodies g)"
    using assms by (simp add: fair_def three_bodies_def valid_body_def)
  have "Mass (bodies h ! body_Index (ball_body_ref g)) = Mass (bodies g ! body_Index (ball_body_ref g))"
    using frame_body [OF h(3) i] by (simp add: steady_def)
  moreover have "ball_body_ref h = ball_body_ref g" "player_nbr h = player_nbr g"
    using c by (simp_all add: config_def)
  ultimately have "fair h"
    using assms h(2) config_three_bodies [OF c h(3)] by (simp add: fair_def IsEnabled_def)
  with h(1) c show ?thesis by blast
qed

lemma FixedUpdate_mirror:
  assumes "fair g"
  shows "FixedUpdate (mirror g) = rmap mirror (FixedUpdate g)"
proof (cases "state g")
  case kInGame
  obtain g1 where g1: "World_Update game_listener kFixedDeltaTime g = Inr g1" "client.live g g1"
    using client.World_Update_live [of g kFixedDeltaTime] assms by (auto simp: fair_def ready_def)
  have fr: "frame g g1" using g1(2) by (simp add: client.live_def)
  have c: "config g1 = config g" by (rule World_Update_config [OF g1(1)])
  let ?g2 = "g1\<lparr>player_blue_kick_time := player_blue_kick_time g1 + kFixedDeltaTime,
                player_red_kick_time := player_red_kick_time g1 + kFixedDeltaTime\<rparr>"
  have refs: "ball_body_ref g1 = ball_body_ref g" "player_nbr g1 = player_nbr g"
    using c by (simp_all add: config_def)
  have tb: "three_bodies g1" using config_three_bodies [OF c fr] assms by (simp add: fair_def)
  have tb2: "three_bodies ?g2" using tb by (simp add: three_bodies_def)
  have ball: "actor g (ball_body_ref g)" "body_Index (ball_body_ref g) < length (bodies g)"
    using assms by (auto simp: fair_def ready_def game_ok_def actor_def valid_body_def)
  have "force (bodies g1 ! body_Index (ball_body_ref g)) = Zero"
    by (rule World_Update_force [OF g1(1)])
      (use assms ball in \<open>simp_all add: fair_def ready_def actor_def\<close>)
  then have P: "ProcessInput (mirror ?g2) = rmap mirror (ProcessInput ?g2)"
    by (intro ProcessInput_mirror tb2) (use assms refs in \<open>simp_all add: fair_def\<close>)
  have pn: "player_nbr h \<in> {0, 1}" if "ProcessInput ?g2 = Inr h" for h
    using ProcessInput_config [OF that] assms refs by (simp add: config_def fair_def)
  have loop: "rfold collider_step rs (mirror h) = rmap mirror (rfold collider_step rs h)"
    if "player_nbr h \<in> {0, 1}" for rs h
    using that
  proof (induction rs arbitrary: h)
    case (Cons r rs)
    have "player_nbr k \<in> {0, 1}" if "collider_step r h = Inr k" for k
      using collider_step_config [OF that] Cons.prems by (simp add: config_def)
    with Cons show ?case
      by (auto simp: collider_step_mirror rbind_rmap rmap_of_rbind intro!: rbind_cong)
  qed simp
  show ?thesis
    unfolding FixedUpdate_def using kInGame P pn loop
    by (auto simp: World_Update_mirror g1(1) rbind_rmap rmap_of_rbind intro!: rbind_cong)
qed (simp_all add: FixedUpdate_def)

lemma fair_mirror: "fair g \<Longrightarrow> fair (mirror g)"
  by (auto simp: fair_def ready_def safe_def slots_def game_ok_def actor_def three_bodies_def valid_body_def
      valid_collider_def collider_ok_def)

lemma CheckSum_mirror [simp]: "CheckSum (mirror g) = CheckSum g"
  by (simp only: CheckSum_def GetBody_mirror mirror_sel)

end
