(* ===== verification/Rollback.thy ===== *)
theory Rollback
  imports Determinism
begin

text \<open>
  \<open>common/include/rollback.h\<close> and \<open>common/src/rollback.cpp\<close>: the rollback of the netcode. The source
  holds a pointer \<open>current_\<close> to the game of the application; here that game is an argument and a
  result of the operations that go through the pointer, and \<open>registered\<close> says that the pointer is set.
  The confirmed game is owned. A \<open>short\<close> frame is an \<open>int\<close>: the main loop ends the match at frame 5400
  and resets the counters, and a frame of 5400 is outside the input arrays, long before the range of
  \<open>short\<close> is left.
\<close>

section \<open>State\<close>

record rollback =
  registered :: bool
  confirmed :: game
  current_frame :: int
  last_remote_input_frame :: int
  frame_to_confirm :: int
  confirmed_frame :: int
  last_inputs :: "Input list"
  inputs :: "Input list list"

definition no_inputs :: "Input list list" where
  "no_inputs = replicate 2 (replicate (nat kGameFrameNbr) 0)"

definition Rollback :: "rollback res" where
  "Rollback = rmap (\<lambda>g. \<lparr>registered = False, confirmed = g, current_frame = - 1,
     last_remote_input_frame = - 1, frame_to_confirm = 0, confirmed_frame = - 1,
     last_inputs = replicate 2 0, inputs = no_inputs\<rparr>) Game"

text \<open>The pointer survives a reset; the confirmed game is replaced by a new one.\<close>

definition Reset :: "rollback \<Rightarrow> rollback res" where
  "Reset r = rmap (\<lambda>g. r\<lparr>current_frame := - 1, last_remote_input_frame := - 1, frame_to_confirm := 0,
     confirmed_frame := - 1, last_inputs := replicate 2 0, inputs := no_inputs, confirmed := g\<rparr>) Game"

definition RegisterGame :: "game \<Rightarrow> rollback \<Rightarrow> rollback res" where
  "RegisterGame g r =
     rmap (\<lambda>c. r\<lparr>registered := True, confirmed := c\<lparr>player_nbr := player_nbr g\<rparr>\<rparr>)
       (StartGame (SetBallType (GetBallType g) (confirmed r)))"

definition GetConfirmedFrame :: "rollback \<Rightarrow> int" where "GetConfirmedFrame r = confirmed_frame r"
definition GetCurentFrame :: "rollback \<Rightarrow> int" where "GetCurentFrame r = current_frame r"
definition GetLastRemoteInputFrame :: "rollback \<Rightarrow> int" where
  "GetLastRemoteInputFrame r = last_remote_input_frame r"
definition GetFrameToConfirm :: "rollback \<Rightarrow> int" where "GetFrameToConfirm r = frame_to_confirm r"
definition IncreaseCurrentFrame :: "rollback \<Rightarrow> rollback" where
  "IncreaseCurrentFrame r = r\<lparr>current_frame := current_frame r + 1\<rparr>"
definition GetLastPlayerInput :: "int \<Rightarrow> rollback \<Rightarrow> Input res" where
  "GetLastPlayerInput player_id r = vec_at_int (last_inputs r) player_id"

section \<open>The input arrays\<close>

definition input_at :: "rollback \<Rightarrow> int \<Rightarrow> int \<Rightarrow> Input res" where
  "input_at r player_id fr = rbind (vec_at_int (inputs r) player_id) (\<lambda>row. vec_at_int row fr)"

definition store_input :: "int \<Rightarrow> int \<Rightarrow> Input \<Rightarrow> rollback \<Rightarrow> rollback res" where
  "store_input player_id fr inp r =
     rbind (vec_at_int (inputs r) player_id) (\<lambda>row. rbind (vec_set_int row fr inp) (\<lambda>row.
       rmap (\<lambda>rows. r\<lparr>inputs := rows\<rparr>) (vec_set_int (inputs r) player_id row)))"

definition store_last :: "int \<Rightarrow> Input \<Rightarrow> rollback \<Rightarrow> rollback res" where
  "store_last player_id inp r =
     rmap (\<lambda>ls. r\<lparr>last_inputs := ls\<rparr>) (vec_set_int (last_inputs r) player_id inp)"

definition Rollback_SetPlayerInput :: "FrameInput \<Rightarrow> int \<Rightarrow> rollback \<Rightarrow> rollback res" where
  "Rollback_SetPlayerInput local_input player_id r =
     rbind (store_input player_id (frame_nbr local_input) (fi_input local_input) r)
       (store_last player_id (fi_input local_input))"

section \<open>Replaying frames\<close>

definition give_input :: "int \<Rightarrow> Input \<Rightarrow> game \<Rightarrow> game" where
  "give_input player_id inp g =
     (if player_nbr g = player_id then Game_SetPlayerInput inp g else Game_SetOtherPlayerInput inp g)"

definition give_inputs :: "rollback \<Rightarrow> int \<Rightarrow> game \<Rightarrow> game res" where
  "give_inputs r fr g =
     rfold (\<lambda>player_id g. rmap (\<lambda>inp. give_input player_id inp g) (input_at r player_id fr)) [0, 1] g"

definition replay_frame :: "rollback \<Rightarrow> int \<Rightarrow> game \<Rightarrow> game res" where
  "replay_frame r fr g = rbind (give_inputs r fr g) FixedUpdate"

definition DoRollback :: "rollback \<Rightarrow> game \<Rightarrow> game res" where
  "DoRollback r current =
     (if registered r
      then rfold (replay_frame r) [confirmed_frame r + 1 .. current_frame r - 1] (Copy current (confirmed r))
      else Inl (UndefinedBehaviour ''null''))"

definition ConfirmFrame :: "rollback \<Rightarrow> (32 word \<times> rollback) res" where
  "ConfirmFrame r =
     rbind (give_inputs r (frame_to_confirm r) (confirmed r)) (\<lambda>g. rbind (FixedUpdate g) (\<lambda>g.
     rmap (\<lambda>checksum. (checksum, r\<lparr>confirmed := g, confirmed_frame := confirmed_frame r + 1,
            frame_to_confirm := frame_to_confirm r + 1\<rparr>)) (CheckSum g)))"

section \<open>Inputs of the other player\<close>

text \<open>
  One pass of the loop over the missing frames: the iterator is the index \<open>it\<close>; reading it at the
  end of the packet is undefined.
\<close>

definition missing_step ::
  "int \<Rightarrow> FrameInput list \<Rightarrow> int \<Rightarrow> nat \<times> bool \<times> rollback \<Rightarrow> (nat \<times> bool \<times> rollback) res" where
  "missing_step player_id new_remote_inputs fr s =
     (case s of (it, must, r) \<Rightarrow>
        rbind (vec_at new_remote_inputs it) (\<lambda>fi.
        rbind (if - 1 < last_remote_input_frame r
               then rmap (\<lambda>last. must \<or> fi_input fi \<noteq> last) (vec_at_int (last_inputs r) player_id)
               else Inr must) (\<lambda>must.
        rmap (\<lambda>r. (it + 1, must, r)) (store_input player_id fr (fi_input fi) r))))"

definition newest_input :: "FrameInput list \<Rightarrow> rollback \<Rightarrow> FrameInput res" where
  "newest_input new_remote_inputs r =
     (if current_frame r < frame_nbr (last new_remote_inputs)
      then vec_at new_remote_inputs (find_if (\<lambda>fi. frame_nbr fi = current_frame r) new_remote_inputs)
      else Inr (last new_remote_inputs))"

definition Rollback_SetOtherPlayerInput ::
  "FrameInput list \<Rightarrow> int \<Rightarrow> rollback \<Rightarrow> game \<Rightarrow> (rollback \<times> game) res" where
  "Rollback_SetOtherPlayerInput new_remote_inputs player_id r current =
     (if new_remote_inputs = [] then Inl (UndefinedBehaviour ''back'')
      else if frame_nbr (last new_remote_inputs) - last_remote_input_frame r < 1 then Inr (r, current)
      else
        rbind (newest_input new_remote_inputs r) (\<lambda>newest.
        let missing_it = find_if (\<lambda>fi. frame_nbr fi = last_remote_input_frame r + 1) new_remote_inputs in
        rbind (rfold (missing_step player_id new_remote_inputs)
                 [last_remote_input_frame r + 1 .. frame_nbr newest]
                 (missing_it, last_remote_input_frame r = - 1, r)) (\<lambda>(_, must_rollback, r).
        rbind (rfold (\<lambda>fr. store_input player_id fr (fi_input newest))
                 [frame_nbr newest .. current_frame r] r) (\<lambda>r.
        rbind (if must_rollback then DoRollback r current else Inr current) (\<lambda>current.
        rmap (\<lambda>r. (r\<lparr>last_remote_input_frame := frame_nbr newest\<rparr>, current))
          (store_last player_id (fi_input newest) r))))))"

end
