(* ===== verification/Replay.thy ===== *)
theory Replay
  imports Rollback
begin

text \<open>
  What rollback netcode needs of the game it replays, as two contracts: a frame of a good state
  returns a good state (\<open>replay\<close>), and a frame commutes with exchanging the seats (\<open>seat_symmetry\<close>).
  Both are discharged by the game of this program. The array operations of the rollback get
  closed forms here too.
\<close>

section \<open>Replaying inputs\<close>

definition play ::
  "('g \<Rightarrow> 'g res) \<Rightarrow> (Input \<Rightarrow> Input \<Rightarrow> 'g \<Rightarrow> 'g) \<Rightarrow> (int \<Rightarrow> int \<Rightarrow> Input) \<Rightarrow> int list \<Rightarrow> 'g \<Rightarrow> 'g res" where
  "play step give ins = rfold (\<lambda>f g. step (give (ins 0 f) (ins 1 f) g))"

lemma play_append: "play step give ins (fs @ fs') g = rbind (play step give ins fs g) (play step give ins fs')"
  by (simp add: play_def rfold_append)

lemma play_cong:
  assumes "\<And>f. f \<in> set fs \<Longrightarrow> ins 0 f = ins' 0 f \<and> ins 1 f = ins' 1 f"
  shows "play step give ins fs g = play step give ins' fs g"
  unfolding play_def by (rule rfold_cong) (simp_all add: assms)

locale replay =
  fixes step :: "'g \<Rightarrow> 'g res"
    and give :: "Input \<Rightarrow> Input \<Rightarrow> 'g \<Rightarrow> 'g"
    and good :: "'g \<Rightarrow> bool"
    and fixed_part :: "'g \<Rightarrow> 'c"
  assumes step_good: "good g \<Longrightarrow> \<exists>h. step g = Inr h \<and> good h \<and> fixed_part h = fixed_part g"
    and give_good: "good g \<Longrightarrow> good (give a b g) \<and> fixed_part (give a b g) = fixed_part g"
begin

lemma play_good:
  assumes "good g"
  shows "\<exists>h. play step give ins fs g = Inr h \<and> good h \<and> fixed_part h = fixed_part g"
proof -
  have "\<exists>h. play step give ins fs g = Inr h \<and> (good h \<and> fixed_part h = fixed_part g)"
    unfolding play_def
  proof (rule rfold_total)
    fix f k
    assume "good k \<and> fixed_part k = fixed_part g"
    then show "\<exists>h. step (give (ins 0 f) (ins 1 f) k) = Inr h \<and> good h \<and> fixed_part h = fixed_part g"
      using step_good give_good by metis
  qed (simp add: assms)
  then show ?thesis .
qed

lemma play_keeps:
  "play step give ins fs g = Inr h \<Longrightarrow> good g \<Longrightarrow> good h \<and> fixed_part h = fixed_part g"
  using play_good [of g ins fs] by auto

end

locale seat_symmetry = replay +
  fixes flip :: "'a \<Rightarrow> 'a"
  assumes step_flip: "good g \<Longrightarrow> step (flip g) = rmap flip (step g)"
    and give_flip: "good g \<Longrightarrow> give a b (flip g) = flip (give a b g)"
begin

lemma play_flip:
  assumes "good g"
  shows "play step give ins fs (flip g) = rmap flip (play step give ins fs g)"
  using assms
proof (induction fs arbitrary: g)
  case (Cons f fs)
  let ?k = "give (ins 0 f) (ins 1 f) g"
  obtain h where h: "step ?k = Inr h" "good h"
    using step_good give_good Cons.prems by blast
  have "step (give (ins 0 f) (ins 1 f) (flip g)) = Inr (flip h)"
    using step_flip [of ?k] give_flip give_good Cons.prems h(1) by simp
  with Cons.IH [OF h(2)] h(1) show ?case by (simp add: play_def)
qed (simp add: play_def)

end

section \<open>The game is such a simulation\<close>

definition sound :: "game \<Rightarrow> bool" where
  "sound g \<longleftrightarrow> fair g \<and> contactListener g"

definition seat :: "Input \<Rightarrow> Input \<Rightarrow> game \<Rightarrow> game" where
  "seat a b g = give_input 1 b (give_input 0 a g)"

text \<open>What \<open>Copy\<close> leaves alone, but for the two inputs it also copies.\<close>

abbreviation static :: "game \<Rightarrow> (GameState \<times> Input \<times> Input \<times> BodyRef list \<times> ColliderRef list)
    \<times> (BodyRef \<times> BodyRef \<times> BodyRef) \<times> ColliderRef list \<times> BallType \<times> f32 \<times> int" where
  "static g \<equiv> config (g\<lparr>input := 0, other_player_input := 0\<rparr>)"

lemma static_config: "config g = config h \<Longrightarrow> static g = static h"
  by (simp add: config_def)

lemma static_player: "static g = static h \<Longrightarrow> player_nbr g = player_nbr h"
  by (simp add: config_def)

lemma Copy_same:
  assumes "contactListener c" "static g = static c"
  shows "Copy g c = c"
  using assms by (cases g; cases c; simp add: Copy_def SetContactListener_def Let_def config_def)

lemma frame_contactListener: "frame g h \<Longrightarrow> contactListener h = contactListener g"
  by (simp add: frame_def)

lemma FixedUpdate_sound:
  assumes "sound g"
  shows "\<exists>h. FixedUpdate g = Inr h \<and> sound h \<and> static h = static g"
proof -
  obtain h where h: "FixedUpdate g = Inr h" "fair h" "config h = config g"
    using FixedUpdate_fair [of g] assms by (auto simp: sound_def)
  have "frame g h"
    using FixedUpdate_ready [of g] assms h(1) by (auto simp: sound_def fair_def)
  then have "sound h" using assms h(2) by (simp add: sound_def frame_contactListener)
  with h(1) static_config [OF h(3)] show ?thesis by blast
qed

lemma seat_fields [simp]:
  "bodies (seat a b g) = bodies g" "colliders (seat a b g) = colliders g"
  "quadTree (seat a b g) = quadTree g" "contactListener (seat a b g) = contactListener g"
  "BodyGenIndices (seat a b g) = BodyGenIndices g" "ColliderGenIndices (seat a b g) = ColliderGenIndices g"
  "player_nbr (seat a b g) = player_nbr g" "ball_body_ref (seat a b g) = ball_body_ref g"
  "player_blue_body_ref (seat a b g) = player_blue_body_ref g"
  "player_red_body_ref (seat a b g) = player_red_body_ref g" "col_refs (seat a b g) = col_refs g"
  "state (seat a b g) = state g"
  by (simp_all add: seat_def give_input_def Game_SetPlayerInput_def Game_SetOtherPlayerInput_def)

lemma seat_sound: "sound (seat a b g) \<longleftrightarrow> sound g"
  by (simp add: sound_def fair_def ready_def safe_def slots_def game_ok_def actor_def three_bodies_def
      valid_body_def valid_collider_def collider_ok_def)

lemma seat_static: "static (seat a b g) = static g"
  by (simp add: config_def seat_def give_input_def Game_SetPlayerInput_def Game_SetOtherPlayerInput_def)

lemma seat_mirror: "player_nbr g \<in> {0, 1} \<Longrightarrow> seat a b (mirror g) = mirror (seat a b g)"
  by (auto simp: seat_def give_input_def Game_SetPlayerInput_def Game_SetOtherPlayerInput_def mirror_def)

lemma sound_player: "sound g \<Longrightarrow> player_nbr g \<in> {0, 1}"
  by (simp add: sound_def fair_def)

lemma sound_mirror: "sound g \<Longrightarrow> sound (mirror g)"
  by (simp add: sound_def fair_mirror)

interpretation match: replay FixedUpdate seat sound "\<lambda>g. static g"
  by unfold_locales (use FixedUpdate_sound in \<open>auto simp: seat_sound seat_static simp del: fun_upd_apply\<close>)

interpretation peers: seat_symmetry FixedUpdate seat sound "\<lambda>g. static g" mirror
  by unfold_locales (auto simp: sound_def FixedUpdate_mirror seat_mirror fair_def)

section \<open>The input arrays\<close>

definition arrays :: "rollback \<Rightarrow> bool" where
  "arrays r \<longleftrightarrow> length (inputs r) = 2 \<and> length (inputs r ! 0) = 5400 \<and> length (inputs r ! 1) = 5400
     \<and> length (last_inputs r) = 2"

definition stored :: "rollback \<Rightarrow> int \<Rightarrow> int \<Rightarrow> Input" where
  "stored r player_id f = inputs r ! nat player_id ! nat f"

definition put :: "int \<Rightarrow> int \<Rightarrow> Input \<Rightarrow> rollback \<Rightarrow> rollback" where
  "put player_id f inp r = r\<lparr>inputs := (inputs r)[nat player_id := (inputs r ! nat player_id)[nat f := inp]]\<rparr>"

definition puts :: "int \<Rightarrow> int list \<Rightarrow> (int \<Rightarrow> Input) \<Rightarrow> rollback \<Rightarrow> rollback" where
  "puts player_id fs val = fold (\<lambda>f. put player_id f (val f)) fs"

abbreviation in_match :: "int \<Rightarrow> bool" where "in_match f \<equiv> 0 \<le> f \<and> f < 5400"

lemma puts_simps [simp]:
  "puts p [] val r = r" "puts p (f # fs) val r = puts p fs val (put p f (val f) r)"
  by (simp_all add: puts_def)

lemma arrays_rows: "arrays r \<Longrightarrow> p \<in> {0, 1} \<Longrightarrow> nat p < length (inputs r) \<and> length (inputs r ! nat p) = 5400"
  by (auto simp: arrays_def)

lemma store_input_put:
  assumes "arrays r" "p \<in> {0, 1}" "in_match f"
  shows "store_input p f inp r = Inr (put p f inp r)"
  using assms arrays_rows [OF assms(1,2)] by (auto simp: store_input_def put_def)

lemma input_at_stored:
  assumes "arrays r" "p \<in> {0, 1}" "in_match f"
  shows "input_at r p f = Inr (stored r p f)"
  using assms arrays_rows [OF assms(1,2)] by (auto simp: input_at_def stored_def)

lemma arrays_put [simp]: "arrays r \<Longrightarrow> p \<in> {0, 1} \<Longrightarrow> arrays (put p f inp r)"
  by (auto simp: arrays_def put_def)

lemma stored_put:
  assumes "arrays r" "p \<in> {0, 1}" "q \<in> {0, 1}" "in_match f" "0 \<le> x"
  shows "stored (put p f inp r) q x = (if q = p \<and> x = f then inp else stored r q x)"
proof -
  have "nat x = nat f \<longleftrightarrow> x = f" "nat q = nat p \<longleftrightarrow> q = p" "nat f < 5400" using assms by auto
  then show ?thesis
    using arrays_rows [OF assms(1,2)]
    by (simp add: stored_def put_def nth_list_update eq_commute [of "nat p"] eq_commute [of "nat f"])
qed

lemma put_rest [simp]:
  "registered (put p f i r) = registered r" "confirmed (put p f i r) = confirmed r"
  "current_frame (put p f i r) = current_frame r" "last_inputs (put p f i r) = last_inputs r"
  "last_remote_input_frame (put p f i r) = last_remote_input_frame r"
  "frame_to_confirm (put p f i r) = frame_to_confirm r" "confirmed_frame (put p f i r) = confirmed_frame r"
  by (simp_all add: put_def)

lemma puts_rest [simp]:
  "registered (puts p fs v r) = registered r" "confirmed (puts p fs v r) = confirmed r"
  "current_frame (puts p fs v r) = current_frame r" "last_inputs (puts p fs v r) = last_inputs r"
  "last_remote_input_frame (puts p fs v r) = last_remote_input_frame r"
  "frame_to_confirm (puts p fs v r) = frame_to_confirm r" "confirmed_frame (puts p fs v r) = confirmed_frame r"
  by (induction fs arbitrary: r) simp_all

lemma arrays_puts [simp]: "arrays r \<Longrightarrow> p \<in> {0, 1} \<Longrightarrow> arrays (puts p fs v r)"
  by (induction fs arbitrary: r) simp_all

lemma stored_puts:
  assumes "arrays r" "p \<in> {0, 1}" "q \<in> {0, 1}" "\<forall>f \<in> set fs. in_match f" "0 \<le> x"
  shows "stored (puts p fs v r) q x = (if q = p \<and> x \<in> set fs then v x else stored r q x)"
  using assms
proof (induction fs arbitrary: r)
  case (Cons f fs)
  then show ?case by (auto simp: stored_put)
qed simp

lemma store_all_puts:
  assumes "arrays r" "p \<in> {0, 1}" "\<forall>f \<in> set fs. in_match f"
  shows "rfold (\<lambda>f. store_input p f (v f)) fs r = Inr (puts p fs v r)"
  using assms
proof (induction fs arbitrary: r)
  case (Cons f fs)
  then show ?case by (simp add: store_input_put)
qed simp

lemma replay_frame_seat:
  assumes "arrays r" "in_match f"
  shows "replay_frame r f g = FixedUpdate (seat (stored r 0 f) (stored r 1 f) g)"
  using assms by (simp add: replay_frame_def give_inputs_def input_at_stored seat_def)

lemma replay_frames_play:
  assumes "arrays r" "\<forall>f \<in> set fs. in_match f"
  shows "rfold (replay_frame r) fs g = play FixedUpdate seat (stored r) fs g"
  unfolding play_def by (rule rfold_cong) (use assms replay_frame_seat in auto)

section \<open>The packet of the other player\<close>

text \<open>A packet carries the inputs of consecutive frames.\<close>

definition packet :: "(int \<Rightarrow> Input) \<Rightarrow> int \<Rightarrow> int \<Rightarrow> FrameInput list" where
  "packet h a b = map (\<lambda>f. \<lparr>fi_input = h f, frame_nbr = f\<rparr>) [a .. b]"

lemma length_packet [simp]: "length (packet h a b) = nat (b + 1 - a)"
  by (simp add: packet_def)

lemma packet_nth [simp]:
  "a \<le> f \<Longrightarrow> f \<le> b \<Longrightarrow> packet h a b ! nat (f - a) = \<lparr>fi_input = h f, frame_nbr = f\<rparr>"
  by (simp add: packet_def)

lemma packet_last: "a \<le> b \<Longrightarrow> last (packet h a b) = \<lparr>fi_input = h b, frame_nbr = b\<rparr>"
  by (simp add: packet_def last_map upto_rec2)

lemma packet_Nil [simp]: "packet h a b = [] \<longleftrightarrow> b < a"
  by (simp add: packet_def)

lemma find_frame:
  assumes "a \<le> f" "f \<le> b"
  shows "find_if (\<lambda>fi. frame_nbr fi = f) (packet h a b) = nat (f - a)"
proof (rule find_if_unique)
  fix j
  assume "j < nat (f - a)"
  then have "a + int j \<le> b" "a + int j < f" "j < nat (b + 1 - a)" using assms by auto
  then show "frame_nbr (packet h a b ! j) \<noteq> f"
    using nth_upto [of a j b] by (simp add: packet_def)
qed (use assms in auto)

lemma missing_loop:
  assumes "arrays r" "p \<in> {0, 1}" "a \<le> k" "m \<le> b" "0 \<le> k" "m < 5400"
  shows "rfold (missing_step p (packet h a b)) [k .. m] (nat (k - a), must, r)
    = Inr (nat (max k (m + 1) - a),
           must \<or> (- 1 < last_remote_input_frame r \<and> (\<exists>f \<in> {k .. m}. h f \<noteq> last_inputs r ! nat p)),
           puts p [k .. m] h r)"
  using assms
proof (induction k m arbitrary: must r rule: upto.induct)
  case (1 k m)
  show ?case
  proof (cases "k \<le> m")
    case True
    let ?must = "must \<or> (- 1 < last_remote_input_frame r \<and> h k \<noteq> last_inputs r ! nat p)"
    have i: "nat p < length (last_inputs r)" using "1.prems"(1,2) by (auto simp: arrays_def)
    have "missing_step p (packet h a b) k (nat (k - a), must, r)
        = Inr (nat (k + 1 - a), ?must, put p k (h k) r)"
      using "1.prems" True i
      by (auto simp: missing_step_def store_input_put nat_add_distrib vec_at_def vec_at_int_def)
    moreover have "{k .. m} = insert k {k + 1 .. m}" using True by auto
    moreover have "max (k + 1) (m + 1) = max k (m + 1)" using True by simp
    ultimately show ?thesis
      using "1.IH" [OF True, of "put p k (h k) r" ?must] "1.prems" True
      by (auto simp: upto_rec1 [OF True])
  qed simp
qed

end
