(* ===== verification/Sync.thy ===== *)
theory Sync
  imports Replay
begin

text \<open>
  The invariant of the rollback: the confirmed game is the match replayed with the real inputs of
  both players, and the current game is the match replayed with the real local inputs and the
  remote inputs as far as they are known, the last known one repeated after that. Every operation
  of the rollback keeps it, whatever the packets' timing.
\<close>

section \<open>The invariant\<close>

text \<open>Remote inputs \<open>h\<close> known up to frame \<open>n\<close> (\<open>- 1\<close>: none yet).\<close>

definition known :: "int \<Rightarrow> (int \<Rightarrow> Input) \<Rightarrow> int \<Rightarrow> Input" where
  "known n h f = (if f \<le> n then h f else if n = - 1 then 0 else h n)"

definition seats :: "int \<Rightarrow> (int \<Rightarrow> Input) \<Rightarrow> (int \<Rightarrow> Input) \<Rightarrow> int \<Rightarrow> int \<Rightarrow> Input" where
  "seats me l h player_id = (if player_id = me then l else h)"

text \<open>
  \<open>in_sync g0 l h r g\<close>: \<open>g0\<close> is the match at kick-off, \<open>l\<close> and \<open>h\<close> are the inputs of the local and
  the remote player by frame, and \<open>g\<close> is the current game, between the increase of the current
  frame and the local input of that frame.
\<close>

definition in_sync ::
  "game \<Rightarrow> (int \<Rightarrow> Input) \<Rightarrow> (int \<Rightarrow> Input) \<Rightarrow> rollback \<Rightarrow> game \<Rightarrow> bool" where
  "in_sync g0 l h r g \<longleftrightarrow>
     (let me = player_nbr g0; n = last_remote_input_frame r in
       sound g0 \<and> arrays r \<and> registered r
     \<and> - 1 \<le> confirmed_frame r \<and> frame_to_confirm r = confirmed_frame r + 1
     \<and> confirmed_frame r \<le> n \<and> confirmed_frame r < current_frame r
     \<and> n \<le> current_frame r \<and> current_frame r \<le> 5400
     \<and> (\<forall>f. 0 \<le> f \<and> f < current_frame r \<longrightarrow> stored r me f = l f)
     \<and> (\<forall>f. 0 \<le> f \<and> f \<le> n \<longrightarrow> stored r (1 - me) f = h f)
     \<and> last_inputs r ! nat (1 - me) = known n h (n + 1)
     \<and> play FixedUpdate seat (seats me l h) [0 .. confirmed_frame r] g0 = Inr (confirmed r)
     \<and> play FixedUpdate seat (seats me l (known n h)) [0 .. current_frame r - 1] g0 = Inr g)"

lemma in_sync_D:
  assumes "in_sync g0 l h r g"
  shows "sound g0" "arrays r" "registered r" "player_nbr g0 \<in> {0, 1}"
    "- 1 \<le> confirmed_frame r" "frame_to_confirm r = confirmed_frame r + 1"
    "confirmed_frame r \<le> last_remote_input_frame r" "confirmed_frame r < current_frame r"
    "last_remote_input_frame r \<le> current_frame r" "current_frame r \<le> 5400"
    "\<And>f. 0 \<le> f \<Longrightarrow> f < current_frame r \<Longrightarrow> stored r (player_nbr g0) f = l f"
    "\<And>f. 0 \<le> f \<Longrightarrow> f \<le> last_remote_input_frame r \<Longrightarrow> stored r (1 - player_nbr g0) f = h f"
    "last_inputs r ! nat (1 - player_nbr g0) = known (last_remote_input_frame r) h (last_remote_input_frame r + 1)"
    "play FixedUpdate seat (seats (player_nbr g0) l h) [0 .. confirmed_frame r] g0 = Inr (confirmed r)"
    "play FixedUpdate seat (seats (player_nbr g0) l (known (last_remote_input_frame r) h))
       [0 .. current_frame r - 1] g0 = Inr g"
  using assms sound_player [of g0] unfolding in_sync_def Let_def by auto

lemma in_syncI:
  assumes "sound g0" "arrays r" "registered r"
    "- 1 \<le> confirmed_frame r" "frame_to_confirm r = confirmed_frame r + 1"
    "confirmed_frame r \<le> last_remote_input_frame r" "confirmed_frame r < current_frame r"
    "last_remote_input_frame r \<le> current_frame r" "current_frame r \<le> 5400"
    "\<And>f. 0 \<le> f \<Longrightarrow> f < current_frame r \<Longrightarrow> stored r (player_nbr g0) f = l f"
    "\<And>f. 0 \<le> f \<Longrightarrow> f \<le> last_remote_input_frame r \<Longrightarrow> stored r (1 - player_nbr g0) f = h f"
    "last_inputs r ! nat (1 - player_nbr g0) = known (last_remote_input_frame r) h (last_remote_input_frame r + 1)"
    "play FixedUpdate seat (seats (player_nbr g0) l h) [0 .. confirmed_frame r] g0 = Inr (confirmed r)"
    "play FixedUpdate seat (seats (player_nbr g0) l (known (last_remote_input_frame r) h))
       [0 .. current_frame r - 1] g0 = Inr g"
  shows "in_sync g0 l h r g"
  using assms unfolding in_sync_def Let_def by blast

lemma seats_cong:
  assumes "\<And>f. f \<in> set fs \<Longrightarrow> l f = l' f" "\<And>f. f \<in> set fs \<Longrightarrow> h f = h' f"
  shows "play FixedUpdate seat (seats me l h) fs g = play FixedUpdate seat (seats me l' h') fs g"
  by (rule play_cong) (simp add: seats_def assms)

lemma known_le: "f \<le> n \<Longrightarrow> known n h f = h f"
  by (simp add: known_def)

lemma upto_cut: "a \<le> b + 1 \<Longrightarrow> b \<le> c \<Longrightarrow> [a .. c] = [a .. b] @ [b + 1 .. c :: int]"
  by (cases "b = c") (simp, rule upto_split1 [of a "b + 1" c, simplified], auto)

section \<open>Rolling back\<close>

text \<open>A rollback replays the current game from the confirmed one with the stored inputs.\<close>

lemma DoRollback_replays:
  assumes "in_sync g0 l h r0 g" and r: "arrays r" "registered r" "confirmed r = confirmed r0"
    "confirmed_frame r = confirmed_frame r0" "current_frame r = current_frame r0"
    and m: "last_remote_input_frame r0 \<le> m" "m \<noteq> - 1"
    and st: "\<And>f. 0 \<le> f \<Longrightarrow> f < current_frame r0 \<Longrightarrow> stored r (player_nbr g0) f = l f"
    "\<And>f. 0 \<le> f \<Longrightarrow> f < current_frame r0 \<Longrightarrow> stored r (1 - player_nbr g0) f = known m h f"
  shows "\<exists>g'. DoRollback r g = Inr g'
    \<and> play FixedUpdate seat (seats (player_nbr g0) l (known m h)) [0 .. current_frame r0 - 1] g0 = Inr g'"
proof -
  note s = in_sync_D [OF assms(1)]
  let ?me = "player_nbr g0" and ?cf = "confirmed_frame r0" and ?cur = "current_frame r0"
  let ?c = "confirmed r0" and ?ins = "seats (player_nbr g0) l (known m h)"
  have c: "sound ?c" "static ?c = static g0" using match.play_keeps [OF s(14,1)] by auto
  have g: "static g = static g0" using match.play_keeps [OF s(15,1)] by auto
  have copy: "Copy g ?c = ?c"
    by (rule Copy_same) (use c g in \<open>simp_all add: sound_def\<close>)
  have "play FixedUpdate seat (stored r) [?cf + 1 .. ?cur - 1] ?c
      = play FixedUpdate seat ?ins [?cf + 1 .. ?cur - 1] ?c"
  proof (rule play_cong)
    fix f
    assume "f \<in> set [?cf + 1 .. ?cur - 1]"
    then have f: "0 \<le> f" "f < ?cur" using s(5) by auto
    show "stored r 0 f = ?ins 0 f \<and> stored r 1 f = ?ins 1 f"
      using s(4) st [OF f] by (auto simp: seats_def)
  qed
  moreover have "DoRollback r g = play FixedUpdate seat (stored r) [?cf + 1 .. ?cur - 1] ?c"
    unfolding DoRollback_def r(3-5) copy
    using replay_frames_play [OF r(1)] r(2) s(5,10) by simp
  moreover have "play FixedUpdate seat ?ins [0 .. ?cf] g0 = Inr ?c"
    using s(14) seats_cong [of "[0 .. ?cf]" l l "known m h" h ?me g0] s(7) m(1) by (simp add: known_le)
  moreover have "[0 .. ?cur - 1] = [0 .. ?cf] @ [?cf + 1 .. ?cur - 1]"
    using s(5,8) by (intro upto_cut) auto
  ultimately have "play FixedUpdate seat ?ins [0 .. ?cur - 1] g0 = DoRollback r g"
    by (simp add: play_append)
  with match.play_good [OF s(1), of ?ins "[0 .. ?cur - 1]"] show ?thesis by auto
qed

section \<open>A packet of the other player\<close>

lemma known_unchanged:
  assumes "\<And>f. n < f \<Longrightarrow> f \<le> m \<Longrightarrow> h f = known n h (n + 1)" "- 1 < n" "n \<le> m"
  shows "known m h f = known n h f"
proof -
  have "h m = h n" using assms by (cases "m = n") (auto simp: known_def)
  with assms show ?thesis by (auto simp: known_def)
qed

text \<open>
  What the operation leaves in the arrays when the newest input it takes is that of frame \<open>m\<close>: the inputs that were
  missing, and that of \<open>m\<close> repeated up to the current frame.
\<close>

definition patched :: "(int \<Rightarrow> Input) \<Rightarrow> int \<Rightarrow> int \<Rightarrow> rollback \<Rightarrow> rollback" where
  "patched h p m r =
     puts p [m .. current_frame r] (\<lambda>_. h m) (puts p [last_remote_input_frame r + 1 .. m] h r)"

lemma patched_fields [simp]:
  "registered (patched h p m r) = registered r" "confirmed (patched h p m r) = confirmed r"
  "confirmed_frame (patched h p m r) = confirmed_frame r" "current_frame (patched h p m r) = current_frame r"
  "frame_to_confirm (patched h p m r) = frame_to_confirm r" "last_inputs (patched h p m r) = last_inputs r"
  "arrays r \<Longrightarrow> p \<in> {0, 1} \<Longrightarrow> arrays (patched h p m r)"
  by (simp_all add: patched_def)

lemma patched_stored:
  assumes "in_sync g0 l h r g" "current_frame r < 5400"
    and m: "last_remote_input_frame r \<le> m" "m \<le> current_frame r" "0 \<le> m"
  defines "r' \<equiv> patched h (1 - player_nbr g0) m r"
  shows "0 \<le> f \<Longrightarrow> f < current_frame r \<Longrightarrow> stored r' (player_nbr g0) f = l f"
    and "0 \<le> f \<Longrightarrow> f \<le> current_frame r \<Longrightarrow> stored r' (1 - player_nbr g0) f = known m h f"
proof -
  note s = in_sync_D [OF assms(1)]
  let ?p = "1 - player_nbr g0" and ?n = "last_remote_input_frame r"
  let ?r1 = "puts ?p [?n + 1 .. m] h r"
  have p: "?p \<in> {0, 1}" "player_nbr g0 \<noteq> ?p" using s(4) by auto
  have n: "- 1 \<le> ?n" using s(5,7) by simp
  have a1: "arrays ?r1" using s(2) p by simp
  have st: "stored r' q f = (if q = ?p then known m h f else stored r q f)"
    if "q \<in> {0, 1}" "0 \<le> f" "f \<le> current_frame r" for q f
  proof -
    have "stored r' q f = (if q = ?p \<and> f \<in> set [m .. current_frame r] then h m else stored ?r1 q f)"
      unfolding r'_def patched_def by (rule stored_puts) (use a1 p that m assms(2) in auto)
    moreover have "stored ?r1 q f = (if q = ?p \<and> f \<in> set [?n + 1 .. m] then h f else stored r q f)"
      by (rule stored_puts) (use s(2) p that m n assms(2) in auto)
    moreover have "f \<le> ?n \<Longrightarrow> stored r ?p f = h f" using s(12) [of f] that by simp
    ultimately show ?thesis using that m n by (auto simp: known_def)
  qed
  show "stored r' (player_nbr g0) f = l f" if "0 \<le> f" "f < current_frame r"
    using st [of "player_nbr g0" f] s(4) p that s(11) [OF that] by auto
  show "stored r' ?p f = known m h f" if "0 \<le> f" "f \<le> current_frame r"
    using st [of ?p f] p that by auto
qed

text \<open>A rollback is needed only when an input differs from the one that was assumed.\<close>

lemma patched_replays:
  assumes "in_sync g0 l h r g" "current_frame r < 5400"
    and m: "last_remote_input_frame r \<le> m" "m \<le> current_frame r" "0 \<le> m"
  defines "p \<equiv> 1 - player_nbr g0" and "n \<equiv> last_remote_input_frame r"
  shows "\<exists>g'. (if n = - 1 \<or> (- 1 < n \<and> (\<exists>f \<in> {n + 1 .. m}. h f \<noteq> last_inputs r ! nat p))
        then DoRollback (patched h p m r) g else Inr g) = Inr g'
    \<and> play FixedUpdate seat (seats (player_nbr g0) l (known m h)) [0 .. current_frame r - 1] g0 = Inr g'"
    (is "\<exists>g'. (if ?must then _ else _) = _ \<and> _")
proof (cases ?must)
  case True
  note s = in_sync_D [OF assms(1)] and st = patched_stored [OF assms(1-5), folded p_def]
  have p: "p \<in> {0, 1}" using s(4) by (auto simp: p_def)
  have "\<exists>g'. DoRollback (patched h p m r) g = Inr g'
    \<and> play FixedUpdate seat (seats (player_nbr g0) l (known m h)) [0 .. current_frame r - 1] g0 = Inr g'"
    by (rule DoRollback_replays [OF assms(1) patched_fields(7) _ _ _ _ m(1)])
      (use s(2,3) p m(3) st in \<open>auto simp: p_def\<close>)
  with True show ?thesis by simp
next
  case False
  note s = in_sync_D [OF assms(1)]
  have n: "- 1 < n" using False s(5,7) by (auto simp: n_def)
  have "known m h f = known n h f" for f
    by (rule known_unchanged) (use False n m(1) s(13) in \<open>auto simp: p_def n_def\<close>)
  then have "known m h = known n h" by (rule ext)
  with s(15) show ?thesis unfolding if_not_P [OF False] by (simp add: n_def)
qed

lemma patched_sync:
  assumes "in_sync g0 l h r g" "current_frame r < 5400"
    and m: "last_remote_input_frame r \<le> m" "m \<le> current_frame r" "0 \<le> m"
    and g': "play FixedUpdate seat (seats (player_nbr g0) l (known m h)) [0 .. current_frame r - 1] g0 = Inr g'"
  defines "p \<equiv> 1 - player_nbr g0"
  shows "in_sync g0 l h
    ((patched h p m r)\<lparr>last_inputs := (last_inputs r)[nat p := h m], last_remote_input_frame := m\<rparr>) g'"
    (is "in_sync _ _ _ ?r _")
proof -
  note s = in_sync_D [OF assms(1)] and st = patched_stored [OF assms(1-5), folded p_def]
  have p: "p \<in> {0, 1}" "nat p < length (last_inputs r)" using s(2,4) by (auto simp: p_def arrays_def)
  show ?thesis
  proof (rule in_syncI)
    show "arrays ?r" using patched_fields(7) [OF s(2) p(1)] by (simp add: arrays_def)
    show "stored ?r (player_nbr g0) f = l f" if "0 \<le> f" "f < current_frame ?r" for f
      using st(1) [of f] that by (simp add: stored_def)
    show "stored ?r (1 - player_nbr g0) f = h f" if "0 \<le> f" "f \<le> last_remote_input_frame ?r" for f
      using st(2) [of f] that m by (simp add: stored_def known_le flip: p_def)
    show "last_inputs ?r ! nat (1 - player_nbr g0) = known (last_remote_input_frame ?r) h (last_remote_input_frame ?r + 1)"
      using m p by (simp add: known_def flip: p_def)
  qed (use s g' m in simp_all)
qed

lemma SetOtherPlayerInput_sync:
  assumes "in_sync g0 l h r g" "0 \<le> a" "a \<le> b" "a \<le> last_remote_input_frame r + 1" "a \<le> current_frame r"
    and live: "current_frame r < 5400"
  shows "\<exists>r' g'. Rollback_SetOtherPlayerInput (packet h a b) (1 - player_nbr g0) r g = Inr (r', g')
    \<and> in_sync g0 l h r' g' \<and> current_frame r' = current_frame r \<and> confirmed_frame r' = confirmed_frame r
    \<and> last_remote_input_frame r' = max (last_remote_input_frame r) (min b (current_frame r))"
proof (cases "b \<le> last_remote_input_frame r")
  case True
  with assms in_sync_D(9) [OF assms(1)] show ?thesis
    by (simp add: Rollback_SetOtherPlayerInput_def packet_last max_absorb1)
next
  case False
  note s = in_sync_D [OF assms(1)]
  let ?n = "last_remote_input_frame r" and ?cur = "current_frame r"
  define m where "m = min b ?cur"
  define p where "p = 1 - player_nbr g0"
  have p: "p \<in> {0, 1}" "nat p < length (last_inputs r)" using s(2,4) by (auto simp: p_def arrays_def)
  have m: "?n \<le> m" "m \<le> ?cur" "0 \<le> m" "m \<le> b" "?n < b" using False s(9) assms(2-5) by (auto simp: m_def)
  have n: "- 1 \<le> ?n" using s(5,7) by simp
  let ?must = "?n = - 1 \<or> (- 1 < ?n \<and> (\<exists>f \<in> {?n + 1 .. m}. h f \<noteq> last_inputs r ! nat p))"
  define r1 where "r1 = puts p [?n + 1 .. m] h r"
  have newest: "newest_input (packet h a b) r = Inr \<lparr>fi_input = h m, frame_nbr = m\<rparr>"
    using assms(3,5) m find_frame [of a ?cur b]
    by (auto simp: newest_input_def packet_last m_def min_def vec_at_def)
  have find: "find_if (\<lambda>fi. frame_nbr fi = ?n + 1) (packet h a b) = nat (?n + 1 - a)"
    by (rule find_frame) (use assms(4) m in auto)
  have loop: "rfold (missing_step p (packet h a b)) [?n + 1 .. m]
      (find_if (\<lambda>fi. frame_nbr fi = ?n + 1) (packet h a b), ?n = - 1, r)
      = Inr (nat (max (?n + 1) (m + 1) - a), ?must, r1)"
    unfolding find r1_def by (rule missing_loop) (use s(2) p assms(4) m n live in auto)
  have "current_frame r1 = ?cur" "arrays r1" using s(2) p by (simp_all add: r1_def)
  then have predict: "rfold (\<lambda>f. store_input p f (h m)) [m .. current_frame r1] r1 = Inr (patched h p m r)"
    unfolding patched_def r1_def [symmetric] by (simp, intro store_all_puts) (use p m live in auto)
  obtain g' where g': "(if ?must then DoRollback (patched h p m r) g else Inr g) = Inr g'"
    "play FixedUpdate seat (seats (player_nbr g0) l (known m h)) [0 .. ?cur - 1] g0 = Inr g'"
    using patched_replays [OF assms(1) live m(1-3)] unfolding p_def by blast
  let ?r = "(patched h p m r)\<lparr>last_inputs := (last_inputs r)[nat p := h m], last_remote_input_frame := m\<rparr>"
  have "Rollback_SetOtherPlayerInput (packet h a b) p r g = Inr (?r, g')"
    using m(5) assms(3) p newest loop predict g'(1)
    by (auto simp: Rollback_SetOtherPlayerInput_def packet_last Let_def store_last_def)
  moreover have "in_sync g0 l h ?r g'" using patched_sync [OF assms(1) live m(1-3) g'(2)] by (simp add: p_def)
  moreover have "last_remote_input_frame ?r = max ?n (min b ?cur)" using m by (simp add: m_def)
  ultimately show ?thesis unfolding p_def by fastforce
qed

section \<open>Confirming a frame\<close>

lemma upto_next: "a \<le> b + 1 \<Longrightarrow> [a .. b + 1] = [a .. b] @ [b + 1 :: int]"
  by (rule upto_cut [of a b "b + 1", simplified]) auto

lemma sound_checksum: "sound g \<Longrightarrow> \<exists>s. CheckSum g = Inr s"
  by (simp add: sound_def fair_def three_bodies_def CheckSum_def)

lemma ConfirmFrame_sync:
  assumes "in_sync g0 l h r g"
    and "confirmed_frame r < last_remote_input_frame r" "confirmed_frame r + 1 < current_frame r"
  shows "\<exists>sum r'. ConfirmFrame r = Inr (sum, r') \<and> in_sync g0 l h r' g
    \<and> confirmed_frame r' = confirmed_frame r + 1 \<and> current_frame r' = current_frame r
    \<and> last_remote_input_frame r' = last_remote_input_frame r \<and> CheckSum (confirmed r') = Inr sum"
proof -
  note s = in_sync_D [OF assms(1)]
  let ?me = "player_nbr g0" and ?f = "confirmed_frame r + 1"
  let ?ins = "seats (player_nbr g0) l h"
  have f: "0 \<le> ?f" "?f < current_frame r" "?f \<le> last_remote_input_frame r" "in_match ?f"
    using assms(2,3) s(5,10) by auto
  have "stored r 0 ?f = ?ins 0 ?f \<and> stored r 1 ?f = ?ins 1 ?f"
    using s(4) s(11) [OF f(1,2)] s(12) [OF f(1,3)] by (auto simp: seats_def)
  then have "replay_frame r ?f (confirmed r) = play FixedUpdate seat ?ins [?f] (confirmed r)"
    using replay_frame_seat [OF s(2) f(4)] by (simp add: play_def)
  moreover have whole: "play FixedUpdate seat ?ins [0 .. ?f] g0 = play FixedUpdate seat ?ins [?f] (confirmed r)"
    using s(5,14) by (simp add: upto_next play_append)
  moreover obtain c where c: "play FixedUpdate seat ?ins [0 .. ?f] g0 = Inr c" "sound c"
    using match.play_good [OF s(1)] by blast
  moreover obtain sum where sum: "CheckSum c = Inr sum" using sound_checksum [OF c(2)] by blast
  ultimately have "rbind (give_inputs r ?f (confirmed r)) FixedUpdate = Inr c"
    by (simp add: replay_frame_def)
  moreover define r' where "r' = r\<lparr>confirmed := c, confirmed_frame := ?f, frame_to_confirm := ?f + 1\<rparr>"
  ultimately have "ConfirmFrame r = Inr (sum, r')"
    using sum s(6) by (auto simp: ConfirmFrame_def rbind_eq_Inr)
  moreover have "in_sync g0 l h r' g"
    by (rule in_syncI)
      (use s f c(1) in \<open>simp_all add: r'_def arrays_def stored_def\<close>)
  ultimately show ?thesis using sum by (auto simp: r'_def)
qed

section \<open>Advancing a frame\<close>

text \<open>
  The rest of a tick of the application: the local input of the current frame is recorded, the
  game gets the last inputs of both players and is updated, and the next tick counts the frame up.
\<close>

definition give_last :: "rollback \<Rightarrow> game \<Rightarrow> game res" where
  "give_last r g =
     rfold (\<lambda>player_id g. rmap (\<lambda>inp. give_input player_id inp g) (GetLastPlayerInput player_id r)) [0, 1] g"

definition local_step :: "Input \<Rightarrow> rollback \<Rightarrow> game \<Rightarrow> (rollback \<times> game) res" where
  "local_step inp r g =
     rbind (Rollback_SetPlayerInput \<lparr>fi_input = inp, frame_nbr = GetCurentFrame r\<rparr> (player_nbr g) r) (\<lambda>r.
     rbind (give_last r g) (\<lambda>g. rmap (Pair r) (Game_Update g)))"

lemma known_next: "f = n + 1 \<or> n < f \<Longrightarrow> known n h f = known n h (n + 1)"
  by (auto simp: known_def)

lemma local_step_sync:
  assumes "in_sync g0 l h r g" "current_frame r < 5400"
  shows "\<exists>r' g'. local_step inp r g = Inr (r', g')
    \<and> in_sync g0 (l(current_frame r := inp)) h (IncreaseCurrentFrame r') g'
    \<and> current_frame r' = current_frame r \<and> confirmed_frame r' = confirmed_frame r
    \<and> last_remote_input_frame r' = last_remote_input_frame r"
proof -
  note s = in_sync_D [OF assms(1)]
  let ?me = "player_nbr g0" and ?cur = "current_frame r" and ?n = "last_remote_input_frame r"
  let ?l = "l(current_frame r := inp)"
  have cur: "in_match ?cur" using s(5,8) assms(2) by auto
  have me: "player_nbr g = ?me" using match.play_keeps [OF s(15,1)] static_player by blast
  define p where "p = 1 - ?me"
  have p: "?me \<in> {0, 1}" "p \<in> {0, 1}" "nat ?me \<noteq> nat p" using s(4) by (auto simp: p_def)
  define r' where "r' = (put ?me ?cur inp r)\<lparr>last_inputs := (last_inputs r)[nat ?me := inp]\<rparr>"
  have len: "nat ?me < length (last_inputs r)" "nat p < length (last_inputs r)"
    using p s(2) by (auto simp: arrays_def)
  have set: "Rollback_SetPlayerInput \<lparr>fi_input = inp, frame_nbr = ?cur\<rparr> ?me r = Inr r'"
    using p(1) len s(2) cur
    by (auto simp: Rollback_SetPlayerInput_def store_input_put store_last_def r'_def)
  have last: "last_inputs r' ! nat ?me = inp" "last_inputs r' ! nat p = known ?n h ?cur"
    using len p(3) s(9,13) known_next [of ?cur ?n h] cur by (auto simp: r'_def p_def known_def)
  have ar: "arrays r'" using arrays_put [OF s(2) p(1), of ?cur inp] by (simp add: arrays_def r'_def)
  have "give_last r' g = Inr (seat (last_inputs r' ! 0) (last_inputs r' ! 1) g)"
    using ar by (simp add: give_last_def GetLastPlayerInput_def seat_def arrays_def)
  also have "seat (last_inputs r' ! 0) (last_inputs r' ! 1) g
      = seat (seats ?me ?l (known ?n h) 0 ?cur) (seats ?me ?l (known ?n h) 1 ?cur) g"
    using s(4) last by (auto simp: seats_def p_def)
  finally have give: "rbind (give_last r' g) FixedUpdate
      = play FixedUpdate seat (seats ?me ?l (known ?n h)) [?cur] g"
    by (simp add: play_def)
  have old: "play FixedUpdate seat (seats ?me ?l (known ?n h)) [0 .. ?cur - 1] g0 = Inr g"
    using s(15) seats_cong [of "[0 .. ?cur - 1]" ?l l] by simp
  have confirmed: "play FixedUpdate seat (seats ?me ?l h) [0 .. confirmed_frame r] g0 = Inr (confirmed r)"
    using s(8,14) seats_cong [of "[0 .. confirmed_frame r]" ?l l] by simp
  obtain g' where g': "play FixedUpdate seat (seats ?me ?l (known ?n h)) [0 .. ?cur] g0 = Inr g'"
    using match.play_good [OF s(1)] by blast
  have "play FixedUpdate seat (seats ?me ?l (known ?n h)) [?cur] g = Inr g'"
    using g' old upto_next [of 0 "?cur - 1"] cur by (simp add: play_append)
  with give set me have result: "local_step inp r g = Inr (r', g')"
    by (simp add: local_step_def GetCurentFrame_def Game_Update_def rmap_rbind flip: rbind_assoc)
  have st: "stored r' q f = (if q = ?me \<and> f = ?cur then inp else stored r q f)"
    if "q \<in> {0, 1}" "0 \<le> f" for q f
    using stored_put [OF s(2) p(1) that(1) cur that(2)] by (simp add: r'_def stored_def)
  have "in_sync g0 ?l h (IncreaseCurrentFrame r') g'"
  proof (rule in_syncI)
    show "arrays (IncreaseCurrentFrame r')" using ar by (simp add: arrays_def IncreaseCurrentFrame_def)
    show "stored (IncreaseCurrentFrame r') ?me f = ?l f" if "0 \<le> f" "f < current_frame (IncreaseCurrentFrame r')" for f
      using st [of ?me f] p(1) s(11) [of f] that
      by (simp add: IncreaseCurrentFrame_def stored_def r'_def)
    show "stored (IncreaseCurrentFrame r') (1 - ?me) f = h f"
      if "0 \<le> f" "f \<le> last_remote_input_frame (IncreaseCurrentFrame r')" for f
      using st [of p f] p s(12) [of f] that
      by (auto simp: IncreaseCurrentFrame_def stored_def r'_def p_def)
    show "last_inputs (IncreaseCurrentFrame r') ! nat (1 - ?me) =
       known (last_remote_input_frame (IncreaseCurrentFrame r')) h (last_remote_input_frame (IncreaseCurrentFrame r') + 1)"
      using s(13) p(3) by (simp add: IncreaseCurrentFrame_def r'_def flip: p_def)
  qed (use s cur confirmed g' assms(2) in \<open>simp_all add: r'_def IncreaseCurrentFrame_def\<close>)
  with result show ?thesis by (simp add: r'_def)
qed

section \<open>Two peers\<close>

lemma seats_flip: "me \<in> {0, 1} \<Longrightarrow> pid \<in> {0, 1} \<Longrightarrow> seats (1 - me) h l pid = seats me l h pid"
  by (auto simp: seats_def)

lemma play_seats_flip:
  assumes "sound g0"
  shows "play FixedUpdate seat (seats (player_nbr (mirror g0)) h l) fs (mirror g0)
    = rmap mirror (play FixedUpdate seat (seats (player_nbr g0) l h) fs g0)"
proof -
  have "play FixedUpdate seat (seats (1 - player_nbr g0) h l) fs (mirror g0)
      = play FixedUpdate seat (seats (player_nbr g0) l h) fs (mirror g0)"
    by (rule play_cong) (use sound_player [OF assms] in \<open>auto simp: seats_def\<close>)
  then show ?thesis using peers.play_flip [OF assms] by simp
qed

text \<open>Confirmed games of the two peers at one frame are mirror images, so their checksums agree.\<close>

lemma confirmed_mirror:
  assumes "in_sync g0 l h r g" "in_sync (mirror g0) h l r' g'" "confirmed_frame r' = confirmed_frame r"
  shows "confirmed r' = mirror (confirmed r)" "CheckSum (confirmed r') = CheckSum (confirmed r)"
proof -
  note s = in_sync_D [OF assms(1)] and s' = in_sync_D [OF assms(2)]
  show "confirmed r' = mirror (confirmed r)"
    using play_seats_flip [OF s(1), of h l "[0 .. confirmed_frame r]"] s(14) s'(14) assms(3) by simp
  then show "CheckSum (confirmed r') = CheckSum (confirmed r)" by simp
qed

text \<open>So are the current games when each side knows the inputs of the other up to the frame before.\<close>

lemma current_mirror:
  assumes "in_sync g0 l h r g" "in_sync (mirror g0) h l r' g'" "current_frame r' = current_frame r"
    and "current_frame r - 1 \<le> last_remote_input_frame r" "current_frame r - 1 \<le> last_remote_input_frame r'"
  shows "g' = mirror g"
proof -
  note s = in_sync_D [OF assms(1)] and s' = in_sync_D [OF assms(2)]
  let ?fs = "[0 .. current_frame r - 1]"
  have "play FixedUpdate seat (seats (player_nbr g0) l h) ?fs g0 = Inr g"
    using s(15) seats_cong [of ?fs l l "known (last_remote_input_frame r) h" h] assms(4) by (simp add: known_le)
  moreover have "play FixedUpdate seat (seats (player_nbr (mirror g0)) h l) ?fs (mirror g0) = Inr g'"
    using s'(15) seats_cong [of ?fs h h "known (last_remote_input_frame r') l" l] assms(3,5)
    by (simp add: known_le)
  ultimately show ?thesis using play_seats_flip [OF s(1), of h l ?fs] by simp
qed

section \<open>Kick-off\<close>

lemma laid_rest_eq:
  assumes "laid g bs cs" "laid h bs cs" "rest g = rest h"
  shows "g = h"
  using assms by (cases g; cases h; simp add: laid_def rest_def)

lemma ball_piece_ex: "\<exists>b c r. ball_piece t r0 = (b, c, r)"
  by (cases "ball_piece t r0") auto

text \<open>Starting a match does not look at the player number.\<close>

lemma StartGame_player:
  assumes "empty_world g"
  shows "StartGame (g\<lparr>player_nbr := p\<rparr>) = rmap (\<lambda>h. h\<lparr>player_nbr := p\<rparr>) (StartGame g)"
proof -
  obtain b c r where piece: "ball_piece (ball_type g) (ball_radius g) = (b, c, r)"
    using ball_piece_ex by blast
  obtain h where h: "StartGame g = Inr h" "laid h (match_bodies b) (match_colliders c)"
    "rest h = match_refs r (rest g)"
    using StartGame_laid [OF assms piece] by blast
  have "empty_world (g\<lparr>player_nbr := p\<rparr>)" using assms by (simp add: empty_world_def)
  then obtain k where k: "StartGame (g\<lparr>player_nbr := p\<rparr>) = Inr k"
    "laid k (match_bodies b) (match_colliders c)" "rest k = match_refs r (rest (g\<lparr>player_nbr := p\<rparr>))"
    using StartGame_laid [of "g\<lparr>player_nbr := p\<rparr>" b c r] piece by auto
  have "rest (h\<lparr>player_nbr := p\<rparr>) = (rest h)\<lparr>player_nbr := p\<rparr>" by (simp add: rest_def)
  then have "rest (h\<lparr>player_nbr := p\<rparr>) = rest k"
    unfolding h(3) k(3) by (simp add: match_refs_def rest_def)
  moreover have "laid (h\<lparr>player_nbr := p\<rparr>) (match_bodies b) (match_colliders c)"
    using h(2) by (simp add: laid_def)
  ultimately have "k = h\<lparr>player_nbr := p\<rparr>" using laid_rest_eq k(2) by metis
  with h(1) k(1) show ?thesis by simp
qed

lemma StartGame_sound:
  assumes "empty_world g" "player_nbr g \<in> {0, 1}"
  shows "\<exists>h. StartGame g = Inr h \<and> sound h \<and> player_nbr h = player_nbr g \<and> ball_type h = ball_type g
    \<and> input h = input g \<and> other_player_input h = other_player_input g"
proof -
  obtain b c r where piece: "ball_piece (ball_type g) (ball_radius g) = (b, c, r)"
    using ball_piece_ex by blast
  obtain h where h: "StartGame g = Inr h" "laid h (match_bodies b) (match_colliders c)"
    "rest h = match_refs r (rest g)"
    using StartGame_laid [OF assms(1) piece] by blast
  have refs: "ball_body_ref h = BodyRef 0 0" "player_blue_body_ref h = BodyRef 7 0"
    "player_red_body_ref h = BodyRef 8 0" "contactListener h" "player_nbr h = player_nbr g"
    "ball_type h = ball_type g" "input h = input g" "other_player_input h = other_player_input g"
    using h(3) by (cases h; cases g; simp add: rest_def match_refs_def)+
  have "three_bodies h" "IsEnabled (bodies h ! 0)"
    using h(2) refs(1-3) by (auto simp: three_bodies_def valid_body_def laid_def match_bodies_def nth_append)
  with match_ready [OF h(2,3) piece assms(1)] refs assms(2) h(1) show ?thesis
    by (simp add: sound_def fair_def)
qed

text \<open>
  Both games of a peer, registered after the start, are the same, and the first frame finds the
  rollback in sync, for any inputs to come.
\<close>

lemma Register_in_sync:
  assumes "empty_world e" "Game = Inr e" "p \<in> {0, 1}"
    and g: "StartGame (SetBallType t (e\<lparr>player_nbr := p\<rparr>)) = Inr g" and r: "Rollback = Inr r"
  shows "\<exists>r'. RegisterGame g r = Inr r' \<and> in_sync g l h (IncreaseCurrentFrame r') g \<and> player_nbr g = p
    \<and> current_frame (IncreaseCurrentFrame r') = 0"
proof -
  let ?e = "SetBallType t e"
  have e: "empty_world ?e" "SetBallType t (e\<lparr>player_nbr := p\<rparr>) = ?e\<lparr>player_nbr := p\<rparr>"
    using assms(1) by (simp_all add: empty_world_def SetBallType_def)
  obtain c where c: "StartGame ?e = Inr c" and gc: "g = c\<lparr>player_nbr := p\<rparr>"
    using g StartGame_player [OF e(1), of p] unfolding e(2) by (auto simp: rmap_eq_Inr)
  have "empty_world (?e\<lparr>player_nbr := p\<rparr>)" using e(1) by (simp add: empty_world_def)
  then have snd: "sound g" "player_nbr g = p" "ball_type g = t"
    using StartGame_sound [of "?e\<lparr>player_nbr := p\<rparr>"] assms(3) g unfolding e(2)
    by (auto simp: SetBallType_def)
  have r0: "confirmed r = e" "current_frame r = - 1" "last_remote_input_frame r = - 1"
    "frame_to_confirm r = 0" "confirmed_frame r = - 1" "last_inputs r = replicate 2 0" "inputs r = no_inputs"
    using r unfolding Rollback_def assms(2) by auto
  define r' where "r' = r\<lparr>registered := True, confirmed := g\<rparr>"
  have "RegisterGame g r = Inr r'"
    using c snd by (simp add: RegisterGame_def r0 GetBallType_def r'_def gc)
  moreover have "in_sync g l h (IncreaseCurrentFrame r') g"
    by (rule in_syncI)
      (use snd r0 assms(3) in \<open>auto simp: r'_def IncreaseCurrentFrame_def arrays_def no_inputs_def kGameFrameNbr_def
         known_def play_def numeral_2_eq_2\<close>)
  moreover have "current_frame (IncreaseCurrentFrame r') = 0"
    by (simp add: r'_def IncreaseCurrentFrame_def r0)
  ultimately show ?thesis using snd(2) by blast
qed

text \<open>The two peers start from mirror images.\<close>

lemma StartGame_mirror:
  assumes "empty_world e" "input e = 0" "other_player_input e = 0"
    and "StartGame (SetBallType t (e\<lparr>player_nbr := 0\<rparr>)) = Inr g"
    and "StartGame (SetBallType t (e\<lparr>player_nbr := 1\<rparr>)) = Inr g'"
  shows "g' = mirror g"
proof -
  let ?e = "SetBallType t e"
  have e: "empty_world ?e" "SetBallType t (e\<lparr>player_nbr := p\<rparr>) = ?e\<lparr>player_nbr := p\<rparr>" for p
    using assms(1) by (simp_all add: empty_world_def SetBallType_def)
  obtain c where c: "StartGame ?e = Inr c" "g = c\<lparr>player_nbr := 0\<rparr>" "g' = c\<lparr>player_nbr := 1\<rparr>"
    using assms(4,5) StartGame_player [OF e(1)] unfolding e(2) by (auto simp: rmap_eq_Inr)
  have "empty_world (?e\<lparr>player_nbr := 0\<rparr>)" using e(1) by (simp add: empty_world_def)
  then have "input g = 0" "other_player_input g = 0"
    using StartGame_sound [of "?e\<lparr>player_nbr := 0\<rparr>"] assms(2-4) unfolding e(2)
    by (auto simp: SetBallType_def)
  then show ?thesis unfolding c(2,3) by (simp add: mirror_def)
qed

end
