(* ===== verification/Network.thy ===== *)
theory Network
  imports Sync
begin

text \<open>
  \<open>common/include/packet.h\<close>, \<open>common/include/network.h\<close> and \<open>common/src/network.cpp\<close>, with the state of
  \<open>common/include/application.h\<close> they work on. The transport (Photon, a vendored library) is outside: what
  the program hands to \<open>opRaiseEvent\<close> is appended to \<open>sent\<close>, its requests to the room are counted, and the
  callbacks are the operations here. A \<open>Hashtable\<close> is a map from the key byte to the three kinds of value
  the program puts into one.
\<close>

section \<open>Packets\<close>

text \<open>An event code is a byte cast to the enum, so any byte can arrive.\<close>

type_synonym PacketType = "8 word"

definition kInputPacket :: PacketType where "kInputPacket = 0"
definition kFramePacket :: PacketType where "kFramePacket = 1"
definition kFrameConfirmationPacket :: PacketType where "kFrameConfirmationPacket = 2"

datatype PacketKey = kInputKey | kFrameKey | kChecksumKey

datatype packet_value = Inputs "Input list" | Frames "int list" | Checksum "32 word"

type_synonym Hashtable = "PacketKey \<Rightarrow> packet_value option"

record Packet =
  packet_type :: PacketType
  packet_data :: Hashtable

text \<open>
  \<open>ValueObject<T>(value).getDataCopy()\<close>: a null pointer, or zero, when the value is missing or of another
  type.
\<close>

definition data_inputs :: "Hashtable \<Rightarrow> Input list option" where
  "data_inputs d = (case d kInputKey of Some (Inputs xs) \<Rightarrow> Some xs | _ \<Rightarrow> None)"

definition data_frames :: "Hashtable \<Rightarrow> int list option" where
  "data_frames d = (case d kFrameKey of Some (Frames xs) \<Rightarrow> Some xs | _ \<Rightarrow> None)"

definition data_checksum :: "Hashtable \<Rightarrow> 32 word" where
  "data_checksum d = (case d kChecksumKey of Some (Checksum s) \<Rightarrow> s | _ \<Rightarrow> 0)"

section \<open>Timer\<close>

text \<open>
  \<open>engine/include/Timer.h\<close>, \<open>engine/src/Timer.cpp\<close>: clock readings in nanoseconds are arguments; the
  conversion to seconds divides two floats.
\<close>

record timer =
  startTime :: int
  DeltaTime :: f32

definition Timer_SetUp :: "int \<Rightarrow> timer \<Rightarrow> timer" where
  "Timer_SetUp now t = t\<lparr>startTime := now\<rparr>"

definition Timer_Tick :: "int \<Rightarrow> timer \<Rightarrow> timer" where
  "Timer_Tick now t =
     t\<lparr>DeltaTime := f32_of_int (now - startTime t) div f32_of_int 1000000000, startTime := now\<rparr>"

section \<open>The state of the application\<close>

text \<open>
  \<open>own_inputs\<close> and \<open>own_frames\<close> are the vectors \<open>inputs_\<close> and \<open>frames_\<close>; \<open>run_time\<close> is the local variable
  \<open>time\<close> of \<open>Run\<close>, \<open>shown_time\<close> the time the renderer was given last. The last three fields record what
  was asked of the transport.
\<close>

record app =
  app_game :: game
  app_rollback :: rollback
  packet_queue :: "Packet list"
  own_inputs :: "Input list"
  own_frames :: "int list"
  game_timer :: timer
  game_time :: f32
  run_time :: f32
  shown_time :: f32
  is_connected :: bool
  sent :: "(bool \<times> Packet) list"
  rooms_joined :: nat
  rooms_left :: nat

definition Application :: "app res" where
  "Application = rbind Game (\<lambda>g. rmap (\<lambda>r. \<lparr>app_game = g, app_rollback = r, packet_queue = [],
     own_inputs = [], own_frames = [], game_timer = \<lparr>startTime = 0, DeltaTime = 0\<rparr>, game_time = 0,
     run_time = kFixedDeltaTime, shown_time = 0, is_connected = False, sent = [],
     rooms_joined = 0, rooms_left = 0\<rparr>) Rollback)"

section \<open>Requests\<close>

definition RaiseEvent :: "bool \<Rightarrow> PacketType \<Rightarrow> Hashtable \<Rightarrow> app \<Rightarrow> app" where
  "RaiseEvent reliable t d a = a\<lparr>sent := sent a @ [(reliable, \<lparr>packet_type = t, packet_data = d\<rparr>)]\<rparr>"

definition JoinRandomOrCreateRoom :: "app \<Rightarrow> app" where
  "JoinRandomOrCreateRoom a = a\<lparr>rooms_joined := rooms_joined a + 1\<rparr>"

definition LeaveRoom :: "app \<Rightarrow> app" where
  "LeaveRoom a = a\<lparr>rooms_left := rooms_left a + 1\<rparr>"

section \<open>Callbacks\<close>

definition ReceiveEvent :: "PacketType \<Rightarrow> Hashtable \<Rightarrow> app \<Rightarrow> app" where
  "ReceiveEvent t d a = a\<lparr>packet_queue := packet_queue a @ [\<lparr>packet_type = t, packet_data = d\<rparr>]\<rparr>"

text \<open>The content of a custom event is dropped unless it is a hash table.\<close>

definition customEventAction :: "8 word \<Rightarrow> Hashtable option \<Rightarrow> app \<Rightarrow> app" where
  "customEventAction eventCode eventContent a =
     (case eventContent of None \<Rightarrow> a | Some d \<Rightarrow> ReceiveEvent eventCode d a)"

definition connectReturn :: "int \<Rightarrow> app \<Rightarrow> app" where
  "connectReturn errorCode a = a\<lparr>is_connected := True\<rparr>"

definition IsConnected :: "app \<Rightarrow> bool" where "IsConnected a = is_connected a"

definition joinRoomEventAction :: "int \<Rightarrow> app \<Rightarrow> app res" where
  "joinRoomEventAction playerNr a =
     (let a = (if player_nbr (app_game a) = - 1
               then a\<lparr>app_game := (app_game a)\<lparr>player_nbr := playerNr - 1\<rparr>\<rparr> else a)
      in if playerNr = 2
         then rbind (StartGame (SetBallType kBasketball (app_game a))) (\<lambda>g.
              rmap (\<lambda>r. a\<lparr>app_game := g, app_rollback := r\<rparr>) (RegisterGame g (app_rollback a)))
         else Inr a)"

text \<open>The callbacks that only print.\<close>

definition leaveRoomEventAction :: "int \<Rightarrow> bool \<Rightarrow> app \<Rightarrow> app" where
  "leaveRoomEventAction playerNr isInactive a = a"

end
