(* ===== verification/Application.thy ===== *)
theory Application
  imports Network
begin

text \<open>
  \<open>common/src/application.cpp\<close>: the packets that have arrived, one tick of the fixed time step, and the
  body of the main loop. Keyboard and clock are arguments; drawing, audio and the window are outside.
\<close>

section \<open>Packets\<close>

text \<open>
  The pointers to the two arrays of a packet: the length is that of the inputs, and a frame is
  read for each of them.
\<close>

definition read_inputs :: "Hashtable \<Rightarrow> FrameInput list res" where
  "read_inputs d =
     (case data_inputs d of None \<Rightarrow> Inl (UndefinedBehaviour ''null'')
      | Some is \<Rightarrow>
          (let fs = (case data_frames d of None \<Rightarrow> [] | Some fs \<Rightarrow> fs)
           in if length fs < length is then Inl (UndefinedBehaviour ''index'')
              else Inr (map2 (\<lambda>i f. \<lparr>fi_input = i, frame_nbr = f\<rparr>) is fs)))"

definition other_player :: "app \<Rightarrow> int" where
  "other_player a = (if player_nbr (app_game a) = 0 then 1 else 0)"

definition receive_inputs :: "FrameInput list \<Rightarrow> app \<Rightarrow> app res" where
  "receive_inputs fis a =
     rmap (\<lambda>(r, g). a\<lparr>app_rollback := r, app_game := g\<rparr>)
       (Rollback_SetOtherPlayerInput fis (other_player a) (app_rollback a) (app_game a))"

definition own_data :: "app \<Rightarrow> Hashtable" where
  "own_data a = Map.empty(kInputKey \<mapsto> Inputs (own_inputs a), kFrameKey \<mapsto> Frames (own_frames a))"

definition confirm_one :: "app \<Rightarrow> app res" where
  "confirm_one a =
     rmap (\<lambda>(check_sum, r). RaiseEvent True kFrameConfirmationPacket
         ((own_data a)(kChecksumKey \<mapsto> Checksum check_sum)) (a\<lparr>app_rollback := r\<rparr>))
       (ConfirmFrame (app_rollback a))"

text \<open>The loop of \<open>SendFrameConfirmation\<close>; iterators are indices.\<close>

function confirm_loop :: "FrameInput list \<Rightarrow> nat \<Rightarrow> nat \<Rightarrow> app \<Rightarrow> app res" where
  "confirm_loop remote end_it it a =
     (if it = end_it then Inr a
      else if length remote \<le> it then Inl (UndefinedBehaviour ''index'')
      else if GetCurentFrame (app_rollback a) < frame_nbr (remote ! it) then Inr a
      else rbind (confirm_one a) (confirm_loop remote end_it (it + 1)))"
  by pat_completeness auto

termination
  by (relation "measure (\<lambda>(remote, _, it, _). length remote - it)") auto

declare confirm_loop.simps [simp del]

lemma confirm_loop_end [simp]: "confirm_loop remote end_it end_it a = Inr a"
  by (subst confirm_loop.simps) simp

definition SendFrameConfirmation :: "FrameInput list \<Rightarrow> app \<Rightarrow> app res" where
  "SendFrameConfirmation remote a =
     (if remote = [] then Inl (UndefinedBehaviour ''back'')
      else
        let it = find_if (\<lambda>fi. frame_nbr fi = GetFrameToConfirm (app_rollback a)) remote;
            cur = GetCurentFrame (app_rollback a);
            end_it = (if cur < frame_nbr (last remote) then find_if (\<lambda>fi. frame_nbr fi = cur) remote
                      else length remote)
        in confirm_loop remote end_it it a)"

text \<open>
  A handler says whether the packet is to be popped: the two \<open>return\<close> statements of the switch
  leave it at the front.
\<close>

definition handle_input :: "Hashtable \<Rightarrow> app \<Rightarrow> (bool \<times> app) res" where
  "handle_input d a =
     rbind (read_inputs d) (\<lambda>fis.
       if fis = [] then Inl (UndefinedBehaviour ''back'')
       else if frame_nbr (last fis) < GetLastRemoteInputFrame (app_rollback a) then Inr (False, a)
       else rbind (receive_inputs fis a) (\<lambda>a.
            rmap (Pair True) (if player_nbr (app_game a) = 0 then SendFrameConfirmation fis a else Inr a)))"

definition erase_first :: "app \<Rightarrow> app res" where
  "erase_first a =
     (if own_inputs a = [] \<or> own_frames a = [] then Inl (UndefinedBehaviour ''erase'')
      else Inr (a\<lparr>own_inputs := tl (own_inputs a), own_frames := tl (own_frames a)\<rparr>))"

definition handle_confirmation :: "Hashtable \<Rightarrow> app \<Rightarrow> (bool \<times> app) res" where
  "handle_confirmation d a =
     (if player_nbr (app_game a) = 0 then rmap (Pair True) (erase_first a)
      else
        rbind (read_inputs d) (\<lambda>fis.
          if fis = [] then Inl (UndefinedBehaviour ''back'')
          else
            rbind (if GetLastRemoteInputFrame (app_rollback a) < frame_nbr (last fis)
                   then receive_inputs fis a else Inr a) (\<lambda>a.
            rbind (ConfirmFrame (app_rollback a)) (\<lambda>(check_sum, r).
              if check_sum \<noteq> data_checksum d then Inr (False, a\<lparr>app_rollback := r\<rparr>)
              else rmap (Pair True)
                     (erase_first (RaiseEvent True kFrameConfirmationPacket Map.empty
                       (a\<lparr>app_rollback := r\<rparr>)))))))"

definition handle_packet :: "Packet \<Rightarrow> app \<Rightarrow> (bool \<times> app) res" where
  "handle_packet p a =
     (if packet_type p = kInputPacket then handle_input (packet_data p) a
      else if packet_type p = kFrameConfirmationPacket then handle_confirmation (packet_data p) a
      else Inr (True, a))"

fun handle_packets :: "Packet list \<Rightarrow> app \<Rightarrow> app res" where
  "handle_packets [] a = Inr (a\<lparr>packet_queue := []\<rparr>)"
| "handle_packets (p # ps) a =
     rbind (handle_packet p a) (\<lambda>(popped, a).
       if popped then handle_packets ps a else Inr (a\<lparr>packet_queue := p # ps\<rparr>))"

definition HandlePacket :: "app \<Rightarrow> app res" where
  "HandlePacket a = handle_packets (packet_queue a) a"

section \<open>One tick\<close>

datatype key = KEY_D | KEY_RIGHT | KEY_A | KEY_LEFT | KEY_W | KEY_UP | KEY_SPACE

definition read_keys :: "(key \<Rightarrow> bool) \<Rightarrow> Input" where
  "read_keys down =
     (let actual = (0 :: Input);
          actual = (if down KEY_D \<or> down KEY_RIGHT then or actual kRight else actual);
          actual = (if down KEY_A \<or> down KEY_LEFT then or actual kLeft else actual);
          actual = (if down KEY_W \<or> down KEY_UP then or actual kJump else actual)
      in if down KEY_SPACE then or actual kKick else actual)"

definition upd_rollback :: "(rollback \<Rightarrow> rollback) \<Rightarrow> app \<Rightarrow> app" where
  "upd_rollback f a = a\<lparr>app_rollback := f (app_rollback a)\<rparr>"

text \<open>The tick from the local input on, and the whole tick. \<open>None\<close> is the \<open>break\<close> at the end of the match.\<close>

definition finish_tick :: "Input \<Rightarrow> app \<Rightarrow> app res" where
  "finish_tick actualInput a =
     (let cur = GetCurentFrame (app_rollback a) in
      rbind (Rollback_SetPlayerInput \<lparr>fi_input = actualInput, frame_nbr = cur\<rparr>
               (player_nbr (app_game a)) (app_rollback a)) (\<lambda>r.
      let a = a\<lparr>app_rollback := r, own_inputs := own_inputs a @ [actualInput],
                own_frames := own_frames a @ [cur]\<rparr>;
          a = RaiseEvent False kInputPacket (own_data a) a
      in rbind (give_last (app_rollback a) (app_game a)) (\<lambda>g.
           rmap (\<lambda>g. a\<lparr>app_game := g\<rparr>) (Game_Update g))))"

definition end_match :: "app \<Rightarrow> app" where
  "end_match a = LeaveRoom (a\<lparr>app_game := EndGame (app_game a)\<rparr>)"

definition tick :: "(key \<Rightarrow> bool) \<Rightarrow> app \<Rightarrow> app res" where
  "tick down a =
     (let a = upd_rollback IncreaseCurrentFrame a in
      if kGameFrameNbr \<le> GetCurentFrame (app_rollback a) then Inr (end_match a)
      else rbind (HandlePacket a) (finish_tick (read_keys down)))"

section \<open>The main loop\<close>

text \<open>
  The inner \<open>while\<close> runs one tick per fixed step of accumulated time. The keyboard is given by
  frame number. \<open>fuel\<close> bounds the number of ticks; \<open>5401\<close> always suffice, because a tick counts the
  frame up and the match ends at frame 5400 (\<open>catch_up_fuel\<close>).
\<close>

fun catch_up :: "nat \<Rightarrow> (int \<Rightarrow> key \<Rightarrow> bool) \<Rightarrow> app \<Rightarrow> app res option" where
  "catch_up fuel down a =
     (if \<not> kFixedDeltaTime \<le> run_time a then Some (Inr a)
      else case fuel of 0 \<Rightarrow> None
      | Suc fuel \<Rightarrow>
          (let cur = GetCurentFrame (app_rollback a) + 1 in
           if kGameFrameNbr \<le> cur then Some (tick (down cur) a)
           else case tick (down cur) a of Inl e \<Rightarrow> Some (Inl e)
                | Inr a \<Rightarrow> catch_up fuel down (a\<lparr>run_time := run_time a - kFixedDeltaTime\<rparr>)))"

declare catch_up.simps [simp del]

definition start_timer :: "int \<Rightarrow> int \<Rightarrow> app \<Rightarrow> app" where
  "start_timer now1 now2 a =
     (let t = (if game_time a \<le> 0 then Timer_SetUp now1 (game_timer a) else game_timer a);
          t = Timer_Tick now2 t
      in a\<lparr>game_timer := t, game_time := game_time a + DeltaTime t, run_time := run_time a + DeltaTime t\<rparr>)"

definition finish_match :: "app \<Rightarrow> app res" where
  "finish_match a =
     rmap (\<lambda>r. a\<lparr>run_time := kFixedDeltaTime, app_rollback := r, packet_queue := [], game_time := 0\<rparr>)
       (Reset (app_rollback a))"

definition Run_step :: "nat \<Rightarrow> int \<Rightarrow> int \<Rightarrow> (int \<Rightarrow> key \<Rightarrow> bool) \<Rightarrow> app \<Rightarrow> app res option" where
  "Run_step fuel now1 now2 down a =
     (case GetState (app_game a) of
        kMenu \<Rightarrow> Some (Inr a)
      | kInGame \<Rightarrow>
          map_option (rmap (\<lambda>a. a\<lparr>shown_time := game_time a\<rparr>)) (catch_up fuel down (start_timer now1 now2 a))
      | kGameFinished \<Rightarrow> Some (finish_match a))"

definition Application_TearDown :: "app \<Rightarrow> app" where
  "Application_TearDown a = a\<lparr>app_game := Game_TearDown (app_game a)\<rparr>"

section \<open>Only a tick counts frames\<close>

lemma store_input_current: "store_input p f i r = Inr r' \<Longrightarrow> current_frame r' = current_frame r"
  by (auto simp: store_input_def res_simps)

lemma store_last_current: "store_last p i r = Inr r' \<Longrightarrow> current_frame r' = current_frame r"
  by (auto simp: store_last_def res_simps)

lemma missing_step_current:
  "missing_step p fis f s = Inr s' \<Longrightarrow> current_frame (snd (snd s')) = current_frame (snd (snd s))"
  by (auto simp: missing_step_def res_simps dest: store_input_current split: prod.splits)

lemma SetOtherPlayerInput_current:
  assumes "Rollback_SetOtherPlayerInput fis p r g = Inr (r', g')"
  shows "current_frame r' = current_frame r"
proof (cases "fis = [] \<or> frame_nbr (last fis) - last_remote_input_frame r < 1")
  case True
  then show ?thesis using assms by (auto simp: Rollback_SetOtherPlayerInput_def split: if_splits)
next
  case False
  obtain newest where n: "newest_input fis r = Inr newest"
    using assms False by (cases "newest_input fis r") (auto simp: Rollback_SetOtherPlayerInput_def)
  let ?missing = "rfold (missing_step p fis) [last_remote_input_frame r + 1 .. frame_nbr newest]
      (find_if (\<lambda>fi. frame_nbr fi = last_remote_input_frame r + 1) fis, last_remote_input_frame r = - 1, r)"
  obtain it must r1 where l: "?missing = Inr (it, must, r1)"
    using assms False n by (cases ?missing) (auto simp: Rollback_SetOtherPlayerInput_def Let_def)
  let ?predict = "rfold (\<lambda>f. store_input p f (fi_input newest)) [frame_nbr newest .. current_frame r1] r1"
  obtain r2 where r2: "?predict = Inr r2"
    using assms False n l by (cases ?predict) (auto simp: Rollback_SetOtherPlayerInput_def Let_def)
  obtain r3 where r3: "store_last p (fi_input newest) r2 = Inr r3"
    "r' = r3\<lparr>last_remote_input_frame := frame_nbr newest\<rparr>"
    using assms False n l r2 by (auto simp: Rollback_SetOtherPlayerInput_def Let_def rbind_eq_Inr rmap_eq_Inr)
  have "current_frame r1 = current_frame r"
    using rfold_inv [OF l, where P = "\<lambda>s. current_frame (snd (snd s)) = current_frame r"] missing_step_current
    by fastforce
  moreover have "current_frame r2 = current_frame r1"
    by (rule rfold_inv [OF r2, where P = "\<lambda>s. current_frame s = current_frame r1"]) (auto dest: store_input_current)
  ultimately show ?thesis using r3 by (simp add: store_last_current)
qed

lemma receive_inputs_current:
  "receive_inputs fis a = Inr a' \<Longrightarrow> current_frame (app_rollback a') = current_frame (app_rollback a)"
  by (auto simp: receive_inputs_def rmap_eq_Inr dest: SetOtherPlayerInput_current)

lemma ConfirmFrame_current: "ConfirmFrame r = Inr (s, r') \<Longrightarrow> current_frame r' = current_frame r"
  by (auto simp: ConfirmFrame_def res_simps)

lemma confirm_one_current:
  "confirm_one a = Inr a' \<Longrightarrow> current_frame (app_rollback a') = current_frame (app_rollback a)"
  by (auto simp: confirm_one_def rmap_eq_Inr RaiseEvent_def dest: ConfirmFrame_current)

lemma confirm_loop_current:
  "confirm_loop fis e it a = Inr a' \<Longrightarrow> current_frame (app_rollback a') = current_frame (app_rollback a)"
proof (induction fis e it a rule: confirm_loop.induct)
  case (1 fis e it a)
  show ?case
    using "1.prems" "1.IH" confirm_one_current
    by (subst (asm) confirm_loop.simps) (fastforce simp: rbind_eq_Inr split: if_splits)
qed

lemma erase_first_current:
  "erase_first a = Inr a' \<Longrightarrow> current_frame (app_rollback a') = current_frame (app_rollback a)"
  by (auto simp: erase_first_def split: if_splits)

lemma handle_input_current:
  "handle_input d a = Inr (p, a') \<Longrightarrow> current_frame (app_rollback a') = current_frame (app_rollback a)"
  by (auto simp: handle_input_def SendFrameConfirmation_def Let_def rbind_eq_Inr rmap_eq_Inr
      dest!: receive_inputs_current confirm_loop_current split: if_splits)

lemma handle_confirmation_current:
  "handle_confirmation d a = Inr (p, a') \<Longrightarrow> current_frame (app_rollback a') = current_frame (app_rollback a)"
  by (auto simp: handle_confirmation_def rbind_eq_Inr rmap_eq_Inr RaiseEvent_def
      dest!: receive_inputs_current ConfirmFrame_current erase_first_current split: if_splits)

lemma handle_packet_current:
  "handle_packet q a = Inr (p, a') \<Longrightarrow> current_frame (app_rollback a') = current_frame (app_rollback a)"
  by (auto simp: handle_packet_def dest: handle_input_current handle_confirmation_current split: if_splits)

lemma handle_packets_current:
  assumes "handle_packets ps a = Inr a'"
  shows "current_frame (app_rollback a') = current_frame (app_rollback a)"
  using assms
proof (induction ps arbitrary: a)
  case (Cons p ps)
  then obtain popped b where b: "handle_packet p a = Inr (popped, b)"
    by (auto simp: rbind_eq_Inr)
  show ?case
    using Cons.IH [of b] Cons.prems b handle_packet_current [OF b] by (cases popped) auto
qed auto

lemma finish_tick_current:
  "finish_tick inp a = Inr a' \<Longrightarrow> current_frame (app_rollback a') = current_frame (app_rollback a)"
  by (auto simp: finish_tick_def Let_def rbind_eq_Inr rmap_eq_Inr RaiseEvent_def Rollback_SetPlayerInput_def
      dest!: store_input_current store_last_current)

lemma tick_current:
  assumes "tick down a = Inr a'"
  shows "current_frame (app_rollback a') = current_frame (app_rollback a) + 1"
  using assms
  by (auto simp: tick_def Let_def rbind_eq_Inr HandlePacket_def upd_rollback_def IncreaseCurrentFrame_def
      end_match_def LeaveRoom_def dest!: handle_packets_current finish_tick_current split: if_splits)

text \<open>With that many ticks in hand the inner loop never runs out.\<close>

lemma catch_up_fuel:
  assumes "5400 \<le> current_frame (app_rollback a) + int fuel" "0 < fuel"
  shows "\<exists>res. catch_up fuel down a = Some res"
  using assms
proof (induction fuel arbitrary: a)
  case (Suc fuel)
  let ?cur = "current_frame (app_rollback a) + 1"
  show ?case
  proof (cases "kFixedDeltaTime \<le> run_time a \<and> ?cur < 5400")
    case True
    show ?thesis
    proof (cases "tick (down ?cur) a")
      case (Inr b)
      let ?b = "b\<lparr>run_time := run_time b - kFixedDeltaTime\<rparr>"
      have "0 < fuel" using Suc.prems(1) True by simp
      then have "\<exists>res. catch_up fuel down ?b = Some res"
        using tick_current [OF Inr] Suc.prems(1) by (intro Suc.IH) auto
      then show ?thesis
        using True Inr by (subst catch_up.simps) (simp add: GetCurentFrame_def kGameFrameNbr_def Let_def)
    qed (use True in \<open>subst catch_up.simps, simp add: GetCurentFrame_def kGameFrameNbr_def Let_def\<close>)
  qed (subst catch_up.simps, auto simp: GetCurentFrame_def kGameFrameNbr_def Let_def)+
qed simp

end
