(* ===== verification/Peers.thy ===== *)
theory Peers
  imports Application
begin

text \<open>
  The two peers of a match and the network between them. Each side handles its packets, records
  its input and simulates; unreliable packets may be lost, reliable ones arrive in order. Peer
  \<open>m\<close> is the master (player 0, it confirms frames), \<open>c\<close> the other one. The invariant \<open>linked\<close> ties the
  two rollbacks to the same histories \<open>lm\<close> and \<open>lc\<close> of inputs and describes every packet on the way.
\<close>

section \<open>Honest packets\<close>

definition input_packet :: "(int \<Rightarrow> Input) \<Rightarrow> int \<Rightarrow> int \<Rightarrow> Packet" where
  "input_packet l a b = \<lparr>packet_type = kInputPacket,
     packet_data = Map.empty(kInputKey \<mapsto> Inputs (map l [a .. b]), kFrameKey \<mapsto> Frames [a .. b])\<rparr>"

definition confirm_packet :: "(int \<Rightarrow> Input) \<Rightarrow> int \<Rightarrow> int \<Rightarrow> 32 word \<Rightarrow> Packet" where
  "confirm_packet l a b s = \<lparr>packet_type = kFrameConfirmationPacket,
     packet_data = Map.empty(kInputKey \<mapsto> Inputs (map l [a .. b]), kFrameKey \<mapsto> Frames [a .. b],
       kChecksumKey \<mapsto> Checksum s)\<rparr>"

definition ack_packet :: Packet where
  "ack_packet = \<lparr>packet_type = kFrameConfirmationPacket, packet_data = Map.empty\<rparr>"

lemma kinds [simp]: "kInputPacket \<noteq> kFrameConfirmationPacket" "kFrameConfirmationPacket \<noteq> kInputPacket"
  by (simp_all add: kInputPacket_def kFrameConfirmationPacket_def)

lemma read_packets [simp]:
  "read_inputs (packet_data (input_packet l a b)) = Inr (packet l a b)"
  "read_inputs (packet_data (confirm_packet l a b s)) = Inr (packet l a b)"
  "data_checksum (packet_data (confirm_packet l a b s)) = s"
  "packet_type (input_packet l a b) = kInputPacket"
  "packet_type (confirm_packet l a b s) = kFrameConfirmationPacket"
  "packet_type ack_packet = kFrameConfirmationPacket"
  by (simp_all add: input_packet_def confirm_packet_def ack_packet_def read_inputs_def data_inputs_def
      data_frames_def data_checksum_def packet_def zip_map1 zip_same_conv_map)

lemma packet_kinds [simp]:
  "input_packet l a b \<noteq> ack_packet" "ack_packet \<noteq> input_packet l a b"
  "input_packet l a b \<noteq> confirm_packet l' a' b' s" "confirm_packet l' a' b' s \<noteq> input_packet l a b"
  by (auto dest: arg_cong [where f = packet_type])

section \<open>The streams of packets\<close>

text \<open>
  From the master: \<open>f\<close> is the frame the next confirmation is for, \<open>n\<close> the newest frame seen so far,
  \<open>edge\<close> the first frame the master has not recorded; \<open>conf\<close> is the last frame confirmed.
\<close>

inductive down_ok ::
  "(int \<Rightarrow> Input) \<Rightarrow> (int \<Rightarrow> 32 word) \<Rightarrow> int \<Rightarrow> int \<Rightarrow> int \<Rightarrow> int \<Rightarrow> Packet list \<Rightarrow> bool"
  for lm chk edge conf where
  down_end: "f = conf + 1 \<Longrightarrow> down_ok lm chk edge conf f n []"
| down_input: "0 \<le> a \<Longrightarrow> a \<le> f \<Longrightarrow> a \<le> b \<Longrightarrow> n \<le> b \<Longrightarrow> b < edge \<Longrightarrow> down_ok lm chk edge conf f b ps
    \<Longrightarrow> down_ok lm chk edge conf f n (input_packet lm a b # ps)"
| down_confirm: "0 \<le> a \<Longrightarrow> a \<le> f \<Longrightarrow> f \<le> b \<Longrightarrow> n \<le> b \<Longrightarrow> b < edge
    \<Longrightarrow> down_ok lm chk edge conf (f + 1) b ps
    \<Longrightarrow> down_ok lm chk edge conf f n (confirm_packet lm a b (chk f) # ps)"

text \<open>To the master: \<open>first\<close> bounds the first frame of a packet.\<close>

inductive up_ok :: "(int \<Rightarrow> Input) \<Rightarrow> int \<Rightarrow> int \<Rightarrow> int \<Rightarrow> Packet list \<Rightarrow> bool" for lc edge first where
  up_end: "up_ok lc edge first n []"
| up_ack: "up_ok lc edge first n ps \<Longrightarrow> up_ok lc edge first n (ack_packet # ps)"
| up_input: "0 \<le> a \<Longrightarrow> a \<le> first \<Longrightarrow> a \<le> b \<Longrightarrow> n \<le> b \<Longrightarrow> b < edge \<Longrightarrow> up_ok lc edge first b ps
    \<Longrightarrow> up_ok lc edge first n (input_packet lc a b # ps)"

inductive_cases down_consE: "down_ok lm chk edge conf f n (p # ps)"
inductive_cases down_nilE: "down_ok lm chk edge conf f n []"
inductive_cases up_consE: "up_ok lc edge first n (p # ps)"

lemma down_confirmD:
  "down_ok lm chk edge conf f n (p # ps) \<Longrightarrow> packet_type p = kFrameConfirmationPacket
    \<Longrightarrow> \<exists>b. n \<le> b \<and> down_ok lm chk edge conf (f + 1) b ps"
  by (erule down_consE) auto

lemma down_ok_edge: "down_ok lm chk edge conf f n ps \<Longrightarrow> edge \<le> edge' \<Longrightarrow> down_ok lm chk edge' conf f n ps"
  by (induction rule: down_ok.induct) (auto intro: down_ok.intros)

lemma up_ok_mono:
  "up_ok lc edge first n ps \<Longrightarrow> edge \<le> edge' \<Longrightarrow> first \<le> first' \<Longrightarrow> up_ok lc edge' first' n ps"
  by (induction rule: up_ok.induct) (auto intro: up_ok.intros)

lemma down_ok_lower: "down_ok lm chk edge conf f n ps \<Longrightarrow> n' \<le> n \<Longrightarrow> down_ok lm chk edge conf f n' ps"
  by (erule down_ok.cases) (auto intro: down_ok.intros)

lemma up_ok_lower: "up_ok lc edge first n ps \<Longrightarrow> n' \<le> n \<Longrightarrow> up_ok lc edge first n' ps"
  by (induction arbitrary: n' rule: up_ok.induct) (auto intro: up_ok.intros)

lemma down_ok_f: "down_ok lm chk edge conf f n ps \<Longrightarrow> f \<le> conf + 1"
  by (induction rule: down_ok.induct) auto

lemma down_ok_input:
  "down_ok lm chk edge conf f n ps \<Longrightarrow> n < edge \<Longrightarrow> 0 \<le> a \<Longrightarrow> a \<le> f \<Longrightarrow> a \<le> edge
    \<Longrightarrow> down_ok lm chk (edge + 1) conf f n (ps @ [input_packet lm a edge])"
  by (induction rule: down_ok.induct) (auto intro: down_ok.intros)

lemma down_ok_confirm:
  "down_ok lm chk edge conf f n ps \<Longrightarrow> n < edge \<Longrightarrow> 0 \<le> a \<Longrightarrow> a \<le> f \<Longrightarrow> conf + 1 < edge
    \<Longrightarrow> down_ok lm chk edge (conf + 1) f n (ps @ [confirm_packet lm a (edge - 1) (chk (conf + 1))])"
  by (induction rule: down_ok.induct) (auto intro: down_ok.intros)

lemma up_ok_ack: "up_ok lc edge first n ps \<Longrightarrow> up_ok lc edge first n (ps @ [ack_packet])"
  by (induction rule: up_ok.induct) (auto intro: up_ok.intros)

lemma up_ok_input:
  "up_ok lc edge first n ps \<Longrightarrow> n < edge \<Longrightarrow> 0 \<le> a \<Longrightarrow> a \<le> first \<Longrightarrow> a \<le> edge
    \<Longrightarrow> up_ok lc (edge + 1) first n (ps @ [input_packet lc a edge])"
  by (induction rule: up_ok.induct) (auto intro: up_ok.intros)

text \<open>A lost input packet does no harm.\<close>

lemma down_ok_lose:
  assumes "down_ok lm chk edge conf f n (ps @ p # qs)" "packet_type p = kInputPacket"
  shows "down_ok lm chk edge conf f n (ps @ qs)"
  using assms
proof (induction ps arbitrary: f n)
  case Nil
  then show ?case by (auto elim!: down_consE intro: down_ok_lower)
next
  case (Cons q ps)
  then show ?case by (auto elim!: down_consE intro: down_ok.intros)
qed

lemma up_ok_lose:
  assumes "up_ok lc edge first n (ps @ p # qs)" "packet_type p = kInputPacket"
  shows "up_ok lc edge first n (ps @ qs)"
  using assms
proof (induction ps arbitrary: n)
  case Nil
  then show ?case by (auto elim!: up_consE intro: up_ok_lower)
next
  case (Cons q ps)
  then show ?case by (auto elim!: up_consE intro: up_ok.intros)
qed

section \<open>The invariant of the two peers\<close>

definition acks :: "Packet list \<Rightarrow> int" where
  "acks ps = int (length (filter (\<lambda>p. packet_type p = kFrameConfirmationPacket) ps))"

lemma acks_simps [simp]:
  "acks [] = 0" "acks (p # ps) = (if packet_type p = kFrameConfirmationPacket then 1 else 0) + acks ps"
  "acks (ps @ qs) = acks ps + acks qs"
  by (simp_all add: acks_def)

lemma acks_nonneg: "0 \<le> acks ps"
  by (simp add: acks_def)

definition window :: "(int \<Rightarrow> Input) \<Rightarrow> int \<Rightarrow> app \<Rightarrow> bool" where
  "window l k a \<longleftrightarrow> (let cur = current_frame (app_rollback a) in
     own_frames a = [k .. cur - 1] \<and> own_inputs a = map l [k .. cur - 1])"

definition lossless :: "app \<Rightarrow> bool" where
  "lossless a \<longleftrightarrow> (\<forall>(reliable, p) \<in> set (sent a). reliable \<or> packet_type p = kInputPacket)"

text \<open>The checksum of the match after frame \<open>f\<close>.\<close>

definition true_sum :: "game \<Rightarrow> (int \<Rightarrow> Input) \<Rightarrow> (int \<Rightarrow> Input) \<Rightarrow> int \<Rightarrow> 32 word" where
  "true_sum g0 lm lc f =
     (case rbind (play FixedUpdate seat (seats (player_nbr g0) lm lc) [0 .. f] g0) CheckSum of
        Inl _ \<Rightarrow> 0 | Inr s \<Rightarrow> s)"

text \<open>
  Both sides are taken after the increase of the current frame. \<open>qm\<close> and \<open>qc\<close> are the packets each
  side still has in its queue; those sent by the other side follow. The master has erased the
  inputs of the frames whose acknowledgement it has read.
\<close>

abbreviation confirmed_of :: "app \<Rightarrow> int" where "confirmed_of a \<equiv> confirmed_frame (app_rollback a)"
abbreviation current_of :: "app \<Rightarrow> int" where "current_of a \<equiv> current_frame (app_rollback a)"
abbreviation newest_of :: "app \<Rightarrow> int" where "newest_of a \<equiv> last_remote_input_frame (app_rollback a)"
abbreviation to_peer :: "app \<Rightarrow> Packet list" where "to_peer a \<equiv> map snd (sent a)"
abbreviation erased :: "app \<Rightarrow> Packet list \<Rightarrow> int" where
  "erased c qm \<equiv> confirmed_of c + 1 - acks (qm @ to_peer c)"

definition linked ::
  "game \<Rightarrow> (int \<Rightarrow> Input) \<Rightarrow> (int \<Rightarrow> Input) \<Rightarrow> app \<Rightarrow> app \<Rightarrow> Packet list \<Rightarrow> Packet list \<Rightarrow> bool" where
  "linked g0 lm lc m c qm qc \<longleftrightarrow> player_nbr g0 = 0
     \<and> in_sync g0 lm lc (app_rollback m) (app_game m)
     \<and> in_sync (mirror g0) lc lm (app_rollback c) (app_game c)
     \<and> window lm (erased c qm) m \<and> window lc (confirmed_of c + 1) c
     \<and> 0 \<le> erased c qm \<and> newest_of c < current_of m \<and> newest_of m < current_of c
     \<and> down_ok lm (true_sum g0 lm lc) (current_of m) (confirmed_of m) (confirmed_of c + 1) (newest_of c)
         (qc @ to_peer m)
     \<and> up_ok lc (current_of c) (confirmed_of c + 1) (newest_of m) (qm @ to_peer c)
     \<and> lossless m \<and> lossless c"

lemma in_sync_player:
  assumes "in_sync g0 l h r g"
  shows "player_nbr g = player_nbr g0"
  using match.play_keeps [OF in_sync_D(15) [OF assms] in_sync_D(1) [OF assms]] static_player by blast

lemma in_sync_sum:
  assumes "in_sync g0 lm lc r g" "CheckSum (confirmed r) = Inr s"
  shows "true_sum g0 lm lc (confirmed_frame r) = s"
  using in_sync_D(14) [OF assms(1)] assms(2) by (simp add: true_sum_def)

lemma true_sum_flip:
  assumes "sound g0"
  shows "true_sum (mirror g0) lc lm = true_sum g0 lm lc"
proof (rule ext)
  fix f
  show "true_sum (mirror g0) lc lm f = true_sum g0 lm lc f"
    using play_seats_flip [OF assms, of lc lm "[0 .. f]"] by (simp add: true_sum_def rbind_rmap)
qed

lemma linked_order:
  assumes "linked g0 lm lc m c qm qc"
  shows "confirmed_of c \<le> confirmed_of m" "erased c qm \<le> confirmed_of c + 1"
    "confirmed_of m < current_of c" "confirmed_of m < current_of m" "confirmed_of c < current_of c"
    "confirmed_of m \<le> newest_of m" "confirmed_of c \<le> newest_of c"
proof -
  have "confirmed_of c + 1 \<le> confirmed_of m + 1"
    using assms by (auto simp: linked_def dest: down_ok_f)
  then show "confirmed_of c \<le> confirmed_of m" by simp
  show "erased c qm \<le> confirmed_of c + 1" using acks_nonneg [of "qm @ to_peer c"] by simp
  show "confirmed_of m < current_of m" "confirmed_of c < current_of c"
    "confirmed_of m \<le> newest_of m" "confirmed_of c \<le> newest_of c"
    using assms in_sync_D(7,8) unfolding linked_def by blast+
  then show "confirmed_of m < current_of c" using assms by (simp add: linked_def)
qed

section \<open>The master\<close>

lemma confirm_one_linked:
  assumes "linked g0 lm lc m c qm qc" "confirmed_of m < newest_of m" "confirmed_of m + 1 < current_of m"
  shows "\<exists>m'. confirm_one m = Inr m' \<and> linked g0 lm lc m' c qm qc \<and> confirmed_of m' = confirmed_of m + 1
    \<and> current_of m' = current_of m \<and> newest_of m' = newest_of m \<and> app_game m' = app_game m"
proof -
  have s: "in_sync g0 lm lc (app_rollback m) (app_game m)" using assms(1) by (simp add: linked_def)
  obtain sum r' where r': "ConfirmFrame (app_rollback m) = Inr (sum, r')"
    "in_sync g0 lm lc r' (app_game m)" "confirmed_frame r' = confirmed_of m + 1"
    "current_frame r' = current_of m" "last_remote_input_frame r' = newest_of m"
    "CheckSum (confirmed r') = Inr sum"
    using ConfirmFrame_sync [OF s assms(2,3)] by blast
  have sum: "sum = true_sum g0 lm lc (confirmed_of m + 1)"
    using in_sync_sum [OF r'(2,6)] r'(3) by simp
  define m' where "m' = RaiseEvent True kFrameConfirmationPacket
    ((own_data m)(kChecksumKey \<mapsto> Checksum sum)) (m\<lparr>app_rollback := r'\<rparr>)"
  have "confirm_one m = Inr m'" using r'(1) by (simp add: confirm_one_def m'_def)
  moreover have w: "window lm (erased c qm) m" using assms(1) by (simp add: linked_def)
  then have p: "\<lparr>packet_type = kFrameConfirmationPacket, packet_data = (own_data m)(kChecksumKey \<mapsto> Checksum sum)\<rparr>
      = confirm_packet lm (erased c qm) (current_of m - 1) (true_sum g0 lm lc (confirmed_of m + 1))"
    by (simp add: window_def own_data_def confirm_packet_def sum Let_def)
  have "linked g0 lm lc m' c qm qc"
    using assms(1) r' p w assms(3) linked_order(2) [OF assms(1)]
      down_ok_confirm [of lm "true_sum g0 lm lc" "current_of m" "confirmed_of m" "confirmed_of c + 1" "newest_of c"
        "qc @ to_peer m" "erased c qm"]
    by (simp add: linked_def m'_def RaiseEvent_def window_def lossless_def Let_def)
  ultimately show ?thesis using r' by (auto simp: m'_def RaiseEvent_def)
qed

lemma confirm_loop_linked:
  assumes "linked g0 lm lc m c qm qc" "a \<le> confirmed_of m + 1" "confirmed_of m + 1 \<le> e" "e \<le> b + 1"
    "e \<le> newest_of m + 1" "e \<le> current_of m"
  shows "\<exists>m'. confirm_loop (packet lc a b) (nat (e - a)) (nat (confirmed_of m + 1 - a)) m = Inr m'
    \<and> linked g0 lm lc m' c qm qc \<and> current_of m' = current_of m"
  using assms
proof (induction "nat (e - confirmed_of m)" arbitrary: m)
  case 0
  then show ?case by simp
next
  case (Suc n)
  let ?it = "nat (confirmed_of m + 1 - a)"
  show ?case
  proof (cases "confirmed_of m + 1 = e")
    case True
    then show ?thesis using Suc.prems(1) by (intro exI [of _ m]) simp
  next
    case False
    then have lt: "confirmed_of m < newest_of m" "confirmed_of m + 1 < current_of m" using Suc.prems by auto
    obtain m' where m': "confirm_one m = Inr m'" "linked g0 lm lc m' c qm qc"
      "confirmed_of m' = confirmed_of m + 1" "current_of m' = current_of m" "newest_of m' = newest_of m"
      using confirm_one_linked [OF Suc.prems(1) lt] by blast
    have "\<exists>m''. confirm_loop (packet lc a b) (nat (e - a)) (nat (confirmed_of m' + 1 - a)) m' = Inr m''
        \<and> linked g0 lm lc m'' c qm qc \<and> current_of m'' = current_of m'"
      by (rule Suc.hyps(1)) (use Suc.hyps(2) Suc.prems m' False in auto)
    moreover have "nat (confirmed_of m' + 1 - a) = ?it + 1" using Suc.prems m'(3) by simp
    moreover have "confirm_loop (packet lc a b) (nat (e - a)) ?it m
        = confirm_loop (packet lc a b) (nat (e - a)) (?it + 1) m'"
      using Suc.prems False lt m'(1) by (subst confirm_loop.simps) (auto simp: GetCurentFrame_def)
    ultimately show ?thesis using m'(4) by simp
  qed
qed

lemma packet_inject:
  assumes "packet l a b = packet l a' b'" "a' \<le> b'"
  shows "a = a' \<and> b = b'"
proof -
  have "\<not> b < a" using assms by (metis packet_Nil not_less)
  then have "[a .. b] = [a' .. b'] \<and> a \<le> b"
    using arg_cong [OF assms(1), of "map frame_nbr"] by (simp add: packet_def comp_def)
  moreover have "x \<le> y \<Longrightarrow> hd [x .. y] = x \<and> last [x .. y] = y" for x y :: int
    by (metis last_snoc list.sel(1) upto_rec1 upto_rec2)
  ultimately show ?thesis using assms(2) by metis
qed

lemma SendFrameConfirmation_linked:
  assumes "linked g0 lm lc m c qm qc" "a \<le> confirmed_of m + 1" "a \<le> b" "b \<noteq> current_of m"
    and "newest_of m = max n (min b (current_of m))"
  shows "\<exists>m'. SendFrameConfirmation (packet lc a b) m = Inr m' \<and> linked g0 lm lc m' c qm qc
    \<and> current_of m' = current_of m"
proof -
  note o = linked_order [OF assms(1)]
  let ?f = "confirmed_of m + 1"
  show ?thesis
  proof (cases "b < ?f")
    case True
    then have "find_if (\<lambda>fi. frame_nbr fi = ?f) (packet lc a b) = length (packet lc a b)"
      unfolding find_if_end by (auto simp: packet_def)
    moreover have "frame_to_confirm (app_rollback m) = ?f"
      using assms(1) in_sync_D(6) unfolding linked_def by blast
    ultimately have "SendFrameConfirmation (packet lc a b) m = Inr m"
      using True o(4) assms(3)
      by (simp add: SendFrameConfirmation_def packet_last GetCurentFrame_def GetFrameToConfirm_def Let_def)
    with assms(1) show ?thesis by simp
  next
    case False
    define e where "e = (if current_of m < b then current_of m else b + 1)"
    have e: "?f \<le> e" "e \<le> b + 1" "e \<le> newest_of m + 1" "e \<le> current_of m"
      using False o(4) assms(4,5) by (auto simp: e_def)
    have "frame_to_confirm (app_rollback m) = ?f"
      using assms(1) in_sync_D(6) unfolding linked_def by blast
    moreover have "find_if (\<lambda>fi. frame_nbr fi = ?f) (packet lc a b) = nat (?f - a)"
      by (rule find_frame) (use False assms(2) in auto)
    moreover have "current_of m < b \<Longrightarrow> find_if (\<lambda>fi. frame_nbr fi = current_of m) (packet lc a b) = nat (current_of m - a)"
      by (rule find_frame) (use o(4) assms(2) in auto)
    ultimately have "SendFrameConfirmation (packet lc a b) m
        = confirm_loop (packet lc a b) (nat (e - a)) (nat (?f - a)) m"
      using assms(3)
      by (simp add: SendFrameConfirmation_def packet_last GetCurentFrame_def GetFrameToConfirm_def e_def Let_def)
    with confirm_loop_linked [OF assms(1,2) e] show ?thesis by simp
  qed
qed

text \<open>
  An input packet whose newest frame is not the frame the master is about to simulate is handled
  without fault and popped.
\<close>

lemma master_input:
  assumes "linked g0 lm lc m c (input_packet lc a b # qm) qc" "b \<noteq> current_of m" "current_of m < 5400"
  shows "\<exists>m'. handle_packet (input_packet lc a b) m = Inr (True, m') \<and> linked g0 lm lc m' c qm qc
    \<and> current_of m' = current_of m"
proof -
  note o = linked_order [OF assms(1)]
  have s: "in_sync g0 lm lc (app_rollback m) (app_game m)" and g0: "player_nbr g0 = 0"
    using assms(1) by (simp_all add: linked_def)
  have "up_ok lc (current_of c) (confirmed_of c + 1) (newest_of m) (input_packet lc a b # qm @ to_peer c)"
    using assms(1) by (simp add: linked_def)
  then obtain a' b' where ab: "0 \<le> a'" "a' \<le> confirmed_of c + 1" "a' \<le> b'" "newest_of m \<le> b'" "b' < current_of c"
    and eq: "input_packet lc a b = input_packet lc a' b'"
    and rest: "up_ok lc (current_of c) (confirmed_of c + 1) b' (qm @ to_peer c)"
    by (auto elim!: up_consE)
  have "packet lc a b = packet lc a' b'"
    using arg_cong [OF eq, of "\<lambda>p. read_inputs (packet_data p)"] by simp
  then have same: "a' = a" "b' = b" using packet_inject ab(3) by blast+
  have player: "player_nbr (app_game m) = 0" using in_sync_player [OF s] g0 by simp
  obtain r' g' where r': "Rollback_SetOtherPlayerInput (packet lc a b) (1 - player_nbr g0) (app_rollback m) (app_game m)
      = Inr (r', g')" "in_sync g0 lm lc r' g'" "current_frame r' = current_of m"
    "confirmed_frame r' = confirmed_of m"
    "last_remote_input_frame r' = max (newest_of m) (min b (current_of m))"
    using SetOtherPlayerInput_sync [OF s ab(1,3) _ _ assms(3)] ab(2) o(1,4,6) unfolding same by auto
  define m1 where "m1 = m\<lparr>app_rollback := r', app_game := g'\<rparr>"
  have recv: "receive_inputs (packet lc a b) m = Inr m1"
    using r'(1) player by (simp add: receive_inputs_def other_player_def m1_def g0)
  have l1: "linked g0 lm lc m1 c qm qc"
    using assms(1) r' rest ab(4,5) unfolding same
    by (auto simp: linked_def m1_def window_def lossless_def intro: up_ok_lower)
  obtain m2 where m2: "SendFrameConfirmation (packet lc a b) m1 = Inr m2" "linked g0 lm lc m2 c qm qc"
    "current_of m2 = current_of m1"
    using SendFrameConfirmation_linked [OF l1, of a b "newest_of m"] ab(2,3) o(1) assms(2) r' unfolding same
    by (auto simp: m1_def)
  have "player_nbr (app_game m1) = 0"
    using in_sync_player [of g0 lm lc "app_rollback m1" "app_game m1"] r'(2) g0 by (simp add: m1_def)
  then have "handle_packet (input_packet lc a b) m = Inr (True, m2)"
    using recv m2(1) ab(3,4) unfolding same
    by (simp add: handle_packet_def handle_input_def packet_last GetLastRemoteInputFrame_def)
  with m2 r'(3) show ?thesis by (simp add: m1_def)
qed

lemma window_erase:
  assumes "window l k a" "k < current_of a"
  shows "\<exists>a'. erase_first a = Inr a' \<and> window l (k + 1) a' \<and> app_rollback a' = app_rollback a
    \<and> app_game a' = app_game a \<and> sent a' = sent a"
  using assms by (auto simp: window_def erase_first_def Let_def upto_rec1)

lemma master_ack:
  assumes "linked g0 lm lc m c (ack_packet # qm) qc"
  shows "\<exists>m'. handle_packet ack_packet m = Inr (True, m') \<and> linked g0 lm lc m' c qm qc
    \<and> current_of m' = current_of m"
proof -
  note o = linked_order [OF assms]
  have s: "in_sync g0 lm lc (app_rollback m) (app_game m)" and g0: "player_nbr g0 = 0"
    and w: "window lm (erased c (ack_packet # qm)) m"
    using assms by (simp_all add: linked_def)
  have player: "player_nbr (app_game m) = 0" using in_sync_player [OF s] g0 by simp
  have "erased c (ack_packet # qm) < current_of m"
    using o(1,4) acks_nonneg [of "qm @ to_peer c"] by simp
  then obtain m' where m': "erase_first m = Inr m'" "window lm (erased c (ack_packet # qm) + 1) m'"
    "app_rollback m' = app_rollback m" "app_game m' = app_game m" "sent m' = sent m"
    using window_erase [OF w] by blast
  have "up_ok lc (current_of c) (confirmed_of c + 1) (newest_of m) (qm @ to_peer c)"
    using assms by (auto simp: linked_def elim!: up_consE)
  moreover have "erased c (ack_packet # qm) + 1 = erased c qm" by simp
  with m'(2) have "window lm (erased c qm) m'" by (simp only:)
  ultimately have "linked g0 lm lc m' c qm qc"
    using assms m'(3-5) by (simp add: linked_def lossless_def)
  moreover have "handle_packet ack_packet m = Inr (True, m')"
    using m'(1) player by (simp add: handle_packet_def handle_confirmation_def)
  ultimately show ?thesis using m'(3) by auto
qed

section \<open>The other peer\<close>

lemma client_receive:
  assumes "linked g0 lm lc m c qm qc" "0 \<le> a" "a \<le> confirmed_of c + 1" "a \<le> b" "current_of c < 5400"
    and "b < current_of m"
    and down: "down_ok lm (true_sum g0 lm lc) (current_of m) (confirmed_of m) (confirmed_of c + 1) b (qc' @ to_peer m)"
    and n: "newest_of c \<le> b"
  shows "\<exists>c'. receive_inputs (packet lm a b) c = Inr c' \<and> linked g0 lm lc m c' qm qc'
    \<and> current_of c' = current_of c \<and> confirmed_of c' = confirmed_of c
    \<and> newest_of c' = max (newest_of c) (min b (current_of c))"
proof -
  note o = linked_order [OF assms(1)]
  have s: "in_sync (mirror g0) lc lm (app_rollback c) (app_game c)" and g0: "player_nbr g0 = 0"
    using assms(1) by (simp_all add: linked_def)
  have player: "player_nbr (app_game c) = 1" using in_sync_player [OF s] g0 by simp
  obtain r' g' where r': "Rollback_SetOtherPlayerInput (packet lm a b) (1 - player_nbr (mirror g0))
      (app_rollback c) (app_game c) = Inr (r', g')" "in_sync (mirror g0) lc lm r' g'"
    "current_frame r' = current_of c" "confirmed_frame r' = confirmed_of c"
    "last_remote_input_frame r' = max (newest_of c) (min b (current_of c))"
    using SetOtherPlayerInput_sync [OF s assms(2,4) _ _ assms(5)] assms(3) o(5,7) by auto
  define c' where "c' = c\<lparr>app_rollback := r', app_game := g'\<rparr>"
  have "receive_inputs (packet lm a b) c = Inr c'"
    using r'(1) player by (simp add: receive_inputs_def other_player_def c'_def g0)
  moreover have "linked g0 lm lc m c' qm qc'"
    using assms(1,6) r' n down_ok_lower [OF down]
    by (simp add: linked_def c'_def window_def lossless_def)
  ultimately show ?thesis using r' by (auto simp: c'_def)
qed

lemma client_input:
  assumes "linked g0 lm lc m c qm (input_packet lm a b # qc)" "current_of c < 5400"
  shows "\<exists>c'. handle_packet (input_packet lm a b) c = Inr (True, c') \<and> linked g0 lm lc m c' qm qc
    \<and> current_of c' = current_of c"
proof -
  have "down_ok lm (true_sum g0 lm lc) (current_of m) (confirmed_of m) (confirmed_of c + 1) (newest_of c)
      (input_packet lm a b # qc @ to_peer m)"
    using assms(1) by (simp add: linked_def)
  then obtain a' b' where ab: "0 \<le> a'" "a' \<le> confirmed_of c + 1" "a' \<le> b'" "newest_of c \<le> b'" "b' < current_of m"
    and eq: "input_packet lm a b = input_packet lm a' b'"
    and rest: "down_ok lm (true_sum g0 lm lc) (current_of m) (confirmed_of m) (confirmed_of c + 1) b' (qc @ to_peer m)"
    by (auto elim!: down_consE)
  have "packet lm a b = packet lm a' b'"
    using arg_cong [OF eq, of "\<lambda>p. read_inputs (packet_data p)"] by simp
  then have same: "a' = a" "b' = b" using packet_inject ab(3) by blast+
  obtain c' where c': "receive_inputs (packet lm a b) c = Inr c'" "linked g0 lm lc m c' qm qc"
    "current_of c' = current_of c"
    using client_receive [OF assms(1) ab(1-3) assms(2) ab(5) rest ab(4)] unfolding same by blast
  have "player_nbr (app_game c') = 1"
    using in_sync_player [of "mirror g0" lc lm "app_rollback c'" "app_game c'"] c'(2) by (simp add: linked_def)
  then have "handle_packet (input_packet lm a b) c = Inr (True, c')"
    using c'(1) ab(3,4) unfolding same
    by (simp add: handle_packet_def handle_input_def packet_last GetLastRemoteInputFrame_def)
  with c'(2,3) show ?thesis by blast
qed

text \<open>What a confirmation at the front of the queue says.\<close>

lemma down_confirm_head:
  assumes "down_ok lm chk edge conf f n (confirm_packet lm a b s # ps)"
  shows "0 \<le> a" "a \<le> f" "f \<le> b" "n \<le> b" "b < edge" "s = chk f" "down_ok lm chk edge conf (f + 1) b ps"
proof -
  from assms obtain a' b' where ab: "0 \<le> a'" "a' \<le> f" "f \<le> b'" "n \<le> b'" "b' < edge"
    and eq: "confirm_packet lm a b s = confirm_packet lm a' b' (chk f)"
    and tail: "down_ok lm chk edge conf (f + 1) b' ps"
    by (auto elim!: down_consE)
  have "packet lm a b = packet lm a' b'"
    using arg_cong [OF eq, of "\<lambda>p. read_inputs (packet_data p)"] by simp
  then have same: "a' = a" "b' = b" using packet_inject ab(2,3) order_trans by blast+
  from ab tail show "0 \<le> a" "a \<le> f" "f \<le> b" "n \<le> b" "b < edge" "down_ok lm chk edge conf (f + 1) b ps"
    unfolding same .
  show "s = chk f" using arg_cong [OF eq, of "\<lambda>p. data_checksum (packet_data p)"] by simp
qed

text \<open>The inputs of a confirmation are taken over first, where they are new.\<close>

lemma client_take_inputs:
  assumes l: "linked g0 lm lc m c qm (confirm_packet lm a b s # qc)" and live: "current_of c < 5400"
  shows "\<exists>c1. (if newest_of c < b then receive_inputs (packet lm a b) c else Inr c) = Inr c1
      \<and> linked g0 lm lc m c1 qm (confirm_packet lm a b s # qc) \<and> current_of c1 = current_of c
      \<and> confirmed_of c1 = confirmed_of c \<and> confirmed_of c + 1 \<le> newest_of c1"
proof -
  let ?f = "confirmed_of c + 1"
  have down: "down_ok lm (true_sum g0 lm lc) (current_of m) (confirmed_of m) ?f (newest_of c)
      (confirm_packet lm a b s # qc @ to_peer m)"
    using l by (simp add: linked_def)
  note h = down_confirm_head [OF this]
  have "newest_of m < current_of c" "?f \<le> newest_of m"
    using l linked_order(6) [OF l] down_ok_f [OF h(7)] by (auto simp: linked_def)
  then have f: "?f < current_of c" by simp
  have first: "down_ok lm (true_sum g0 lm lc) (current_of m) (confirmed_of m) ?f b
      ((confirm_packet lm a b s # qc) @ to_peer m)"
    using down_confirm [OF h(1-3) order_refl h(5,7)] by (simp add: h(6))
  show ?thesis
  proof (cases "newest_of c < b")
    case True
    have "a \<le> b" using h(2,3) by simp
    with True client_receive [OF l _ _ _ live _ first] h f show ?thesis by fastforce
  next
    case False
    with l h(3) show ?thesis by auto
  qed
qed

text \<open>The other peer confirms the frame, forgets its own inputs of it and acknowledges.\<close>

lemma linked_confirmed:
  assumes l: "linked g0 lm lc m c1 qm (confirm_packet lm a b s # qc)"
    and r': "in_sync (mirror g0) lc lm r' (app_game c1)" "confirmed_frame r' = confirmed_of c1 + 1"
      "current_frame r' = current_of c1" "last_remote_input_frame r' = newest_of c1"
    and c3: "app_rollback c3 = r'" "app_game c3 = app_game c1" "sent c3 = sent c1 @ [(True, ack_packet)]"
      "window lc (confirmed_of c1 + 1 + 1) c3"
  shows "linked g0 lm lc m c3 qm qc"
proof -
  let ?f = "confirmed_of c1 + 1"
  have e: "erased c3 qm = erased c1 qm" using c3(1,3) r'(2) by simp
  have "down_ok lm (true_sum g0 lm lc) (current_of m) (confirmed_of m) ?f (newest_of c1)
      (confirm_packet lm a b s # qc @ to_peer m)"
    using l by (simp add: linked_def)
  then obtain b' where b': "newest_of c1 \<le> b'"
    "down_ok lm (true_sum g0 lm lc) (current_of m) (confirmed_of m) (?f + 1) b' (qc @ to_peer m)"
    using down_confirmD by fastforce
  have down3: "down_ok lm (true_sum g0 lm lc) (current_of m) (confirmed_of m) (?f + 1) (newest_of c1) (qc @ to_peer m)"
    by (rule down_ok_lower [OF b'(2,1)])
  have up3: "up_ok lc (current_of c1) (?f + 1) (newest_of m) ((qm @ to_peer c1) @ [ack_packet])"
    by (rule up_ok_ack, rule up_ok_mono [of lc "current_of c1" ?f]) (use l in \<open>auto simp: linked_def\<close>)
  show ?thesis
    unfolding linked_def e using l r' c3 down3 up3 by (simp add: linked_def lossless_def del: acks_simps)
qed

text \<open>The checksum of a confirmation is the one the other peer computes itself.\<close>

lemma client_confirm:
  assumes l: "linked g0 lm lc m c qm (confirm_packet lm a b s # qc)" and live: "current_of c < 5400"
  shows "\<exists>c'. handle_packet (confirm_packet lm a b s) c = Inr (True, c') \<and> linked g0 lm lc m c' qm qc
    \<and> current_of c' = current_of c"
proof -
  let ?f = "confirmed_of c + 1"
  have down: "down_ok lm (true_sum g0 lm lc) (current_of m) (confirmed_of m) ?f (newest_of c)
      (confirm_packet lm a b s # qc @ to_peer m)" and g0: "player_nbr g0 = 0" "sound g0"
    using l in_sync_D(1) by (auto simp: linked_def)
  note h = down_confirm_head [OF down]
  have "?f < current_of c"
    using l linked_order(6) [OF l] down_ok_f [OF h(7)] by (auto simp: linked_def)
  moreover obtain c1 where c1: "(if newest_of c < b then receive_inputs (packet lm a b) c else Inr c) = Inr c1"
    "linked g0 lm lc m c1 qm (confirm_packet lm a b s # qc)" "current_of c1 = current_of c"
    "confirmed_of c1 = confirmed_of c" "?f \<le> newest_of c1"
    using client_take_inputs [OF l live] by blast
  ultimately have f: "?f < current_of c1" by simp
  have s1: "in_sync (mirror g0) lc lm (app_rollback c1) (app_game c1)" using c1(2) by (simp add: linked_def)
  obtain sum r' where r': "ConfirmFrame (app_rollback c1) = Inr (sum, r')"
    "in_sync (mirror g0) lc lm r' (app_game c1)" "confirmed_frame r' = ?f"
    "current_frame r' = current_of c1" "last_remote_input_frame r' = newest_of c1"
    "CheckSum (confirmed r') = Inr sum"
    using ConfirmFrame_sync [OF s1] c1(3-5) f by auto
  have sum: "sum = s" using in_sync_sum [OF r'(2,6)] true_sum_flip [OF g0(2)] r'(3) h(6) by simp
  define c2 where "c2 = RaiseEvent True kFrameConfirmationPacket Map.empty (c1\<lparr>app_rollback := r'\<rparr>)"
  have "window lc ?f c2"
    using c1(2,4) r'(4) by (simp add: linked_def window_def c2_def RaiseEvent_def)
  then obtain c3 where c3: "erase_first c2 = Inr c3" "window lc (?f + 1) c3" "app_rollback c3 = app_rollback c2"
    "app_game c3 = app_game c2" "sent c3 = sent c2"
    using window_erase [of lc ?f c2] f r'(4) by (auto simp: c2_def RaiseEvent_def)
  have "player_nbr (app_game c) = 1" "a \<le> b"
    using in_sync_player [of "mirror g0" lc lm "app_rollback c" "app_game c"] l h(2,3) by (simp_all add: linked_def)
  then have "handle_packet (confirm_packet lm a b s) c = Inr (True, c3)"
    using c1(1) r'(1) sum c3(1)
    by (simp add: handle_packet_def handle_confirmation_def packet_last GetLastRemoteInputFrame_def c2_def)
  moreover have "linked g0 lm lc m c3 qm qc"
    by (rule linked_confirmed [OF c1(2) r'(2)])
      (use r'(3-5) c1(4) c3(2-5) in \<open>simp_all add: c2_def RaiseEvent_def ack_packet_def\<close>)
  ultimately show ?thesis using c3(3) r'(4) c1(3) by (auto simp: c2_def RaiseEvent_def)
qed

section \<open>A tick of either side\<close>

lemma finish_tick_local:
  assumes "local_step inp (app_rollback a) (app_game a) = Inr (r', g')"
  defines "b \<equiv> a\<lparr>app_rollback := r', own_inputs := own_inputs a @ [inp],
      own_frames := own_frames a @ [current_of a]\<rparr>"
  shows "finish_tick inp a = Inr ((RaiseEvent False kInputPacket (own_data b) b)\<lparr>app_game := g'\<rparr>)"
  using assms(1)
  by (auto simp: local_step_def finish_tick_def GetCurentFrame_def rbind_eq_Inr rmap_eq_Inr Let_def
      RaiseEvent_def own_data_def b_def)

lemma window_extend:
  assumes "window l k a" "k \<le> current_of a" "current_frame r' = current_of a + 1" "l (current_of a) = inp"
    "app_rollback b = r'" "own_frames b = own_frames a @ [current_of a]" "own_inputs b = own_inputs a @ [inp]"
  shows "window l k b"
  using assms upto_rec2 [of k "current_of a"] by (simp add: window_def Let_def)

lemma window_packet:
  assumes "window l k b"
  shows "\<lparr>packet_type = kInputPacket, packet_data = own_data b\<rparr> = input_packet l k (current_of b - 1)"
  using assms by (simp add: window_def own_data_def input_packet_def Let_def)

lemma master_finish:
  assumes "linked g0 lm lc m c [] qc" "current_of m < 5400" "lm (current_of m) = inp"
  shows "\<exists>m'. finish_tick inp m = Inr m' \<and> linked g0 lm lc (upd_rollback IncreaseCurrentFrame m') c [] qc
    \<and> packet_queue m' = packet_queue m \<and> current_of m' = current_of m"
proof -
  note o = linked_order [OF assms(1)]
  have s: "in_sync g0 lm lc (app_rollback m) (app_game m)" and w: "window lm (erased c []) m"
    using assms(1) by (simp_all add: linked_def)
  obtain r' g' where r': "local_step inp (app_rollback m) (app_game m) = Inr (r', g')"
    "in_sync g0 lm lc (IncreaseCurrentFrame r') g'" "current_frame r' = current_of m"
    "confirmed_frame r' = confirmed_of m" "last_remote_input_frame r' = newest_of m"
    using local_step_sync [OF s assms(2), of inp] assms(3) by (auto simp: fun_upd_idem)
  define b where "b = m\<lparr>app_rollback := r', own_inputs := own_inputs m @ [inp],
      own_frames := own_frames m @ [current_of m]\<rparr>"
  define m' where "m' = (RaiseEvent False kInputPacket (own_data b) b)\<lparr>app_game := g'\<rparr>"
  define m2 where "m2 = upd_rollback IncreaseCurrentFrame m'"
  have fin: "finish_tick inp m = Inr m'"
    using finish_tick_local [OF r'(1)] by (simp add: m'_def b_def)
  have flds: "app_rollback m2 = IncreaseCurrentFrame r'" "app_game m2 = g'" "current_of m2 = current_of m + 1"
    "confirmed_of m2 = confirmed_of m" "newest_of m2 = newest_of m"
    using r' by (simp_all add: m2_def m'_def upd_rollback_def RaiseEvent_def IncreaseCurrentFrame_def b_def)
  have w2: "window lm (erased c []) m2"
    by (rule window_extend [OF w, where r' = "IncreaseCurrentFrame r'"])
      (use o flds assms(3) in \<open>auto simp: m2_def m'_def upd_rollback_def RaiseEvent_def b_def\<close>)
  have data: "own_data m2 = own_data b"
    by (simp add: m2_def m'_def upd_rollback_def RaiseEvent_def own_data_def)
  have sent: "sent m2 = sent m @ [(False, input_packet lm (erased c []) (current_of m))]"
    using window_packet [OF w2] flds(3) data
    by (simp add: m2_def m'_def upd_rollback_def RaiseEvent_def b_def)
  have "down_ok lm (true_sum g0 lm lc) (current_of m + 1) (confirmed_of m) (confirmed_of c + 1) (newest_of c)
      ((qc @ to_peer m) @ [input_packet lm (erased c []) (current_of m)])"
    by (rule down_ok_input) (use assms(1) o in \<open>auto simp: linked_def\<close>)
  then have "linked g0 lm lc m2 c [] qc"
    using assms(1) r'(2) w2 flds sent by (simp add: linked_def lossless_def del: acks_simps)
  then show ?thesis
    using fin r'(3) by (auto simp: m2_def m'_def RaiseEvent_def b_def)
qed

lemma client_finish:
  assumes "linked g0 lm lc m c qm []" "current_of c < 5400" "lc (current_of c) = inp"
  shows "\<exists>c'. finish_tick inp c = Inr c' \<and> linked g0 lm lc m (upd_rollback IncreaseCurrentFrame c') qm []
    \<and> packet_queue c' = packet_queue c \<and> current_of c' = current_of c"
proof -
  note o = linked_order [OF assms(1)]
  have s: "in_sync (mirror g0) lc lm (app_rollback c) (app_game c)" and w: "window lc (confirmed_of c + 1) c"
    using assms(1) by (simp_all add: linked_def)
  obtain r' g' where r': "local_step inp (app_rollback c) (app_game c) = Inr (r', g')"
    "in_sync (mirror g0) lc lm (IncreaseCurrentFrame r') g'" "current_frame r' = current_of c"
    "confirmed_frame r' = confirmed_of c" "last_remote_input_frame r' = newest_of c"
    using local_step_sync [OF s assms(2), of inp] assms(3) by (auto simp: fun_upd_idem)
  define b where "b = c\<lparr>app_rollback := r', own_inputs := own_inputs c @ [inp],
      own_frames := own_frames c @ [current_of c]\<rparr>"
  define c' where "c' = (RaiseEvent False kInputPacket (own_data b) b)\<lparr>app_game := g'\<rparr>"
  define c2 where "c2 = upd_rollback IncreaseCurrentFrame c'"
  have fin: "finish_tick inp c = Inr c'"
    using finish_tick_local [OF r'(1)] by (simp add: c'_def b_def)
  have flds: "app_rollback c2 = IncreaseCurrentFrame r'" "app_game c2 = g'" "current_of c2 = current_of c + 1"
    "confirmed_of c2 = confirmed_of c" "newest_of c2 = newest_of c"
    using r' by (simp_all add: c2_def c'_def upd_rollback_def RaiseEvent_def IncreaseCurrentFrame_def b_def)
  have w2: "window lc (confirmed_of c + 1) c2"
    by (rule window_extend [OF w, where r' = "IncreaseCurrentFrame r'"])
      (use o flds assms(3) in \<open>auto simp: c2_def c'_def upd_rollback_def RaiseEvent_def b_def\<close>)
  have data: "own_data c2 = own_data b"
    by (simp add: c2_def c'_def upd_rollback_def RaiseEvent_def own_data_def)
  have sent: "sent c2 = sent c @ [(False, input_packet lc (confirmed_of c + 1) (current_of c))]"
    using window_packet [OF w2] flds(3) data
    by (simp add: c2_def c'_def upd_rollback_def RaiseEvent_def b_def)
  have up: "up_ok lc (current_of c + 1) (confirmed_of c + 1) (newest_of m)
      ((qm @ to_peer c) @ [input_packet lc (confirmed_of c + 1) (current_of c)])"
    by (rule up_ok_input) (use assms(1) o in_sync_D(5) [OF s] in \<open>auto simp: linked_def\<close>)
  have "erased c2 qm = erased c qm" using flds sent by simp
  with assms(1) r'(2) w2 flds sent up have "linked g0 lm lc m c2 qm []"
    by (simp add: linked_def lossless_def del: acks_simps)
  then show ?thesis
    using fin r'(3) by (auto simp: c2_def c'_def RaiseEvent_def b_def)
qed

end
