(* ===== verification/Match.thy ===== *)
theory Match
  imports Peers
begin

text \<open>
  A match between two peers as a step relation: ticks of either side, packets that arrive in order,
  and unreliable packets that are lost. From the kick-off on, every reachable state satisfies the
  invariant of theory \<open>Peers\<close>.
\<close>

section \<open>Whole queues\<close>

definition newest_frame :: "Packet \<Rightarrow> int option" where
  "newest_frame p =
     (case read_inputs (packet_data p) of
        Inl _ \<Rightarrow> None
      | Inr fis \<Rightarrow> if fis = [] then None else Some (frame_nbr (last fis)))"

text \<open>
  No queued input packet ends exactly at the frame the master is about to simulate. (One that
  does makes it confirm that frame before its own input is recorded.)
\<close>

definition no_tie :: "Packet list \<Rightarrow> int \<Rightarrow> bool" where
  "no_tie ps f \<longleftrightarrow> (\<forall>p \<in> set ps. packet_type p = kInputPacket \<longrightarrow> newest_frame p \<noteq> Some f)"

lemma newest_frame_input: "a \<le> b \<Longrightarrow> newest_frame (input_packet l a b) = Some b"
  by (simp add: newest_frame_def packet_last)

lemma linked_queue [simp]:
  "linked g0 lm lc (m\<lparr>packet_queue := q\<rparr>) c qm qc = linked g0 lm lc m c qm qc"
  "linked g0 lm lc m (c\<lparr>packet_queue := q\<rparr>) qm qc = linked g0 lm lc m c qm qc"
  by (simp_all add: linked_def window_def lossless_def)

lemma linked_up:
  assumes "linked g0 lm lc m c (p # qm) qc"
  obtains "p = ack_packet" | a b where "p = input_packet lc a b" "a \<le> b"
proof -
  have "up_ok lc (current_of c) (confirmed_of c + 1) (newest_of m) (p # qm @ to_peer c)"
    using assms by (simp add: linked_def)
  then show thesis by (cases rule: up_consE) (auto intro: that)
qed

lemma linked_down:
  assumes "linked g0 lm lc m c qm (p # qc)"
  obtains a b s where "p = confirm_packet lm a b s" | a b where "p = input_packet lm a b"
proof -
  have "down_ok lm (true_sum g0 lm lc) (current_of m) (confirmed_of m) (confirmed_of c + 1) (newest_of c)
      (p # qc @ to_peer m)"
    using assms by (simp add: linked_def)
  then show thesis by (cases rule: down_consE) (auto intro: that)
qed

lemma master_packets:
  assumes "linked g0 lm lc m c (ps @ qm) qc" "no_tie ps (current_of m)" "current_of m < 5400"
  shows "\<exists>m'. handle_packets ps m = Inr m' \<and> linked g0 lm lc m' c qm qc
    \<and> current_of m' = current_of m \<and> packet_queue m' = []"
  using assms
proof (induction ps arbitrary: m)
  case Nil
  then show ?case by simp
next
  case (Cons p ps)
  have l: "linked g0 lm lc m c (p # (ps @ qm)) qc" using Cons.prems(1) by simp
  have "\<exists>m'. handle_packet p m = Inr (True, m') \<and> linked g0 lm lc m' c (ps @ qm) qc
      \<and> current_of m' = current_of m"
    using l
  proof (cases rule: linked_up)
    case 1
    then show ?thesis using master_ack l by simp
  next
    case (2 a b)
    then have "b \<noteq> current_of m" using Cons.prems(2) newest_frame_input by (auto simp: no_tie_def)
    then show ?thesis using master_input [OF _ _ Cons.prems(3)] l 2 by simp
  qed
  then obtain m' where m': "handle_packet p m = Inr (True, m')" "linked g0 lm lc m' c (ps @ qm) qc"
    "current_of m' = current_of m" by blast
  have "no_tie ps (current_of m)" using Cons.prems(2) by (simp add: no_tie_def)
  with Cons.IH [OF m'(2)] m' Cons.prems(3) show ?case by simp
qed

lemma client_packets:
  assumes "linked g0 lm lc m c qm (ps @ qc)" "current_of c < 5400"
  shows "\<exists>c'. handle_packets ps c = Inr c' \<and> linked g0 lm lc m c' qm qc
    \<and> current_of c' = current_of c \<and> packet_queue c' = []"
  using assms
proof (induction ps arbitrary: c)
  case Nil
  then show ?case by simp
next
  case (Cons p ps)
  have l: "linked g0 lm lc m c qm (p # (ps @ qc))" using Cons.prems(1) by simp
  have "\<exists>c'. handle_packet p c = Inr (True, c') \<and> linked g0 lm lc m c' qm (ps @ qc)
      \<and> current_of c' = current_of c"
    using l
  proof (cases rule: linked_down)
    case (1 a b s)
    then show ?thesis using client_confirm [OF _ Cons.prems(2)] l by simp
  next
    case (2 a b)
    then show ?thesis using client_input [OF _ Cons.prems(2)] l by simp
  qed
  then obtain c' where "handle_packet p c = Inr (True, c')" "linked g0 lm lc m c' qm (ps @ qc)"
    "current_of c' = current_of c" by blast
  with Cons.IH [of c'] Cons.prems(2) show ?case by simp
qed

section \<open>The match\<close>

definition match_ok :: "game \<Rightarrow> (int \<Rightarrow> Input) \<Rightarrow> (int \<Rightarrow> Input) \<Rightarrow> app \<Rightarrow> app \<Rightarrow> bool" where
  "match_ok g0 lm lc m c \<longleftrightarrow>
     linked g0 lm lc (upd_rollback IncreaseCurrentFrame m) (upd_rollback IncreaseCurrentFrame c)
       (packet_queue m) (packet_queue c)"

lemma upd_rollback_simps [simp]:
  "packet_queue (upd_rollback f a) = packet_queue a" "sent (upd_rollback f a) = sent a"
  "app_game (upd_rollback f a) = app_game a" "app_rollback (upd_rollback f a) = f (app_rollback a)"
  "own_inputs (upd_rollback f a) = own_inputs a" "own_frames (upd_rollback f a) = own_frames a"
  by (simp_all add: upd_rollback_def)

lemma Increase_simps [simp]:
  "current_frame (IncreaseCurrentFrame r) = current_frame r + 1"
  "confirmed_frame (IncreaseCurrentFrame r) = confirmed_frame r" "confirmed (IncreaseCurrentFrame r) = confirmed r"
  "last_remote_input_frame (IncreaseCurrentFrame r) = last_remote_input_frame r"
  by (simp_all add: IncreaseCurrentFrame_def)

lemma tick_parts:
  assumes "current_of a + 1 < 5400"
  shows "tick down a = rbind (handle_packets (packet_queue a) (upd_rollback IncreaseCurrentFrame a))
    (finish_tick (read_keys down))"
  using assms by (simp add: tick_def Let_def GetCurentFrame_def kGameFrameNbr_def HandlePacket_def)

lemma master_tick_ok:
  assumes "match_ok g0 lm lc m c" "current_of m + 1 < 5400" "no_tie (packet_queue m) (current_of m + 1)"
    and "read_keys down = lm (current_of m + 1)"
  shows "\<exists>m'. tick down m = Inr m' \<and> match_ok g0 lm lc m' c \<and> packet_queue m' = []
    \<and> current_of m' = current_of m + 1"
proof -
  let ?m = "upd_rollback IncreaseCurrentFrame m" and ?c = "upd_rollback IncreaseCurrentFrame c"
  have "linked g0 lm lc ?m ?c (packet_queue m @ []) (packet_queue c)" using assms(1) by (simp add: match_ok_def)
  then obtain m1 where m1: "handle_packets (packet_queue m) ?m = Inr m1"
    "linked g0 lm lc m1 ?c [] (packet_queue c)" "current_of m1 = current_of m + 1" "packet_queue m1 = []"
    using master_packets [of g0 lm lc ?m ?c "packet_queue m" "[]" "packet_queue c"] assms(2,3) by auto
  obtain m2 where "finish_tick (read_keys down) m1 = Inr m2"
    "linked g0 lm lc (upd_rollback IncreaseCurrentFrame m2) ?c [] (packet_queue c)"
    "packet_queue m2 = packet_queue m1" "current_of m2 = current_of m1"
    using master_finish [OF m1(2)] assms(2,4) m1(3) by auto
  with m1 show ?thesis by (auto simp: tick_parts [OF assms(2)] match_ok_def)
qed

lemma client_tick_ok:
  assumes "match_ok g0 lm lc m c" "current_of c + 1 < 5400" "read_keys down = lc (current_of c + 1)"
  shows "\<exists>c'. tick down c = Inr c' \<and> match_ok g0 lm lc m c' \<and> packet_queue c' = []
    \<and> current_of c' = current_of c + 1"
proof -
  let ?m = "upd_rollback IncreaseCurrentFrame m" and ?c = "upd_rollback IncreaseCurrentFrame c"
  have "linked g0 lm lc ?m ?c (packet_queue m) (packet_queue c @ [])" using assms(1) by (simp add: match_ok_def)
  then obtain c1 where c1: "handle_packets (packet_queue c) ?c = Inr c1"
    "linked g0 lm lc ?m c1 (packet_queue m) []" "current_of c1 = current_of c + 1" "packet_queue c1 = []"
    using client_packets [of g0 lm lc ?m ?c "packet_queue m" "packet_queue c" "[]"] assms(2) by auto
  obtain c2 where "finish_tick (read_keys down) c1 = Inr c2"
    "linked g0 lm lc ?m (upd_rollback IncreaseCurrentFrame c2) (packet_queue m) []"
    "packet_queue c2 = packet_queue c1" "current_of c2 = current_of c1"
    using client_finish [OF c1(2)] assms(2,3) c1(3) by auto
  with c1 show ?thesis by (auto simp: tick_parts [OF assms(2)] match_ok_def)
qed

text \<open>\<open>lm\<close> and \<open>lc\<close> are the inputs the two players will have pressed, by frame.\<close>

inductive net :: "(int \<Rightarrow> Input) \<Rightarrow> (int \<Rightarrow> Input) \<Rightarrow> app \<times> app \<Rightarrow> app \<times> app \<Rightarrow> bool" for lm lc where
  master_tick: "current_of m + 1 < kGameFrameNbr \<Longrightarrow> no_tie (packet_queue m) (current_of m + 1)
    \<Longrightarrow> read_keys down = lm (current_of m + 1) \<Longrightarrow> tick down m = Inr m' \<Longrightarrow> net lm lc (m, c) (m', c)"
| client_tick: "current_of c + 1 < kGameFrameNbr \<Longrightarrow> read_keys down = lc (current_of c + 1)
    \<Longrightarrow> tick down c = Inr c' \<Longrightarrow> net lm lc (m, c) (m, c')"
| to_client: "sent m = (reliable, p) # rest_m
    \<Longrightarrow> net lm lc (m, c) (m\<lparr>sent := rest_m\<rparr>, customEventAction (packet_type p) (Some (packet_data p)) c)"
| to_master: "sent c = (reliable, p) # rest_c
    \<Longrightarrow> net lm lc (m, c) (customEventAction (packet_type p) (Some (packet_data p)) m, c\<lparr>sent := rest_c\<rparr>)"
| lost_down: "sent m = before @ (False, p) # after \<Longrightarrow> net lm lc (m, c) (m\<lparr>sent := before @ after\<rparr>, c)"
| lost_up: "sent c = before @ (False, p) # after \<Longrightarrow> net lm lc (m, c) (m, c\<lparr>sent := before @ after\<rparr>)"

lemma deliver [simp]: "customEventAction (packet_type p) (Some (packet_data p)) a
    = a\<lparr>packet_queue := packet_queue a @ [p]\<rparr>"
  by (simp add: customEventAction_def ReceiveEvent_def)

lemma deliver_to_client:
  assumes "match_ok g0 lm lc m c" "sent m = (reliable, p) # rest_m"
  shows "match_ok g0 lm lc (m\<lparr>sent := rest_m\<rparr>) (c\<lparr>packet_queue := packet_queue c @ [p]\<rparr>)"
  using assms by (simp add: match_ok_def linked_def window_def lossless_def)

lemma deliver_to_master:
  assumes "match_ok g0 lm lc m c" "sent c = (reliable, p) # rest_c"
  shows "match_ok g0 lm lc (m\<lparr>packet_queue := packet_queue m @ [p]\<rparr>) (c\<lparr>sent := rest_c\<rparr>)"
  using assms by (simp add: match_ok_def linked_def window_def lossless_def)

lemma lose_down:
  assumes "match_ok g0 lm lc m c" "sent m = before @ (False, p) # after"
  shows "match_ok g0 lm lc (m\<lparr>sent := before @ after\<rparr>) c"
proof -
  have p: "packet_type p = kInputPacket" using assms by (simp add: match_ok_def linked_def lossless_def)
  note lose = down_ok_lose [where ps = "packet_queue c @ map snd before" and p = p and qs = "map snd after", OF _ p]
  show ?thesis
    using assms lose by (simp add: match_ok_def linked_def window_def lossless_def)
qed

lemma lose_up:
  assumes "match_ok g0 lm lc m c" "sent c = before @ (False, p) # after"
  shows "match_ok g0 lm lc m (c\<lparr>sent := before @ after\<rparr>)"
proof -
  have p: "packet_type p = kInputPacket" using assms by (simp add: match_ok_def linked_def lossless_def)
  note lose = up_ok_lose [where ps = "packet_queue m @ map snd before" and p = p and qs = "map snd after", OF _ p]
  show ?thesis
    using assms lose p by (simp add: match_ok_def linked_def window_def lossless_def)
qed

lemma net_keeps:
  assumes "net lm lc (m, c) (m', c')" "match_ok g0 lm lc m c"
  shows "match_ok g0 lm lc m' c'"
  using assms(1)
proof cases
  case (master_tick down)
  with master_tick_ok [OF assms(2), of down] show ?thesis by (auto simp: kGameFrameNbr_def)
next
  case (client_tick down)
  with client_tick_ok [OF assms(2), of down] show ?thesis by (auto simp: kGameFrameNbr_def)
qed (use assms(2) deliver_to_client deliver_to_master lose_down lose_up in auto)

lemma reachable_ok:
  assumes "rtranclp (net lm lc) (m0, c0) (m, c)" "match_ok g0 lm lc m0 c0"
  shows "match_ok g0 lm lc m c"
  using assms
proof (induction "(m, c)" arbitrary: m c rule: rtranclp_induct)
  case (step s)
  then show ?case using net_keeps by (cases s) blast
qed auto

section \<open>Kick-off\<close>

text \<open>
  Two fresh applications: the first player joins a room and waits, the second one joins; both get
  the event of the second join.
\<close>

definition kick_off :: "app \<Rightarrow> (app \<times> app) res" where
  "kick_off a =
     rbind (joinRoomEventAction 1 a) (\<lambda>m. rbind (joinRoomEventAction 2 m) (\<lambda>m.
       rmap (Pair m) (joinRoomEventAction 2 a)))"

lemma kick_off_ok:
  assumes "Application = Inr a"
  shows "\<exists>m c. kick_off a = Inr (m, c) \<and> match_ok (app_game m) lm lc m c \<and> player_nbr (app_game m) = 0
    \<and> packet_queue m = [] \<and> packet_queue c = [] \<and> current_of m = - 1 \<and> current_of c = - 1
    \<and> newest_of m = - 1 \<and> newest_of c = - 1 \<and> confirmed_of m = - 1"
proof -
  obtain e where e: "Game = Inr e" "empty_world e" using Game_empty by blast
  have e0: "player_nbr e = - 1" "input e = 0" "other_player_input e = 0"
    using e(1) by (auto simp: Game_def rmap_eq_Inr)
  obtain r where r: "Rollback = Inr r" by (simp add: Rollback_def e(1))
  have a: "app_game a = e" "app_rollback a = r" "packet_queue a = []" "sent a = []" "own_inputs a = []"
    "own_frames a = []"
    using assms by (auto simp: Application_def e(1) r)
  have ep: "empty_world (e\<lparr>player_nbr := p, ball_type := kBasketball\<rparr>)" for p
    using e(2) by (simp add: empty_world_def)
  have start: "\<exists>g. StartGame (SetBallType kBasketball (e\<lparr>player_nbr := p\<rparr>)) = Inr g" if "p \<in> {0, 1}" for p
    using StartGame_sound [OF ep, of p] that by (auto simp: SetBallType_def)
  obtain gm gc where gm: "StartGame (SetBallType kBasketball (e\<lparr>player_nbr := 0\<rparr>)) = Inr gm"
    and gc: "StartGame (SetBallType kBasketball (e\<lparr>player_nbr := 1\<rparr>)) = Inr gc"
    using start [of 0] start [of 1] by auto
  have flip: "gc = mirror gm" by (rule StartGame_mirror [OF e(2) e0(2,3) gm gc])
  obtain rm where rm: "RegisterGame gm r = Inr rm" "in_sync gm lm lc (IncreaseCurrentFrame rm) gm"
    "player_nbr gm = 0" "current_frame (IncreaseCurrentFrame rm) = 0"
    using Register_in_sync [OF e(2,1) _ gm r] by blast
  obtain rc where rc: "RegisterGame gc r = Inr rc" "in_sync gc lc lm (IncreaseCurrentFrame rc) gc"
    "current_frame (IncreaseCurrentFrame rc) = 0"
    using Register_in_sync [OF e(2,1) _ gc r] by blast
  let ?m = "a\<lparr>app_game := gm, app_rollback := rm\<rparr>" and ?c = "a\<lparr>app_game := gc, app_rollback := rc\<rparr>"
  have r0: "confirmed_frame r = - 1" "last_remote_input_frame r = - 1"
    using r by (auto simp: Rollback_def rmap_eq_Inr)
  have conf: "confirmed_frame rm = - 1" "confirmed_frame rc = - 1"
    "last_remote_input_frame rm = - 1" "last_remote_input_frame rc = - 1"
    using rm(1) rc(1) r0 by (auto simp: RegisterGame_def rmap_eq_Inr)
  have "kick_off a = Inr (?m, ?c)"
    using gm gc rm(1) rc(1) by (simp add: kick_off_def joinRoomEventAction_def a e0 Let_def)
  moreover have "match_ok gm lm lc ?m ?c"
    unfolding match_ok_def linked_def using rm rc flip conf a
    by (auto simp: window_def lossless_def intro: down_end up_end)
  moreover have "current_frame rm = - 1" "current_frame rc = - 1" using rm(4) rc(3) by simp_all
  ultimately show ?thesis using conf rm(3) a(3) by auto
qed

text \<open>States of a match between two peers.\<close>

definition match_state :: "(int \<Rightarrow> Input) \<Rightarrow> (int \<Rightarrow> Input) \<Rightarrow> app \<Rightarrow> app \<Rightarrow> bool" where
  "match_state lm lc m c \<longleftrightarrow> (\<exists>a s. Application = Inr a \<and> kick_off a = Inr s \<and> rtranclp (net lm lc) s (m, c))"

lemma match_state_ok:
  assumes "match_state lm lc m c"
  shows "\<exists>g0. match_ok g0 lm lc m c"
proof -
  obtain a m0 c0 where a: "Application = Inr a" "kick_off a = Inr (m0, c0)" "rtranclp (net lm lc) (m0, c0) (m, c)"
    using assms by (auto simp: match_state_def)
  have "match_ok (app_game m0) lm lc m0 c0" using kick_off_ok [OF a(1)] a(2) by auto
  with reachable_ok [OF a(3)] show ?thesis by blast
qed

lemma match_state_start:
  "\<exists>m c. match_state lm lc m c \<and> match_ok (app_game m) lm lc m c \<and> player_nbr (app_game m) = 0
    \<and> packet_queue m = [] \<and> packet_queue c = [] \<and> current_of m = - 1 \<and> current_of c = - 1
    \<and> newest_of m = - 1 \<and> newest_of c = - 1 \<and> confirmed_of m = - 1"
proof -
  obtain e where e: "Game = Inr e" using Game_empty by blast
  have "\<exists>a. Application = Inr a" unfolding Application_def Rollback_def e by simp
  then obtain a where a: "Application = Inr a" by blast
  obtain m c where k: "kick_off a = Inr (m, c)" "match_ok (app_game m) lm lc m c" "player_nbr (app_game m) = 0"
    "packet_queue m = [] \<and> packet_queue c = [] \<and> current_of m = - 1 \<and> current_of c = - 1
    \<and> newest_of m = - 1 \<and> newest_of c = - 1 \<and> confirmed_of m = - 1"
    using kick_off_ok [OF a] by blast
  have "match_state lm lc m c"
    unfolding match_state_def by (intro exI [of _ a] exI [of _ "(m, c)"]) (simp add: a k(1))
  with k show ?thesis by blast
qed

text \<open>The rollback at the first tick, and once the other player's first input is known.\<close>

lemma first_frame:
  "\<exists>g0 r. in_sync g0 l h r g0 \<and> player_nbr g0 = 0 \<and> current_frame r = 0
    \<and> last_remote_input_frame r = - 1 \<and> confirmed_frame r = - 1"
proof -
  obtain m c where "match_ok (app_game m) l h m c" "player_nbr (app_game m) = 0" "current_of m = - 1"
    "newest_of m = - 1" "confirmed_of m = - 1"
    using match_state_start by blast
  then show ?thesis
    by (intro exI [of _ "app_game m"] exI [of _ "IncreaseCurrentFrame (app_rollback m)"])
      (simp add: match_ok_def linked_def)
qed

lemma first_input:
  "\<exists>g0 r g. in_sync g0 l h r g \<and> player_nbr g0 = 0 \<and> current_frame r = 0
    \<and> last_remote_input_frame r = 0 \<and> confirmed_frame r = - 1"
proof -
  obtain g0 r where s: "in_sync g0 l h r g0" "player_nbr g0 = 0" "current_frame r = 0"
    "last_remote_input_frame r = - 1" "confirmed_frame r = - 1"
    using first_frame by blast
  show ?thesis
    using SetOtherPlayerInput_sync [OF s(1), of 0 0] s(2-5) by fastforce
qed

lemma second_frame:
  "\<exists>g0 r g. in_sync g0 l h r g \<and> player_nbr g0 = 0 \<and> current_frame r = 1
    \<and> last_remote_input_frame r = 0 \<and> confirmed_frame r = - 1"
proof -
  obtain g0 r g where s: "in_sync g0 l h r g" "player_nbr g0 = 0" "current_frame r = 0"
    "last_remote_input_frame r = 0" "confirmed_frame r = - 1"
    using first_input by blast
  obtain r' g' where "in_sync g0 (l(0 := l 0)) h (IncreaseCurrentFrame r') g'" "current_frame r' = 0"
    "confirmed_frame r' = - 1" "last_remote_input_frame r' = 0"
    using local_step_sync [OF s(1), of "l 0"] s(3-5) by auto
  then show ?thesis using s(2)
    by (intro exI [of _ g0] exI [of _ "IncreaseCurrentFrame r'"] exI [of _ g']) simp
qed

end
