(* ===== verification/Netcode_Spec.thy ===== *)
theory Netcode_Spec
  imports Match
begin

text \<open>
  What the netcode promises, on whole matches of two peers (\<open>match_state\<close>: reachable from the kick-off
  by ticks, deliveries and losses) and on its operations: the confirmed games agree, no tick
  faults, late inputs are repaired by replaying, the loops end. Two cases in which the code does
  not keep the promise are stated as well.
\<close>

section \<open>Whole matches\<close>

text \<open>C1: in every reachable state of a match (any delays, unreliable packets lost, no tick of the master on a
  tie, see \<open>tie_confirms_unrecorded\<close>) the master has confirmed at least the frames the other peer has, and when both have confirmed the same frame their confirmed games are mirror images of each
  other, bit for bit, with the same checksum.\<close>

theorem peers_agree:
  assumes "match_state lm lc m c"
  shows "confirmed_of c \<le> confirmed_of m \<and>
    (confirmed_of c = confirmed_of m \<longrightarrow>
       confirmed (app_rollback c) = mirror (confirmed (app_rollback m))
       \<and> CheckSum (confirmed (app_rollback c)) = CheckSum (confirmed (app_rollback m)))"
proof -
  obtain g0 where g0: "match_ok g0 lm lc m c" using match_state_ok [OF assms] by blast
  let ?rm = "IncreaseCurrentFrame (app_rollback m)" and ?rc = "IncreaseCurrentFrame (app_rollback c)"
  have s: "in_sync g0 lm lc ?rm (app_game m)" "in_sync (mirror g0) lc lm ?rc (app_game c)"
    using g0 by (simp_all add: match_ok_def linked_def)
  have "confirmed_of c \<le> confirmed_of m" using linked_order(1) [OF g0 [unfolded match_ok_def]] by simp
  moreover have "confirmed_of c = confirmed_of m \<Longrightarrow> confirmed ?rc = mirror (confirmed ?rm)
      \<and> CheckSum (confirmed ?rc) = CheckSum (confirmed ?rm)"
    using confirmed_mirror [OF s] by simp
  ultimately show ?thesis by simp
qed

theorem peers_agree_witness:
  "\<exists>m c. match_state (\<lambda>_. kRight) (\<lambda>_. kJump) m c \<and> confirmed_of c \<le> confirmed_of m"
proof -
  obtain m c where "match_state (\<lambda>_. kRight) (\<lambda>_. kJump) m c" using match_state_start by blast
  with peers_agree [OF this] show ?thesis by blast
qed

text \<open>The ticks as steps of the match.\<close>

lemma master_goes:
  assumes "match_state lm lc m c" "current_of m + 1 < kGameFrameNbr" "no_tie (packet_queue m) (current_of m + 1)"
    and "read_keys down = lm (current_of m + 1)"
  shows "\<exists>m'. tick down m = Inr m' \<and> packet_queue m' = [] \<and> current_of m' = current_of m + 1
    \<and> match_state lm lc m' c"
proof -
  obtain g0 where "match_ok g0 lm lc m c" using match_state_ok [OF assms(1)] by blast
  then obtain m' where m': "tick down m = Inr m'" "packet_queue m' = []" "current_of m' = current_of m + 1"
    using master_tick_ok assms(2-4) by (fastforce simp: kGameFrameNbr_def)
  have "net lm lc (m, c) (m', c)" by (rule master_tick [OF assms(2,3) _ m'(1)]) (rule assms(4))
  then have "match_state lm lc m' c"
    using assms(1) by (auto simp: match_state_def intro: rtranclp.rtrancl_into_rtrancl)
  with m' show ?thesis by blast
qed

lemma client_goes:
  assumes "match_state lm lc m c" "current_of c + 1 < kGameFrameNbr" "read_keys down = lc (current_of c + 1)"
  shows "\<exists>c'. tick down c = Inr c' \<and> packet_queue c' = [] \<and> current_of c' = current_of c + 1
    \<and> match_state lm lc m c'"
proof -
  obtain g0 where "match_ok g0 lm lc m c" using match_state_ok [OF assms(1)] by blast
  then obtain c' where c': "tick down c = Inr c'" "packet_queue c' = []" "current_of c' = current_of c + 1"
    using client_tick_ok assms(2,3) by (fastforce simp: kGameFrameNbr_def)
  have "net lm lc (m, c) (m, c')" by (rule client_tick [OF assms(2) _ c'(1)]) (rule assms(3))
  then have "match_state lm lc m c'"
    using assms(1) by (auto simp: match_state_def intro: rtranclp.rtrancl_into_rtrancl)
  with c' show ?thesis by blast
qed

text \<open>C2: in a match, a tick of the master before the last frame returns: no access is out of range, every
  queued packet is handled and removed, and a reachable state is reached again; provided no queued
  packet ends exactly at the frame about to be simulated.\<close>

theorem master_tick_returns:
  assumes "match_state lm lc m c" "current_of m + 1 < kGameFrameNbr" "no_tie (packet_queue m) (current_of m + 1)"
    and "read_keys down = lm (current_of m + 1)"
  shows "\<exists>m'. tick down m = Inr m' \<and> packet_queue m' = [] \<and> current_of m' = current_of m + 1
    \<and> match_state lm lc m' c"
  by (rule master_goes [OF assms])

theorem master_tick_returns_witness:
  "\<exists>m c m'. match_state (\<lambda>_. read_keys (\<lambda>k. k = KEY_D)) (\<lambda>_. 0) m c \<and> tick (\<lambda>k. k = KEY_D) m = Inr m'
     \<and> match_state (\<lambda>_. read_keys (\<lambda>k. k = KEY_D)) (\<lambda>_. 0) m' c \<and> current_of m' = 0"
proof -
  let ?lm = "\<lambda>_. read_keys (\<lambda>k. k = KEY_D)"
  obtain m c where s: "match_state ?lm (\<lambda>_. 0) m c" "packet_queue m = []" "current_of m = - 1"
    using match_state_start by blast
  have "\<exists>m'. tick (\<lambda>k. k = KEY_D) m = Inr m' \<and> packet_queue m' = [] \<and> current_of m' = current_of m + 1
      \<and> match_state ?lm (\<lambda>_. 0) m' c"
    by (rule master_tick_returns [OF s(1)]) (simp_all add: s(2,3) kGameFrameNbr_def no_tie_def)
  with s show ?thesis by auto
qed

text \<open>C3: so does a tick of the other peer, without any proviso: in particular the checksum of every
  confirmation it reads is the one it computes itself.\<close>

theorem client_tick_returns:
  assumes "match_state lm lc m c" "current_of c + 1 < kGameFrameNbr" "read_keys down = lc (current_of c + 1)"
  shows "\<exists>c'. tick down c = Inr c' \<and> packet_queue c' = [] \<and> current_of c' = current_of c + 1
    \<and> match_state lm lc m c'"
  by (rule client_goes [OF assms])

theorem client_tick_returns_witness:
  "\<exists>m c c'. match_state (\<lambda>_. 0) (\<lambda>_. read_keys (\<lambda>k. k = KEY_SPACE)) m c \<and> tick (\<lambda>k. k = KEY_SPACE) c = Inr c'
     \<and> match_state (\<lambda>_. 0) (\<lambda>_. read_keys (\<lambda>k. k = KEY_SPACE)) m c' \<and> current_of c' = 0"
proof -
  let ?lc = "\<lambda>_. read_keys (\<lambda>k. k = KEY_SPACE)"
  obtain m c where s: "match_state (\<lambda>_. 0) ?lc m c" "current_of c = - 1"
    using match_state_start by blast
  have "\<exists>c'. tick (\<lambda>k. k = KEY_SPACE) c = Inr c' \<and> packet_queue c' = [] \<and> current_of c' = current_of c + 1
      \<and> match_state (\<lambda>_. 0) ?lc m c'"
    by (rule client_tick_returns [OF s(1)]) (simp_all add: s(2) kGameFrameNbr_def)
  with s show ?thesis by auto
qed



section \<open>The end of a match\<close>

text \<open>Ticks in a row, with the keyboard given by frame.\<close>

fun ticks :: "nat \<Rightarrow> (int \<Rightarrow> key \<Rightarrow> bool) \<Rightarrow> app \<Rightarrow> app res" where
  "ticks 0 down a = Inr a"
| "ticks (Suc n) down a = rbind (tick (down (current_of a + 1)) a) (ticks n down)"

lemma ticks_current: "ticks n down a = Inr a' \<Longrightarrow> current_of a' = current_of a + int n"
  by (induction n arbitrary: a) (auto simp: rbind_eq_Inr dest!: tick_current)

lemma tick_ends:
  assumes "current_of a + 1 = kGameFrameNbr"
  shows "tick down a = Inr (end_match (upd_rollback IncreaseCurrentFrame a))"
  using assms by (simp add: tick_def Let_def upd_rollback_def IncreaseCurrentFrame_def GetCurentFrame_def)

lemma end_match_finished: "state (app_game (end_match a)) = kGameFinished"
  by (simp add: end_match_def LeaveRoom_def EndGame_def)

lemma ticks_end:
  assumes "\<And>a. good a \<Longrightarrow> current_of a + 1 < kGameFrameNbr \<Longrightarrow>
      \<exists>a'. tick (down (current_of a + 1)) a = Inr a' \<and> current_of a' = current_of a + 1 \<and> good a'"
    and "good a" "current_of a + 1 + int n = kGameFrameNbr"
  shows "\<exists>a'. ticks (Suc n) down a = Inr a' \<and> state (app_game a') = kGameFinished"
  using assms(2,3)
proof (induction n arbitrary: a)
  case 0
  then show ?case using tick_ends [of a "down (current_of a + 1)"] end_match_finished by simp
next
  case (Suc n)
  then obtain a' where a': "tick (down (current_of a + 1)) a = Inr a'" "current_of a' = current_of a + 1" "good a'"
    using assms(1) [of a] by auto
  from Suc.IH [OF a'(3)] Suc.prems(2) a'(2) obtain b where
    "ticks (Suc n) down a' = Inr b" "state (app_game b) = kGameFinished" by auto
  then show ?case unfolding ticks.simps(2) [of "Suc n"] a'(1) by auto
qed

text \<open>C12: whatever has happened on the network, even if nothing arrives any more, either peer that goes on
  ticking reaches the end of the match after the remaining frames.\<close>

theorem match_ends:
  assumes "match_state lm lc m c" "no_tie (packet_queue m) (current_of m + 1)"
    and "\<And>f. read_keys (dm f) = lm f" "\<And>f. read_keys (dc f) = lc f"
    and "current_of m < kGameFrameNbr" "current_of c < kGameFrameNbr"
  shows "\<exists>m' c'. ticks (nat (kGameFrameNbr - current_of m)) dm m = Inr m' \<and> state (app_game m') = kGameFinished
    \<and> ticks (nat (kGameFrameNbr - current_of c)) dc c = Inr c' \<and> state (app_game c') = kGameFinished"
proof -
  have n: "nat (kGameFrameNbr - k) = Suc (nat (kGameFrameNbr - k - 1))" if "k < kGameFrameNbr" for k using that by simp
  have "\<exists>m'. ticks (Suc (nat (kGameFrameNbr - current_of m - 1))) dm m = Inr m' \<and> state (app_game m') = kGameFinished"
  proof (rule ticks_end [where good = "\<lambda>m. match_state lm lc m c \<and> no_tie (packet_queue m) (current_of m + 1)"])
    show "\<exists>a'. tick (dm (current_of a + 1)) a = Inr a' \<and> current_of a' = current_of a + 1
        \<and> match_state lm lc a' c \<and> no_tie (packet_queue a') (current_of a' + 1)"
      if "match_state lm lc a c \<and> no_tie (packet_queue a) (current_of a + 1)" "current_of a + 1 < kGameFrameNbr" for a
      using master_goes [of lm lc a c "dm (current_of a + 1)"] that assms(3) by (fastforce simp: no_tie_def)
  qed (use assms in simp_all)
  moreover have "\<exists>c'. ticks (Suc (nat (kGameFrameNbr - current_of c - 1))) dc c = Inr c' \<and> state (app_game c') = kGameFinished"
  proof (rule ticks_end [where good = "\<lambda>c. match_state lm lc m c"])
    show "\<exists>a'. tick (dc (current_of a + 1)) a = Inr a' \<and> current_of a' = current_of a + 1 \<and> match_state lm lc m a'"
      if "match_state lm lc m a" "current_of a + 1 < kGameFrameNbr" for a
      using client_goes [OF that] assms(4) by blast
  qed (use assms in simp_all)
  ultimately show ?thesis unfolding n [OF assms(5)] n [OF assms(6)] by blast
qed

theorem match_ends_witness:
  "\<exists>m c m' c'. match_state (\<lambda>_. read_keys (\<lambda>_. False)) (\<lambda>_. read_keys (\<lambda>k. k = KEY_W)) m c
    \<and> ticks 5401 (\<lambda>_ _. False) m = Inr m' \<and> state (app_game m') = kGameFinished
    \<and> ticks 5401 (\<lambda>_ k. k = KEY_W) c = Inr c' \<and> state (app_game c') = kGameFinished"
proof -
  let ?lm = "\<lambda>_. read_keys (\<lambda>_. False)" and ?lc = "\<lambda>_. read_keys (\<lambda>k. k = KEY_W)"
  obtain m c where s: "match_state ?lm ?lc m c" "current_of m = - 1" "current_of c = - 1"
    "packet_queue m = []"
    using match_state_start by blast
  have "\<exists>m' c'. ticks (nat (kGameFrameNbr - current_of m)) (\<lambda>_ _. False) m = Inr m' \<and> state (app_game m') = kGameFinished
    \<and> ticks (nat (kGameFrameNbr - current_of c)) (\<lambda>_ k. k = KEY_W) c = Inr c' \<and> state (app_game c') = kGameFinished"
    by (rule match_ends [OF s(1)]) (simp_all add: s no_tie_def kGameFrameNbr_def)
  with s show ?thesis by (auto simp: kGameFrameNbr_def)
qed

section \<open>Operations of the rollback\<close>



text \<open>C11: confirming a frame both of whose inputs are recorded replays it on the confirmed game and returns
  the checksum of the result; the current game stays in sync.\<close>

theorem confirm_frame_replays:
  assumes "in_sync g0 l h r g"
    and "confirmed_frame r < last_remote_input_frame r" "confirmed_frame r + 1 < current_frame r"
  shows "\<exists>sum r'. ConfirmFrame r = Inr (sum, r') \<and> CheckSum (confirmed r') = Inr sum
    \<and> play FixedUpdate seat (seats (player_nbr g0) l h) [0 .. confirmed_frame r + 1] g0 = Inr (confirmed r')
    \<and> in_sync g0 l h r' g"
  using ConfirmFrame_sync [OF assms] in_sync_D(14) [of g0 l h] by fastforce

theorem confirm_frame_replays_witness:
  "\<exists>g0 r g sum r'. in_sync g0 (\<lambda>_. kLeft) (\<lambda>_. kJump) r g \<and> ConfirmFrame r = Inr (sum, r')
     \<and> play FixedUpdate seat (seats 0 (\<lambda>_. kLeft) (\<lambda>_. kJump)) [0 .. 0] g0 = Inr (confirmed r')"
proof -
  obtain g0 r g where s: "in_sync g0 (\<lambda>_. kLeft) (\<lambda>_. kJump) r g" "player_nbr g0 = 0" "current_frame r = 1"
    "last_remote_input_frame r = 0" "confirmed_frame r = - 1"
    using second_frame by blast
  have "\<exists>sum r'. ConfirmFrame r = Inr (sum, r') \<and> CheckSum (confirmed r') = Inr sum
    \<and> play FixedUpdate seat (seats (player_nbr g0) (\<lambda>_. kLeft) (\<lambda>_. kJump)) [0 .. confirmed_frame r + 1] g0
        = Inr (confirmed r') \<and> in_sync g0 (\<lambda>_. kLeft) (\<lambda>_. kJump) r' g"
    by (rule confirm_frame_replays [OF s(1)]) (simp_all add: s)
  with s show ?thesis by auto
qed

section \<open>Where the promise breaks\<close>

lemma ConfirmFrame_ahead:
  "ConfirmFrame (IncreaseCurrentFrame r) = rmap (\<lambda>(s, r). (s, IncreaseCurrentFrame r)) (ConfirmFrame r)"
proof -
  have "input_at (IncreaseCurrentFrame r) = input_at r" by (simp add: fun_eq_iff input_at_def IncreaseCurrentFrame_def)
  then have "give_inputs (IncreaseCurrentFrame r) = give_inputs r" by (simp add: fun_eq_iff give_inputs_def)
  moreover have "(IncreaseCurrentFrame r)\<lparr>confirmed := g, confirmed_frame := x, frame_to_confirm := y\<rparr>
      = IncreaseCurrentFrame (r\<lparr>confirmed := g, confirmed_frame := x, frame_to_confirm := y\<rparr>)" for g x y
    by (simp add: IncreaseCurrentFrame_def)
  moreover have "frame_to_confirm (IncreaseCurrentFrame r) = frame_to_confirm r"
    by (simp add: IncreaseCurrentFrame_def)
  ultimately show ?thesis
    by (simp add: ConfirmFrame_def rmap_of_rbind rmap_rmap)
qed

lemma confirm_one_ahead:
  assumes "in_sync g0 l h (IncreaseCurrentFrame (app_rollback m)) g"
    and "confirmed_of m < newest_of m" "confirmed_of m < current_of m"
  shows "\<exists>m'. confirm_one m = Inr m' \<and> in_sync g0 l h (IncreaseCurrentFrame (app_rollback m')) g
    \<and> confirmed_of m' = confirmed_of m + 1 \<and> current_of m' = current_of m \<and> newest_of m' = newest_of m"
proof -
  obtain s r' where r': "ConfirmFrame (IncreaseCurrentFrame (app_rollback m)) = Inr (s, r')" "in_sync g0 l h r' g"
    "confirmed_frame r' = confirmed_of m + 1" "current_frame r' = current_of m + 1"
    "last_remote_input_frame r' = newest_of m"
    using ConfirmFrame_sync [OF assms(1)] assms(2,3) by auto
  obtain r where r: "ConfirmFrame (app_rollback m) = Inr (s, r)" "r' = IncreaseCurrentFrame r"
    using r'(1) by (auto simp: ConfirmFrame_ahead rmap_eq_Inr)
  with r' show ?thesis by (simp add: confirm_one_def RaiseEvent_def)
qed

lemma confirm_loop_ahead:
  assumes "in_sync g0 l h (IncreaseCurrentFrame (app_rollback m)) g" "a \<le> confirmed_of m + 1"
    and "confirmed_of m \<le> b" "b \<le> current_of m" "b \<le> newest_of m"
  shows "\<exists>m'. confirm_loop (packet h a b) (nat (b + 1 - a)) (nat (confirmed_of m + 1 - a)) m = Inr m'
    \<and> in_sync g0 l h (IncreaseCurrentFrame (app_rollback m')) g \<and> confirmed_of m' = b"
  using assms
proof (induction "nat (b - confirmed_of m)" arbitrary: m)
  case 0
  then show ?case by (subst confirm_loop.simps) auto
next
  case (Suc n)
  then have lt: "confirmed_of m < newest_of m" "confirmed_of m < current_of m" "confirmed_of m + 1 \<le> b" by auto
  obtain m' where m': "confirm_one m = Inr m'" "in_sync g0 l h (IncreaseCurrentFrame (app_rollback m')) g"
    "confirmed_of m' = confirmed_of m + 1" "current_of m' = current_of m" "newest_of m' = newest_of m"
    using confirm_one_ahead [OF Suc.prems(1) lt(1,2)] by blast
  have "\<exists>m''. confirm_loop (packet h a b) (nat (b + 1 - a)) (nat (confirmed_of m' + 1 - a)) m' = Inr m''
      \<and> in_sync g0 l h (IncreaseCurrentFrame (app_rollback m'')) g \<and> confirmed_of m'' = b"
    by (rule Suc.hyps(1)) (use Suc.hyps(2) Suc.prems m' in auto)
  moreover have "nat (confirmed_of m' + 1 - a) = nat (confirmed_of m + 1 - a) + 1" using Suc.prems m'(3) by simp
  moreover have "confirm_loop (packet h a b) (nat (b + 1 - a)) (nat (confirmed_of m + 1 - a)) m
      = confirm_loop (packet h a b) (nat (b + 1 - a)) (nat (confirmed_of m + 1 - a) + 1) m'"
    using Suc.prems lt m'(1) by (subst confirm_loop.simps) (auto simp: GetCurentFrame_def)
  ultimately show ?case by simp
qed

text \<open>The slot of the current frame has not been written: it holds whatever it held before.\<close>

lemma in_sync_ahead:
  assumes "in_sync g0 l h r g" "current_frame r < 5400"
  shows "\<exists>g'. in_sync g0 (l(current_frame r := stored r (player_nbr g0) (current_frame r))) h
    (IncreaseCurrentFrame r) g'"
proof -
  note s = in_sync_D [OF assms(1)]
  let ?l = "l(current_frame r := stored r (player_nbr g0) (current_frame r))"
  obtain g' where g': "play FixedUpdate seat (seats (player_nbr g0) ?l (known (last_remote_input_frame r) h))
      [0 .. current_frame r] g0 = Inr g'"
    using match.play_good [OF s(1)] by blast
  have "play FixedUpdate seat (seats (player_nbr g0) ?l h) [0 .. confirmed_frame r] g0 = Inr (confirmed r)"
    using s(8,14) seats_cong [of "[0 .. confirmed_frame r]" ?l l] by simp
  with g' s assms(2) have "in_sync g0 ?l h (IncreaseCurrentFrame r) g'"
    by (intro in_syncI) (auto simp: IncreaseCurrentFrame_def arrays_def stored_def)
  then show ?thesis by blast
qed

text \<open>C37: when the other player's packet ends exactly at the current frame of the master, the master
  confirms that frame before its own input of the frame is recorded: the confirmed game, and the
  checksum sent, use the old content of the slot instead of the input that is recorded and sent
  right afterwards.\<close>

theorem tie_confirms_unrecorded:
  assumes "in_sync g0 lm lc (app_rollback m) (app_game m)" "player_nbr g0 = 0"
    and "newest_of m = current_of m" "0 \<le> a" "a \<le> confirmed_of m + 1" "current_of m < kGameFrameNbr"
  shows "\<exists>m'. SendFrameConfirmation (packet lc a (current_of m)) m = Inr m' \<and> confirmed_of m' = current_of m
    \<and> play FixedUpdate seat (seats 0 (lm(current_of m := stored (app_rollback m) 0 (current_of m))) lc)
        [0 .. current_of m] g0 = Inr (confirmed (app_rollback m'))"
proof -
  note s = in_sync_D [OF assms(1)]
  let ?cur = "current_of m" and ?f = "confirmed_of m + 1"
  let ?l = "lm(?cur := stored (app_rollback m) 0 ?cur)"
  obtain g' where g': "in_sync g0 ?l lc (IncreaseCurrentFrame (app_rollback m)) g'"
    using in_sync_ahead [OF assms(1)] assms(2,6) by (auto simp: kGameFrameNbr_def)
  obtain m' where m': "confirm_loop (packet lc a ?cur) (nat (?cur + 1 - a)) (nat (?f - a)) m = Inr m'"
    "in_sync g0 ?l lc (IncreaseCurrentFrame (app_rollback m')) g'" "confirmed_of m' = ?cur"
    using confirm_loop_ahead [OF g' assms(5), of ?cur] s(8) assms(3) by auto
  have "find_if (\<lambda>fi. frame_nbr fi = ?f) (packet lc a ?cur) = nat (?f - a)"
    by (rule find_frame) (use assms(5) s(8) in auto)
  then have "SendFrameConfirmation (packet lc a ?cur) m = Inr m'"
    using m'(1) assms(5) s(6,8)
    by (simp add: SendFrameConfirmation_def packet_last GetCurentFrame_def GetFrameToConfirm_def Let_def)
  moreover have "play FixedUpdate seat (seats 0 ?l lc) [0 .. ?cur] g0 = Inr (confirmed (app_rollback m'))"
    using in_sync_D(14) [OF m'(2)] m'(3) assms(2) by simp
  ultimately show ?thesis using m'(3) by blast
qed

theorem tie_confirms_unrecorded_witness:
  "\<exists>g0 m m'. SendFrameConfirmation (packet (\<lambda>_. kJump) 0 0) m = Inr m' \<and> confirmed_of m' = 0
     \<and> play FixedUpdate seat (seats 0 ((\<lambda>_. kLeft)(0 := stored (app_rollback m) 0 0)) (\<lambda>_. kJump)) [0 .. 0] g0
         = Inr (confirmed (app_rollback m'))"
proof -
  obtain g0 r g where s: "in_sync g0 (\<lambda>_. kLeft) (\<lambda>_. kJump) r g" "player_nbr g0 = 0" "current_frame r = 0"
    "last_remote_input_frame r = 0" "confirmed_frame r = - 1"
    using first_input by blast
  obtain a where "Application = Inr a" using match_state_start by (auto simp: match_state_def)
  let ?m = "a\<lparr>app_rollback := r, app_game := g\<rparr>"
  have "\<exists>m'. SendFrameConfirmation (packet (\<lambda>_. kJump) 0 (current_of ?m)) ?m = Inr m' \<and> confirmed_of m' = current_of ?m
    \<and> play FixedUpdate seat (seats 0 ((\<lambda>_. kLeft)(current_of ?m := stored (app_rollback ?m) 0 (current_of ?m))) (\<lambda>_. kJump))
        [0 .. current_of ?m] g0 = Inr (confirmed (app_rollback m'))"
    by (rule tie_confirms_unrecorded [of g0 "\<lambda>_. kLeft" "\<lambda>_. kJump"]) (use s in \<open>simp_all add: kGameFrameNbr_def\<close>)
  then obtain m' where "SendFrameConfirmation (packet (\<lambda>_. kJump) 0 0) ?m = Inr m'" "confirmed_of m' = 0"
    "play FixedUpdate seat (seats 0 ((\<lambda>_. kLeft)(0 := stored (app_rollback ?m) 0 0)) (\<lambda>_. kJump)) [0 .. 0] g0
      = Inr (confirmed (app_rollback m'))"
    using s(3) by auto
  then show ?thesis by blast
qed

text \<open>C36: an input packet older than the newest remote input known is not removed from the queue: nothing
  changes, and every packet behind it stays where it is, at this tick and at every later one.\<close>

theorem stale_packet_blocks:
  assumes "read_inputs d = Inr fis" "fis \<noteq> []" "frame_nbr (last fis) < newest_of a"
    and "packet_queue a = \<lparr>packet_type = kInputPacket, packet_data = d\<rparr> # ps"
  shows "HandlePacket a = Inr a"
  using assms
  by (simp add: HandlePacket_def handle_packet_def handle_input_def GetLastRemoteInputFrame_def)

theorem stale_packet_blocks_witness:
  "\<exists>a. newest_of a = 5 \<and> length (packet_queue a) = 2 \<and> HandlePacket a = Inr a"
proof -
  obtain a where "Application = Inr a" using match_state_start by (auto simp: match_state_def)
  let ?a = "a\<lparr>app_rollback := (app_rollback a)\<lparr>last_remote_input_frame := 5\<rparr>,
    packet_queue := [input_packet (\<lambda>_. 0) 3 4, input_packet (\<lambda>_. 0) 3 6]\<rparr>"
  have "read_inputs (packet_data (input_packet (\<lambda>_. 0) 3 4)) = Inr (packet (\<lambda>_. 0) 3 4)" by simp
  then have "HandlePacket ?a = Inr ?a"
    by (rule stale_packet_blocks [where ps = "[input_packet (\<lambda>_. 0) 3 6]"])
      (simp_all add: packet_last)
  then show ?thesis by (intro exI [of _ ?a]) simp
qed

section \<open>The loops of the application\<close>

text \<open>The inner loop of the main loop ends, whatever the clock says: each tick counts the frame up and
  the match ends at frame 5400, so 5401 ticks always suffice.\<close>

lemma catch_up_returns:
  assumes "- 1 \<le> current_of a"
  shows "\<exists>res. catch_up 5401 down a = Some res"
  by (rule catch_up_fuel) (use assms in auto)

text \<open>The input byte of a frame says exactly which of the four actions' keys are down.\<close>

lemma read_keys_decodes:
  "(pressed (read_keys down) kRight \<longleftrightarrow> down KEY_D \<or> down KEY_RIGHT)
   \<and> (pressed (read_keys down) kLeft \<longleftrightarrow> down KEY_A \<or> down KEY_LEFT)
   \<and> (pressed (read_keys down) kJump \<longleftrightarrow> down KEY_W \<or> down KEY_UP)
   \<and> (pressed (read_keys down) kKick \<longleftrightarrow> down KEY_SPACE)"
  by (simp add: read_keys_def Let_def pressed_or pressed_def kRight_def kLeft_def kJump_def kKick_def)

end
