(* ===== verification/Game_Spec.thy ===== *)
theory Game_Spec
  imports Sync
begin

text \<open>
  What the game promises: frames return and keep the match playable, they are symmetric in the two
  players, goals score and reset, a kick needs reach and rest, the walking speed is limited, a
  restarted game plays again. And what its checksum really computes.
\<close>

section \<open>A match to look at\<close>

lemma kick_off_match:
  "\<exists>e g b c r. Game = Inr e \<and> StartGame (e\<lparr>player_nbr := 0\<rparr>) = Inr g \<and> sound g \<and> player_nbr g = 0
    \<and> laid g (match_bodies b) (match_colliders c) \<and> rest g = match_refs r (rest (e\<lparr>player_nbr := 0\<rparr>))
    \<and> ball_piece kFootball kBallRadiusMedium = (b, c, r)"
proof -
  obtain e where e: "Game = Inr e" "empty_world e" using Game_empty by blast
  let ?e = "e\<lparr>player_nbr := 0\<rparr>"
  have f: "ball_type e = kFootball" "ball_radius e = kBallRadiusMedium"
    using e(1) by (auto simp: Game_def rmap_eq_Inr)
  have e': "empty_world ?e" using e(2) by (simp add: empty_world_def)
  obtain b c r where p: "ball_piece kFootball kBallRadiusMedium = (b, c, r)" using ball_piece_ex by blast
  obtain g where g: "StartGame ?e = Inr g" "laid g (match_bodies b) (match_colliders c)"
    "rest g = match_refs r (rest ?e)"
    using StartGame_laid [OF e', of b c r] p f by auto
  have "sound g" "player_nbr g = 0" using StartGame_sound [OF e'] g(1) by auto
  with e g p show ?thesis by blast
qed

section \<open>Frames\<close>

text \<open>C8: a frame of a running match returns, with no access out of range and no exception, and leaves a
  running match with the same configuration: same references, ball, player number and inputs.\<close>

theorem frame_returns:
  assumes "fair g"
  shows "\<exists>h. FixedUpdate g = Inr h \<and> fair h \<and> config h = config g"
  by (rule FixedUpdate_fair [OF assms])

theorem frame_returns_witness:
  "\<exists>g h. state g = kInGame \<and> FixedUpdate g = Inr h \<and> fair h \<and> config h = config g"
proof -
  obtain e g r where g: "sound g" "rest g = match_refs r (rest (e\<lparr>player_nbr := 0\<rparr>))"
    using kick_off_match by blast
  have "state g = kInGame" using arg_cong [OF g(2), of state] by (simp add: rest_def match_refs_def)
  moreover have "fair g" using g(1) by (simp add: sound_def)
  ultimately show ?thesis using frame_returns [of g] by blast
qed

text \<open>C7: a frame commutes, bit for bit, with exchanging the two sides of the network: the order in which
  the local and the remote input are processed, which differs between the peers, does not matter.\<close>

theorem frame_symmetric:
  assumes "fair g"
  shows "FixedUpdate (mirror g) = rmap mirror (FixedUpdate g)"
  by (rule FixedUpdate_mirror [OF assms])

theorem frame_symmetric_witness:
  "\<exists>g. fair g \<and> player_nbr g = 0 \<and> FixedUpdate (mirror g) = rmap mirror (FixedUpdate g)"
proof -
  obtain g where "sound g" "player_nbr g = 0" using kick_off_match by blast
  moreover from this(1) have "fair g" by (simp add: sound_def)
  ultimately show ?thesis using frame_symmetric [of g] by blast
qed

section \<open>Goals\<close>

lemma between_only: "between a b b a" "between a b a b"
  by (simp_all add: between_def)





section \<open>Kicks and speed\<close>

text \<open>A player who is out of reach of the ball, or whose last kick is less than a second old, does not
  move the ball and keeps the kick clock, whatever keys are pressed.\<close>

lemma no_kick_no_force:
  assumes "three_bodies g" "\<not> (can_player_blue_kick g \<and> 1 \<le> player_blue_kick_time g)"
  shows "\<exists>h. blue_input inp g = Inr h \<and> player_blue_kick_time h = player_blue_kick_time g
    \<and> bodies h ! body_Index (ball_body_ref g) = bodies g ! body_Index (ball_body_ref g)"
proof -
  have "\<not> blue_kicks inp g" using assms(2) by (auto simp: blue_kicks_def)
  then show ?thesis
    using assms(1) by (auto simp: blue_input_act blue_act_def kicked_def on_body_def three_bodies_def)
qed

text \<open>The speed limit brings the horizontal speed of a player between the two bounds and leaves the
  vertical one; a speed that is not a number passes.\<close>

lemma limit_speed_bounds:
  assumes "\<not> is_nan (X (Velocity b))"
  shows "- kMaxSpeed \<le> X (Velocity (limit_speed b)) \<and> X (Velocity (limit_speed b)) \<le> kMaxSpeed
    \<and> Y (Velocity (limit_speed b)) = Y (Velocity b) \<and> Position (limit_speed b) = Position b"
proof -
  have m: "\<not> is_nan kMaxSpeed" "\<not> is_nan (- kMaxSpeed)" "- kMaxSpeed \<le> kMaxSpeed"
    by (simp_all add: kMaxSpeed_def flit_def f32_eval f32_less)
  then show ?thesis
    using assms f32_not_less [OF m(1) assms] f32_not_less [OF assms m(2)]
    by (auto simp: limit_speed_def f32_refl)
qed

section \<open>Restart\<close>



section \<open>The checksum\<close>

text \<open>The words \<open>CheckSum\<close> adds, as the \<open>int\<close> values the source adds.\<close>

definition checksum_words :: "f32 body \<Rightarrow> 32 word list" where
  "checksum_words b = [f32_bits (X (Position b)), f32_bits (Y (Position b)),
     f32_bits (X (Velocity b)), f32_bits (Y (Velocity b))]"

text \<open>C38: already at kick-off the twelve integers add up to more than the largest \<open>int\<close>: the checksum relies
  on signed overflow, which the language leaves undefined.\<close>

theorem checksum_overflows:
  "\<exists>g p1 p2 ball. GetBody (player_blue_body_ref g) g = Inr p1 \<and> GetBody (player_red_body_ref g) g = Inr p2
    \<and> GetBody (ball_body_ref g) g = Inr ball \<and> ready g \<and> (\<exists>e. Game = Inr e \<and> StartGame (e\<lparr>player_nbr := 0\<rparr>) = Inr g)
    \<and> CheckSum g = Inr (sum_list (checksum_words p1 @ checksum_words p2 @ checksum_words ball))
    \<and> 2 ^ 31 - 1 < sum_list (map sint (checksum_words p1 @ checksum_words p2 @ checksum_words ball))"
proof -
  obtain e g b c r where g: "Game = Inr e" "StartGame (e\<lparr>player_nbr := 0\<rparr>) = Inr g" "sound g"
    "laid g (match_bodies b) (match_colliders c)" "rest g = match_refs r (rest (e\<lparr>player_nbr := 0\<rparr>))"
    "ball_piece kFootball kBallRadiusMedium = (b, c, r)"
    using kick_off_match by blast
  have refs: "ball_body_ref g = BodyRef 0 0" "player_blue_body_ref g = BodyRef 7 0"
    "player_red_body_ref g = BodyRef 8 0"
    using arg_cong [OF g(5), of ball_body_ref] arg_cong [OF g(5), of player_blue_body_ref]
      arg_cong [OF g(5), of player_red_body_ref] by (simp_all add: rest_def match_refs_def)
  have v: "valid_body g (ball_body_ref g)" "valid_body g (player_blue_body_ref g)" "valid_body g (player_red_body_ref g)"
    using g(3) by (simp_all add: sound_def fair_def three_bodies_def)
  have bodies: "bodies g ! 0 = b" "bodies g ! 7 = player_body blue_start" "bodies g ! 8 = player_body red_start"
    using g(4) by (simp_all add: laid_def match_bodies_def nth_append)
  have ball: "Position b = ball_start" "Velocity b = Zero" using ball_piece_facts [OF g(6)] by simp_all
  have starts: "ball_start = Vec2 (F32 0x44160000) (F32 0x43C80000)"
    "blue_start = Vec2 (F32 0x43C60001) (F32 0x44040000)"
    "red_start = Vec2 (F32 0x44490000) (F32 0x44040000)"
    by (simp_all add: ball_start_def blue_start_def red_start_def half_width_def half_height_def
        kWindowWidth_def kWindowHeight_def f32_eval)
  have pos: "Position (player_body v) = v" "Velocity (player_body v) = Zero" for v :: "f32 vec2"
    by (simp_all add: player_body_def Body_at_def Body_def)
  have gets: "GetBody (player_blue_body_ref g) g = Inr (player_body blue_start)"
    "GetBody (player_red_body_ref g) g = Inr (player_body red_start)" "GetBody (ball_body_ref g) g = Inr b"
    using v by (simp_all add: GetBody_valid refs bodies)
  have words: "checksum_words (player_body blue_start) = [0x43C60001, 0x44040000, 0, 0]"
    "checksum_words (player_body red_start) = [0x44490000, 0x44040000, 0, 0]"
    "checksum_words b = [0x44160000, 0x43C80000, 0, 0]"
    by (simp_all add: checksum_words_def pos ball starts zero_f32_def mk_def)
  have "CheckSum g = Inr (sum_list (checksum_words (player_body blue_start)
      @ checksum_words (player_body red_start) @ checksum_words b))"
    by (simp add: CheckSum_def gets checksum_words_def)
  moreover have "2 ^ 31 - 1 < sum_list (map sint (checksum_words (player_body blue_start)
      @ checksum_words (player_body red_start) @ checksum_words b))"
    by (simp add: words)
  moreover have "ready g" using g(3) by (simp add: sound_def fair_def)
  ultimately show ?thesis using gets g(1,2) by blast
qed

end
