(* ===== verification/Renderer.thy ===== *)
theory Renderer
  imports Application "HOL-Library.Signed_Division"
begin

text \<open>
  \<open>common/include/Renderer.h\<close>, \<open>common/src/Renderer.cpp\<close>, \<open>common/include/Image2D.h\<close>, \<open>common/src/Image2D.cpp\<close>,
  \<open>common/src/Audio.cpp\<close> and the parts of \<open>Application\<close> and \<open>main\<close> that use them: what the program asks of
  raylib is a list of commands in \<open>ray_log\<close>, and what raylib answers is the \<open>machine\<close> argument.
\<close>

section \<open>The commands to raylib and its answers\<close>

datatype Color = WHITE | YELLOW | BLACK | BLUE | RED | SKYBLUE | GREEN

text \<open>A texture is known by the file it was loaded from; a default texture has no file.\<close>

record Texture2D =
  tex_file :: "string option"
  tex_width :: int
  tex_height :: int

record area =
  area_x :: f32
  area_y :: f32
  area_width :: f32
  area_height :: f32

datatype ray =
  InitWindow int int string | CloseWindow | BeginDrawing | EndDrawing | ClearBackground Color | DrawFPS int int
  | LoadTexture string | UnloadTexture Texture2D
  | DrawTexturePro Texture2D area area "f32 vec2" f32 Color
  | DrawRectangleRec area Color | DrawText string int int int Color
  | DrawCircle int int f32 Color | DrawRectangle int int int int Color
  | InitAudioDevice | LoadMusicStream string | SetMusicVolume f32 | PlayMusicStream | UpdateMusicStream
  | UnloadMusicStream | CloseAudioDevice

text \<open>
  \<open>padded\<close> is the library formatting an integer with \<open>{:02d}\<close>.
\<close>

record machine =
  texture_size :: "string \<Rightarrow> int \<times> int"
  MeasureText :: "string \<Rightarrow> int \<Rightarrow> int"
  CheckCollisionPointRec :: "f32 vec2 \<Rightarrow> area \<Rightarrow> bool"
  mouse :: "f32 vec2"
  mouse_pressed :: bool
  padded :: "int \<Rightarrow> string"
  clock :: int

text \<open>\<open>std::to_string\<close>, the remainder \<open>fmod\<close>, and the conversion of a \<open>float\<close> to an \<open>int\<close> where it is defined.\<close>

fun digits :: "nat \<Rightarrow> string" where
  "digits n = (if n < 10 then [char_of (48 + n)] else digits (n div 10) @ [char_of (48 + n mod 10)])"

declare digits.simps [simp del]

definition to_string :: "int \<Rightarrow> string" where
  "to_string i = (if i < 0 then ''-'' @ digits (nat (- i)) else digits (nat i))"

definition fmod :: "f32 \<Rightarrow> f32 \<Rightarrow> f32" where
  "fmod x y =
     (if is_nan x \<or> is_nan y \<or> is_inf x \<or> fmag y = 0 then qnan
      else if is_inf y then x
      else mk (fsign x) (round_mag (mag_units (fmag x) mod mag_units (fmag y)) 1))"

definition to_int :: "f32 \<Rightarrow> int res" where
  "to_int x =
     (if finite32 x \<and> - (2 ^ 31) \<le> int_of_f32 x \<and> int_of_f32 x < 2 ^ 31 then Inr (int_of_f32 x)
      else Inl (UndefinedBehaviour ''conversion''))"

section \<open>Images\<close>

datatype Offset = OffCenter | TopLeft | TopRight | DownLeft | DownRight | DownCenter | BackGround

record image =
  tex :: Texture2D
  pos :: "f32 vec2"
  origin :: "f32 vec2"
  img_source :: area
  dest :: area

definition Image2D :: image where
  "Image2D = \<lparr>tex = \<lparr>tex_file = None, tex_width = 0, tex_height = 0\<rparr>, pos = Zero, origin = Zero,
     img_source = \<lparr>area_x = 0, area_y = 0, area_width = 0, area_height = 0\<rparr>,
     dest = \<lparr>area_x = 0, area_y = 0, area_width = 0, area_height = 0\<rparr>\<rparr>"

definition Image2D_Setup :: "machine \<Rightarrow> string \<Rightarrow> f32 vec2 \<Rightarrow> Offset \<Rightarrow> image \<Rightarrow> image" where
  "Image2D_Setup mc path dims offset i =
     (let (w, h) = texture_size mc path;
          i = i\<lparr>tex := \<lparr>tex_file = Some path, tex_width = w, tex_height = h\<rparr>,
                img_source := \<lparr>area_x = 0, area_y = 0, area_width = f32_of_int w, area_height = f32_of_int h\<rparr>,
                dest := \<lparr>area_x = 0, area_y = 0, area_width = X dims, area_height = Y dims\<rparr>\<rparr>;
          width = area_width (dest i); height = area_height (dest i)
      in case offset of
           OffCenter \<Rightarrow> i\<lparr>origin := Vec2 (width * flit 5 10) (height * flit 5 10)\<rparr>
         | TopLeft \<Rightarrow> i\<lparr>origin := Vec2 0 0\<rparr>
         | TopRight \<Rightarrow> i\<lparr>origin := Vec2 width 0\<rparr>
         | DownLeft \<Rightarrow> i\<lparr>origin := Vec2 0 height\<rparr>
         | DownRight \<Rightarrow> i\<lparr>origin := Vec2 width height\<rparr>
         | DownCenter \<Rightarrow> i\<lparr>origin := Vec2 (width * flit 5 10) height\<rparr>
         | BackGround \<Rightarrow> i)"

definition Image2D_TearDown :: "image \<Rightarrow> ray list" where
  "Image2D_TearDown i = [UnloadTexture (tex i)]"

definition Image2D_Draw :: "f32 vec2 \<Rightarrow> f32 \<Rightarrow> image \<Rightarrow> ray list \<times> image" where
  "Image2D_Draw position rotation i =
     (let i = i\<lparr>dest := (dest i)\<lparr>area_x := X position, area_y := Y position\<rparr>\<rparr>
      in ([DrawTexturePro (tex i) (img_source i) (dest i) (origin i) rotation WHITE], i))"

section \<open>The state of the renderer\<close>

record renderer =
  rotation_timer :: timer
  rotation_time :: f32
  ball_current_rotation :: f32
  start_btn_text_color :: Color
  ball_img :: image
  ground_img :: image
  goal_left_img :: image
  goal_right_img :: image
  player_blue_img :: image
  player_blue_left_feet_img :: image
  player_blue_right_feet_img :: image
  player_red_img :: image
  player_red_left_feet_img :: image
  player_red_right_feet_img :: image
  isWaitingOtherPlayer :: bool

definition Renderer :: renderer where
  "Renderer = \<lparr>rotation_timer = \<lparr>startTime = 0, DeltaTime = 0\<rparr>, rotation_time = 0, ball_current_rotation = 0,
     start_btn_text_color = WHITE, ball_img = Image2D, ground_img = Image2D, goal_left_img = Image2D,
     goal_right_img = Image2D, player_blue_img = Image2D, player_blue_left_feet_img = Image2D,
     player_blue_right_feet_img = Image2D, player_red_img = Image2D, player_red_left_feet_img = Image2D,
     player_red_right_feet_img = Image2D, isWaitingOtherPlayer = False\<rparr>"

definition kFontSize :: int where "kFontSize = 30"

definition start_btn_rect :: area where
  "start_btn_rect =
     \<lparr>area_x = f32_of_int kWindowWidth * flit 333 1000, area_y = f32_of_int kWindowHeight * flit 2 10,
      area_width = f32_of_int kWindowWidth * flit 333 1000, area_height = f32_of_int kWindowHeight * flit 1 10\<rparr>"

text \<open>The whole program: the application, its renderer and the commands given so far.\<close>

record client =
  cl_app :: app
  cl_renderer :: renderer
  ray_log :: "ray list"

definition say :: "ray list \<Rightarrow> client \<Rightarrow> client" where
  "say rs c = c\<lparr>ray_log := ray_log c @ rs\<rparr>"

definition upd_renderer :: "(renderer \<Rightarrow> renderer) \<Rightarrow> client \<Rightarrow> client" where
  "upd_renderer f c = c\<lparr>cl_renderer := f (cl_renderer c)\<rparr>"

definition upd_app :: "(app \<Rightarrow> app) \<Rightarrow> client \<Rightarrow> client" where
  "upd_app f c = c\<lparr>cl_app := f (cl_app c)\<rparr>"

text \<open>An image field is named by its selector and its update.\<close>

type_synonym image_field = "(renderer \<Rightarrow> image) \<times> ((image \<Rightarrow> image) \<Rightarrow> renderer \<Rightarrow> renderer)"

definition load :: "machine \<Rightarrow> image_field \<Rightarrow> string \<Rightarrow> f32 vec2 \<Rightarrow> Offset \<Rightarrow> client \<Rightarrow> client" where
  "load mc fld path dims offset c =
     say [LoadTexture path] (upd_renderer (snd fld (Image2D_Setup mc path dims offset)) c)"

definition unload :: "(renderer \<Rightarrow> image) \<Rightarrow> client \<Rightarrow> client" where
  "unload img c = say (Image2D_TearDown (img (cl_renderer c))) c"

definition draw :: "image_field \<Rightarrow> f32 vec2 \<Rightarrow> f32 \<Rightarrow> client \<Rightarrow> client" where
  "draw fld position rotation c =
     (let (rs, i) = Image2D_Draw position rotation (fst fld (cl_renderer c))
      in say rs (upd_renderer (snd fld (\<lambda>_. i)) c))"

section \<open>Setting up and tearing down\<close>

definition Renderer_Setup :: "machine \<Rightarrow> client \<Rightarrow> client" where
  "Renderer_Setup mc c =
     (let c = upd_renderer (\<lambda>r. r\<lparr>rotation_timer := Timer_SetUp (clock mc) (rotation_timer r)\<rparr>) c;
          c = load mc (goal_left_img, goal_left_img_update) ''data/portaLeft.png'' kGoalSize DownLeft c;
          c = load mc (goal_right_img, goal_right_img_update) ''data/portaRight.png'' kGoalSize DownRight c
      in load mc (ground_img, ground_img_update) ''data/terreno.png'' kGroundSize DownCenter c)"

definition Renderer_TearDown :: "client \<Rightarrow> client" where
  "Renderer_TearDown c =
     say [CloseWindow]
       (fold unload [ball_img, goal_left_img, goal_right_img, ground_img, player_blue_img, player_red_img] c)"

definition ball_file :: "BallType \<Rightarrow> string option" where
  "ball_file t =
     (case t of kFootball \<Rightarrow> Some ''data/football.png''
      | kVolleyball \<Rightarrow> Some ''data/volley-ball.png''
      | kBasketball \<Rightarrow> Some ''data/basket-ball.png''
      | kTennisball \<Rightarrow> Some ''data/tennis-ball.png''
      | kBaseball \<Rightarrow> Some ''data/base-ball.png''
      | kCount \<Rightarrow> None)"

definition SetupBall :: "machine \<Rightarrow> client \<Rightarrow> client" where
  "SetupBall mc c =
     (let d = GetBallRadius (app_game (cl_app c)) * f32_of_int 2
      in case ball_file (GetBallType (app_game (cl_app c))) of
           Some path \<Rightarrow> load mc (ball_img, ball_img_update) path (Vec2 d d) OffCenter c
         | None \<Rightarrow> c)"

definition body_size :: "f32 vec2" where
  "body_size = Vec2 (kPlayerRadius * flit 2 1) (kPlayerRadius * flit 2 1)"

definition leg_size :: "f32 vec2" where
  "leg_size = Vec2 kPlayerRadius (kPlayerRadius * flit 5 10)"

definition SetupPlayers :: "machine \<Rightarrow> client \<Rightarrow> client" where
  "SetupPlayers mc c =
     (let c = load mc (player_blue_img, player_blue_img_update) ''data/PlayerBlu.png'' body_size OffCenter c;
          c = load mc (player_blue_left_feet_img, player_blue_left_feet_img_update)
                ''data/PlayerBluLeftLeg.png'' leg_size DownRight c;
          c = load mc (player_blue_right_feet_img, player_blue_right_feet_img_update)
                ''data/PlayerBluRightLeg.png'' leg_size DownLeft c;
          c = load mc (player_red_img, player_red_img_update) ''data/PlayerRed.png'' body_size OffCenter c;
          c = load mc (player_red_left_feet_img, player_red_left_feet_img_update)
                ''data/PlayerRedLeftLeg.png'' leg_size DownRight c
      in load mc (player_red_right_feet_img, player_red_right_feet_img_update)
           ''data/PlayerRedRightLeg.png'' leg_size DownLeft c)"

definition Renderer_StartGame :: "machine \<Rightarrow> client \<Rightarrow> client" where
  "Renderer_StartGame mc c = SetupPlayers mc (SetupBall mc c)"

section \<open>Drawing\<close>

text \<open>Text centred at a share of the window width, at a height and in a size.\<close>

definition text_x :: "machine \<Rightarrow> f32 \<Rightarrow> string \<Rightarrow> int \<Rightarrow> int" where
  "text_x mc share txt font =
     int_of_f32 (f32_of_int kWindowWidth * share - f32_of_int (MeasureText mc txt font) * flit 5 10)"

definition button_text_y :: int where
  "button_text_y = int_of_f32 (f32_of_int kWindowHeight * flit 2 10 + f32_of_int 30)"

definition DrawButton :: "machine \<Rightarrow> string \<Rightarrow> client \<Rightarrow> client" where
  "DrawButton mc txt c =
     say [DrawRectangleRec start_btn_rect (start_btn_text_color (cl_renderer c)),
          DrawText txt (text_x mc (flit 5 10) txt kFontSize) button_text_y 30 BLACK] c"

definition button_color :: "Color \<Rightarrow> client \<Rightarrow> client" where
  "button_color col = upd_renderer (\<lambda>r. r\<lparr>start_btn_text_color := col\<rparr>)"

definition waiting :: "bool \<Rightarrow> client \<Rightarrow> client" where
  "waiting b = upd_renderer (\<lambda>r. r\<lparr>isWaitingOtherPlayer := b\<rparr>)"

definition over_button :: "machine \<Rightarrow> bool" where
  "over_button mc \<longleftrightarrow> CheckCollisionPointRec mc (mouse mc) start_btn_rect"

definition DrawMenu :: "machine \<Rightarrow> client \<Rightarrow> client" where
  "DrawMenu mc c =
     (let c = button_color WHITE c;
          (txt, c) =
            (if \<not> IsConnected (cl_app c) then (''Waiting for connection'', c)
             else if isWaitingOtherPlayer (cl_renderer c) then (''Waiting for other player'', c)
             else
               (''Start Game'',
                if over_button mc
                then let c = button_color YELLOW c
                     in if mouse_pressed mc then upd_app JoinRandomOrCreateRoom (waiting True c) else c
                else c))
      in DrawButton mc txt c)"

definition DrawScore :: "machine \<Rightarrow> client \<Rightarrow> client" where
  "DrawScore mc c =
     (let blue = to_string (GetBlueScore (app_game (cl_app c)));
          red = to_string (GetRedScore (app_game (cl_app c)));
          y = int_of_f32 (f32_of_int kWindowHeight * flit 33 100)
      in say [DrawText blue (text_x mc (flit 33 100) blue 100) y 100 BLUE,
              DrawText red (text_x mc (flit 66 100) red 100) y 100 RED] c)"

definition rolled :: "f32 \<Rightarrow> f32 \<Rightarrow> f32 \<Rightarrow> f32 \<Rightarrow> f32" where
  "rolled seconds speed radius old =
     (let distanceMovedThisFrame = seconds * speed;
          rotationRadiansThisFrame = distanceMovedThisFrame div radius;
          rotationDegreesThisFrame =
            rotationRadiansThisFrame * (flit 180 1 div flit 314159265358979323846 (10 ^ 20));
          rotation = fmod (old + rotationDegreesThisFrame) (f32_of_int 360)
      in if rotation < 0 then rotation + f32_of_int 360 else rotation)"

definition DrawBall :: "client \<Rightarrow> client res" where
  "DrawBall c =
     (let g = app_game (cl_app c) in
      rbind (GetBallVelocity g) (\<lambda>velocity.
      let c = upd_renderer (\<lambda>r. r\<lparr>ball_current_rotation :=
                rolled (DeltaTime (rotation_timer r)) (X velocity) (GetBallRadius g) (ball_current_rotation r)\<rparr>) c
      in rmap (\<lambda>ballPos. draw (ball_img, ball_img_update) ballPos (ball_current_rotation (cl_renderer c)) c)
           (GetBallPosition g)))"

definition draw_feet :: "image_field \<Rightarrow> f32 vec2 \<Rightarrow> client \<Rightarrow> client" where
  "draw_feet fld player c =
     draw fld (Vec2 (X player)
       (Y player + kPlayerRadius + area_height (dest (fst fld (cl_renderer c))) * flit 5 10)) 0 c"

definition DrawPlayers :: "client \<Rightarrow> client res" where
  "DrawPlayers c =
     rbind (GetPlayerBluePos (app_game (cl_app c))) (\<lambda>blue.
     rmap (\<lambda>red.
       let c = draw (player_blue_img, player_blue_img_update) blue 0 c;
           c = draw (player_red_img, player_red_img_update) red 0 c;
           c = draw_feet (player_blue_left_feet_img, player_blue_left_feet_img_update) blue c;
           c = draw_feet (player_blue_right_feet_img, player_blue_right_feet_img_update) blue c;
           c = draw_feet (player_red_left_feet_img, player_red_left_feet_img_update) red c
       in draw_feet (player_red_right_feet_img, player_red_right_feet_img_update) red c)
     (GetPlayerRedPos (app_game (cl_app c))))"

definition ground_y :: f32 where "ground_y = f32_of_int kWindowHeight - Y kGroundSize"

definition DrawTerrain :: "client \<Rightarrow> client" where
  "DrawTerrain c =
     (let c = fold (\<lambda>i c. draw (ground_img, ground_img_update)
                (Vec2 (area_width (dest (ground_img (cl_renderer c))) * f32_of_int (int i))
                      (f32_of_int kWindowHeight)) 0 c) [0..<8] c;
          c = draw (goal_left_img, goal_left_img_update) (Vec2 0 ground_y) 0 c
      in draw (goal_right_img, goal_right_img_update) (Vec2 (f32_of_int kWindowWidth) ground_y) 0 c)"

definition DrawTimer :: "machine \<Rightarrow> client \<Rightarrow> client res" where
  "DrawTimer mc c =
     rmap (\<lambda>totalTime.
       let minutes = totalTime sdiv 60; seconds = totalTime smod 60;
           formattedTime = padded mc minutes @ '':'' @ padded mc seconds;
           textSize = kFontSize * 2
       in say [DrawText formattedTime (text_x mc (flit 5 10) formattedTime textSize) button_text_y textSize BLACK] c)
     (to_int (f32_of_int 90 - shown_time (cl_app c)))"

definition end_text :: "int \<Rightarrow> int \<Rightarrow> string \<times> Color" where
  "end_text blueScore redScore =
     (if blueScore = redScore then (''Draw !'', BLACK)
      else if redScore < blueScore then (''Blue wins'', BLUE)
      else (''Red wins'', RED))"

definition DrawEndGame :: "machine \<Rightarrow> client \<Rightarrow> client res" where
  "DrawEndGame mc c =
     rbind (DrawBall c) (\<lambda>c. rmap (\<lambda>c.
       let g = app_game (cl_app c);
           (txt, col) = end_text (GetBlueScore g) (GetRedScore g);
           textSize = kFontSize * 2;
           c = say [DrawText txt (text_x mc (flit 5 10) txt textSize) 30 textSize col] c;
           c = button_color WHITE c;
           c = (if over_button mc
                then let c = button_color YELLOW c
                     in if mouse_pressed mc
                        then waiting False (upd_app (\<lambda>a. a\<lparr>app_game := Restart (app_game a)\<rparr>) c) else c
                else c)
       in DrawButton mc ''Main menu'' c)
     (DrawPlayers (DrawScore mc c)))"

definition Draw :: "machine \<Rightarrow> client \<Rightarrow> client res" where
  "Draw mc c =
     (let c = say [BeginDrawing, ClearBackground SKYBLUE, DrawFPS 5 5] c;
          c = upd_renderer (\<lambda>r. let t = Timer_Tick (clock mc) (rotation_timer r)
                in r\<lparr>rotation_timer := t, rotation_time := rotation_time r + DeltaTime t\<rparr>) c;
          c = DrawTerrain c
      in rmap (say [EndDrawing])
           (case GetState (app_game (cl_app c)) of
              kMenu \<Rightarrow> Inr (DrawMenu mc c)
            | kInGame \<Rightarrow> rbind (DrawBall c) (\<lambda>c. rbind (DrawPlayers (DrawScore mc c)) (DrawTimer mc))
            | kGameFinished \<Rightarrow> DrawEndGame mc c))"

text \<open>The outlines, for debugging; the call in \<open>Draw\<close> is commented out.\<close>

definition DrawHitbox :: "client \<Rightarrow> client res" where
  "DrawHitbox c =
     (let g = app_game (cl_app c); h = kWindowHeight in
      rbind (GetBallPosition g) (\<lambda>ballPos. rbind (GetPlayerBluePos g) (\<lambda>blue. rmap (\<lambda>red.
        let circle = (\<lambda>p r col. DrawCircle (int_of_f32 (X p)) (int_of_f32 (Y p)) r col);
            goal_y = int_of_f32 (f32_of_int h - Y kGroundSize - Y kGoalSize);
            goal_h = int_of_f32 (Y kGoalSize div flit 10 1)
        in say [circle ballPos (GetBallRadius g) WHITE,
                DrawRectangle 0 (int_of_f32 (f32_of_int h - Y kGroundSize)) kWindowWidth
                  (int_of_f32 (Y kGroundSize)) GREEN,
                circle blue kPlayerRadius BLUE, circle red kPlayerRadius RED,
                DrawRectangle 0 goal_y (int_of_f32 (X kGoalSize)) goal_h WHITE,
                DrawRectangle (int_of_f32 (f32_of_int kWindowWidth - X kGoalSize)) goal_y
                  (int_of_f32 (X kGoalSize)) goal_h WHITE] c)
        (GetPlayerRedPos g))))"

end
