(* ===== verification/Program.thy ===== *)
theory Program
  imports Renderer
begin

text \<open>
  The program as \<open>main\<close> runs it: set-up, one iteration of the main loop (audio, the callbacks of the transport,
  the ticks, drawing) and tear-down. The clock, the keyboard, the mouse and the callbacks that arrive are arguments.
\<close>

section \<open>Audio\<close>

definition Audio_Setup :: "client \<Rightarrow> client" where
  "Audio_Setup = say [InitAudioDevice, LoadMusicStream ''data/music.wav'', SetMusicVolume (flit 2 10), PlayMusicStream]"

definition Audio_Update :: "client \<Rightarrow> client" where "Audio_Update = say [UpdateMusicStream]"

definition Audio_TearDown :: "client \<Rightarrow> client" where "Audio_TearDown = say [UnloadMusicStream, CloseAudioDevice]"

section \<open>Callbacks\<close>

text \<open>
  What one call of \<open>Service\<close> delivers: the callbacks with an effect on the state, and \<open>Printed\<close> for those that
  only print.
\<close>

datatype callback =
  ConnectReturn int | JoinRoomEvent int | LeaveRoomEvent int bool | CustomEvent "8 word" "Hashtable option" | Printed

definition deliver :: "machine \<Rightarrow> callback \<Rightarrow> client \<Rightarrow> client res" where
  "deliver mc cb c =
     (case cb of
        ConnectReturn errorCode \<Rightarrow> Inr (upd_app (connectReturn errorCode) c)
      | JoinRoomEvent playerNr \<Rightarrow>
          rmap (\<lambda>a. let c = c\<lparr>cl_app := a\<rparr> in if playerNr = 2 then Renderer_StartGame mc c else c)
            (joinRoomEventAction playerNr (cl_app c))
      | LeaveRoomEvent playerNr isInactive \<Rightarrow> Inr (upd_app (leaveRoomEventAction playerNr isInactive) c)
      | CustomEvent code content \<Rightarrow> Inr (upd_app (customEventAction code content) c)
      | Printed \<Rightarrow> Inr c)"

definition Service :: "machine \<Rightarrow> callback list \<Rightarrow> client \<Rightarrow> client res" where
  "Service mc = rfold (deliver mc)"

section \<open>Set-up, main loop, tear-down\<close>

definition Application_Setup :: "machine \<Rightarrow> client \<Rightarrow> client" where
  "Application_Setup mc c =
     Audio_Setup (Renderer_Setup mc (say [InitWindow kWindowWidth kWindowHeight ''Head Shot''] c))"

text \<open>
  What one iteration of the loop reads: the answers of raylib, the callbacks, the two clock readings of the game
  timer and the keys by frame number.
\<close>

record iteration =
  it_machine :: machine
  it_callbacks :: "callback list"
  it_setup :: int
  it_tick :: int
  it_keys :: "int \<Rightarrow> key \<Rightarrow> bool"

text \<open>\<open>None\<close> would be a run of the inner loop that does not end within 5401 ticks (\<open>catch_up_fuel\<close>: there is none).\<close>

definition Run_body :: "iteration \<Rightarrow> client \<Rightarrow> client res option" where
  "Run_body i c =
     (case Service (it_machine i) (it_callbacks i) (Audio_Update c) of
        Inl e \<Rightarrow> Some (Inl e)
      | Inr c \<Rightarrow>
          map_option (\<lambda>r. rbind r (\<lambda>a. Draw (it_machine i) (c\<lparr>cl_app := a\<rparr>)))
            (Run_step 5401 (it_setup i) (it_tick i) (it_keys i) (cl_app c)))"

text \<open>The loop runs once per element, until the window is to be closed.\<close>

fun Run :: "iteration list \<Rightarrow> client \<Rightarrow> client res option" where
  "Run [] c = Some (Inr c)"
| "Run (i # is) c =
     (case Run_body i c of None \<Rightarrow> None | Some (Inl e) \<Rightarrow> Some (Inl e) | Some (Inr c) \<Rightarrow> Run is c)"

definition Program_TearDown :: "client \<Rightarrow> client" where
  "Program_TearDown c = upd_app Application_TearDown (Audio_TearDown (Renderer_TearDown c))"

definition start_client :: "app \<Rightarrow> client" where
  "start_client a = \<lparr>cl_app = a, cl_renderer = Renderer, ray_log = []\<rparr>"

definition main :: "machine \<Rightarrow> iteration list \<Rightarrow> client res option" where
  "main mc is =
     (case Application of Inl e \<Rightarrow> Some (Inl e)
      | Inr a \<Rightarrow> map_option (rmap Program_TearDown) (Run is (Application_Setup mc (start_client a))))"

end
