(* ===== verification/Screen.thy ===== *)
theory Screen
  imports Program Kickoff "HOL-Library.Multiset"
begin

text \<open>
  Drawing: it never faults once the game is set up, it leaves the simulation alone but for the two buttons, the
  rotation of the ball and the time on screen stay in range, and which textures are loaded and unloaded.
\<close>

section \<open>Commands and images leave the state alone\<close>

definition core :: "client \<Rightarrow> app \<times> bool" where
  "core c = (cl_app c, isWaitingOtherPlayer (cl_renderer c))"

definition plain :: "image_field \<Rightarrow> bool" where
  "plain fld \<longleftrightarrow> (\<forall>f r. isWaitingOtherPlayer (snd fld f r) = isWaitingOtherPlayer r)"

lemma core_sel: "core c = core d \<Longrightarrow> cl_app c = cl_app d"
  "core c = core d \<Longrightarrow> isWaitingOtherPlayer (cl_renderer c) = isWaitingOtherPlayer (cl_renderer d)"
  by (simp_all add: core_def)

lemma core_say [simp]: "core (say rs c) = core c"
  by (simp add: core_def say_def)

lemma core_draw [simp]: "plain fld \<Longrightarrow> core (draw fld p rot c) = core c"
  by (simp add: core_def draw_def say_def upd_renderer_def plain_def split: prod.split)

lemma core_load [simp]: "plain fld \<Longrightarrow> core (load mc fld path dims offset c) = core c"
  by (simp add: core_def load_def say_def upd_renderer_def plain_def)

lemma core_feet [simp]: "plain fld \<Longrightarrow> core (draw_feet fld p c) = core c"
  by (simp add: draw_feet_def)

lemma plain_fields [simp]:
  "plain (ball_img, ball_img_update)" "plain (ground_img, ground_img_update)"
  "plain (goal_left_img, goal_left_img_update)" "plain (goal_right_img, goal_right_img_update)"
  "plain (player_blue_img, player_blue_img_update)" "plain (player_red_img, player_red_img_update)"
  "plain (player_blue_left_feet_img, player_blue_left_feet_img_update)"
  "plain (player_blue_right_feet_img, player_blue_right_feet_img_update)"
  "plain (player_red_left_feet_img, player_red_left_feet_img_update)"
  "plain (player_red_right_feet_img, player_red_right_feet_img_update)"
  by (simp_all add: plain_def)

lemma core_DrawTerrain: "core (DrawTerrain c) = core c"
proof -
  have "core (fold (\<lambda>i c. draw (ground_img, ground_img_update)
      (Vec2 (area_width (dest (ground_img (cl_renderer c))) * f32_of_int (int i)) (f32_of_int kWindowHeight)) 0 c)
      ks c) = core c" for ks
    by (induction ks arbitrary: c) simp_all
  then show ?thesis by (simp add: DrawTerrain_def Let_def)
qed

lemma core_StartGame: "core (Renderer_StartGame mc c) = core c"
  by (simp add: Renderer_StartGame_def SetupPlayers_def SetupBall_def Let_def split: option.split)

lemma core_Renderer_Setup: "core (Renderer_Setup mc c) = core c"
  by (simp add: Renderer_Setup_def Let_def) (simp add: core_def upd_renderer_def)

section \<open>Drawing returns\<close>

lemma ready_positions:
  assumes "ready g"
  shows "\<exists>v. GetBallVelocity g = Inr v" "\<exists>p. GetBallPosition g = Inr p"
    "\<exists>p. GetPlayerBluePos g = Inr p" "\<exists>p. GetPlayerRedPos g = Inr p"
  using assms by (auto simp: ready_def game_ok_def actor_def GetBallVelocity_def GetBallPosition_def
      GetPlayerBluePos_def GetPlayerRedPos_def GetBody_valid)

lemma DrawBall_core: "DrawBall c = Inr c' \<Longrightarrow> core c' = core c"
  by (auto simp: DrawBall_def Let_def rbind_eq_Inr rmap_eq_Inr) (simp add: core_def upd_renderer_def)

lemma DrawPlayers_core: "DrawPlayers c = Inr c' \<Longrightarrow> core c' = core c"
  by (auto simp: DrawPlayers_def Let_def rbind_eq_Inr rmap_eq_Inr)

lemma core_DrawScore [simp]: "core (DrawScore mc c) = core c"
  by (simp add: DrawScore_def Let_def)

lemma DrawTimer_core: "DrawTimer mc c = Inr c' \<Longrightarrow> core c' = core c"
  by (auto simp: DrawTimer_def Let_def rmap_eq_Inr)

definition pieces :: "machine \<Rightarrow> client \<Rightarrow> client res" where
  "pieces mc c = rbind (DrawBall c) (\<lambda>c. DrawPlayers (DrawScore mc c))"

lemma pieces_core: "pieces mc c = Inr c' \<Longrightarrow> core c' = core c"
  by (auto simp: pieces_def rbind_eq_Inr dest!: DrawBall_core DrawPlayers_core)

lemma pieces_ready:
  assumes "ready (app_game (cl_app c))"
  shows "\<exists>c'. pieces mc c = Inr c'"
proof -
  obtain v p b r where g: "GetBallVelocity (app_game (cl_app c)) = Inr v" "GetBallPosition (app_game (cl_app c)) = Inr p"
    "GetPlayerBluePos (app_game (cl_app c)) = Inr b" "GetPlayerRedPos (app_game (cl_app c)) = Inr r"
    using ready_positions [OF assms] by blast
  then have "\<exists>c1. DrawBall c = Inr c1" by (simp add: DrawBall_def Let_def upd_renderer_def)
  then obtain c1 where c1: "DrawBall c = Inr c1" by blast
  then have "cl_app (DrawScore mc c1) = cl_app c" using core_sel(1) core_DrawScore DrawBall_core by metis
  then show ?thesis using c1 g by (simp add: pieces_def DrawPlayers_def)
qed

text \<open>What a click on the button does.\<close>

definition asks_room :: "machine \<Rightarrow> client \<Rightarrow> bool" where
  "asks_room mc c \<longleftrightarrow> GetState (app_game (cl_app c)) = kMenu \<and> IsConnected (cl_app c)
     \<and> \<not> isWaitingOtherPlayer (cl_renderer c) \<and> over_button mc \<and> mouse_pressed mc"

definition leaves_end :: "machine \<Rightarrow> client \<Rightarrow> bool" where
  "leaves_end mc c \<longleftrightarrow> GetState (app_game (cl_app c)) = kGameFinished \<and> over_button mc \<and> mouse_pressed mc"

definition clicked :: "machine \<Rightarrow> client \<Rightarrow> app \<times> bool" where
  "clicked mc c =
     (if asks_room mc c then (JoinRandomOrCreateRoom (cl_app c), True)
      else if leaves_end mc c then ((cl_app c)\<lparr>app_game := Restart (app_game (cl_app c))\<rparr>, False)
      else core c)"

definition shows_time :: "app \<Rightarrow> bool" where
  "shows_time a \<longleftrightarrow> (\<exists>n. to_int (f32_of_int 90 - shown_time a) = Inr n)"

lemma clicked_cong: "core c = core d \<Longrightarrow> clicked mc c = clicked mc d"
  by (simp add: clicked_def asks_room_def leaves_end_def core_def)

lemma core_upd: "core (button_color col c) = core c" "core (waiting b c) = (cl_app c, b)"
  "core (upd_app f c) = (f (cl_app c), isWaitingOtherPlayer (cl_renderer c))"
  by (simp_all add: core_def button_color_def waiting_def upd_renderer_def upd_app_def)

lemma core_DrawButton [simp]: "core (DrawButton mc txt c) = core c"
  by (simp add: DrawButton_def)

lemma upd_sel: "cl_app (button_color col c) = cl_app c"
  "isWaitingOtherPlayer (cl_renderer (button_color col c)) = isWaitingOtherPlayer (cl_renderer c)"
  "cl_app (waiting b c) = cl_app c" "isWaitingOtherPlayer (cl_renderer (waiting b c)) = b"
  "cl_app (upd_app f c) = f (cl_app c)" "cl_renderer (upd_app f c) = cl_renderer c"
  "cl_app (say rs c) = cl_app c" "cl_renderer (say rs c) = cl_renderer c"
  by (simp_all add: button_color_def waiting_def upd_renderer_def upd_app_def say_def)

lemma core_DrawMenu:
  assumes "GetState (app_game (cl_app c)) = kMenu"
  shows "core (DrawMenu mc c) = clicked mc c"
  using assms by (simp add: DrawMenu_def clicked_def asks_room_def leaves_end_def Let_def core_upd upd_sel)

lemma DrawEndGame_pieces:
  "DrawEndGame mc c = rmap (\<lambda>c.
       let (txt, col) = end_text (GetBlueScore (app_game (cl_app c))) (GetRedScore (app_game (cl_app c)));
           c = button_color WHITE (say [DrawText txt (text_x mc (flit 5 10) txt (kFontSize * 2)) 30 (kFontSize * 2) col] c);
           c = (if over_button mc
                then let c = button_color YELLOW c
                     in if mouse_pressed mc
                        then waiting False (upd_app (\<lambda>a. a\<lparr>app_game := Restart (app_game a)\<rparr>) c) else c
                else c)
       in DrawButton mc ''Main menu'' c) (pieces mc c)"
  by (simp add: DrawEndGame_def pieces_def rmap_of_rbind Let_def)

lemma DrawEndGame_core:
  assumes "DrawEndGame mc c = Inr c'" "GetState (app_game (cl_app c)) = kGameFinished"
  shows "core c' = clicked mc c"
proof -
  obtain c1 where "pieces mc c = Inr c1" using assms(1) by (auto simp: DrawEndGame_pieces rmap_eq_Inr)
  then have e: "core c1 = core c" by (rule pieces_core)
  have "clicked mc c = clicked mc c1" "GetState (app_game (cl_app c1)) = kGameFinished"
    using clicked_cong [OF e] core_sel [OF e] assms(2) by simp_all
  then show ?thesis using assms(1) \<open>pieces mc c = Inr c1\<close>
    by (auto simp: DrawEndGame_pieces clicked_def asks_room_def leaves_end_def Let_def core_upd upd_sel
        split: prod.splits if_splits)
qed

text \<open>\<open>Draw\<close> after the terrain.\<close>

definition start_drawing :: "machine \<Rightarrow> client \<Rightarrow> client" where
  "start_drawing mc c =
     DrawTerrain (upd_renderer (\<lambda>r. let t = Timer_Tick (clock mc) (rotation_timer r)
         in r\<lparr>rotation_timer := t, rotation_time := rotation_time r + DeltaTime t\<rparr>)
       (say [BeginDrawing, ClearBackground SKYBLUE, DrawFPS 5 5] c))"

lemma Draw_parts:
  "Draw mc c = rmap (say [EndDrawing]) (case GetState (app_game (cl_app (start_drawing mc c))) of
      kMenu \<Rightarrow> Inr (DrawMenu mc (start_drawing mc c))
    | kInGame \<Rightarrow> rbind (pieces mc (start_drawing mc c)) (DrawTimer mc)
    | kGameFinished \<Rightarrow> DrawEndGame mc (start_drawing mc c))"
  unfolding Draw_def start_drawing_def Let_def pieces_def rbind_assoc by (rule refl)

lemma core_start_drawing [simp]: "core (start_drawing mc c) = core c"
  by (simp add: start_drawing_def core_DrawTerrain) (simp add: core_def upd_renderer_def say_def Let_def)

lemma start_drawing_sel [simp]: "cl_app (start_drawing mc c) = cl_app c" "clicked mc (start_drawing mc c) = clicked mc c"
  using core_sel(1) clicked_cong core_start_drawing by blast+

lemma Draw_core:
  assumes "Draw mc c = Inr c'"
  shows "core c' = clicked mc c"
proof (cases "GetState (app_game (cl_app c))")
  case kMenu
  then show ?thesis using assms core_DrawMenu [of "start_drawing mc c" mc] by (auto simp: Draw_parts)
next
  case kInGame
  then have "core c' = core c"
    using assms by (auto simp: Draw_parts rmap_eq_Inr rbind_eq_Inr dest!: pieces_core DrawTimer_core)
  with kInGame show ?thesis by (simp add: clicked_def asks_room_def leaves_end_def)
next
  case kGameFinished
  then show ?thesis using assms DrawEndGame_core [of mc "start_drawing mc c"] by (auto simp: Draw_parts rmap_eq_Inr)
qed

lemma Draw_ready:
  assumes "GetState (app_game (cl_app c)) = kMenu \<or> ready (app_game (cl_app c))"
    and "GetState (app_game (cl_app c)) = kInGame \<Longrightarrow> shows_time (cl_app c)"
  shows "\<exists>c'. Draw mc c = Inr c'"
proof (cases "GetState (app_game (cl_app c))")
  case kMenu
  then show ?thesis by (simp add: Draw_parts)
next
  case kInGame
  then obtain c1 where c1: "pieces mc (start_drawing mc c) = Inr c1"
    using pieces_ready [of "start_drawing mc c" mc] assms(1) by auto
  then have "cl_app c1 = cl_app c" using core_sel(1) pieces_core core_start_drawing by metis
  then show ?thesis using c1 kInGame assms(2) by (auto simp: Draw_parts DrawTimer_def shows_time_def)
next
  case kGameFinished
  then obtain c1 where "pieces mc (start_drawing mc c) = Inr c1"
    using pieces_ready [of "start_drawing mc c" mc] assms(1) by auto
  then show ?thesis using kGameFinished by (simp add: Draw_parts DrawEndGame_pieces)
qed

section \<open>Rotation and time\<close>

lemma fadd_between:
  assumes "finite32 x" "finite32 y" "0 \<le> fval x + fval y" "fval x + fval y \<le> fval x"
  shows "finite32 (fadd x y) \<and> 0 \<le> fadd x y \<and> fadd x y \<le> x"
proof -
  define v where "v = fval x + fval y"
  have n: "\<not> is_nan x" "\<not> is_nan y" "\<not> is_inf x" "\<not> is_inf y"
    using assms(1,2) by (simp_all add: finite32_def is_nan_def is_inf_def)
  have "0 \<le> fval x" using assms(3,4) by linarith
  then have x: "fkey x = int (fmag x)" by (auto simp: fkey_def fval_def split: if_splits)
  show ?thesis
  proof (cases "v = 0")
    case True
    have "fadd x y = mk (fsign x \<and> fsign y) 0" using True n by (simp add: fadd_def v_def)
    then show ?thesis using x n
      by (simp add: finite32_def less_eq_f32_def zero_f32_def fkey_def is_nan_def inf_mag_def)
  next
    case False
    have "round_mag (nat \<bar>v\<bar>) 1 \<le> fmag x"
      using assms(3,4) n(1) by (intro round_int_le) (auto simp: v_def)
    moreover have "fadd x y = mk False (round_mag (nat \<bar>v\<bar>) 1)"
      using False n assms(3) by (simp add: fadd_def flip: v_def)
    ultimately show ?thesis using x assms(1) n(1)
      by (simp add: finite32_def less_eq_f32_def zero_f32_def fkey_def is_nan_def inf_mag_def)
  qed
qed

lemma f32_minus_range:
  assumes "0 \<le> y" "y \<le> x" "finite32 x"
  shows "finite32 (x - y) \<and> 0 \<le> x - y \<and> x - y \<le> x"
proof -
  have n: "\<not> is_nan x" "\<not> is_nan y" using assms(1,2) f32_le_not_nan by blast+
  have k: "0 \<le> fval y" "fval y \<le> fval x" "0 \<le> fkey y" "fkey y \<le> fkey x"
    using assms(1,2) fkey_le_iff_fval [of 0 y] fkey_le_iff_fval [of y x]
    by (simp_all add: less_eq_f32_def) (simp_all add: zero_f32_def fval_def fkey_def)
  have "fmag y \<le> fmag x" using k(3,4) by (auto simp: fkey_def split: if_splits)
  then have "finite32 (fneg y)" using assms(3) n(2) by (simp add: finite32_def fmag_fneg)
  then show ?thesis
    unfolding minus_f32_def using assms(3) k(1,2) n(2) by (intro fadd_between) (simp_all add: fval_fneg)
qed

lemma int_of_f32_range:
  assumes "0 \<le> x" "x \<le> y" "int_of_f32 y = n"
  shows "0 \<le> int_of_f32 x \<and> int_of_f32 x \<le> n"
proof -
  have k: "0 \<le> fkey x" "fkey x \<le> fkey y" using assms(1,2) by (simp_all add: less_eq_f32_def) (simp_all add: zero_f32_def fkey_def)
  then have "fmag x \<le> fmag y" "fsign x \<longrightarrow> fmag x = 0" "fsign y \<longrightarrow> fmag y = 0"
    by (auto simp: fkey_def split: if_splits)
  then have "mag_units (fmag x) \<le> mag_units (fmag y)" by simp
  then have "mag_units (fmag x) div 2 ^ 149 \<le> mag_units (fmag y) div 2 ^ 149" by (rule div_le_mono)
  with \<open>fsign x \<longrightarrow> fmag x = 0\<close> \<open>fsign y \<longrightarrow> fmag y = 0\<close> show ?thesis
    using assms(3) by (auto simp: int_of_f32_def)
qed

lemma ninety: "finite32 (f32_of_int 90)" "int_of_f32 (f32_of_int 90) = 90"
  by (simp_all add: f32_of_int_def finite32_def inf_mag_def int_of_f32_def f32_eval)

text \<open>The time that is left.\<close>

lemma time_left:
  assumes "0 \<le> t" "t \<le> f32_of_int 90"
  shows "\<exists>n. to_int (f32_of_int 90 - t) = Inr n \<and> 0 \<le> n \<and> n \<le> 90"
proof -
  have r: "finite32 (f32_of_int 90 - t) \<and> 0 \<le> f32_of_int 90 - t \<and> f32_of_int 90 - t \<le> f32_of_int 90"
    using f32_minus_range [OF assms] ninety(1) by blast
  then have "0 \<le> int_of_f32 (f32_of_int 90 - t) \<and> int_of_f32 (f32_of_int 90 - t) \<le> 90"
    using int_of_f32_range ninety(2) by blast
  with r show ?thesis by (simp add: to_int_def)
qed

lemma clock_digits:
  assumes "0 \<le> n" "n \<le> (90 :: int)"
  shows "n sdiv 60 * 60 + n smod 60 = n \<and> 0 \<le> n sdiv 60 \<and> n sdiv 60 \<le> 1 \<and> 0 \<le> n smod 60 \<and> n smod 60 < 60"
proof -
  have "n sdiv 60 = n div 60" "n smod 60 = n mod 60"
    using assms by (simp_all add: signed_divide_int_def signed_modulo_int_def sgn_if)
  then show ?thesis using assms by presburger
qed

text \<open>The angle drawn stays between 0 and 360 degrees.\<close>

lemma fmod_range:
  assumes "finite32 x" "finite32 y" "fval y > 0"
  shows "finite32 (fmod x y) \<and> \<bar>fval (fmod x y)\<bar> \<le> fval y \<and> \<not> is_nan (fmod x y)"
proof -
  have y: "fmag y \<noteq> 0" "fval y = int (mag_units (fmag y))" using assms(3) by (auto simp: fval_def split: if_splits)
  let ?r = "mag_units (fmag x) mod mag_units (fmag y)"
  have "?r < mag_units (fmag y)" using y(1) by simp
  then have "round_mag (nat \<bar>int ?r\<bar>) 1 \<le> fmag y"
    using y(2) assms(2) by (intro round_int_le) (auto simp: is_nan_def finite32_def)
  moreover have "fmod x y = mk (fsign x) (round_mag ?r 1)"
    using assms(1,2) y(1) by (simp add: fmod_def is_nan_def is_inf_def finite32_def)
  ultimately show ?thesis
    using assms(2) y(2) by (simp add: finite32_def is_nan_def fval_def)
qed

lemma rolled_range:
  assumes "finite32 (old + seconds * speed div radius * (flit 180 1 div flit 314159265358979323846 (10 ^ 20)))"
  shows "0 \<le> rolled seconds speed radius old \<and> rolled seconds speed radius old \<le> f32_of_int 360"
proof -
  let ?t = "f32_of_int 360"
  define r where "r = fmod (old + seconds * speed div radius * (flit 180 1 div flit 314159265358979323846 (10 ^ 20))) ?t"
  have t: "finite32 ?t" "0 < fval ?t"
    by (simp_all add: f32_of_int_def finite32_def inf_mag_def fval_def f32_eval)
  have r: "finite32 r" "\<bar>fval r\<bar> \<le> fval ?t" "\<not> is_nan r" using fmod_range [OF assms t] by (simp_all add: r_def)
  have nt: "\<not> is_nan ?t" using t(1) by (simp add: finite32_def is_nan_def)
  have z: "(r < 0) = (fval r < 0)" "(0 \<le> r) = (0 \<le> fval r)" "(r \<le> ?t) = (fval r \<le> fval ?t)"
    using r(3) nt fkey_less_iff_fval [of r 0] fkey_le_iff_fval [of 0 r] fkey_le_iff_fval [of r ?t]
    by (simp_all add: less_f32_def less_eq_f32_def) (simp_all add: zero_f32_def fval_def is_nan_def inf_mag_def)
  have e: "rolled seconds speed radius old = (if r < 0 then r + ?t else r)"
    by (simp add: rolled_def r_def Let_def)
  show ?thesis
  proof (cases "r < 0")
    case True
    then have "finite32 (fadd ?t r) \<and> 0 \<le> fadd ?t r \<and> fadd ?t r \<le> ?t"
      using z r t by (intro fadd_between) auto
    then show ?thesis using True e by (simp add: plus_f32_def fadd_commute)
  next
    case False
    then show ?thesis using e z r(2) by simp
  qed
qed

section \<open>Textures\<close>

definition loaded :: "ray list \<Rightarrow> string list" where
  "loaded rs = List.map_filter (\<lambda>r. case r of LoadTexture path \<Rightarrow> Some path | _ \<Rightarrow> None) rs"

definition unloaded :: "ray list \<Rightarrow> string list" where
  "unloaded rs = List.map_filter (\<lambda>r. case r of UnloadTexture t \<Rightarrow> tex_file t | _ \<Rightarrow> None) rs"

lemma loaded_simps [simp]:
  "loaded [] = []" "loaded (rs @ ss) = loaded rs @ loaded ss" "loaded (LoadTexture path # rs) = path # loaded rs"
  "loaded (UnloadTexture t # rs) = loaded rs" "loaded (CloseWindow # rs) = loaded rs"
  by (simp_all add: loaded_def List.map_filter_def)

lemma unloaded_simps [simp]:
  "unloaded [] = []" "unloaded (rs @ ss) = unloaded rs @ unloaded ss" "unloaded (LoadTexture path # rs) = unloaded rs"
  "unloaded (UnloadTexture t # rs) = (case tex_file t of None \<Rightarrow> unloaded rs | Some path \<Rightarrow> path # unloaded rs)"
  "unloaded (CloseWindow # rs) = unloaded rs"
  by (simp_all add: unloaded_def List.map_filter_def split: option.splits)

text \<open>The files of the images that are ever unloaded.\<close>

definition shown_files :: "renderer \<Rightarrow> string option list" where
  "shown_files r = map (\<lambda>img. tex_file (tex (img r)))
     [ball_img, goal_left_img, goal_right_img, ground_img, player_blue_img, player_red_img]"

definition legs :: "string list" where
  "legs = [''data/PlayerBluLeftLeg.png'', ''data/PlayerBluRightLeg.png'',
           ''data/PlayerRedLeftLeg.png'', ''data/PlayerRedRightLeg.png'']"

lemma tex_Setup [simp]: "tex_file (tex (Image2D_Setup mc path dims offset i)) = Some path"
  by (simp add: Image2D_Setup_def Let_def split: prod.split Offset.split)

lemmas load_simps = load_def say_def upd_renderer_def

lemma Setup_textures:
  "loaded (ray_log (Renderer_Setup mc c)) =
     loaded (ray_log c) @ [''data/portaLeft.png'', ''data/portaRight.png'', ''data/terreno.png'']"
  "unloaded (ray_log (Renderer_Setup mc c)) = unloaded (ray_log c)"
  "tl (shown_files (cl_renderer (Renderer_Setup mc c))) =
     [Some ''data/portaLeft.png'', Some ''data/portaRight.png'', Some ''data/terreno.png'',
      tex_file (tex (player_blue_img (cl_renderer c))), tex_file (tex (player_red_img (cl_renderer c)))]"
  by (simp_all add: Renderer_Setup_def load_simps shown_files_def Let_def)

lemma StartGame_textures:
  assumes "ball_file (GetBallType (app_game (cl_app c))) = Some ball"
  shows "mset (loaded (ray_log (Renderer_StartGame mc c))) =
      mset (loaded (ray_log c)) + {#ball, ''data/PlayerBlu.png'', ''data/PlayerRed.png''#} + mset legs"
    "unloaded (ray_log (Renderer_StartGame mc c)) = unloaded (ray_log c)"
    "shown_files (cl_renderer (Renderer_StartGame mc c)) =
       [Some ball, tex_file (tex (goal_left_img (cl_renderer c))), tex_file (tex (goal_right_img (cl_renderer c))),
        tex_file (tex (ground_img (cl_renderer c))), Some ''data/PlayerBlu.png'', Some ''data/PlayerRed.png'']"
  using assms
  by (simp_all add: Renderer_StartGame_def SetupBall_def SetupPlayers_def load_simps shown_files_def legs_def Let_def)

lemma TearDown_textures:
  assumes "shown_files (cl_renderer c) = map Some fs"
  shows "loaded (ray_log (Renderer_TearDown c)) = loaded (ray_log c)"
    "unloaded (ray_log (Renderer_TearDown c)) = unloaded (ray_log c) @ fs"
  using assms
  by (auto simp: Renderer_TearDown_def unload_def Image2D_TearDown_def say_def shown_files_def map_eq_Cons_conv)

end
