(* ===== verification/Rooms.thy ===== *)
theory Rooms
  imports Screen Determinism
begin

text \<open>
  The outer state machine of the program: menu, match, end of the match, and the requests to the transport that
  go with the changes. Neither packets nor ticks touch it, but for the tick that ends the match.
\<close>

section \<open>What the ticks leave alone\<close>

definition outer :: "app \<Rightarrow> GameState \<times> nat \<times> nat \<times> bool \<times> f32" where
  "outer a = (GetState (app_game a), rooms_joined a, rooms_left a, is_connected a, game_time a)"

definition over :: "app \<Rightarrow> GameState \<times> nat \<times> nat \<times> bool \<times> f32" where
  "over a = (kGameFinished, rooms_joined a, rooms_left a + 1, is_connected a, game_time a)"

lemma outer_updates [simp]:
  "outer (a\<lparr>app_rollback := r\<rparr>) = outer a" "outer (a\<lparr>packet_queue := q\<rparr>) = outer a"
  "outer (a\<lparr>own_inputs := i\<rparr>) = outer a" "outer (a\<lparr>own_frames := f\<rparr>) = outer a"
  "outer (a\<lparr>run_time := t\<rparr>) = outer a"
  "outer (a\<lparr>shown_time := t\<rparr>) = outer a" "outer (a\<lparr>game_timer := w\<rparr>) = outer a"
  "outer (a\<lparr>sent := s\<rparr>) = outer a" "outer (upd_rollback h a) = outer a"
  "outer (RaiseEvent b k d a) = outer a"
  by (simp_all add: outer_def RaiseEvent_def upd_rollback_def)

lemma outer_game: "GetState g = GetState (app_game a) \<Longrightarrow> outer (a\<lparr>app_game := g\<rparr>) = outer a"
  by (simp add: outer_def)

lemma FixedUpdate_state: "FixedUpdate g = Inr h \<Longrightarrow> GetState h = GetState g"
  by (drule FixedUpdate_config) (simp add: config_def GetState_def)

lemma give_input_state: "GetState (give_input p i g) = GetState g"
  by (simp add: give_input_def Game_SetPlayerInput_def Game_SetOtherPlayerInput_def GetState_def)

lemma give_inputs_state: "give_inputs r f g = Inr h \<Longrightarrow> GetState h = GetState g"
  by (auto simp: give_inputs_def rbind_eq_Inr rmap_eq_Inr give_input_state)

lemma give_last_state: "give_last r g = Inr h \<Longrightarrow> GetState h = GetState g"
  by (auto simp: give_last_def rbind_eq_Inr rmap_eq_Inr give_input_state)

lemma DoRollback_state:
  assumes "DoRollback r g = Inr h"
  shows "GetState h = GetState g"
proof -
  have "rfold (replay_frame r) [confirmed_frame r + 1 .. current_frame r - 1] (Copy g (confirmed r)) = Inr h"
    using assms by (auto simp: DoRollback_def split: if_splits)
  then have "GetState h = GetState (Copy g (confirmed r))"
    by (rule rfold_inv [where P = "\<lambda>h. GetState h = GetState (Copy g (confirmed r))"])
      (auto simp: replay_frame_def rbind_eq_Inr dest!: give_inputs_state FixedUpdate_state)
  then show ?thesis by (simp add: Copy_def SetContactListener_def GetState_def Let_def)
qed

lemma SetOtherPlayerInput_state:
  "Rollback_SetOtherPlayerInput fis p r g = Inr (r', h) \<Longrightarrow> GetState h = GetState g"
  by (auto simp: Rollback_SetOtherPlayerInput_def Let_def rbind_eq_Inr rmap_eq_Inr
      dest!: DoRollback_state split: if_splits)

lemma receive_inputs_outer: "receive_inputs fis a = Inr b \<Longrightarrow> outer b = outer a"
  by (auto simp: receive_inputs_def rmap_eq_Inr intro!: outer_game [THEN trans] dest: SetOtherPlayerInput_state)

lemma confirm_one_outer: "confirm_one a = Inr b \<Longrightarrow> outer b = outer a"
  by (auto simp: confirm_one_def rmap_eq_Inr)

lemma confirm_loop_outer: "confirm_loop fis e it a = Inr b \<Longrightarrow> outer b = outer a"
proof (induction fis e it a rule: confirm_loop.induct)
  case (1 fis e it a)
  show ?case
    using "1.prems" "1.IH" confirm_one_outer
    by (subst (asm) confirm_loop.simps) (fastforce simp: rbind_eq_Inr split: if_splits)
qed

lemma erase_first_outer: "erase_first a = Inr b \<Longrightarrow> outer b = outer a"
  by (auto simp: erase_first_def split: if_splits)

lemma handle_packet_outer: "handle_packet p a = Inr (b, c) \<Longrightarrow> outer c = outer a"
  by (auto simp: handle_packet_def handle_input_def handle_confirmation_def SendFrameConfirmation_def Let_def
      rbind_eq_Inr rmap_eq_Inr dest!: receive_inputs_outer confirm_loop_outer erase_first_outer split: if_splits)

lemma handle_packets_outer: "handle_packets ps a = Inr b \<Longrightarrow> outer b = outer a"
proof (induction ps arbitrary: a)
  case (Cons p ps)
  then obtain popped c where c: "handle_packet p a = Inr (popped, c)" by (auto simp: rbind_eq_Inr)
  show ?case using Cons.IH [of c] Cons.prems c handle_packet_outer [OF c] by (cases popped) auto
qed auto

lemma finish_tick_outer: "finish_tick i a = Inr b \<Longrightarrow> outer b = outer a"
  by (auto simp: finish_tick_def Let_def rbind_eq_Inr rmap_eq_Inr Game_Update_def
      intro!: outer_game [THEN trans] dest!: give_last_state FixedUpdate_state simp: RaiseEvent_def)

lemma tick_outer:
  assumes "tick down a = Inr b"
  shows "if kGameFrameNbr \<le> current_frame (app_rollback a) + 1
    then outer b = over a else outer b = outer a"
  using assms
  by (auto simp: tick_def Let_def rbind_eq_Inr HandlePacket_def GetCurentFrame_def upd_rollback_def
      IncreaseCurrentFrame_def end_match_def LeaveRoom_def EndGame_def GetState_def
      dest!: handle_packets_outer finish_tick_outer split: if_splits) (simp_all add: outer_def over_def GetState_def)

text \<open>A run of the inner loop ends the match at most once.\<close>

lemma catch_up_outer:
  assumes "catch_up fuel down a = Some (Inr b)"
  shows "outer b = outer a \<or> outer b = over a"
  using assms
proof (induction fuel arbitrary: a)
  case 0
  then show ?case by (subst (asm) catch_up.simps) (auto split: if_splits)
next
  case (Suc fuel)
  let ?cur = "current_frame (app_rollback a) + 1"
  consider "\<not> kFixedDeltaTime \<le> run_time a" | "kFixedDeltaTime \<le> run_time a" "kGameFrameNbr \<le> ?cur"
    | "kFixedDeltaTime \<le> run_time a" "\<not> kGameFrameNbr \<le> ?cur" by blast
  then show ?case
  proof cases
    case 1
    then show ?thesis using Suc.prems by (subst (asm) catch_up.simps) simp
  next
    case 2
    then have "tick (down ?cur) a = Inr b"
      using Suc.prems by (subst (asm) catch_up.simps) (simp add: GetCurentFrame_def Let_def)
    then show ?thesis using tick_outer [of "down ?cur" a b] 2 by simp
  next
    case 3
    then obtain c where c: "tick (down ?cur) a = Inr c"
      "catch_up fuel down (c\<lparr>run_time := run_time c - kFixedDeltaTime\<rparr>) = Some (Inr b)"
      using Suc.prems by (subst (asm) catch_up.simps) (auto simp: GetCurentFrame_def Let_def split: sum.splits)
    then have "outer c = outer a" using tick_outer [OF c(1)] 3 by simp
    then show ?thesis using Suc.IH [OF c(2)] by (simp add: outer_def over_def)
  qed
qed

lemma start_timer_outer:
  "outer (start_timer n1 n2 a) = (GetState (app_game a), rooms_joined a, rooms_left a, is_connected a,
     game_time (start_timer n1 n2 a))"
  by (simp add: start_timer_def Let_def outer_def)

lemma Run_step_outer:
  assumes "Run_step fuel n1 n2 down a = Some (Inr b)"
  shows "rooms_joined b = rooms_joined a \<and> is_connected b = is_connected a
    \<and> (GetState (app_game b) = GetState (app_game a) \<and> rooms_left b = rooms_left a
      \<or> GetState (app_game a) = kInGame \<and> GetState (app_game b) = kGameFinished \<and> rooms_left b = rooms_left a + 1)"
proof (cases "GetState (app_game a)")
  case kInGame
  then obtain c where c: "catch_up fuel down (start_timer n1 n2 a) = Some (Inr c)" "b = c\<lparr>shown_time := game_time c\<rparr>"
    using assms by (auto simp: Run_step_def rmap_eq_Inr)
  then show ?thesis using catch_up_outer [OF c(1)] start_timer_outer [of n1 n2 a] kInGame
    by (auto simp: outer_def over_def)
qed (use assms in \<open>auto simp: Run_step_def finish_match_def rmap_eq_Inr\<close>)

section \<open>Callbacks\<close>

lemma StartGame_state: "StartGame g = Inr h \<Longrightarrow> GetState h = kInGame"
  by (auto simp: StartGame_def rmap_eq_Inr GetState_def)

lemma joinRoom_outer:
  assumes "joinRoomEventAction n a = Inr b"
  shows "outer b = (if n = 2 then (kInGame, rooms_joined a, rooms_left a, is_connected a, game_time a) else outer a)"
  using assms by (auto simp: joinRoomEventAction_def Let_def rbind_eq_Inr rmap_eq_Inr outer_def GetState_def
      dest!: StartGame_state split: if_splits)

lemma deliver_core:
  assumes "deliver mc cb c = Inr d"
  shows "isWaitingOtherPlayer (cl_renderer d) = isWaitingOtherPlayer (cl_renderer c)
    \<and> rooms_joined (cl_app d) = rooms_joined (cl_app c) \<and> rooms_left (cl_app d) = rooms_left (cl_app c)
    \<and> (GetState (app_game (cl_app d)) = GetState (app_game (cl_app c))
       \<or> cb = JoinRoomEvent 2 \<and> GetState (app_game (cl_app d)) = kInGame)"
proof (cases cb)
  case (JoinRoomEvent n)
  obtain a where a: "joinRoomEventAction n (cl_app c) = Inr a"
    "d = (if n = 2 then Renderer_StartGame mc (c\<lparr>cl_app := a\<rparr>) else c\<lparr>cl_app := a\<rparr>)"
    using assms JoinRoomEvent by (auto simp: deliver_def rmap_eq_Inr Let_def)
  have "core d = (a, isWaitingOtherPlayer (cl_renderer c))"
    unfolding a(2) by (simp add: core_StartGame) (simp add: core_def)
  then show ?thesis using joinRoom_outer [OF a(1)] JoinRoomEvent by (auto simp: core_def outer_def split: if_splits)
qed (use assms in \<open>auto simp: deliver_def upd_app_def connectReturn_def leaveRoomEventAction_def customEventAction_def
  ReceiveEvent_def GetState_def split: option.splits\<close>)

text \<open>The transport raises the event of a join only in a room that was asked for and has not been left.\<close>

definition in_room :: "client \<Rightarrow> bool" where
  "in_room c \<longleftrightarrow> rooms_joined (cl_app c) = rooms_left (cl_app c) + 1"

definition rooms_ok :: "client \<Rightarrow> bool" where
  "rooms_ok c \<longleftrightarrow>
     (let waits = isWaitingOtherPlayer (cl_renderer c); joined = rooms_joined (cl_app c); left = rooms_left (cl_app c) in
      case GetState (app_game (cl_app c)) of
        kMenu \<Rightarrow> joined = (if waits then left + 1 else left)
      | kInGame \<Rightarrow> waits \<and> joined = left + 1
      | kGameFinished \<Rightarrow> waits \<and> joined = left)"

lemma rooms_okI:
  assumes "rooms_ok c" "isWaitingOtherPlayer (cl_renderer d) = isWaitingOtherPlayer (cl_renderer c)"
    "rooms_joined (cl_app d) = rooms_joined (cl_app c)" "rooms_left (cl_app d) = rooms_left (cl_app c)"
    "GetState (app_game (cl_app d)) = GetState (app_game (cl_app c)) \<or> in_room c \<and> GetState (app_game (cl_app d)) = kInGame"
  shows "rooms_ok d"
  using assms by (auto simp: rooms_ok_def in_room_def Let_def split: GameState.splits if_splits)

lemma Service_rooms:
  assumes "Service mc cbs c = Inr d" "rooms_ok c" "(\<exists>n. JoinRoomEvent n \<in> set cbs) \<Longrightarrow> in_room c"
  shows "rooms_ok d"
  using assms
proof (induction cbs arbitrary: c)
  case Nil
  then show ?case by (simp add: Service_def)
next
  case (Cons cb cbs)
  then obtain e where e: "deliver mc cb c = Inr e" "Service mc cbs e = Inr d"
    by (auto simp: Service_def rbind_eq_Inr)
  note k = deliver_core [OF e(1)]
  have "rooms_ok e" by (rule rooms_okI [OF Cons.prems(2)]) (use k Cons.prems(3) in auto)
  moreover have "in_room e = in_room c" using k by (simp add: in_room_def)
  ultimately show ?case using Cons.IH [OF e(2)] Cons.prems(3) by auto
qed

lemma clicked_rooms:
  assumes "core d = clicked mc c" "rooms_ok c"
  shows "rooms_ok d"
proof -
  consider "asks_room mc c" "cl_app d = JoinRandomOrCreateRoom (cl_app c)" "isWaitingOtherPlayer (cl_renderer d)"
    | "leaves_end mc c" "cl_app d = (cl_app c)\<lparr>app_game := Restart (app_game (cl_app c))\<rparr>"
      "\<not> isWaitingOtherPlayer (cl_renderer d)"
    | "core d = core c"
    using assms(1) by (auto simp: clicked_def core_def split: if_splits)
  then show ?thesis
  proof cases
    case 1
    then show ?thesis using assms(2) by (auto simp: rooms_ok_def asks_room_def JoinRandomOrCreateRoom_def Let_def)
  next
    case 2
    have "GetState (Restart g) = kMenu" for g
      by (simp add: Restart_def Game_TearDown_def World_TearDown_def GetState_def)
    with 2 show ?thesis using assms(2) by (auto simp: rooms_ok_def leaves_end_def Let_def)
  next
    case 3
    then show ?thesis using assms(2) by (simp add: rooms_ok_def core_def)
  qed
qed

lemma Run_step_rooms:
  assumes "Run_step fuel n1 n2 down (cl_app c) = Some (Inr a)" "rooms_ok c"
  shows "rooms_ok (c\<lparr>cl_app := a\<rparr>)"
  using Run_step_outer [OF assms(1)] assms(2) by (auto simp: rooms_ok_def Let_def split: GameState.splits if_splits)

section \<open>The program\<close>

text \<open>
  The states of the program between two iterations of its main loop.
\<close>

inductive program :: "client \<Rightarrow> bool" where
  boot: "Application = Inr a \<Longrightarrow> program (Application_Setup mc (start_client a))"
| iterate: "program c \<Longrightarrow> ((\<exists>n. JoinRoomEvent n \<in> set (it_callbacks i)) \<longrightarrow> in_room c)
    \<Longrightarrow> Run_body i c = Some (Inr d) \<Longrightarrow> program d"

lemma Run_body_parts:
  assumes "Run_body i c = Some (Inr d)"
  obtains c1 a where "Service (it_machine i) (it_callbacks i) (Audio_Update c) = Inr c1"
    "Run_step 5401 (it_setup i) (it_tick i) (it_keys i) (cl_app c1) = Some (Inr a)"
    "Draw (it_machine i) (c1\<lparr>cl_app := a\<rparr>) = Inr d"
  using assms by (auto simp: Run_body_def rbind_eq_Inr split: sum.splits)

lemma core_setup: "core (Application_Setup mc c) = core c"
  by (simp add: Application_Setup_def Audio_Setup_def Renderer_Setup_def Let_def) (simp add: core_def upd_renderer_def say_def)

lemma Audio_Update_sel [simp]:
  "cl_app (Audio_Update c) = cl_app c" "cl_renderer (Audio_Update c) = cl_renderer c"
  by (simp_all add: Audio_Update_def say_def)

lemma program_rooms: "program c \<Longrightarrow> rooms_ok c"
proof (induction rule: program.induct)
  case (boot a mc)
  then have "GetState (app_game a) = kMenu" "rooms_joined a = 0" "rooms_left a = 0"
    by (auto simp: Application_def Game_def rbind_eq_Inr rmap_eq_Inr GetState_def)
  then show ?case using core_sel [OF core_setup [of mc "start_client a"]]
    by (simp add: rooms_ok_def start_client_def Renderer_def)
next
  case (iterate c i d)
  obtain c1 a where b: "Service (it_machine i) (it_callbacks i) (Audio_Update c) = Inr c1"
    "Run_step 5401 (it_setup i) (it_tick i) (it_keys i) (cl_app c1) = Some (Inr a)"
    "Draw (it_machine i) (c1\<lparr>cl_app := a\<rparr>) = Inr d"
    using Run_body_parts [OF iterate.hyps(3)] .
  have "rooms_ok c1"
    by (rule Service_rooms [OF b(1)]) (use iterate in \<open>simp_all add: rooms_ok_def in_room_def\<close>)
  from Run_step_rooms [OF b(2) this] clicked_rooms [OF Draw_core [OF b(3)]] show ?case by blast
qed

text \<open>
  A connection that failed counts as one, and the inputs of a match survive its end.
\<close>

lemma connect_error_ignored: "IsConnected (connectReturn errorCode a)"
  by (simp add: IsConnected_def connectReturn_def)

lemma finish_match_keeps_inputs:
  "finish_match a = Inr b \<Longrightarrow> own_inputs b = own_inputs a \<and> own_frames b = own_frames a \<and> packet_queue b = []"
  by (auto simp: finish_match_def rmap_eq_Inr)

section \<open>Every iteration ends\<close>

lemma catch_up_current:
  "catch_up fuel down a = Some (Inr b) \<Longrightarrow> current_frame (app_rollback a) \<le> current_frame (app_rollback b)"
proof (induction fuel arbitrary: a)
  case 0
  then show ?case by (subst (asm) catch_up.simps) (auto split: if_splits)
next
  case (Suc fuel)
  show ?case
    using Suc.prems
    by (subst (asm) catch_up.simps) (fastforce simp: Let_def split: if_splits sum.splits dest!: tick_current Suc.IH)
qed

lemma Run_step_ends:
  assumes "- 1 \<le> current_frame (app_rollback a)"
  shows "\<exists>r. Run_step 5401 n1 n2 down a = Some r
    \<and> (\<forall>b. r = Inr b \<longrightarrow> - 1 \<le> current_frame (app_rollback b))"
proof (cases "GetState (app_game a)")
  case kInGame
  have s: "app_rollback (start_timer n1 n2 a) = app_rollback a" by (simp add: start_timer_def Let_def)
  then obtain r where r: "catch_up 5401 down (start_timer n1 n2 a) = Some r"
    using catch_up_fuel [of "start_timer n1 n2 a" 5401 down] assms by auto
  then show ?thesis using kInGame catch_up_current [of 5401 down "start_timer n1 n2 a"] s assms
    by (auto simp: Run_step_def rmap_eq_Inr)
qed (use assms in \<open>auto simp: Run_step_def finish_match_def Reset_def rmap_eq_Inr\<close>)

lemma joinRoom_current:
  "joinRoomEventAction n a = Inr b \<Longrightarrow> current_frame (app_rollback b) = current_frame (app_rollback a)"
  by (auto simp: joinRoomEventAction_def RegisterGame_def Let_def rbind_eq_Inr rmap_eq_Inr split: if_splits)

lemma Service_current:
  assumes "Service mc cbs c = Inr d"
  shows "current_frame (app_rollback (cl_app d)) = current_frame (app_rollback (cl_app c))"
proof -
  have s: "current_frame (app_rollback (cl_app e)) = current_frame (app_rollback (cl_app b))"
    if d: "deliver mc cb b = Inr e" for cb b e
  proof (cases cb)
    case (JoinRoomEvent n)
    then obtain a where a: "joinRoomEventAction n (cl_app b) = Inr a"
      "e = (if n = 2 then Renderer_StartGame mc (b\<lparr>cl_app := a\<rparr>) else b\<lparr>cl_app := a\<rparr>)"
      using d by (auto simp: deliver_def rmap_eq_Inr Let_def)
    then have "cl_app e = a" using core_sel(1) [OF core_StartGame [of mc "b\<lparr>cl_app := a\<rparr>"]] by simp
    with joinRoom_current [OF a(1)] show ?thesis by simp
  qed (use d in \<open>auto simp: deliver_def upd_app_def connectReturn_def leaveRoomEventAction_def
    customEventAction_def ReceiveEvent_def split: option.splits\<close>)
  show ?thesis
    using assms unfolding Service_def
    by (rule rfold_inv [where P = "\<lambda>d. current_frame (app_rollback (cl_app d)) = current_frame (app_rollback (cl_app c))"])
      (simp_all add: s)
qed

lemma clicked_current:
  "core d = clicked mc c \<Longrightarrow> app_rollback (cl_app d) = app_rollback (cl_app c)"
  by (auto simp: core_def clicked_def JoinRandomOrCreateRoom_def split: if_splits)

lemma Run_body_ends:
  assumes "- 1 \<le> current_frame (app_rollback (cl_app c))"
  shows "\<exists>r. Run_body i c = Some r \<and> (\<forall>d. r = Inr d \<longrightarrow> - 1 \<le> current_frame (app_rollback (cl_app d)))"
proof (cases "Service (it_machine i) (it_callbacks i) (Audio_Update c)")
  case (Inr c1)
  then have "- 1 \<le> current_frame (app_rollback (cl_app c1))" using Service_current [OF Inr] assms by simp
  from Run_step_ends [OF this] obtain r where
    r: "Run_step 5401 (it_setup i) (it_tick i) (it_keys i) (cl_app c1) = Some r"
      "\<forall>b. r = Inr b \<longrightarrow> - 1 \<le> current_frame (app_rollback b)" by blast
  then show ?thesis using Inr
    by (auto simp: Run_body_def rbind_eq_Inr dest!: Draw_core clicked_current)
qed (simp add: Run_body_def)

lemma Run_ends: "- 1 \<le> current_frame (app_rollback (cl_app c)) \<Longrightarrow> \<exists>r. Run ks c = Some r"
proof (induction ks arbitrary: c)
  case (Cons i ks)
  obtain r where r: "Run_body i c = Some r" "\<forall>d. r = Inr d \<longrightarrow> - 1 \<le> current_frame (app_rollback (cl_app d))"
    using Run_body_ends [OF Cons.prems] by blast
  then show ?case using Cons.IH by (cases r) auto
qed simp

lemma boot_current: "Application = Inr a \<Longrightarrow> current_frame (app_rollback (cl_app (Application_Setup mc (start_client a)))) = - 1"
  using core_sel(1) [OF core_setup [of mc "start_client a"]]
  by (auto simp: Application_def Rollback_def rbind_eq_Inr rmap_eq_Inr start_client_def)

end
