(* ===== verification/Session.thy ===== *)
theory Session
  imports Rooms Match
begin

text \<open>
  Whole iterations of the main loop within a match: the packets that arrive, any number of ticks and the drawing.
  Either peer is an instance of a locale that asks for what one tick promises.
\<close>

section \<open>The part of the state the match is about\<close>

definition netw :: "app \<Rightarrow> game \<times> rollback \<times> Packet list \<times> Input list \<times> int list \<times> (bool \<times> Packet) list" where
  "netw a = (app_game a, app_rollback a, packet_queue a, own_inputs a, own_frames a, sent a)"

lemma netw_updates [simp]:
  "netw (a\<lparr>run_time := t\<rparr>) = netw a" "netw (a\<lparr>game_time := t\<rparr>) = netw a" "netw (a\<lparr>shown_time := t\<rparr>) = netw a"
  "netw (a\<lparr>game_timer := w\<rparr>) = netw a" "netw (a\<lparr>is_connected := b\<rparr>) = netw a"
  "netw (a\<lparr>rooms_joined := n\<rparr>) = netw a" "netw (a\<lparr>rooms_left := n\<rparr>) = netw a"
  by (simp_all add: netw_def)

lemma match_ok_netw:
  assumes "netw m = netw m'" "netw c = netw c'"
  shows "match_ok g0 lm lc m c = match_ok g0 lm lc m' c'"
  using assms by (simp add: match_ok_def linked_def window_def lossless_def netw_def)

lemma match_ok_sound:
  assumes "match_ok g0 lm lc m c"
  shows "- 1 \<le> current_of m \<and> ready (app_game m)" "- 1 \<le> current_of c \<and> ready (app_game c)"
proof -
  have s: "- 1 \<le> current_frame r - 1 \<and> ready g" if "in_sync h0 l h r g" for h0 l h r g
    using in_sync_D(5,8) [OF that] match.play_keeps [OF in_sync_D(15) [OF that] in_sync_D(1) [OF that]]
    by (simp add: sound_def fair_def)
  have "in_sync g0 lm lc (IncreaseCurrentFrame (app_rollback m)) (app_game m)"
    "in_sync (mirror g0) lc lm (IncreaseCurrentFrame (app_rollback c)) (app_game c)"
    using assms by (simp_all add: match_ok_def linked_def)
  from this [THEN s] show "- 1 \<le> current_of m \<and> ready (app_game m)" "- 1 \<le> current_of c \<and> ready (app_game c)"
    by simp_all
qed

section \<open>A run of ticks\<close>

text \<open>
  What the main loop needs of a state: it can be ticked, the clocks do not matter, the game can be drawn.
\<close>

locale in_play =
  fixes good :: "app \<Rightarrow> bool" and down :: "int \<Rightarrow> key \<Rightarrow> bool"
  assumes tick_good: "good a \<Longrightarrow> current_of a + 1 < kGameFrameNbr
      \<Longrightarrow> \<exists>b. tick (down (current_of a + 1)) a = Inr b \<and> good b"
    and clocks: "good a \<Longrightarrow> netw b = netw a \<Longrightarrow> good b"
    and drawable: "good a \<Longrightarrow> - 1 \<le> current_of a \<and> ready (app_game a)"
begin

lemma catch_up_good:
  assumes "good a"
  shows "catch_up fuel down a = None \<or> (\<exists>b. catch_up fuel down a = Some (Inr b) \<and> ready (app_game b)
    \<and> (outer b = outer a \<and> good b \<or> outer b = over a))"
  using assms
proof (induction fuel arbitrary: a)
  case 0
  then show ?case using drawable by (subst (1 2) catch_up.simps) auto
next
  case (Suc fuel)
  let ?cur = "current_of a + 1"
  consider "\<not> kFixedDeltaTime \<le> run_time a" | "kFixedDeltaTime \<le> run_time a" "kGameFrameNbr \<le> ?cur"
    | "kFixedDeltaTime \<le> run_time a" "?cur < kGameFrameNbr" by linarith
  then show ?case
  proof cases
    case 1
    then show ?thesis using Suc.prems drawable by (subst (2) catch_up.simps) auto
  next
    case 2
    let ?b = "end_match (upd_rollback IncreaseCurrentFrame a)"
    have t: "tick (down ?cur) a = Inr ?b"
      using 2(2) by (simp add: tick_def Let_def GetCurentFrame_def)
    then have "catch_up (Suc fuel) down a = Some (Inr ?b)"
      using 2 by (subst catch_up.simps) (simp add: GetCurentFrame_def Let_def)
    moreover have "ready (app_game ?b)"
      using drawable [OF Suc.prems]
      by (simp add: end_match_def LeaveRoom_def EndGame_def upd_rollback_def ready_def safe_def slots_def
          game_ok_def actor_def valid_body_def valid_collider_def collider_ok_def)
    moreover have "outer ?b = over a" using tick_outer [OF t] 2(2) by simp
    ultimately show ?thesis by blast
  next
    case 3
    obtain b where b: "tick (down ?cur) a = Inr b" "good b" using tick_good [OF Suc.prems 3(2)] by blast
    let ?b = "b\<lparr>run_time := run_time b - kFixedDeltaTime\<rparr>"
    have "catch_up (Suc fuel) down a = catch_up fuel down ?b"
      using 3 b(1) by (subst catch_up.simps) (simp add: GetCurentFrame_def Let_def)
    moreover have "good ?b" by (rule clocks [OF b(2)]) simp
    moreover have "outer b = outer a" using tick_outer [OF b(1)] 3(2) by simp
    then have "outer ?b = outer a" "over ?b = over a" by (simp_all add: outer_def over_def)
    ultimately show ?thesis using Suc.IH [of ?b] by simp
  qed
qed

text \<open>The body of an iteration after the callbacks.\<close>

lemma play_on:
  assumes "good (cl_app c)" "GetState (app_game (cl_app c)) = kInGame"
    and t: "0 \<le> game_time (start_timer n1 n2 (cl_app c))" "game_time (start_timer n1 n2 (cl_app c)) \<le> f32_of_int 90"
  shows "\<exists>a d. Run_step 5401 n1 n2 down (cl_app c) = Some (Inr a) \<and> Draw mc (c\<lparr>cl_app := a\<rparr>) = Inr d
    \<and> (GetState (app_game (cl_app d)) = kInGame \<and> good (cl_app d) \<or> GetState (app_game a) = kGameFinished)"
proof -
  let ?s = "start_timer n1 n2 (cl_app c)"
  have s: "good ?s" by (rule clocks [OF assms(1)]) (simp add: start_timer_def Let_def netw_def)
  have "\<exists>res. catch_up 5401 down ?s = Some res" using drawable [OF s] by (intro catch_up_fuel) auto
  then obtain b where b: "catch_up 5401 down ?s = Some (Inr b)" "ready (app_game b)"
    "outer b = outer ?s \<and> good b \<or> outer b = over ?s"
    using catch_up_good [OF s, of 5401] by auto
  let ?a = "b\<lparr>shown_time := game_time b\<rparr>"
  have r: "Run_step 5401 n1 n2 down (cl_app c) = Some (Inr ?a)"
    using assms(2) b(1) by (simp add: Run_step_def)
  have "game_time b = game_time ?s" using b(3) by (auto simp: outer_def over_def)
  then have "shows_time ?a" using time_left [OF t] by (auto simp: shows_time_def)
  then obtain d where d: "Draw mc (c\<lparr>cl_app := ?a\<rparr>) = Inr d"
    using Draw_ready [of "c\<lparr>cl_app := ?a\<rparr>" mc] b(2) by auto
  have st: "GetState (app_game ?s) = kInGame" using assms(2) by (simp add: start_timer_def Let_def)
  from b(3) show ?thesis
  proof
    assume g: "outer b = outer ?s \<and> good b"
    then have "GetState (app_game ?a) = kInGame" using st by (simp add: outer_def)
    then have "cl_app d = ?a"
      using Draw_core [OF d] by (simp add: clicked_def asks_room_def leaves_end_def core_def)
    moreover have "good ?a" using g by (auto intro: clocks)
    ultimately show ?thesis using r d \<open>GetState (app_game ?a) = kInGame\<close> by auto
  next
    assume "outer b = over ?s"
    then have "GetState (app_game ?a) = kGameFinished" by (simp add: outer_def over_def)
    with r d show ?thesis by blast
  qed
qed

end

section \<open>Both peers\<close>

text \<open>The inputs of a player are the keys that are down at each frame.\<close>

abbreviation keys :: "(int \<Rightarrow> key \<Rightarrow> bool) \<Rightarrow> int \<Rightarrow> Input" where
  "keys down \<equiv> \<lambda>f. read_keys (down f)"

interpretation master: in_play
  "\<lambda>a. match_ok g0 (keys down) lc a c \<and> no_tie (packet_queue a) (current_of a + 1)" down
  for g0 lc c down
proof
  show "\<exists>b. tick (down (current_of a + 1)) a = Inr b
      \<and> match_ok g0 (keys down) lc b c \<and> no_tie (packet_queue b) (current_of b + 1)"
    if "match_ok g0 (keys down) lc a c \<and> no_tie (packet_queue a) (current_of a + 1)"
      "current_of a + 1 < kGameFrameNbr" for a
    using master_tick_ok [of g0 "keys down" lc a c "down (current_of a + 1)"] that
    by (fastforce simp: kGameFrameNbr_def no_tie_def)
  show "match_ok g0 (keys down) lc b c \<and> no_tie (packet_queue b) (current_of b + 1)"
    if "match_ok g0 (keys down) lc a c \<and> no_tie (packet_queue a) (current_of a + 1)" "netw b = netw a" for a b
    using match_ok_netw [OF that(2), of c c] that by (simp add: netw_def)
  show "- 1 \<le> current_of a \<and> ready (app_game a)"
    if "match_ok g0 (keys down) lc a c \<and> no_tie (packet_queue a) (current_of a + 1)" for a
    using match_ok_sound(1) that by blast
qed

interpretation other: in_play "\<lambda>a. match_ok g0 lm (keys down) m a" down for g0 lm m down
proof
  show "\<exists>b. tick (down (current_of a + 1)) a = Inr b \<and> match_ok g0 lm (keys down) m b"
    if "match_ok g0 lm (keys down) m a" "current_of a + 1 < kGameFrameNbr" for a
    using client_tick_ok [of g0 lm "keys down" m a "down (current_of a + 1)"] that
    by (auto simp: kGameFrameNbr_def)
  show "match_ok g0 lm (keys down) m b" if "match_ok g0 lm (keys down) m a" "netw b = netw a" for a b
    using match_ok_netw [OF refl that(2)] that by simp
  show "- 1 \<le> current_of a \<and> ready (app_game a)" if "match_ok g0 lm (keys down) m a" for a
    using match_ok_sound(2) [OF that] .
qed

section \<open>Packets that arrive\<close>

definition arrive :: "Packet list \<Rightarrow> callback list" where
  "arrive = map (\<lambda>p. CustomEvent (packet_type p) (Some (packet_data p)))"

lemma Service_arrive:
  "Service mc (arrive ps) c = Inr (upd_app (\<lambda>a. a\<lparr>packet_queue := packet_queue a @ ps\<rparr>) c)"
proof (induction ps arbitrary: c)
  case Nil
  then show ?case by (simp add: Service_def arrive_def upd_app_def)
next
  case (Cons p ps)
  have "deliver mc (CustomEvent (packet_type p) (Some (packet_data p))) c
      = Inr (upd_app (\<lambda>a. a\<lparr>packet_queue := packet_queue a @ [p]\<rparr>) c)"
    by (simp add: deliver_def upd_app_def)
  then show ?case using Cons [of "upd_app (\<lambda>a. a\<lparr>packet_queue := packet_queue a @ [p]\<rparr>) c"]
    by (simp add: Service_def arrive_def upd_app_def)
qed

lemma arrive_at_master:
  "match_ok g0 lm lc m c \<Longrightarrow> sent c = ps @ later
    \<Longrightarrow> match_ok g0 lm lc (m\<lparr>packet_queue := packet_queue m @ map snd ps\<rparr>) (c\<lparr>sent := later\<rparr>)"
proof (induction ps arbitrary: m c)
  case Nil
  then show ?case using match_ok_netw [of m "m\<lparr>packet_queue := packet_queue m\<rparr>" c "c\<lparr>sent := later\<rparr>"] by (simp add: netw_def)
next
  case (Cons x ps)
  obtain reliable p where x: "x = (reliable, p)" by (cases x)
  have "match_ok g0 lm lc (m\<lparr>packet_queue := packet_queue m @ [p]\<rparr>) (c\<lparr>sent := ps @ later\<rparr>)"
    using deliver_to_master [OF Cons.prems(1)] Cons.prems(2) x by simp
  from Cons.IH [OF this] show ?case by (simp add: x)
qed

lemma arrive_at_client:
  "match_ok g0 lm lc m c \<Longrightarrow> sent m = ps @ later
    \<Longrightarrow> match_ok g0 lm lc (m\<lparr>sent := later\<rparr>) (c\<lparr>packet_queue := packet_queue c @ map snd ps\<rparr>)"
proof (induction ps arbitrary: m c)
  case Nil
  then show ?case using match_ok_netw [of m "m\<lparr>sent := later\<rparr>" c "c\<lparr>packet_queue := packet_queue c\<rparr>"] by (simp add: netw_def)
next
  case (Cons x ps)
  obtain reliable p where x: "x = (reliable, p)" by (cases x)
  have "match_ok g0 lm lc (m\<lparr>sent := ps @ later\<rparr>) (c\<lparr>packet_queue := packet_queue c @ [p]\<rparr>)"
    using deliver_to_client [OF Cons.prems(1)] Cons.prems(2) x by simp
  from Cons.IH [OF this] show ?case by (simp add: x)
qed

section \<open>The lobby\<close>

text \<open>A program that has not been told of anybody in its room: the part of its state the match is about is new.\<close>

definition in_lobby :: "client \<Rightarrow> bool" where
  "in_lobby c \<longleftrightarrow> GetState (app_game (cl_app c)) = kMenu \<and> (\<exists>a. Application = Inr a \<and> netw (cl_app c) = netw a)"

lemma joinRoom_netw:
  assumes "netw a = netw b" "joinRoomEventAction n b = Inr b'"
  shows "\<exists>a'. joinRoomEventAction n a = Inr a' \<and> netw a' = netw b'"
proof -
  have "app_game a = app_game b" "app_rollback a = app_rollback b" using assms(1) by (simp_all add: netw_def)
  then show ?thesis using assms
    by (auto simp: joinRoomEventAction_def Let_def rbind_eq_Inr rmap_eq_Inr netw_def split: if_splits)
qed

lemma Service_join:
  assumes "joinRoomEventAction n (cl_app c) = Inr a"
  shows "\<exists>d. Service mc [JoinRoomEvent n] c = Inr d \<and> cl_app d = a"
proof -
  let ?d = "if n = 2 then Renderer_StartGame mc (c\<lparr>cl_app := a\<rparr>) else c\<lparr>cl_app := a\<rparr>"
  have "Service mc [JoinRoomEvent n] c = Inr ?d" using assms by (simp add: Service_def deliver_def Let_def)
  moreover have "cl_app ?d = a" using core_sel(1) [OF core_StartGame [of mc "c\<lparr>cl_app := a\<rparr>"]] by simp
  ultimately show ?thesis by blast
qed

lemma lobby_match:
  assumes "in_lobby c1" "in_lobby c2"
  shows "\<exists>w m c. Service mc [JoinRoomEvent 1] c1 = Inr w \<and> Service mc' [JoinRoomEvent 2] w = Inr m
    \<and> Service mc'' [JoinRoomEvent 2] c2 = Inr c
    \<and> match_ok (app_game (cl_app m)) lm lc (cl_app m) (cl_app c)
    \<and> no_tie (packet_queue (cl_app m)) (current_of (cl_app m) + 1)
    \<and> GetState (app_game (cl_app m)) = kInGame \<and> GetState (app_game (cl_app c)) = kInGame"
proof -
  obtain a where a: "Application = Inr a" "netw (cl_app c1) = netw a" using assms(1) by (auto simp: in_lobby_def)
  have a': "netw (cl_app c2) = netw a" using assms(2) unfolding in_lobby_def a(1) by auto
  obtain m0 c0 where k: "kick_off a = Inr (m0, c0)" "match_ok (app_game m0) lm lc m0 c0" "packet_queue m0 = []"
    using kick_off_ok [OF a(1)] by blast
  then obtain w0 where j: "joinRoomEventAction 1 a = Inr w0" "joinRoomEventAction 2 w0 = Inr m0"
    "joinRoomEventAction 2 a = Inr c0"
    by (auto simp: kick_off_def rbind_eq_Inr rmap_eq_Inr)
  obtain w1 where w1: "joinRoomEventAction 1 (cl_app c1) = Inr w1" "netw w1 = netw w0"
    using joinRoom_netw [OF a(2) j(1)] by blast
  obtain w where w: "Service mc [JoinRoomEvent 1] c1 = Inr w" "cl_app w = w1"
    using Service_join [OF w1(1)] by blast
  obtain m1 where m1: "joinRoomEventAction 2 w1 = Inr m1" "netw m1 = netw m0"
    using joinRoom_netw [OF w1(2) j(2)] by blast
  obtain m where m: "Service mc' [JoinRoomEvent 2] w = Inr m" "cl_app m = m1"
    using Service_join [of 2 w m1 mc'] m1(1) w(2) by auto
  obtain d1 where d1: "joinRoomEventAction 2 (cl_app c2) = Inr d1" "netw d1 = netw c0"
    using joinRoom_netw [OF a' j(3)] by blast
  obtain c where c: "Service mc'' [JoinRoomEvent 2] c2 = Inr c" "cl_app c = d1"
    using Service_join [OF d1(1)] by blast
  have "match_ok (app_game m1) lm lc m1 d1" using match_ok_netw [OF m1(2) d1(2)] k(2) m1(2) by (simp add: netw_def)
  moreover have "GetState (app_game m1) = kInGame" "GetState (app_game d1) = kInGame"
    using joinRoom_outer [OF m1(1)] joinRoom_outer [OF d1(1)] by (simp_all add: outer_def)
  moreover have "packet_queue m1 = []" using m1(2) k(3) by (simp add: netw_def)
  ultimately show ?thesis using w(1) m c by (auto simp: no_tie_def)
qed

text \<open>In the menu, neither the callbacks before the first join nor the button change that.\<close>

lemma lobby_boot: "Application = Inr a \<Longrightarrow> in_lobby (Application_Setup mc (start_client a))"
  using core_sel(1) [OF core_setup [of mc "start_client a"]]
  by (auto simp: in_lobby_def start_client_def Application_def Game_def rbind_eq_Inr rmap_eq_Inr GetState_def)

lemma quiet_Service:
  assumes "set cbs \<subseteq> range ConnectReturn \<union> {Printed}"
  shows "\<exists>d. Service mc cbs c = Inr d \<and> netw (cl_app d) = netw (cl_app c) \<and> core d = (cl_app d, snd (core c))
    \<and> rooms_joined (cl_app d) = rooms_joined (cl_app c) \<and> app_game (cl_app d) = app_game (cl_app c)"
  using assms
proof (induction cbs arbitrary: c)
  case Nil
  then show ?case by (simp add: Service_def core_def)
next
  case (Cons cb cbs)
  then obtain e where e: "deliver mc cb c = Inr e" "netw (cl_app e) = netw (cl_app c)"
    "core e = (cl_app e, snd (core c))" "rooms_joined (cl_app e) = rooms_joined (cl_app c)" "app_game (cl_app e) = app_game (cl_app c)"
    by (auto simp: deliver_def upd_app_def connectReturn_def core_def)
  then have "Service mc (cb # cbs) c = Service mc cbs e" by (simp add: Service_def)
  with Cons.IH [of e] Cons.prems e(2-) show ?case by auto
qed

lemma lobby_stays:
  assumes "in_lobby c" "set (it_callbacks i) \<subseteq> range ConnectReturn \<union> {Printed}"
  shows "\<exists>d. Run_body i c = Some (Inr d) \<and> in_lobby d
    \<and> (isWaitingOtherPlayer (cl_renderer c) \<longrightarrow> isWaitingOtherPlayer (cl_renderer d)
         \<and> rooms_joined (cl_app d) = rooms_joined (cl_app c))"
proof -
  obtain c1 where c1: "Service (it_machine i) (it_callbacks i) (Audio_Update c) = Inr c1"
    "netw (cl_app c1) = netw (cl_app c)" "core c1 = (cl_app c1, isWaitingOtherPlayer (cl_renderer c))"
    "rooms_joined (cl_app c1) = rooms_joined (cl_app c)" "app_game (cl_app c1) = app_game (cl_app c)"
    using quiet_Service [OF assms(2), of "it_machine i" "Audio_Update c"] by (auto simp: core_def)
  have menu: "GetState (app_game (cl_app c1)) = kMenu" using assms(1) c1(5) by (simp add: in_lobby_def)
  then obtain d where d: "Draw (it_machine i) c1 = Inr d" using Draw_ready [of c1 "it_machine i"] by auto
  have "Run_body i c = Some (Inr d)" using c1(1) menu d by (simp add: Run_body_def Run_step_def)
  moreover have "netw (cl_app d) = netw (cl_app c1)" "GetState (app_game (cl_app d)) = kMenu"
    "isWaitingOtherPlayer (cl_renderer c) \<longrightarrow> isWaitingOtherPlayer (cl_renderer d) \<and> cl_app d = cl_app c1"
    using Draw_core [OF d] menu c1(3)
    by (auto simp: clicked_def asks_room_def leaves_end_def core_def JoinRandomOrCreateRoom_def split: if_splits)
  ultimately show ?thesis using assms(1) c1(2,4) by (auto simp: in_lobby_def)
qed

end
