(* ===== verification/Memory.thy ===== *)
theory Memory
  imports Prelude "HOL-Library.Word"
begin

text \<open>
  Byte memory for the allocators of \<open>engine/include/Allocators.h\<close>: pointers and \<open>std::size_t\<close> are 64 bit
  words, a buffer obtained from \<open>new char[size]\<close> is an arena, and the headers the allocators write into
  their buffer are little-endian words in it. An access that leaves the buffer is undefined.
\<close>

section \<open>Words in bytes\<close>

type_synonym ptr = "64 word"
type_synonym size_t = "64 word"

definition load64 :: "(ptr \<Rightarrow> 8 word) \<Rightarrow> ptr \<Rightarrow> 64 word" where
  "load64 m p = foldr (\<lambda>i w. or (push_bit (8 * i) (ucast (m (p + of_nat i)))) w) [0..<8] 0"

definition store64 :: "ptr \<Rightarrow> 64 word \<Rightarrow> (ptr \<Rightarrow> 8 word) \<Rightarrow> ptr \<Rightarrow> 8 word" where
  "store64 p v m = (\<lambda>q. if unat (q - p) < 8 then ucast (drop_bit (8 * unat (q - p)) v) else m q)"

lemma bit_load64:
  assumes "n < 64"
  shows "bit (load64 m p) n \<longleftrightarrow> bit (m (p + of_nat (n div 8))) (n mod 8)"
proof -
  have fold: "bit (foldr (\<lambda>i w. or (push_bit (8 * i) (ucast (m (p + of_nat i)))) w) is 0 :: 64 word) n
      \<longleftrightarrow> (\<exists>i \<in> set is. 8 * i \<le> n \<and> bit (m (p + of_nat i)) (n - 8 * i))" for "is" :: "nat list"
    using assms by (induction "is") (auto simp: bit_or_iff bit_push_bit_iff bit_unsigned_iff dest: bit_imp_le_length)
  show ?thesis
  proof
    assume "bit (load64 m p) n"
    then obtain i where i: "8 * i \<le> n" "bit (m (p + of_nat i)) (n - 8 * i)"
      unfolding load64_def fold by blast
    from bit_imp_le_length [OF i(2)] i(1) have k: "i = n div 8" by auto
    from i(2) show "bit (m (p + of_nat (n div 8))) (n mod 8)"
      by (simp add: k minus_mult_div_eq_mod)
  next
    assume "bit (m (p + of_nat (n div 8))) (n mod 8)"
    then have "n div 8 \<in> set [0..<8] \<and> 8 * (n div 8) \<le> n \<and> bit (m (p + of_nat (n div 8))) (n - 8 * (n div 8))"
      using assms by (auto simp: minus_mult_div_eq_mod)
    then show "bit (load64 m p) n" unfolding load64_def fold by blast
  qed
qed

lemma load64_store64 [simp]: "load64 (store64 p v m) p = v"
proof (rule bit_word_eqI)
  fix n assume "n < LENGTH(64)"
  then have n: "n < 64" "n div 8 < 8" by auto
  then have "unat (p + of_nat (n div 8) - p) = n div 8" by (simp add: unat_of_nat)
  then have "store64 p v m (p + of_nat (n div 8)) = ucast (drop_bit (8 * (n div 8)) v)"
    using n by (simp add: store64_def)
  then show "bit (load64 (store64 p v m) p) n = bit v n"
    using n by (simp add: bit_load64 bit_drop_bit_eq bit_unsigned_iff)
qed

text \<open>The bytes \<open>[p, p + n)\<close>, as numbers, and words that do not meet.\<close>

definition bytes_at :: "ptr \<Rightarrow> nat \<Rightarrow> nat set" where
  "bytes_at p n = {unat p ..< unat p + n}"

lemma unat_plus_small: "unat p + k < 2 ^ 64 \<Longrightarrow> unat (p + of_nat k :: 64 word) = unat p + k"
  by (simp add: unat_word_ariths unat_of_nat)

lemma load64_cong:
  assumes "unat p + 8 \<le> 2 ^ 64" "\<And>q. unat q \<in> bytes_at p 8 \<Longrightarrow> m q = m' q"
  shows "load64 m p = load64 m' p"
proof (rule bit_word_eqI)
  fix n assume "n < LENGTH(64)"
  then have n: "n < 64" "n div 8 < 8" by auto
  then have "unat (p + of_nat (n div 8)) = unat p + n div 8"
    using assms(1) by (intro unat_plus_small) linarith
  then have "m (p + of_nat (n div 8)) = m' (p + of_nat (n div 8))"
    using n by (intro assms(2)) (simp add: bytes_at_def)
  then show "bit (load64 m p) n = bit (load64 m' p) n" using n by (simp add: bit_load64)
qed

lemma store64_outside:
  assumes "unat p + 8 \<le> 2 ^ 64" "unat q \<notin> bytes_at p 8"
  shows "store64 p v m q = m q"
proof -
  have "\<not> unat (q - p) < 8"
  proof
    assume small: "unat (q - p) < 8"
    then have "unat p + unat (q - p) < 2 ^ 64" using assms(1) by linarith
    then have "unat (p + of_nat (unat (q - p))) = unat p + unat (q - p)" by (rule unat_plus_small)
    then have "unat q = unat p + unat (q - p)" by simp
    with small assms(2) show False by (simp add: bytes_at_def)
  qed
  then show ?thesis by (simp add: store64_def)
qed

lemma load64_store64_other:
  assumes "unat p + 8 \<le> 2 ^ 64" "unat q + 8 \<le> 2 ^ 64" "bytes_at p 8 \<inter> bytes_at q 8 = {}"
  shows "load64 (store64 p v m) q = load64 m q"
  using assms by (intro load64_cong store64_outside) auto

section \<open>Buffers\<close>

record arena =
  block :: ptr
  extent :: size_t
  bytes :: "ptr \<Rightarrow> 8 word"

definition inside :: "'z arena_scheme \<Rightarrow> ptr \<Rightarrow> nat \<Rightarrow> bool" where
  "inside a p n \<longleftrightarrow> unat (block a) \<le> unat p \<and> unat p + n \<le> unat (block a) + unat (extent a)"

definition get_word :: "'z arena_scheme \<Rightarrow> ptr \<Rightarrow> 64 word res" where
  "get_word a p = (if inside a p 8 then Inr (load64 (bytes a) p) else Inl (UndefinedBehaviour ''heap''))"

definition put_word :: "ptr \<Rightarrow> 64 word \<Rightarrow> 'z arena_scheme \<Rightarrow> 'z arena_scheme res" where
  "put_word p v a =
     (if inside a p 8 then Inr (a\<lparr>bytes := store64 p v (bytes a)\<rparr>) else Inl (UndefinedBehaviour ''heap''))"

text \<open>A buffer does not start at the null pointer and does not wrap around.\<close>

definition arena_ok :: "'z arena_scheme \<Rightarrow> bool" where
  "arena_ok a \<longleftrightarrow> block a \<noteq> 0 \<and> unat (block a) + unat (extent a) < 2 ^ 63"

lemma inside_bytes [simp]: "inside (a\<lparr>bytes := m\<rparr>) p n = inside a p n"
  by (simp add: inside_def)

lemma arena_ok_bytes [simp]: "arena_ok (a\<lparr>bytes := m\<rparr>) = arena_ok a"
  by (simp add: arena_ok_def)

lemma inside_bound: "arena_ok a \<Longrightarrow> inside a p n \<Longrightarrow> unat p + n < 2 ^ 63"
  by (simp add: arena_ok_def inside_def)

text \<open>The products and sums of sizes, when they do not wrap.\<close>

lemma unat_times_small: "unat (a::64 word) * unat b < 2 ^ 64 \<Longrightarrow> unat (a * b) = unat a * unat b"
  by (simp add: unat_word_ariths)

lemma unat_sum_small: "unat (a::64 word) + unat b < 2 ^ 64 \<Longrightarrow> unat (a + b) = unat a + unat b"
  by (simp add: unat_word_ariths)

end
