(* ===== verification/Allocators.thy ===== *)
theory Allocators
  imports Memory
begin

text \<open>
  \<open>engine/include/Allocators.h\<close>. Each allocator is its state; \<open>_size\<close> and \<open>_ptr\<close> of the ones that write
  headers into their buffer are \<open>extent\<close> and \<open>block\<close> of the arena they extend. \<open>new char[size]\<close> hands out a
  block of memory of unknown content, so block and content are arguments of the constructors. The heap
  allocator calls \<open>malloc\<close> and \<open>free\<close> of the C library, which are arguments too.
\<close>

section \<open>Linear allocator\<close>

record linear =
  linear_size :: size_t
  linear_ptr :: ptr
  linear_offset :: size_t

definition LinearAllocator :: "size_t \<Rightarrow> ptr \<Rightarrow> linear" where
  "LinearAllocator sz p = \<lparr>linear_size = sz, linear_ptr = p, linear_offset = 0\<rparr>"

definition Linear_Allocate :: "size_t \<Rightarrow> size_t \<Rightarrow> linear \<Rightarrow> (ptr \<times> linear) res" where
  "Linear_Allocate sz typeSize a =
     (if linear_size a < linear_offset a + sz * typeSize
      then Inl (RuntimeError ''LinearAllocator out of memory'')
      else Inr (linear_ptr a + linear_offset a, a\<lparr>linear_offset := linear_offset a + sz * typeSize\<rparr>))"

definition Linear_Deallocate :: "ptr \<Rightarrow> linear \<Rightarrow> linear res" where
  "Linear_Deallocate p a = Inr a"

definition Linear_Reset :: "linear \<Rightarrow> linear" where
  "Linear_Reset a = a\<lparr>linear_offset := 0\<rparr>"

section \<open>Stack allocator\<close>

record stack = arena +
  stack_top :: size_t

text \<open>\<open>sizeof(AllocationHeader)\<close>\<close>

definition headerSize :: size_t where "headerSize = 8"

definition StackAllocator :: "size_t \<Rightarrow> ptr \<Rightarrow> (ptr \<Rightarrow> 8 word) \<Rightarrow> stack" where
  "StackAllocator sz p m = \<lparr>block = p, extent = sz, bytes = m, stack_top = 0\<rparr>"

definition Stack_Allocate :: "size_t \<Rightarrow> size_t \<Rightarrow> stack \<Rightarrow> (ptr \<times> stack) res" where
  "Stack_Allocate sz typeSize a =
     (if extent a < stack_top a + sz * typeSize
      then Inl (RuntimeError ''StackAllocator out of memory'')
      else
        let totalSize = sz * typeSize + headerSize;
            allocationPtr = block a + stack_top a
        in rmap (\<lambda>a. (allocationPtr + headerSize, a\<lparr>stack_top := stack_top a + totalSize\<rparr>))
             (put_word allocationPtr totalSize a))"

definition Stack_Deallocate :: "ptr \<Rightarrow> stack \<Rightarrow> stack res" where
  "Stack_Deallocate p a =
     rmap (\<lambda>sz. a\<lparr>stack_top := stack_top a - sz\<rparr>) (get_word a (p - headerSize))"

definition Stack_Reset :: "stack \<Rightarrow> stack" where
  "Stack_Reset a = a\<lparr>stack_top := 0\<rparr>"

section \<open>Heap and proxy allocators\<close>

definition Heap_Allocate ::
  "(size_t \<Rightarrow> 's \<Rightarrow> ptr \<times> 's) \<Rightarrow> size_t \<Rightarrow> size_t \<Rightarrow> 's \<Rightarrow> (ptr \<times> 's) res" where
  "Heap_Allocate malloc sz typeSize s = Inr (malloc (sz * typeSize) s)"

definition Heap_Deallocate :: "(ptr \<Rightarrow> 's \<Rightarrow> 's) \<Rightarrow> ptr \<Rightarrow> 's \<Rightarrow> 's res" where
  "Heap_Deallocate free p s = Inr (free p s)"

definition Proxy_Allocate ::
  "(size_t \<Rightarrow> size_t \<Rightarrow> 's \<Rightarrow> (ptr \<times> 's) res) \<Rightarrow> size_t \<Rightarrow> size_t \<Rightarrow> 's \<Rightarrow> (ptr \<times> 's) res" where
  "Proxy_Allocate Allocate count typeSize s = Allocate count typeSize s"

definition Proxy_Deallocate :: "(ptr \<Rightarrow> 's \<Rightarrow> 's res) \<Rightarrow> ptr \<Rightarrow> 's \<Rightarrow> 's res" where
  "Proxy_Deallocate Deallocate p s = Deallocate p s"

section \<open>Free list allocator\<close>

text \<open>A \<open>FreeBlock\<close> is two words: \<open>size\<close>, and \<open>next\<close> 8 bytes further. The search follows \<open>next\<close> for as long
  as it is not null; a list with a cycle is not excluded, so the search need not end.\<close>

record freelist = arena +
  free_list :: ptr

definition FreeBlockSize :: size_t where "FreeBlockSize = 16"

definition get_next :: "'z arena_scheme \<Rightarrow> ptr \<Rightarrow> ptr res" where
  "get_next a p = get_word a (p + 8)"

definition put_next :: "ptr \<Rightarrow> ptr \<Rightarrow> 'z arena_scheme \<Rightarrow> 'z arena_scheme res" where
  "put_next p v a = put_word (p + 8) v a"

definition FreeList_first :: "size_t \<Rightarrow> freelist \<Rightarrow> freelist res" where
  "FreeList_first sz a = rbind (put_word (free_list a) sz a) (\<lambda>a. put_next (free_list a) 0 a)"

definition FreeListAllocator :: "size_t \<Rightarrow> ptr \<Rightarrow> (ptr \<Rightarrow> 8 word) \<Rightarrow> freelist res" where
  "FreeListAllocator sz p m =
     FreeList_first sz \<lparr>block = p, extent = sz, bytes = m, free_list = p\<rparr>"

text \<open>What is done with the first block that is large enough.\<close>

definition FreeList_take :: "size_t \<Rightarrow> ptr \<Rightarrow> ptr \<Rightarrow> size_t \<Rightarrow> freelist \<Rightarrow> (ptr \<times> freelist) res" where
  "FreeList_take n prev current sz a =
     rbind (if n < sz
            then rbind (put_word (current + n) (sz - n) a) (\<lambda>a. rbind (get_next a current) (\<lambda>next.
                   put_next (current + n) next a))
            else Inr a) (\<lambda>a.
     rmap (Pair (current + FreeBlockSize))
       (if prev \<noteq> 0 then rbind (get_next a current) (\<lambda>next. put_next prev next a)
        else Inr (a\<lparr>free_list := current + n\<rparr>)))"

partial_function (option) FreeList_search ::
  "size_t \<Rightarrow> ptr \<Rightarrow> ptr \<Rightarrow> freelist \<Rightarrow> (ptr \<times> freelist) res option" where
  "FreeList_search n prev current a =
     (if current = 0 then Some (Inl (RuntimeError ''FreeListAllocator out of memory''))
      else case get_word a current of Inl e \<Rightarrow> Some (Inl e)
      | Inr sz \<Rightarrow>
          if n \<le> sz then Some (FreeList_take n prev current sz a)
          else (case get_next a current of Inl e \<Rightarrow> Some (Inl e)
                | Inr next \<Rightarrow> FreeList_search n current next a))"

definition FreeList_Allocate :: "size_t \<Rightarrow> size_t \<Rightarrow> freelist \<Rightarrow> (ptr \<times> freelist) res option" where
  "FreeList_Allocate count typeSize a = FreeList_search (count * typeSize) 0 (free_list a) a"

definition FreeList_Deallocate :: "ptr \<Rightarrow> freelist \<Rightarrow> freelist res" where
  "FreeList_Deallocate p a =
     (if p = 0 then Inr a
      else let blockPtr = p - FreeBlockSize
           in rmap (\<lambda>a. a\<lparr>free_list := blockPtr\<rparr>) (put_next blockPtr (free_list a) a))"

definition FreeList_Reset :: "freelist \<Rightarrow> freelist res" where
  "FreeList_Reset a = FreeList_first (extent a) a"

section \<open>Pool allocator\<close>

record pools = arena +
  blockSize :: size_t
  blockCount :: size_t
  poolList :: ptr

definition init_block :: "nat \<Rightarrow> pools \<Rightarrow> pools res" where
  "init_block i a =
     (let blockPtr = block a + of_nat i * blockSize a
      in rmap (\<lambda>a. a\<lparr>poolList := blockPtr\<rparr>) (put_word blockPtr (poolList a) a))"

definition InitializePoolList :: "pools \<Rightarrow> pools res" where
  "InitializePoolList a = rfold init_block [0..<unat (blockCount a)] (a\<lparr>poolList := 0\<rparr>)"

definition PoolAllocator :: "size_t \<Rightarrow> size_t \<Rightarrow> ptr \<Rightarrow> (ptr \<Rightarrow> 8 word) \<Rightarrow> pools res" where
  "PoolAllocator count sz p m =
     InitializePoolList \<lparr>block = p, extent = sz * count, bytes = m, blockSize = sz, blockCount = count,
       poolList = 0\<rparr>"

definition Pool_Allocate :: "size_t \<Rightarrow> size_t \<Rightarrow> pools \<Rightarrow> (ptr \<times> pools) res" where
  "Pool_Allocate count typeSize a =
     (if count * typeSize \<noteq> blockSize a then Inl (RuntimeError ''Invalid allocation size for PoolAllocator'')
      else if poolList a = 0 then Inl (RuntimeError ''PoolAllocator out of memory'')
      else rmap (\<lambda>next. (poolList a, a\<lparr>poolList := next\<rparr>)) (get_word a (poolList a)))"

definition Pool_Deallocate :: "ptr \<Rightarrow> pools \<Rightarrow> pools res" where
  "Pool_Deallocate p a =
     (if p = 0 then Inr a else rmap (\<lambda>a. a\<lparr>poolList := p\<rparr>) (put_word p (poolList a) a))"

definition Pool_Reset :: "pools \<Rightarrow> pools res" where
  "Pool_Reset a = InitializePoolList a"

section \<open>Standard allocator\<close>

text \<open>The adaptor for the containers of the standard library; \<open>sizeofT\<close> and \<open>alignofT\<close> stand for the
  element type. All adaptors compare equal.\<close>

definition std_allocate ::
  "(size_t \<Rightarrow> size_t \<Rightarrow> 's \<Rightarrow> (ptr \<times> 's) res) \<Rightarrow> size_t \<Rightarrow> size_t \<Rightarrow> size_t \<Rightarrow> 's \<Rightarrow> (ptr \<times> 's) res" where
  "std_allocate Allocate sizeofT alignofT n s = Allocate (n * sizeofT) alignofT s"

definition std_deallocate :: "(ptr \<Rightarrow> 's \<Rightarrow> 's res) \<Rightarrow> ptr \<Rightarrow> size_t \<Rightarrow> 's \<Rightarrow> 's res" where
  "std_deallocate Deallocate p n s = Deallocate p s"

definition std_eq :: "'s \<Rightarrow> 't \<Rightarrow> bool" where "std_eq a b = True"
definition std_neq :: "'s \<Rightarrow> 't \<Rightarrow> bool" where "std_neq a b = False"

end
