(* ===== verification/Allocators_Laws.thy ===== *)
theory Allocators_Laws
  imports Allocators
begin

text \<open>
  What a client may expect of an allocator: the blocks it hands out do not overlap, and lie in the
  buffer. The contract is a locale, proved of the linear, the stack and the pool allocator, and handed
  on by the proxy and the standard allocator. The free list allocator does not keep it.
\<close>

section \<open>The contract\<close>

text \<open>Requests whose size does not wrap around; \<open>used\<close> is the part of the memory that is handed out.\<close>

definition sane :: "size_t \<Rightarrow> size_t \<Rightarrow> bool" where
  "sane count typeSize \<longleftrightarrow> unat count * unat typeSize < 2 ^ 62"

lemma sane_times: "sane c t \<Longrightarrow> unat (c * t) = unat c * unat t"
  unfolding sane_def by (intro unat_times_small) simp

fun alloc_all ::
  "(size_t \<Rightarrow> size_t \<Rightarrow> 's \<Rightarrow> (ptr \<times> 's) res) \<Rightarrow> (size_t \<times> size_t) list \<Rightarrow> 's \<Rightarrow> ((ptr \<times> nat) list \<times> 's) res" where
  "alloc_all Alloc [] s = Inr ([], s)"
| "alloc_all Alloc ((c, t) # rs) s =
     rbind (Alloc c t s) (\<lambda>(p, s). rmap (\<lambda>(ps, s). ((p, unat (c * t)) # ps, s)) (alloc_all Alloc rs s))"

definition apart :: "ptr \<times> nat \<Rightarrow> ptr \<times> nat \<Rightarrow> bool" where
  "apart b b' \<longleftrightarrow> bytes_at (fst b) (snd b) \<inter> bytes_at (fst b') (snd b') = {}"

locale disjoint_alloc =
  fixes Alloc :: "size_t \<Rightarrow> size_t \<Rightarrow> 's \<Rightarrow> (ptr \<times> 's) res"
    and good :: "'s \<Rightarrow> bool"
    and used :: "'s \<Rightarrow> nat set"
  assumes fresh: "good s \<Longrightarrow> sane c t \<Longrightarrow> Alloc c t s = Inr (p, s') \<Longrightarrow>
    good s' \<and> used s \<inter> bytes_at p (unat (c * t)) = {} \<and> used s \<union> bytes_at p (unat (c * t)) \<subseteq> used s'"
begin

lemma alloc_all_apart:
  assumes "good s" "\<forall>(c, t) \<in> set rs. sane c t" "alloc_all Alloc rs s = Inr (ps, s')"
  shows "good s' \<and> used s \<subseteq> used s' \<and> sorted_wrt apart ps
    \<and> (\<forall>b \<in> set ps. bytes_at (fst b) (snd b) \<subseteq> used s' \<and> used s \<inter> bytes_at (fst b) (snd b) = {})"
  using assms
proof (induction rs arbitrary: s ps)
  case (Cons r rs)
  obtain c t where r: "r = (c, t)" by fastforce
  then obtain p s1 qs where step: "Alloc c t s = Inr (p, s1)" "alloc_all Alloc rs s1 = Inr (qs, s')"
    "ps = (p, unat (c * t)) # qs"
    using Cons.prems(3) by (auto simp: rbind_eq_Inr rmap_eq_Inr)
  from fresh [OF Cons.prems(1) _ step(1)] Cons.prems(2) r
  have f: "good s1" "used s \<inter> bytes_at p (unat (c * t)) = {}" "used s \<union> bytes_at p (unat (c * t)) \<subseteq> used s1"
    by auto
  have "good s' \<and> used s1 \<subseteq> used s' \<and> sorted_wrt apart qs
    \<and> (\<forall>b \<in> set qs. bytes_at (fst b) (snd b) \<subseteq> used s' \<and> used s1 \<inter> bytes_at (fst b) (snd b) = {})"
    using Cons.IH [OF f(1) _ step(2)] Cons.prems(2) by auto
  then have rest: "good s'" "used s1 \<subseteq> used s'" "sorted_wrt apart qs"
    "\<And>b. b \<in> set qs \<Longrightarrow> bytes_at (fst b) (snd b) \<subseteq> used s'"
    "\<And>b. b \<in> set qs \<Longrightarrow> used s1 \<inter> bytes_at (fst b) (snd b) = {}" by auto
  have "apart (p, unat (c * t)) b" if "b \<in> set qs" for b
    using rest(5) [OF that] f(3) by (auto simp: apart_def)
  moreover have "used s \<inter> bytes_at (fst b) (snd b) = {}" if "b \<in> set qs" for b
    using rest(5) [OF that] f(3) by auto
  ultimately show ?case
    using rest(1-4) f(2,3) by (auto simp: step(3))
qed simp

text \<open>A proxy keeps the contract, and a container that asks for elements gets room for them.\<close>

lemma proxy: "disjoint_alloc (Proxy_Allocate Alloc) good used"
  using fresh by unfold_locales (simp add: Proxy_Allocate_def)

lemma elements:
  assumes "good s" "unat n * unat sizeofT * unat alignofT < 2 ^ 62" "0 < alignofT"
    and "std_allocate Alloc sizeofT alignofT n s = Inr (p, s')"
  shows "used s \<inter> bytes_at p (unat n * unat sizeofT) = {} \<and> bytes_at p (unat n * unat sizeofT) \<subseteq> used s'"
proof -
  have a: "0 < unat alignofT" using assms(3) by (simp add: word_less_nat_alt)
  then have le: "unat n * unat sizeofT \<le> unat n * unat sizeofT * unat alignofT" by simp
  from le_less_trans [OF le assms(2)] have m: "unat (n * sizeofT) = unat n * unat sizeofT"
    by (intro unat_times_small) simp
  then have s: "sane (n * sizeofT) alignofT" using assms(2) by (simp add: sane_def)
  have "bytes_at p (unat n * unat sizeofT) \<subseteq> bytes_at p (unat (n * sizeofT * alignofT))"
    unfolding sane_times [OF s] m using le by (auto simp: bytes_at_def)
  then show ?thesis using fresh [OF assms(1) s] assms(4) unfolding std_allocate_def by blast
qed

end

locale bounded_alloc = disjoint_alloc +
  fixes buffer :: "'s \<Rightarrow> nat set"
  assumes inside_buffer: "good s \<Longrightarrow> used s \<subseteq> buffer s"
    and same_buffer: "Alloc c t s = Inr (p, s') \<Longrightarrow> buffer s' = buffer s"
begin

lemma alloc_all_buffer: "alloc_all Alloc rs s = Inr (ps, s') \<Longrightarrow> buffer s' = buffer s"
proof (induction rs arbitrary: s ps)
  case (Cons r rs)
  then show ?case by (cases r) (auto simp: rbind_eq_Inr rmap_eq_Inr dest!: same_buffer)
qed simp

lemma alloc_all_inside:
  assumes "good s" "\<forall>(c, t) \<in> set rs. sane c t" "alloc_all Alloc rs s = Inr (ps, s')"
  shows "sorted_wrt apart ps \<and> (\<forall>b \<in> set ps. bytes_at (fst b) (snd b) \<subseteq> buffer s)"
  using alloc_all_apart [OF assms] inside_buffer [of s'] alloc_all_buffer [OF assms(3)] by blast

end

section \<open>Linear and stack allocator\<close>

definition linear_ok :: "linear \<Rightarrow> bool" where
  "linear_ok a \<longleftrightarrow> linear_offset a \<le> linear_size a \<and> unat (linear_ptr a) + unat (linear_size a) < 2 ^ 63"

definition linear_used :: "linear \<Rightarrow> nat set" where
  "linear_used a = bytes_at (linear_ptr a) (unat (linear_offset a))"

definition linear_buffer :: "linear \<Rightarrow> nat set" where
  "linear_buffer a = bytes_at (linear_ptr a) (unat (linear_size a))"

lemma linear_sums:
  assumes "linear_ok a" "sane c t"
  shows "unat (linear_offset a + c * t) = unat (linear_offset a) + unat c * unat t"
    "unat (linear_ptr a + linear_offset a) = unat (linear_ptr a) + unat (linear_offset a)"
  using assms sane_times [OF assms(2)]
  by (simp_all add: linear_ok_def sane_def word_le_nat_alt unat_sum_small)

lemma linear_fits:
  assumes "linear_ok a" "sane c t" "unat (linear_offset a) + unat c * unat t \<le> unat (linear_size a)"
  shows "Linear_Allocate c t a
    = Inr (linear_ptr a + linear_offset a, a\<lparr>linear_offset := linear_offset a + c * t\<rparr>)"
  using assms linear_sums [OF assms(1,2)] by (simp add: Linear_Allocate_def word_less_nat_alt)

interpretation linear: bounded_alloc Linear_Allocate linear_ok linear_used linear_buffer
proof unfold_locales
  fix s c t p s'
  assume a: "linear_ok s" "sane c t" "Linear_Allocate c t s = Inr (p, s')"
  then have "unat (linear_offset s) + unat c * unat t \<le> unat (linear_size s)"
    using linear_sums [OF a(1,2)] by (auto simp: Linear_Allocate_def word_less_nat_alt split: if_splits)
  with a linear_fits [OF a(1,2) this] linear_sums [OF a(1,2)] sane_times [OF a(2)]
  show "linear_ok s' \<and> linear_used s \<inter> bytes_at p (unat (c * t)) = {}
      \<and> linear_used s \<union> bytes_at p (unat (c * t)) \<subseteq> linear_used s'"
    by (auto simp: linear_ok_def linear_used_def bytes_at_def word_le_nat_alt)
next
  show "linear_ok s \<Longrightarrow> linear_used s \<subseteq> linear_buffer s" for s
    by (auto simp: linear_ok_def linear_used_def linear_buffer_def bytes_at_def word_le_nat_alt)
  show "Linear_Allocate c t s = Inr (p, s') \<Longrightarrow> linear_buffer s' = linear_buffer s" for c t s p s'
    by (auto simp: Linear_Allocate_def linear_buffer_def split: if_splits)
qed

definition stack_ok :: "stack \<Rightarrow> bool" where
  "stack_ok a \<longleftrightarrow> arena_ok a \<and> unat (stack_top a) \<le> unat (extent a) + 8"

definition stack_used :: "stack \<Rightarrow> nat set" where
  "stack_used a = bytes_at (block a) (unat (stack_top a))"

lemma stack_sums:
  assumes "stack_ok a" "sane c t"
  shows "unat (stack_top a + c * t) = unat (stack_top a) + unat c * unat t"
    "unat (stack_top a + (c * t + headerSize)) = unat (stack_top a) + unat c * unat t + 8"
    "unat (block a + stack_top a) = unat (block a) + unat (stack_top a)"
    "unat (block a + stack_top a + headerSize) = unat (block a) + unat (stack_top a) + 8"
  using assms sane_times [OF assms(2)]
  by (simp_all add: stack_ok_def arena_ok_def sane_def headerSize_def unat_sum_small)

lemma Stack_Allocate_Inr:
  assumes "stack_ok a" "sane c t"
  shows "Stack_Allocate c t a = Inr (p, a') \<longleftrightarrow>
    unat (stack_top a) + unat c * unat t \<le> unat (extent a) \<and> inside a (block a + stack_top a) 8
    \<and> p = block a + stack_top a + headerSize
    \<and> a' = a\<lparr>bytes := store64 (block a + stack_top a) (c * t + headerSize) (bytes a),
             stack_top := stack_top a + (c * t + headerSize)\<rparr>"
  using stack_sums [OF assms]
  by (auto simp: Stack_Allocate_def Let_def put_word_def word_less_nat_alt)

interpretation stack: disjoint_alloc Stack_Allocate stack_ok stack_used
proof unfold_locales
  fix s c t p s'
  assume a: "stack_ok s" "sane c t" "Stack_Allocate c t s = Inr (p, s')"
  then show "stack_ok s' \<and> stack_used s \<inter> bytes_at p (unat (c * t)) = {}
      \<and> stack_used s \<union> bytes_at p (unat (c * t)) \<subseteq> stack_used s'"
    unfolding Stack_Allocate_Inr [OF a(1,2)] using stack_sums [OF a(1,2)] sane_times [OF a(2)]
    by (auto simp: stack_ok_def arena_ok_def stack_used_def bytes_at_def)
qed

end
