(* ===== verification/Pool.thy ===== *)
theory Pool
  imports Allocators_Laws
begin

text \<open>
  The pool allocator keeps its free blocks in a list threaded through the blocks themselves. It
  implements a stack of block addresses: allocation pops, deallocation pushes, and what a client writes
  into the blocks it holds does not matter.
\<close>

section \<open>The list of free blocks\<close>

fun chain :: "(ptr \<Rightarrow> 8 word) \<Rightarrow> ptr \<Rightarrow> ptr list \<Rightarrow> bool" where
  "chain m p [] \<longleftrightarrow> p = 0"
| "chain m p (f # fs) \<longleftrightarrow> p = f \<and> p \<noteq> 0 \<and> chain m (load64 m p) fs"

lemma chain_unique: "chain m p fs \<Longrightarrow> chain m p gs \<Longrightarrow> fs = gs"
proof (induction fs arbitrary: p gs)
  case Nil
  then show ?case by (cases gs) auto
next
  case (Cons f fs)
  then show ?case by (cases gs) auto
qed

lemma chain_cong:
  assumes "chain m p fs" "\<And>f. f \<in> set fs \<Longrightarrow> load64 m' f = load64 m f"
  shows "chain m' p fs"
  using assms by (induction fs arbitrary: p) auto

section \<open>Blocks\<close>

definition block_at :: "pools \<Rightarrow> nat \<Rightarrow> ptr" where
  "block_at a i = block a + of_nat i * blockSize a"

definition pool_shape :: "pools \<Rightarrow> bool" where
  "pool_shape a \<longleftrightarrow> arena_ok a \<and> 8 \<le> unat (blockSize a)
    \<and> unat (blockCount a) * unat (blockSize a) = unat (extent a)"

definition pool_ok :: "pools \<Rightarrow> ptr list \<Rightarrow> bool" where
  "pool_ok a fs \<longleftrightarrow> pool_shape a \<and> distinct fs \<and> set fs \<subseteq> block_at a ` {..<unat (blockCount a)}
    \<and> chain (bytes a) (poolList a) fs"

lemma free_block:
  assumes "pool_ok a fs" "f \<in> set fs"
  obtains i where "i < unat (blockCount a)" "f = block_at a i"
  using assms unfolding pool_ok_def by blast

lemma block_fits:
  assumes "pool_shape a" "i < unat (blockCount a)"
  shows "i * unat (blockSize a) + unat (blockSize a) \<le> unat (extent a)"
proof -
  have "Suc i * unat (blockSize a) \<le> unat (blockCount a) * unat (blockSize a)"
    using assms(2) by (intro mult_le_mono1) simp
  then show ?thesis using assms(1) by (simp add: pool_shape_def)
qed

lemma unat_lt64: "unat (x :: 64 word) < 2 ^ 64"
  using unsigned_less [of x] by simp

lemma unat_block_at:
  assumes "pool_shape a" "i < unat (blockCount a)"
  shows "unat (block_at a i) = unat (block a) + i * unat (blockSize a)"
proof -
  have b: "unat (block a) + unat (extent a) < 2 ^ 63" using assms(1) by (simp add: pool_shape_def arena_ok_def)
  have "i < 2 ^ 64" using assms(2) unat_lt64 [of "blockCount a"] by simp
  then have i: "unat (of_nat i :: 64 word) = i" by (simp add: unat_of_nat)
  have "unat (of_nat i * blockSize a) = i * unat (blockSize a)"
    using block_fits [OF assms] b i by (subst unat_times_small) auto
  then show ?thesis
    using block_fits [OF assms] b unfolding block_at_def by (subst unat_sum_small) auto
qed

lemma block_inside:
  assumes "pool_shape a" "i < unat (blockCount a)"
  shows "inside a (block_at a i) (unat (blockSize a))" "inside a (block_at a i) 8" "block_at a i \<noteq> 0"
    "unat (block_at a i) + 8 \<le> 2 ^ 64"
proof -
  note u = unat_block_at [OF assms] block_fits [OF assms]
  have s: "8 \<le> unat (blockSize a)" "unat (block a) + unat (extent a) < 2 ^ 63" "0 < unat (block a)"
    using assms(1) by (auto simp: pool_shape_def arena_ok_def unat_gt_0)
  show "inside a (block_at a i) (unat (blockSize a))" "inside a (block_at a i) 8" using u s by (auto simp: inside_def)
  have "unat (block_at a i) \<noteq> 0" using u s by simp
  then show "block_at a i \<noteq> 0" by auto
  show "unat (block_at a i) + 8 \<le> 2 ^ 64" using u s by simp
qed

lemma blocks_apart:
  assumes "pool_shape a" "i < unat (blockCount a)" "j < unat (blockCount a)" "block_at a i \<noteq> block_at a j"
  shows "bytes_at (block_at a i) (unat (blockSize a)) \<inter> bytes_at (block_at a j) (unat (blockSize a)) = {}"
proof -
  have "i * unat (blockSize a) + unat (blockSize a) \<le> j * unat (blockSize a)
      \<or> j * unat (blockSize a) + unat (blockSize a) \<le> i * unat (blockSize a)"
  proof (cases "i < j")
    case True
    then have "Suc i * unat (blockSize a) \<le> j * unat (blockSize a)" by (intro mult_le_mono1) simp
    then show ?thesis by simp
  next
    case False
    with assms(4) have "j < i" by (metis linorder_neqE_nat)
    then have "Suc j * unat (blockSize a) \<le> i * unat (blockSize a)" by (intro mult_le_mono1) simp
    then show ?thesis by simp
  qed
  then show ?thesis
    by (auto simp: bytes_at_def unat_block_at [OF assms(1,2)] unat_block_at [OF assms(1,3)])
qed

lemma header_in_block: "pool_shape a \<Longrightarrow> bytes_at p 8 \<subseteq> bytes_at p (unat (blockSize a))"
  by (auto simp: bytes_at_def pool_shape_def)

text \<open>Writing one header leaves the headers of the other blocks.\<close>

lemma put_header:
  assumes "pool_shape a" "i < unat (blockCount a)"
  shows "put_word (block_at a i) v a = Inr (a\<lparr>bytes := store64 (block_at a i) v (bytes a)\<rparr>)"
    "j < unat (blockCount a) \<Longrightarrow> block_at a i \<noteq> block_at a j \<Longrightarrow>
      load64 (store64 (block_at a i) v m) (block_at a j) = load64 m (block_at a j)"
proof -
  show "put_word (block_at a i) v a = Inr (a\<lparr>bytes := store64 (block_at a i) v (bytes a)\<rparr>)"
    using block_inside [OF assms] by (simp add: put_word_def)
  assume j: "j < unat (blockCount a)" "block_at a i \<noteq> block_at a j"
  have "bytes_at (block_at a i) 8 \<inter> bytes_at (block_at a j) 8 = {}"
    using blocks_apart [OF assms j] header_in_block [OF assms(1)] by blast
  with block_inside(4) [OF assms] block_inside(4) [OF assms(1) j(1)]
  show "load64 (store64 (block_at a i) v m) (block_at a j) = load64 m (block_at a j)"
    by (rule load64_store64_other)
qed

lemma pool_shape_simps [simp]:
  "pool_shape (a\<lparr>poolList := p\<rparr>) = pool_shape a" "pool_shape (a\<lparr>bytes := m\<rparr>) = pool_shape a"
  "block_at (a\<lparr>poolList := p\<rparr>) = block_at a" "block_at (a\<lparr>bytes := m\<rparr>) = block_at a"
  by (auto simp: pool_shape_def arena_ok_def block_at_def fun_eq_iff)

section \<open>The operations on the list\<close>

lemma pool_push:
  assumes "pool_ok a fs" "i < unat (blockCount a)" "block_at a i \<notin> set fs"
  shows "\<exists>a'. put_word (block_at a i) (poolList a) a = Inr a' \<and> pool_ok (a'\<lparr>poolList := block_at a i\<rparr>) (block_at a i # fs)
    \<and> blockSize a' = blockSize a \<and> blockCount a' = blockCount a \<and> block a' = block a \<and> extent a' = extent a"
proof -
  let ?p = "block_at a i"
  have s: "pool_shape a" using assms(1) by (simp add: pool_ok_def)
  have "load64 (store64 ?p (poolList a) (bytes a)) f = load64 (bytes a) f" if "f \<in> set fs" for f
  proof -
    obtain j where "j < unat (blockCount a)" "f = block_at a j" using free_block [OF assms(1) \<open>f \<in> set fs\<close>] by blast
    moreover have "?p \<noteq> f" using that assms(3) by auto
    ultimately show ?thesis using put_header(2) [OF s assms(2)] by simp
  qed
  then have "chain (store64 ?p (poolList a) (bytes a)) (poolList a) fs"
    using assms(1) chain_cong by (auto simp: pool_ok_def)
  then show ?thesis
    using assms s block_inside(3) [OF s assms(2)] by (auto simp: put_header(1) [OF s assms(2)] pool_ok_def)
qed

lemma pool_pop:
  assumes "pool_ok a (f # fs)"
  shows "\<exists>next. get_word a (poolList a) = Inr next \<and> poolList a = f \<and> f \<noteq> 0 \<and> pool_ok (a\<lparr>poolList := next\<rparr>) fs"
proof -
  obtain i where "i < unat (blockCount a)" "f = block_at a i" "pool_shape a" using assms by (auto simp: pool_ok_def)
  then show ?thesis using assms block_inside(2) [of a i] by (auto simp: pool_ok_def get_word_def)
qed

text \<open>Bytes outside the free blocks belong to the clients.\<close>

lemma pool_frame:
  assumes "pool_ok a fs" "\<And>q. unat q \<in> (\<Union>f \<in> set fs. bytes_at f (unat (blockSize a))) \<Longrightarrow> m q = bytes a q"
  shows "pool_ok (a\<lparr>bytes := m\<rparr>) fs"
proof -
  have s: "pool_shape a" using assms(1) by (simp add: pool_ok_def)
  have "load64 m f = load64 (bytes a) f" if "f \<in> set fs" for f
  proof (rule load64_cong)
    obtain i where "i < unat (blockCount a)" "f = block_at a i" using free_block [OF assms(1) \<open>f \<in> set fs\<close>] by blast
    then show "unat f + 8 \<le> 2 ^ 64" using block_inside(4) [OF s] by simp
    show "m q = bytes a q" if "unat q \<in> bytes_at f 8" for q
      using that \<open>f \<in> set fs\<close> header_in_block [OF s, of f] by (intro assms(2)) auto
  qed
  then show ?thesis using assms(1) chain_cong by (auto simp: pool_ok_def)
qed

section \<open>Construction\<close>

lemma init_blocks:
  assumes "pool_ok a []" "n \<le> unat (blockCount a)"
  shows "\<exists>a'. rfold init_block [0..<n] a = Inr a' \<and> pool_ok a' (map (block_at a) (rev [0..<n]))
    \<and> blockSize a' = blockSize a \<and> blockCount a' = blockCount a \<and> block a' = block a \<and> extent a' = extent a"
  using assms(2)
proof (induction n)
  case (Suc n)
  then obtain a' where a': "rfold init_block [0..<n] a = Inr a'" "pool_ok a' (map (block_at a) (rev [0..<n]))"
    "blockSize a' = blockSize a" "blockCount a' = blockCount a" "block a' = block a" "extent a' = extent a" by auto
  have at: "block_at a' = block_at a" using a' by (simp add: block_at_def fun_eq_iff)
  have s: "pool_shape a" using assms(1) by (simp add: pool_ok_def)
  have "block_at a n \<noteq> block_at a j" if "j < n" for j
  proof -
    have "j * unat (blockSize a) < n * unat (blockSize a)" using that s by (simp add: pool_shape_def)
    then show ?thesis using unat_block_at [OF s, of n] unat_block_at [OF s, of j] that Suc.prems by auto
  qed
  then have "block_at a n \<notin> block_at a ` {..<n}" by blast
  then have "block_at a' n \<notin> set (map (block_at a) (rev [0..<n]))" by (simp add: at atLeast0LessThan)
  with pool_push [OF a'(2), of n] Suc.prems a'(3-6) obtain b where
    "put_word (block_at a' n) (poolList a') a' = Inr b"
    "pool_ok (b\<lparr>poolList := block_at a' n\<rparr>) (block_at a' n # map (block_at a) (rev [0..<n]))"
    "blockSize b = blockSize a" "blockCount b = blockCount a" "block b = block a" "extent b = extent a" by auto
  moreover from this(1) have "init_block n a' = Inr (b\<lparr>poolList := block_at a' n\<rparr>)"
    by (simp add: init_block_def flip: block_at_def)
  ultimately show ?case
    by (simp add: rfold_append a'(1) at)
qed (use assms(1) in simp)

lemma PoolAllocator_ok:
  assumes "p \<noteq> 0" "8 \<le> unat sz" "unat p + unat count * unat sz < 2 ^ 63"
  shows "\<exists>a. PoolAllocator count sz p m = Inr a \<and> pool_ok a (map (block_at a) (rev [0..<unat count]))
    \<and> blockSize a = sz \<and> blockCount a = count \<and> block a = p \<and> extent a = sz * count"
proof -
  let ?a = "\<lparr>block = p, extent = sz * count, bytes = m, blockSize = sz, blockCount = count, poolList = 0\<rparr>"
  have e: "unat (sz * count) = unat count * unat sz"
    using assms(3) by (subst unat_times_small) (auto simp: mult.commute)
  have "pool_ok ?a []" using assms e by (simp add: pool_ok_def pool_shape_def arena_ok_def)
  from init_blocks [OF this, of "unat count"] obtain a' where
    a': "rfold init_block [0..<unat count] ?a = Inr a'" "pool_ok a' (map (block_at ?a) (rev [0..<unat count]))"
    "blockSize a' = sz" "blockCount a' = count" "block a' = p" "extent a' = sz * count" by auto
  have "block_at ?a = block_at a'" using a' by (simp add: block_at_def fun_eq_iff)
  with a' show ?thesis by (simp add: PoolAllocator_def InitializePoolList_def)
qed

section \<open>The contract\<close>

text \<open>The free blocks of a pool are unique, so the rest of the buffer is what is handed out.\<close>

definition pool_good :: "pools \<Rightarrow> bool" where "pool_good a \<longleftrightarrow> (\<exists>fs. pool_ok a fs)"

definition pool_buffer :: "pools \<Rightarrow> nat set" where "pool_buffer a = bytes_at (block a) (unat (extent a))"

definition pool_used :: "pools \<Rightarrow> nat set" where
  "pool_used a = {x \<in> pool_buffer a. \<forall>fs. pool_ok a fs \<longrightarrow> x \<notin> (\<Union>f \<in> set fs. bytes_at f (unat (blockSize a)))}"

lemma pool_used_eq:
  assumes "pool_ok a fs"
  shows "pool_used a = pool_buffer a - (\<Union>f \<in> set fs. bytes_at f (unat (blockSize a)))"
proof -
  have "pool_ok a gs \<longleftrightarrow> gs = fs" for gs using assms chain_unique by (auto simp: pool_ok_def)
  then show ?thesis by (auto simp: pool_used_def)
qed

lemma Pool_Allocate_pop:
  assumes "pool_good a" "Pool_Allocate c t a = Inr (p, a')"
  obtains fs n where "pool_ok a (p # fs)" "a' = a\<lparr>poolList := n\<rparr>" "pool_ok a' fs" "c * t = blockSize a"
proof -
  obtain gs where g: "pool_ok a gs" using assms(1) by (auto simp: pool_good_def)
  have p: "poolList a \<noteq> 0" "p = poolList a" "c * t = blockSize a"
    using assms(2) by (auto simp: Pool_Allocate_def rmap_eq_Inr split: if_splits)
  then obtain fs where fs: "gs = p # fs" using g by (cases gs) (auto simp: pool_ok_def)
  then obtain n where n: "get_word a (poolList a) = Inr n" "pool_ok (a\<lparr>poolList := n\<rparr>) fs"
    using pool_pop g by blast
  then have "a' = a\<lparr>poolList := n\<rparr>" using assms(2) p by (auto simp: Pool_Allocate_def split: if_splits)
  with that g fs n p(3) show ?thesis by blast
qed

interpretation pool: bounded_alloc Pool_Allocate pool_good pool_used pool_buffer
proof unfold_locales
  fix s c t p s'
  assume a: "pool_good s" "sane c t" "Pool_Allocate c t s = Inr (p, s')"
  from Pool_Allocate_pop [OF a(1,3)] obtain fs n where
    f: "pool_ok s (p # fs)" "s' = s\<lparr>poolList := n\<rparr>" "pool_ok s' fs" "c * t = blockSize s" .
  have s: "pool_shape s" using f(1) by (simp add: pool_ok_def)
  obtain i where i: "i < unat (blockCount s)" "p = block_at s i" using free_block [OF f(1), of p] by auto
  have "bytes_at p (unat (blockSize s)) \<inter> bytes_at g (unat (blockSize s)) = {}" if "g \<in> set fs" for g
  proof -
    have "g \<in> set (p # fs)" using that by simp
    then obtain j where "j < unat (blockCount s)" "g = block_at s j" by (rule free_block [OF f(1)])
    moreover have "p \<noteq> g" using that f(1) by (auto simp: pool_ok_def)
    ultimately show ?thesis using blocks_apart [OF s i(1)] unfolding i(2) by blast
  qed
  moreover have "bytes_at p (unat (blockSize s)) \<subseteq> pool_buffer s"
    using block_inside(1) [OF s i(1)] by (auto simp: i(2) inside_def pool_buffer_def bytes_at_def)
  moreover have "pool_buffer s' = pool_buffer s" "blockSize s' = blockSize s"
    by (simp_all add: f(2) pool_buffer_def)
  ultimately show "pool_good s' \<and> pool_used s \<inter> bytes_at p (unat (c * t)) = {}
      \<and> pool_used s \<union> bytes_at p (unat (c * t)) \<subseteq> pool_used s'"
    using f(3,4) by (auto simp: pool_good_def pool_used_eq [OF f(1)] pool_used_eq [OF f(3)])
next
  show "pool_good s \<Longrightarrow> pool_used s \<subseteq> pool_buffer s" for s by (auto simp: pool_used_def)
  show "Pool_Allocate c t s = Inr (p, s') \<Longrightarrow> pool_buffer s' = pool_buffer s" for c t s p s'
    by (auto simp: Pool_Allocate_def pool_buffer_def rmap_eq_Inr split: if_splits)
qed

end
