(* ===== verification/Allocators_Spec.thy ===== *)
theory Allocators_Spec
  imports Pool
begin

text \<open>
  What the allocators promise their clients, and where they break it.
\<close>

section \<open>Linear allocator\<close>

definition total :: "(size_t \<times> size_t) list \<Rightarrow> nat" where
  "total rs = sum_list (map (\<lambda>(c, t). unat c * unat t) rs)"

lemma linear_serves:
  assumes "linear_ok a" "\<forall>(c, t) \<in> set rs. sane c t" "unat (linear_offset a) + total rs \<le> unat (linear_size a)"
  shows "\<exists>ps a'. alloc_all Linear_Allocate rs a = Inr (ps, a') \<and> length ps = length rs
    \<and> unat (linear_offset a') = unat (linear_offset a) + total rs"
  using assms
proof (induction rs arbitrary: a)
  case (Cons r rs)
  obtain c t where r: "r = (c, t)" by fastforce
  then have s: "sane c t" and fits: "unat (linear_offset a) + unat c * unat t \<le> unat (linear_size a)"
    using Cons.prems by (auto simp: total_def)
  let ?a = "a\<lparr>linear_offset := linear_offset a + c * t\<rparr>"
  note off = linear_sums(1) [OF Cons.prems(1) s]
  have "linear_ok ?a" using Cons.prems(1) fits off by (simp add: linear_ok_def word_le_nat_alt)
  moreover have "unat (linear_offset ?a) + total rs \<le> unat (linear_size ?a)"
    using Cons.prems(3) off by (simp add: total_def r)
  ultimately obtain ps a' where "alloc_all Linear_Allocate rs ?a = Inr (ps, a')" "length ps = length rs"
    "unat (linear_offset a') = unat (linear_offset ?a) + total rs"
    using Cons.IH [of ?a] Cons.prems(2) by auto
  then show ?case by (simp add: r linear_fits [OF Cons.prems(1) s fits] off total_def)
qed (simp add: total_def)

text \<open>A linear allocator serves every sequence of requests whose sizes, as numbers, add up to no more
  than the room left, with blocks that lie in its buffer and do not overlap.\<close>

lemma linear_blocks:
  assumes "linear_ok a" "\<forall>(c, t) \<in> set rs. sane c t"
    and "unat (linear_offset a) + total rs \<le> unat (linear_size a)"
  shows "\<exists>ps a'. alloc_all Linear_Allocate rs a = Inr (ps, a') \<and> length ps = length rs
    \<and> sorted_wrt apart ps \<and> (\<forall>b \<in> set ps. bytes_at (fst b) (snd b) \<subseteq> linear_buffer a)
    \<and> unat (linear_offset a') = unat (linear_offset a) + total rs"
proof -
  obtain ps a' where a': "alloc_all Linear_Allocate rs a = Inr (ps, a')" "length ps = length rs"
    "unat (linear_offset a') = unat (linear_offset a) + total rs"
    using linear_serves [OF assms] by blast
  with linear.alloc_all_inside [OF assms(1,2) a'(1)] show ?thesis by blast
qed

text \<open>The product of a request is computed in 64 bits: a request for far more than the buffer is granted.\<close>

lemma linear_wraps: "Linear_Allocate (2 ^ 61) 8 (LinearAllocator 16 p) = Inr (p, LinearAllocator 16 p)"
  by (simp add: Linear_Allocate_def LinearAllocator_def)

section \<open>Stack allocator\<close>

text \<open>C27: deallocating the block a stack allocator has handed out last restores the state before the
  allocation, whatever the client has written into the block.\<close>

theorem stack_lifo:
  assumes "stack_ok a" "sane c t" "Stack_Allocate c t a = Inr (p, a')"
    and "\<And>q. unat q \<notin> bytes_at p (unat (c * t)) \<Longrightarrow> m q = bytes a' q"
  shows "Stack_Deallocate p (a'\<lparr>bytes := m\<rparr>) = Inr (a\<lparr>bytes := m\<rparr>)"
proof -
  let ?h = "block a + stack_top a"
  have a': "inside a ?h 8" "p = ?h + headerSize"
    "a' = a\<lparr>bytes := store64 ?h (c * t + headerSize) (bytes a), stack_top := stack_top a + (c * t + headerSize)\<rparr>"
    using assms(3) Stack_Allocate_Inr [OF assms(1,2)] by auto
  have u: "unat p = unat ?h + 8" "unat ?h + 8 \<le> 2 ^ 64"
    using stack_sums [OF assms(1,2)] a'(1) assms(1) by (simp_all add: a'(2) inside_def stack_ok_def arena_ok_def)
  have "load64 m ?h = load64 (bytes a') ?h"
  proof (rule load64_cong)
    show "unat ?h + 8 \<le> 2 ^ 64" by (rule u(2))
    show "m q = bytes a' q" if "unat q \<in> bytes_at ?h 8" for q
      using that u(1) by (intro assms(4)) (simp add: bytes_at_def)
  qed
  then have "load64 m ?h = c * t + headerSize" by (simp add: a'(3))
  moreover have "p - headerSize = ?h" by (simp add: a'(2))
  moreover have "inside (a'\<lparr>bytes := m\<rparr>) ?h 8" using a'(1) by (simp add: a'(3) inside_def)
  ultimately show ?thesis by (simp add: Stack_Deallocate_def get_word_def a'(3))
qed

theorem stack_lifo_witness:
  "\<exists>p a'. Stack_Allocate 4 4 (StackAllocator 64 4096 (\<lambda>_. 0)) = Inr (p, a')
    \<and> Stack_Deallocate p (a'\<lparr>bytes := bytes a'\<rparr>) = Inr (StackAllocator 64 4096 (\<lambda>_. 0)\<lparr>bytes := bytes a'\<rparr>)"
proof -
  let ?s = "StackAllocator 64 4096 (\<lambda>_. 0)"
  have s: "stack_ok ?s" "sane 4 4" by (simp_all add: stack_ok_def arena_ok_def StackAllocator_def sane_def)
  obtain p a' where "Stack_Allocate 4 4 ?s = Inr (p, a')"
    by (simp add: Stack_Allocate_def StackAllocator_def headerSize_def put_word_def inside_def)
  with stack_lifo [OF s this, of "bytes a'"] show ?thesis by blast
qed

text \<open>The stack allocator compares the request alone with the room left, not the request with its header:
  a request for exactly the room left is granted with a block that ends 8 bytes behind the buffer.\<close>

lemma stack_overruns:
  assumes "stack_ok a" "sane c t" "8 \<le> unat c * unat t"
    and "unat (stack_top a) + unat c * unat t = unat (extent a)"
  shows "\<exists>p a'. Stack_Allocate c t a = Inr (p, a')
    \<and> unat p + unat c * unat t = unat (block a) + unat (extent a) + 8"
proof -
  have "inside a (block a + stack_top a) 8"
    using assms(3,4) stack_sums [OF assms(1,2)] by (simp add: inside_def)
  then show ?thesis
    using assms(4) stack_sums [OF assms(1,2)] by (simp add: Stack_Allocate_Inr [OF assms(1,2)])
qed

section \<open>Pool allocator\<close>

text \<open>C25: the pool allocator implements a stack of block addresses: allocating pops it, or reports that memory
  is out when it is empty, deallocating a block pushes it, and writing into blocks that are handed out
  changes nothing.\<close>

theorem pool_refines:
  assumes "pool_ok a fs" "c * t = blockSize a"
  shows "(case fs of [] \<Rightarrow> Pool_Allocate c t a = Inl (RuntimeError ''PoolAllocator out of memory'')
      | f # fs' \<Rightarrow> \<exists>a'. Pool_Allocate c t a = Inr (f, a') \<and> pool_ok a' fs')
    \<and> (\<forall>i < unat (blockCount a). block_at a i \<notin> set fs \<longrightarrow>
         (\<exists>a'. Pool_Deallocate (block_at a i) a = Inr a' \<and> pool_ok a' (block_at a i # fs)))
    \<and> (\<forall>m. (\<forall>q. unat q \<in> (\<Union>f \<in> set fs. bytes_at f (unat (blockSize a))) \<longrightarrow> m q = bytes a q)
         \<longrightarrow> pool_ok (a\<lparr>bytes := m\<rparr>) fs)"
proof (intro conjI allI impI)
  show "case fs of [] \<Rightarrow> Pool_Allocate c t a = Inl (RuntimeError ''PoolAllocator out of memory'')
      | f # fs' \<Rightarrow> \<exists>a'. Pool_Allocate c t a = Inr (f, a') \<and> pool_ok a' fs'"
  proof (cases fs)
    case Nil
    then show ?thesis using assms by (simp add: pool_ok_def Pool_Allocate_def)
  next
    case (Cons f fs')
    then show ?thesis using pool_pop [of a f fs'] assms by (auto simp: Pool_Allocate_def)
  qed
  show "\<exists>a'. Pool_Deallocate (block_at a i) a = Inr a' \<and> pool_ok a' (block_at a i # fs)"
    if "i < unat (blockCount a)" "block_at a i \<notin> set fs" for i
  proof -
    have "block_at a i \<noteq> 0" using block_inside(3) that(1) assms(1) by (simp add: pool_ok_def)
    then show ?thesis using pool_push [OF assms(1) that] by (auto simp: Pool_Deallocate_def)
  qed
  show "pool_ok (a\<lparr>bytes := m\<rparr>) fs"
    if "\<forall>q. unat q \<in> (\<Union>f \<in> set fs. bytes_at f (unat (blockSize a))) \<longrightarrow> m q = bytes a q" for m
    using that by (intro pool_frame [OF assms(1)]) blast
qed

theorem pool_refines_witness:
  "\<exists>a p a'. PoolAllocator 4 16 4096 (\<lambda>_. 0) = Inr a \<and> Pool_Allocate 2 8 a = Inr (p, a')"
proof -
  obtain a where a: "PoolAllocator 4 16 4096 (\<lambda>_. 0) = Inr a"
    "pool_ok a (map (block_at a) (rev [0..<4]))" "blockSize a = 16"
    using PoolAllocator_ok [of 4096 16 4 "\<lambda>_. 0"] by auto
  then show ?thesis using pool_refines [OF a(2), of 2 8] by (auto simp: upt_rec numeral_eq_Suc)
qed

text \<open>Popping everything.\<close>

lemma pool_pops:
  assumes "pool_ok a fs"
  shows "\<exists>a'. alloc_all Pool_Allocate (replicate (length fs) (1, blockSize a)) a
      = Inr (map (\<lambda>f. (f, unat (blockSize a))) fs, a') \<and> pool_ok a' [] \<and> blockSize a' = blockSize a"
  using assms
proof (induction fs arbitrary: a)
  case (Cons f fs)
  then obtain n where n: "get_word a (poolList a) = Inr n" "poolList a = f" "f \<noteq> 0" "pool_ok (a\<lparr>poolList := n\<rparr>) fs"
    using pool_pop by blast
  then have "Pool_Allocate 1 (blockSize a) a = Inr (f, a\<lparr>poolList := n\<rparr>)" by (simp add: Pool_Allocate_def)
  with Cons.IH [OF n(4)] show ?case by auto
qed simp

text \<open>C26: a new pool hands out exactly \<open>blockCount\<close> blocks, inside the buffer and disjoint, and then reports that
  memory is out.\<close>

theorem pool_hands_out:
  assumes "p \<noteq> 0" "8 \<le> unat sz" "unat p + unat count * unat sz < 2 ^ 62"
  shows "\<exists>a ps a'. PoolAllocator count sz p m = Inr a
    \<and> alloc_all Pool_Allocate (replicate (unat count) (1, sz)) a = Inr (ps, a')
    \<and> length ps = unat count \<and> sorted_wrt apart ps
    \<and> (\<forall>b \<in> set ps. snd b = unat sz \<and> bytes_at (fst b) (snd b) \<subseteq> {unat p ..< unat p + unat count * unat sz})
    \<and> Pool_Allocate 1 sz a' = Inl (RuntimeError ''PoolAllocator out of memory'')"
proof -
  obtain a where a: "PoolAllocator count sz p m = Inr a" "pool_ok a (map (block_at a) (rev [0..<unat count]))"
    "blockSize a = sz" "block a = p" "extent a = sz * count"
    using PoolAllocator_ok [of p sz count m] assms by auto
  obtain ps a' where a': "alloc_all Pool_Allocate (replicate (unat count) (1, sz)) a = Inr (ps, a')"
    "ps = map (\<lambda>f. (f, unat sz)) (map (block_at a) (rev [0..<unat count]))" "pool_ok a' []" "blockSize a' = sz"
    using pool_pops [OF a(2)] a(3) by auto
  have "unat sz < 2 ^ 62" if "0 < unat count"
  proof -
    have "1 * unat sz \<le> unat count * unat sz" using that by (intro mult_le_mono1) simp
    then have "unat sz \<le> unat p + unat count * unat sz" unfolding nat_mult_1 by (rule trans_le_add2)
    then show ?thesis using assms(3) by (rule le_less_trans)
  qed
  then have sane: "\<forall>(c, t) \<in> set (replicate (unat count) (1, sz)). sane c t" by (auto simp: sane_def)
  have e: "unat (sz * count) = unat count * unat sz"
    using assms(3) by (subst unat_times_small) (auto simp: mult.commute)
  have "pool_good a" using a(2) by (auto simp: pool_good_def)
  from pool.alloc_all_inside [OF this sane a'(1)]
  have "sorted_wrt apart ps" "\<forall>b \<in> set ps. bytes_at (fst b) (snd b) \<subseteq> {unat p ..< unat p + unat count * unat sz}"
    by (simp_all add: pool_buffer_def bytes_at_def a(4,5) e)
  moreover have "Pool_Allocate 1 sz a' = Inl (RuntimeError ''PoolAllocator out of memory'')"
    using a'(3,4) by (simp add: pool_ok_def Pool_Allocate_def)
  moreover have "length ps = unat count" "\<forall>b \<in> set ps. snd b = unat sz" using a'(2) by auto
  ultimately show ?thesis using a(1) a'(1) by blast
qed

theorem pool_hands_out_witness:
  "\<exists>a ps a'. PoolAllocator 100 24 4096 (\<lambda>_. 0) = Inr a
    \<and> alloc_all Pool_Allocate (replicate 100 (1, 24)) a = Inr (ps, a') \<and> length ps = 100
    \<and> Pool_Allocate 1 24 a' = Inl (RuntimeError ''PoolAllocator out of memory'')"
  using pool_hands_out [of 4096 24 100 "\<lambda>_. 0"] by auto

end
