(* ===== verification/Free_List.thy ===== *)
theory Free_List
  imports Allocators_Laws
begin

text \<open>
  The free list allocator: what an allocation from the first block of the list does to the headers in
  the buffer, and a short run after which two live blocks overlap and the search does not end.
\<close>

section \<open>Headers\<close>

text \<open>The header \<open>k\<close> bytes into the buffer: \<open>size\<close> and \<open>next\<close>.\<close>

definition here :: "'z arena_scheme \<Rightarrow> nat \<Rightarrow> ptr" where
  "here a k = block a + of_nat k"

definition hdr :: "'z arena_scheme \<Rightarrow> nat \<Rightarrow> 64 word \<times> ptr" where
  "hdr a k = (load64 (bytes a) (here a k), load64 (bytes a) (here a (k + 8)))"

definition clear :: "nat \<Rightarrow> nat \<Rightarrow> bool" where
  "clear k j \<longleftrightarrow> k + 16 \<le> j \<or> j + 16 \<le> k"

lemma here_plus: "here a k + of_nat n = here a (k + n)" "here a k + 8 = here a (k + 8)" "here a k + 16 = here a (k + 16)"
  by (simp_all add: here_def)

lemma here_upd [simp]: "here (a\<lparr>bytes := m\<rparr>) k = here a k"
  by (simp add: here_def)

lemma unat_here:
  assumes "arena_ok a" "k \<le> unat (extent a)"
  shows "unat (here a k) = unat (block a) + k" "here a k \<noteq> 0"
proof -
  have b: "unat (block a) + unat (extent a) < 2 ^ 63" "0 < unat (block a)"
    using assms(1) by (simp_all add: arena_ok_def unat_gt_0)
  then show u: "unat (here a k) = unat (block a) + k"
    using assms(2) unfolding here_def by (intro unat_plus_small) simp
  have "unat (here a k) \<noteq> 0" using u b(2) by simp
  then show "here a k \<noteq> 0" by auto
qed

lemma here_inside: "arena_ok a \<Longrightarrow> k + n \<le> unat (extent a) \<Longrightarrow> inside a (here a k) n"
  by (simp add: inside_def unat_here)

lemma put_here:
  assumes "arena_ok a" "k + 8 \<le> unat (extent a)"
  shows "put_word (here a k) v a = Inr (a\<lparr>bytes := store64 (here a k) v (bytes a)\<rparr>)"
  using here_inside [OF assms] by (simp add: put_word_def)

lemma get_here:
  assumes "arena_ok a" "k + 8 \<le> unat (extent a)"
  shows "get_word a (here a k) = Inr (load64 (bytes a) (here a k))"
  using here_inside [OF assms] by (simp add: get_word_def)

lemma load_here:
  assumes "arena_ok a" "k + 8 \<le> unat (extent a)" "j + 8 \<le> unat (extent a)" "k + 8 \<le> j \<or> j + 8 \<le> k"
  shows "load64 (store64 (here a k) v m) (here a j) = load64 m (here a j)"
proof -
  have b: "unat (block a) + unat (extent a) < 2 ^ 63" using assms(1) by (simp add: arena_ok_def)
  have u: "unat (here a k) = unat (block a) + k" "unat (here a j) = unat (block a) + j"
    using assms(2,3) by (intro unat_here(1) [OF assms(1)]; simp)+
  show ?thesis
    by (rule load64_store64_other) (use assms b u in \<open>auto simp: bytes_at_def\<close>)
qed

lemma hdr_puts:
  fixes v w :: "64 word"
  assumes "arena_ok a" "k + 16 \<le> unat (extent a)"
  defines "a' \<equiv> a\<lparr>bytes := store64 (here a (k + 8)) w (store64 (here a k) v (bytes a))\<rparr>"
  shows "hdr a' k = (v, w)" "j + 16 \<le> unat (extent a) \<Longrightarrow> clear k j \<Longrightarrow> hdr a' j = hdr a j"
  using assms(1,2) by (auto simp: a'_def hdr_def clear_def load_here)

section \<open>Allocating from the first block\<close>

text \<open>The same buffer, and the same headers but for the one written at \<open>k\<close>.\<close>

definition kept_but :: "nat \<Rightarrow> freelist \<Rightarrow> freelist \<Rightarrow> bool" where
  "kept_but k a a' \<longleftrightarrow> block a' = block a \<and> extent a' = extent a \<and>
     (\<forall>j. j + 16 \<le> unat (extent a) \<longrightarrow> clear k j \<longrightarrow> hdr a' j = hdr a j)"

lemma hdr_free_list [simp]: "hdr (a\<lparr>free_list := p\<rparr>) j = hdr a j"
  by (simp add: hdr_def here_def)

lemma allocate_first:
  assumes "arena_ok a" "free_list a = here a k" "hdr a k = (of_nat s, nx)" "16 \<le> n" "n < s" "s < 2 ^ 62"
    and "k + n + 16 \<le> unat (extent a)"
  shows "\<exists>a'. FreeList_Allocate (of_nat n) 1 a = Some (Inr (here a (k + 16), a'))
    \<and> free_list a' = here a (k + n) \<and> hdr a' (k + n) = (of_nat (s - n), nx) \<and> kept_but (k + n) a a'"
proof -
  have w: "\<not> of_nat s < (of_nat n :: 64 word)" "of_nat n < (of_nat s :: 64 word)" "of_nat n \<le> (of_nat s :: 64 word)"
    "of_nat s - of_nat n = (of_nat (s - n) :: 64 word)"
    using assms(5,6) by (simp_all add: word_less_nat_alt word_le_nat_alt unat_of_nat of_nat_diff)
  let ?m = "store64 (here a (k + n + 8)) nx (store64 (here a (k + n)) (of_nat (s - n)) (bytes a))"
  let ?a = "a\<lparr>bytes := ?m, free_list := here a (k + n)\<rparr>"
  have h: "load64 (bytes a) (here a k) = of_nat s" "load64 (bytes a) (here a (k + 8)) = nx"
    using assms(3) by (simp_all add: hdr_def)
  have "here a k \<noteq> 0" using unat_here(2) [OF assms(1)] assms(7) by simp
  moreover have "get_word a (here a k) = Inr (of_nat s)" using assms(1,7) by (simp add: get_here h)
  moreover have "FreeList_take (of_nat n) 0 (here a k) (of_nat s) a = Inr (here a (k + 16), ?a)"
  proof -
    have 1: "put_word (here a (k + n)) (of_nat (s - n)) a
        = Inr (a\<lparr>bytes := store64 (here a (k + n)) (of_nat (s - n)) (bytes a)\<rparr>)" (is "_ = Inr ?b")
      using assms(1,7) by (intro put_here) simp_all
    have b: "arena_ok ?b" "extent ?b = extent a" "here ?b = here a" using assms(1) by (auto simp: here_def fun_eq_iff)
    have "get_word ?b (here ?b (k + 8)) = Inr nx"
      using assms(1,4,7) by (subst get_here) (auto simp: load_here h)
    then have 2: "get_next ?b (here a k) = Inr nx" by (simp add: get_next_def here_plus b(3))
    have "put_word (here ?b (k + n + 8)) nx ?b = Inr (a\<lparr>bytes := ?m\<rparr>)"
      using assms(1,7) by (subst put_here) auto
    then have 3: "put_next (here a (k + n)) nx ?b = Inr (a\<lparr>bytes := ?m\<rparr>)"
      by (simp add: put_next_def here_plus b(3))
    show ?thesis
      by (simp add: FreeList_take_def w here_plus 1 2 3 FreeBlockSize_def)
  qed
  ultimately have "FreeList_Allocate (of_nat n) 1 a = Some (Inr (here a (k + 16), ?a))"
    unfolding FreeList_Allocate_def assms(2) by (subst FreeList_search.simps) (simp add: w)
  moreover have "hdr ?a (k + n) = (of_nat (s - n), nx)" "kept_but (k + n) a ?a"
    using hdr_puts [OF assms(1), of "k + n"] assms(7) by (auto simp: kept_but_def)
  ultimately show ?thesis by auto
qed

section \<open>A search without end\<close>

lemma search_loops:
  assumes "get_word a c = Inr s" "s < n" "get_next a c = Inr c" "c \<noteq> 0"
    and "FreeList_search n' prev c' a' = Some r"
  shows "\<not> (c' = c \<and> a' = a \<and> n' = n)"
proof (rule FreeList_search.raw_induct
    [where P = "\<lambda>n' prev c' a' r. \<not> (c' = c \<and> a' = a \<and> n' = n)", OF _ assms(5)])
  fix search n' prev c' a' r
  assume IH: "\<And>n' prev c' a' r. search n' prev c' a' = Some r \<Longrightarrow> \<not> (c' = c \<and> a' = a \<and> n' = n)"
    and body: "(if c' = 0 then Some (Inl (RuntimeError ''FreeListAllocator out of memory''))
      else case get_word a' c' of Inl e \<Rightarrow> Some (Inl e)
      | Inr sz \<Rightarrow> if n' \<le> sz then Some (FreeList_take n' prev c' sz a')
          else (case get_next a' c' of Inl e \<Rightarrow> Some (Inl e) | Inr nx \<Rightarrow> search n' c' nx a')) = Some r"
  show "\<not> (c' = c \<and> a' = a \<and> n' = n)"
  proof
    assume "c' = c \<and> a' = a \<and> n' = n"
    then have "search n c c a = Some r" using body assms(1,3,4) less_le_not_le [of s n] assms(2) by auto
    from IH [OF this] show False by simp
  qed
qed

lemma search_diverges:
  assumes "get_word a c = Inr s" "s < n" "get_next a c = Inr c" "c \<noteq> 0"
  shows "FreeList_search n prev c a = None"
proof (cases "FreeList_search n prev c a")
  case (Some r)
  then show ?thesis using search_loops [OF assms] Some by blast
qed

section \<open>Construction, deallocation, and the run\<close>

lemma FreeListAllocator_first:
  assumes "p \<noteq> 0" "unat p + s < 2 ^ 62" "16 \<le> s"
  shows "\<exists>a. FreeListAllocator (of_nat s) p m = Inr a \<and> arena_ok a \<and> block a = p \<and> unat (extent a) = s
    \<and> free_list a = here a 0 \<and> hdr a 0 = (of_nat s, 0)"
proof -
  let ?a = "\<lparr>block = p, extent = of_nat s, bytes = m, free_list = p\<rparr>"
  have e: "unat (of_nat s :: 64 word) = s" using assms(2) by (simp add: unat_of_nat)
  have ok: "arena_ok ?a" using assms e by (simp add: arena_ok_def)
  have h: "here ?a 0 = p" "here ?a 8 = p + 8" by (simp_all add: here_def)
  let ?b = "?a\<lparr>bytes := store64 (here ?a 0) (of_nat s) m\<rparr>"
  let ?c = "?a\<lparr>bytes := store64 (here ?a (0 + 8)) 0 (store64 (here ?a 0) (of_nat s) (bytes ?a))\<rparr>"
  have 1: "put_word p (of_nat s) ?a = Inr ?b"
    using put_here [OF ok, of 0] assms(3) e by (simp add: h)
  have "arena_ok ?b" using ok by (simp add: arena_ok_def)
  then have "put_word (p + 8) 0 ?b = Inr ?c"
    using put_here [of ?b 8 0] assms(3) e by (simp add: here_def)
  then have 2: "put_next p 0 ?b = Inr ?c" by (simp add: put_next_def h)
  have "hdr ?c 0 = (of_nat s, 0)" using hdr_puts(1) [OF ok, of 0] assms(3) e by simp
  moreover have "FreeListAllocator (of_nat s) p m = Inr ?c"
    using 1 2 by (simp add: FreeListAllocator_def FreeList_first_def)
  moreover have "arena_ok ?c" using ok by (simp add: arena_ok_def)
  ultimately show ?thesis using e by (intro exI [of _ ?c]) (simp add: here_def)
qed

lemma Deallocate_here:
  assumes "arena_ok a" "k + 16 \<le> unat (extent a)"
  shows "\<exists>a'. FreeList_Deallocate (here a (k + 16)) a = Inr a' \<and> free_list a' = here a k
    \<and> hdr a' k = (fst (hdr a k), free_list a) \<and> kept_but k a a'"
proof -
  let ?a = "a\<lparr>bytes := store64 (here a (k + 8)) (free_list a) (bytes a)\<rparr>"
  have b: "here a (k + 16) - FreeBlockSize = here a k" by (simp add: here_def FreeBlockSize_def)
  have "here a (k + 16) \<noteq> 0" using unat_here(2) [OF assms(1)] assms(2) by simp
  moreover have "put_next (here a k) (free_list a) a = Inr ?a"
    using put_here [OF assms(1), of "k + 8"] assms(2) by (simp add: put_next_def here_plus)
  ultimately have "FreeList_Deallocate (here a (k + 16)) a = Inr (?a\<lparr>free_list := here a k\<rparr>)"
    by (simp add: FreeList_Deallocate_def b)
  moreover have "hdr ?a k = (fst (hdr a k), free_list a)" "kept_but k a ?a"
    using assms by (auto simp: hdr_def kept_but_def clear_def load_here)
  ultimately show ?thesis by (auto simp: kept_but_def)
qed

lemma kept_but_hdr: "kept_but k a a' \<Longrightarrow> clear k j \<Longrightarrow> j + 16 \<le> unat (extent a) \<Longrightarrow> hdr a' j = hdr a j"
  and kept_but_place: "kept_but k a a' \<Longrightarrow> arena_ok a' = arena_ok a" "kept_but k a a' \<Longrightarrow> here a' = here a"
    "kept_but k a a' \<Longrightarrow> extent a' = extent a" "kept_but k a a' \<Longrightarrow> block a' = block a"
  by (auto simp: kept_but_def arena_ok_def here_def)

text \<open>A free block that is its own successor and too small for the request: the search goes round for ever.\<close>

lemma own_successor_diverges:
  assumes "arena_ok a" "free_list a = here a k" "hdr a k = (of_nat r, here a k)" "k + 16 \<le> unat (extent a)"
    and "r < 2 ^ 62" "r < unat n"
  shows "FreeList_Allocate n 1 a = None"
proof -
  have "k + 8 \<le> unat (extent a)" "k + 8 + 8 \<le> unat (extent a)" using assms(4) by simp_all
  then have "get_word a (here a k) = Inr (of_nat r)" "get_word a (here a (k + 8)) = Inr (here a k)"
    using assms(3) by (simp_all only: get_here [OF assms(1)] hdr_def prod.inject)
  moreover have "unat (of_nat r :: 64 word) = r" using assms(5) by (simp add: unat_of_nat)
  then have "of_nat r < n" using assms(6) unfolding word_less_nat_alt by simp
  moreover have "here a k \<noteq> 0" using unat_here(2) [OF assms(1)] assms(4) by simp
  ultimately show ?thesis
    using search_diverges [of a "here a k" "of_nat r" n 0]
    by (simp add: FreeList_Allocate_def assms(2) get_next_def here_plus)
qed

text \<open>C40: two blocks are allocated and the first is freed: the header of the freed block still gives the size
  of the whole buffer, so the next allocation of both sizes together returns the first block again, with
  the second, live block inside it; and the remaining free block becomes its own successor, so that a
  request for more than is left never returns.\<close>

theorem free_list_overlaps:
  assumes "p \<noteq> 0" "unat p + s < 2 ^ 62" "16 \<le> n1" "16 \<le> n2" "n1 + n2 + 16 \<le> s"
  shows "\<exists>a0 a1 a2 a3 a4 p1 p2. FreeListAllocator (of_nat s) p m = Inr a0
    \<and> FreeList_Allocate (of_nat n1) 1 a0 = Some (Inr (p1, a1))
    \<and> FreeList_Allocate (of_nat n2) 1 a1 = Some (Inr (p2, a2))
    \<and> FreeList_Deallocate p1 a2 = Inr a3
    \<and> FreeList_Allocate (of_nat (n1 + n2)) 1 a3 = Some (Inr (p1, a4))
    \<and> bytes_at p2 n2 \<subseteq> bytes_at p1 (n1 + n2)
    \<and> (\<forall>n. s - n1 - n2 < unat n \<longrightarrow> FreeList_Allocate n 1 a4 = None)"
proof -
  have s: "16 \<le> s" "s < 2 ^ 62" using assms(2,5) by simp_all
  from FreeListAllocator_first [OF assms(1,2) s(1), of m] obtain a0 where
    a0: "FreeListAllocator (of_nat s) p m = Inr a0" "arena_ok a0" "unat (extent a0) = s"
    "free_list a0 = here a0 0" "hdr a0 0 = (of_nat s, 0)" by blast
  have "0 + n1 + 16 \<le> unat (extent a0)" "n1 < s" using assms(5) a0(3) by simp_all
  from allocate_first [OF a0(2,4,5) assms(3) this(2) s(2) this(1)] obtain a1 where
    a1: "FreeList_Allocate (of_nat n1) 1 a0 = Some (Inr (here a0 16, a1))" "free_list a1 = here a0 n1"
    "hdr a1 n1 = (of_nat (s - n1), 0)" "kept_but n1 a0 a1" unfolding add_0 by blast
  note k1 = kept_but_place [OF a1(4)]
  have "arena_ok a1" "free_list a1 = here a1 n1" "n2 < s - n1" "s - n1 < 2 ^ 62" "n1 + n2 + 16 \<le> unat (extent a1)"
    using a0(2,3) a1(2) k1 assms(5) s(2) by simp_all
  from allocate_first [OF this(1,2) a1(3) assms(4) this(3-5)] obtain a2 where
    a2: "FreeList_Allocate (of_nat n2) 1 a1 = Some (Inr (here a0 (n1 + 16), a2))" "free_list a2 = here a0 (n1 + n2)"
    "kept_but (n1 + n2) a1 a2" unfolding k1 by blast
  note k2 = kept_but_place [OF a2(3)]
  have h2: "hdr a2 0 = (of_nat s, 0)"
    using kept_but_hdr [OF a2(3), of 0] kept_but_hdr [OF a1(4), of 0] assms s a0(3,5) k1
    by (simp add: clear_def)
  have "arena_ok a2" "0 + 16 \<le> unat (extent a2)" using a0(2,3) k1 k2 s(1) by simp_all
  from Deallocate_here [OF this] obtain a3 where
    a3: "FreeList_Deallocate (here a0 16) a2 = Inr a3" "free_list a3 = here a0 0"
    "hdr a3 0 = (of_nat s, here a0 (n1 + n2))" "kept_but 0 a2 a3"
    unfolding h2 a2(2) fst_conv k1 k2 add_0 by blast
  note k3 = kept_but_place [OF a3(4)]
  have "arena_ok a3" "free_list a3 = here a3 0" "16 \<le> n1 + n2" "n1 + n2 < s" "0 + (n1 + n2) + 16 \<le> unat (extent a3)"
    using a0(2,3) a3(2) k1 k2 k3 assms(3,5) by simp_all
  from allocate_first [OF this(1,2) a3(3) this(3,4) s(2) this(5)] obtain a4 where
    a4: "FreeList_Allocate (of_nat (n1 + n2)) 1 a3 = Some (Inr (here a0 16, a4))" "free_list a4 = here a0 (n1 + n2)"
    "hdr a4 (n1 + n2) = (of_nat (s - (n1 + n2)), here a0 (n1 + n2))" "kept_but (n1 + n2) a3 a4"
    unfolding k1 k2 k3 add_0 by blast
  note k4 = kept_but_place [OF a4(4)]
  have here4: "here a0 = here a4" "arena_ok a4" "unat (extent a4) = s" using k1 k2 k3 k4 a0(2,3) by simp_all
  have "FreeList_Allocate n 1 a4 = None" if "s - n1 - n2 < unat n" for n
    by (rule own_successor_diverges [OF here4(2) _ a4(3) [unfolded here4(1)]])
      (use a4(2) here4 assms(5) s(2) that in simp_all)
  moreover have "bytes_at (here a0 (n1 + 16)) n2 \<subseteq> bytes_at (here a0 16) (n1 + n2)"
    using unat_here(1) [OF a0(2), of 16] unat_here(1) [OF a0(2), of "n1 + 16"] assms(4,5) a0(3)
    by (auto simp: bytes_at_def)
  ultimately show ?thesis using a0(1) a1(1) a2(1) a3(1) a4(1) by blast
qed

theorem free_list_overlaps_witness:
  "\<exists>a0 a1 a2 a3 a4 p1 p2. FreeListAllocator 256 4096 (\<lambda>_. 0) = Inr a0
    \<and> FreeList_Allocate 32 1 a0 = Some (Inr (p1, a1)) \<and> FreeList_Allocate 48 1 a1 = Some (Inr (p2, a2))
    \<and> FreeList_Deallocate p1 a2 = Inr a3 \<and> FreeList_Allocate 80 1 a3 = Some (Inr (p1, a4))
    \<and> bytes_at p2 48 \<subseteq> bytes_at p1 80 \<and> FreeList_Allocate 200 1 a4 = None"
proof -
  have n: "176 < unat (200 :: 64 word)" by simp
  from free_list_overlaps [of 4096 256 32 48 "\<lambda>_. 0"] obtain a0 a1 a2 a3 a4 p1 p2 where
    "FreeListAllocator 256 4096 (\<lambda>_. 0) = Inr a0"
    "FreeList_Allocate 32 1 a0 = Some (Inr (p1, a1))" "FreeList_Allocate 48 1 a1 = Some (Inr (p2, a2))"
    "FreeList_Deallocate p1 a2 = Inr a3" "FreeList_Allocate 80 1 a3 = Some (Inr (p1, a4))"
    "bytes_at p2 48 \<subseteq> bytes_at p1 80" "\<forall>n. 176 < unat n \<longrightarrow> FreeList_Allocate n 1 a4 = None"
    by auto
  with n show ?thesis by blast
qed

end
