(* ===== verification/Vec3.thy ===== *)
theory Vec3
  imports Vec2
begin

text \<open>
  \<open>libs/Math/include/Vec3.h\<close> and \<open>libs/Math/include/Vec4.h\<close>: the vectors of three and four components.
  The number type is a type variable as in \<open>Vec2\<close>; \<open>sq\<close> is \<open>std::sqrt\<close>, \<open>acos\<close> is \<open>std::acos\<close>, and \<open>cast\<close> a
  \<open>static_cast\<close> between number types. Names that \<open>Vec2\<close> has too carry the number of components.
\<close>

section \<open>Three components\<close>

datatype 'a vec3 = Vec3 (X3: 'a) (Y3: 'a) (Z3: 'a)

definition Zero3 :: "'a::zero vec3" where "Zero3 = Vec3 0 0 0"
definition One3 :: "'a::one vec3" where "One3 = Vec3 1 1 1"
definition Up3 :: "'a::{zero, one} vec3" where "Up3 = Vec3 0 1 0"
definition Down3 :: "'a::{zero, one, uminus} vec3" where "Down3 = Vec3 0 (- 1) 0"
definition Left3 :: "'a::{zero, one, uminus} vec3" where "Left3 = Vec3 (- 1) 0 0"
definition Right3 :: "'a::{zero, one} vec3" where "Right3 = Vec3 1 0 0"
definition Forward3 :: "'a::{zero, one} vec3" where "Forward3 = Vec3 0 0 1"
definition Back3 :: "'a::{zero, one, uminus} vec3" where "Back3 = Vec3 0 0 (- 1)"

definition vec3_plus :: "'a::plus vec3 \<Rightarrow> 'a vec3 \<Rightarrow> 'a vec3" where
  "vec3_plus v w = Vec3 (X3 v + X3 w) (Y3 v + Y3 w) (Z3 v + Z3 w)"

instantiation vec3 :: (plus) plus
begin
definition plus_vec3 :: "'a vec3 \<Rightarrow> 'a vec3 \<Rightarrow> 'a vec3" where
  plus_vec3_is: "plus_vec3 = vec3_plus"
instance ..
end

lemma plus_vec3_def: "v + w = Vec3 (X3 v + X3 w) (Y3 v + Y3 w) (Z3 v + Z3 w)"
  by (simp add: plus_vec3_is vec3_plus_def)

definition vec3_minus :: "'a::minus vec3 \<Rightarrow> 'a vec3 \<Rightarrow> 'a vec3" where
  "vec3_minus v w = Vec3 (X3 v - X3 w) (Y3 v - Y3 w) (Z3 v - Z3 w)"

instantiation vec3 :: (minus) minus
begin
definition minus_vec3 :: "'a vec3 \<Rightarrow> 'a vec3 \<Rightarrow> 'a vec3" where
  minus_vec3_is: "minus_vec3 = vec3_minus"
instance ..
end

lemma minus_vec3_def: "v - w = Vec3 (X3 v - X3 w) (Y3 v - Y3 w) (Z3 v - Z3 w)"
  by (simp add: minus_vec3_is vec3_minus_def)

definition vec3_uminus :: "'a::uminus vec3 \<Rightarrow> 'a vec3" where
  "vec3_uminus v = Vec3 (- X3 v) (- Y3 v) (- Z3 v)"

instantiation vec3 :: (uminus) uminus
begin
definition uminus_vec3 :: "'a vec3 \<Rightarrow> 'a vec3" where
  uminus_vec3_is: "uminus_vec3 = vec3_uminus"
instance ..
end

lemma uminus_vec3_def: "- v = Vec3 (- X3 v) (- Y3 v) (- Z3 v)"
  by (simp add: uminus_vec3_is vec3_uminus_def)

definition scale3 :: "'a::times vec3 \<Rightarrow> 'a \<Rightarrow> 'a vec3" where
  "scale3 v scalar = Vec3 (X3 v * scalar) (Y3 v * scalar) (Z3 v * scalar)"

text \<open>Unlike the other vectors, this one divides without looking at the divisor.\<close>

definition div3 :: "'a::divide vec3 \<Rightarrow> 'a \<Rightarrow> 'a vec3" where
  "div3 v scalar = Vec3 (X3 v div scalar) (Y3 v div scalar) (Z3 v div scalar)"

definition eq3 :: "'a::ord vec3 \<Rightarrow> 'a vec3 \<Rightarrow> bool" where
  "eq3 v w \<longleftrightarrow> ceq (X3 v) (X3 w) \<and> ceq (Y3 v) (Y3 w) \<and> ceq (Z3 v) (Z3 w)"

definition neq3 :: "'a::ord vec3 \<Rightarrow> 'a vec3 \<Rightarrow> bool" where
  "neq3 v w \<longleftrightarrow> \<not> ceq (X3 v) (X3 w) \<or> \<not> ceq (Y3 v) (Y3 w) \<or> \<not> ceq (Z3 v) (Z3 w)"

definition index3 :: "'a vec3 \<Rightarrow> int \<Rightarrow> 'a res" where
  "index3 v index =
     (if index = 0 then Inr (X3 v) else if index = 1 then Inr (Y3 v) else if index = 2 then Inr (Z3 v)
      else Inl OutOfRangeException)"

definition cast3 :: "('a \<Rightarrow> 'b) \<Rightarrow> 'a vec3 \<Rightarrow> 'b vec3" where
  "cast3 cast v = Vec3 (cast (X3 v)) (cast (Y3 v)) (cast (Z3 v))"

section \<open>Products, lengths, directions\<close>

definition Dot3 :: "'a::{plus, times} vec3 \<Rightarrow> 'a vec3 \<Rightarrow> 'a" where
  "Dot3 v w = X3 v * X3 w + Y3 v * Y3 w + Z3 v * Z3 w"

definition Length3 :: "('a \<Rightarrow> 'a) \<Rightarrow> 'a::{plus, times} vec3 \<Rightarrow> 'a" where
  "Length3 sq v = sq (X3 v * X3 v + Y3 v * Y3 v + Z3 v * Z3 v)"

definition Project3 :: "('a \<Rightarrow> 'a) \<Rightarrow> 'a::{plus, times, divide} vec3 \<Rightarrow> 'a vec3 \<Rightarrow> 'a" where
  "Project3 sq v w = Dot3 v w div Length3 sq w"

definition Normalized3 :: "('a \<Rightarrow> 'a) \<Rightarrow> 'a::{plus, times, zero, ord, divide} vec3 \<Rightarrow> 'a vec3 res" where
  "Normalized3 sq v =
     (let length = Length3 sq v
      in if ceq length 0 then Inl DivisionByZeroException else Inr (div3 v length))"

definition Reflect3 ::
  "('a \<Rightarrow> 'a) \<Rightarrow> 'a::{plus, minus, times, zero, one, ord, divide} vec3 \<Rightarrow> 'a vec3 \<Rightarrow> 'a vec3 res" where
  "Reflect3 sq v w =
     rbind (Normalized3 sq w) (\<lambda>normalizedVec.
       Inr (v - scale3 normalizedVec (two * Dot3 v normalizedVec)))"

definition IsPerpendicular3 :: "'a::{plus, times, zero, ord} vec3 \<Rightarrow> 'a vec3 \<Rightarrow> bool" where
  "IsPerpendicular3 v w \<longleftrightarrow> ceq (Dot3 v w) 0"

definition IsParallel3 :: "'a::{plus, times, zero, ord} vec3 \<Rightarrow> 'a vec3 \<Rightarrow> bool" where
  "IsParallel3 v w \<longleftrightarrow> ceq (Dot3 v w) 0"

definition Lerp3 :: "'a::{plus, minus, times} vec3 \<Rightarrow> 'a vec3 \<Rightarrow> 'a \<Rightarrow> 'a vec3" where
  "Lerp3 v w t = v + scale3 (w - v) t"

definition GetVectorAngle3 ::
  "('a \<Rightarrow> 'a) \<Rightarrow> ('a \<Rightarrow> 'a) \<Rightarrow> 'a::{plus, times, divide} vec3 \<Rightarrow> 'a vec3 \<Rightarrow> 'a" where
  "GetVectorAngle3 sq acos v w = acos (Dot3 v w div (Length3 sq v * Length3 sq w))"

text \<open>\<open>Slerp\<close>, given the sine (which reads a table).\<close>

definition Slerp3 ::
  "('a \<Rightarrow> 'a) \<Rightarrow> ('a \<Rightarrow> 'a) \<Rightarrow> ('a \<Rightarrow> 'a) \<Rightarrow> 'a::{plus, minus, times, one, divide} vec3 \<Rightarrow> 'a vec3 \<Rightarrow> 'a \<Rightarrow> 'a vec3"
  where
  "Slerp3 sq acos sn v w t =
     (let omega = GetVectorAngle3 sq acos v w;
          calculation = sn (omega * (1 - t)) div sn omega;
          vec = Vec3 (X3 v * calculation) (Y3 v * calculation) (Z3 v * calculation);
          cal = sn (omega * t) div sn omega
      in vec + scale3 w cal)"

definition Distance3 :: "('a \<Rightarrow> 'a) \<Rightarrow> 'a::{plus, minus, times} vec3 \<Rightarrow> 'a vec3 \<Rightarrow> 'a" where
  "Distance3 sq v w = Length3 sq (v - w)"

definition CrossProduct :: "'a::{minus, times} vec3 \<Rightarrow> 'a vec3 \<Rightarrow> 'a vec3" where
  "CrossProduct v w =
     Vec3 (Y3 v * Z3 w - Z3 v * Y3 w) (Z3 v * X3 w - X3 v * Z3 w) (X3 v * Y3 w - Y3 v * X3 w)"

section \<open>Four components\<close>

datatype 'a vec4 = Vec4 (X4: 'a) (Y4: 'a) (Z4: 'a) (W4: 'a)

definition Zero4 :: "'a::zero vec4" where "Zero4 = Vec4 0 0 0 0"
definition One4 :: "'a::one vec4" where "One4 = Vec4 1 1 1 1"
definition Up4 :: "'a::{zero, one} vec4" where "Up4 = Vec4 0 1 0 0"
definition Down4 :: "'a::{zero, one, uminus} vec4" where "Down4 = Vec4 0 (- 1) 0 0"
definition Left4 :: "'a::{zero, one, uminus} vec4" where "Left4 = Vec4 (- 1) 0 0 0"
definition Right4 :: "'a::{zero, one} vec4" where "Right4 = Vec4 1 0 0 0"
definition Forward4 :: "'a::{zero, one} vec4" where "Forward4 = Vec4 0 0 1 0"
definition Backward4 :: "'a::{zero, one, uminus} vec4" where "Backward4 = Vec4 0 0 (- 1) 0"

definition vec4_plus :: "'a::plus vec4 \<Rightarrow> 'a vec4 \<Rightarrow> 'a vec4" where
  "vec4_plus v w = Vec4 (X4 v + X4 w) (Y4 v + Y4 w) (Z4 v + Z4 w) (W4 v + W4 w)"

instantiation vec4 :: (plus) plus
begin
definition plus_vec4 :: "'a vec4 \<Rightarrow> 'a vec4 \<Rightarrow> 'a vec4" where
  plus_vec4_is: "plus_vec4 = vec4_plus"
instance ..
end

lemma plus_vec4_def: "v + w = Vec4 (X4 v + X4 w) (Y4 v + Y4 w) (Z4 v + Z4 w) (W4 v + W4 w)"
  by (simp add: plus_vec4_is vec4_plus_def)

definition vec4_minus :: "'a::minus vec4 \<Rightarrow> 'a vec4 \<Rightarrow> 'a vec4" where
  "vec4_minus v w = Vec4 (X4 v - X4 w) (Y4 v - Y4 w) (Z4 v - Z4 w) (W4 v - W4 w)"

instantiation vec4 :: (minus) minus
begin
definition minus_vec4 :: "'a vec4 \<Rightarrow> 'a vec4 \<Rightarrow> 'a vec4" where
  minus_vec4_is: "minus_vec4 = vec4_minus"
instance ..
end

lemma minus_vec4_def: "v - w = Vec4 (X4 v - X4 w) (Y4 v - Y4 w) (Z4 v - Z4 w) (W4 v - W4 w)"
  by (simp add: minus_vec4_is vec4_minus_def)

definition vec4_uminus :: "'a::uminus vec4 \<Rightarrow> 'a vec4" where
  "vec4_uminus v = Vec4 (- X4 v) (- Y4 v) (- Z4 v) (- W4 v)"

instantiation vec4 :: (uminus) uminus
begin
definition uminus_vec4 :: "'a vec4 \<Rightarrow> 'a vec4" where
  uminus_vec4_is: "uminus_vec4 = vec4_uminus"
instance ..
end

lemma uminus_vec4_def: "- v = Vec4 (- X4 v) (- Y4 v) (- Z4 v) (- W4 v)"
  by (simp add: uminus_vec4_is vec4_uminus_def)

definition vec4_times :: "'a::times vec4 \<Rightarrow> 'a vec4 \<Rightarrow> 'a vec4" where
  "vec4_times v w = Vec4 (X4 v * X4 w) (Y4 v * Y4 w) (Z4 v * Z4 w) (W4 v * W4 w)"

instantiation vec4 :: (times) times
begin
definition times_vec4 :: "'a vec4 \<Rightarrow> 'a vec4 \<Rightarrow> 'a vec4" where
  times_vec4_is: "times_vec4 = vec4_times"
instance ..
end

lemma times_vec4_def: "v * w = Vec4 (X4 v * X4 w) (Y4 v * Y4 w) (Z4 v * Z4 w) (W4 v * W4 w)"
  by (simp add: times_vec4_is vec4_times_def)

definition scale4 :: "'a::times vec4 \<Rightarrow> 'a \<Rightarrow> 'a vec4" where
  "scale4 v scalar = Vec4 (X4 v * scalar) (Y4 v * scalar) (Z4 v * scalar) (W4 v * scalar)"

definition div4 :: "'a::{zero, ord, divide} vec4 \<Rightarrow> 'a \<Rightarrow> 'a vec4 res" where
  "div4 v scalar =
     (if ceq scalar 0 then Inl DivisionByZeroException
      else Inr (Vec4 (X4 v div scalar) (Y4 v div scalar) (Z4 v div scalar) (W4 v div scalar)))"

definition divv4 :: "'a::{zero, ord, divide} vec4 \<Rightarrow> 'a vec4 \<Rightarrow> 'a vec4 res" where
  "divv4 v w =
     (if ceq (X4 w) 0 \<or> ceq (Y4 w) 0 \<or> ceq (Z4 w) 0 \<or> ceq (W4 w) 0 then Inl DivisionByZeroException
      else Inr (Vec4 (X4 v div X4 w) (Y4 v div Y4 w) (Z4 v div Z4 w) (W4 v div W4 w)))"

definition eq4 :: "'a::ord vec4 \<Rightarrow> 'a vec4 \<Rightarrow> bool" where
  "eq4 v w \<longleftrightarrow> ceq (X4 v) (X4 w) \<and> ceq (Y4 v) (Y4 w) \<and> ceq (Z4 v) (Z4 w) \<and> ceq (W4 v) (W4 w)"

definition neq4 :: "'a::ord vec4 \<Rightarrow> 'a vec4 \<Rightarrow> bool" where
  "neq4 v w \<longleftrightarrow> \<not> eq4 v w"

definition index4 :: "'a vec4 \<Rightarrow> int \<Rightarrow> 'a res" where
  "index4 v index =
     (if index = 0 then Inr (X4 v) else if index = 1 then Inr (Y4 v) else if index = 2 then Inr (Z4 v)
      else if index = 3 then Inr (W4 v) else Inl OutOfRangeException)"

definition cast4 :: "('a \<Rightarrow> 'b) \<Rightarrow> 'a vec4 \<Rightarrow> 'b vec4" where
  "cast4 cast v = Vec4 (cast (X4 v)) (cast (Y4 v)) (cast (Z4 v)) (cast (W4 v))"

definition Abs4 :: "'a::{zero, ord, uminus} vec4 \<Rightarrow> 'a vec4" where
  "Abs4 v = Vec4 (std_abs (X4 v)) (std_abs (Y4 v)) (std_abs (Z4 v)) (std_abs (W4 v))"

definition Dot4 :: "'a::{plus, times} vec4 \<Rightarrow> 'a vec4 \<Rightarrow> 'a" where
  "Dot4 v w = X4 v * X4 w + Y4 v * Y4 w + Z4 v * Z4 w + W4 v * W4 w"

definition Length4 :: "('a \<Rightarrow> 'a) \<Rightarrow> 'a::{plus, times} vec4 \<Rightarrow> 'a" where
  "Length4 sq v = sq (X4 v * X4 v + Y4 v * Y4 v + Z4 v * Z4 v + W4 v * W4 v)"

definition Lerp4 :: "'a::{plus, minus, times} vec4 \<Rightarrow> 'a vec4 \<Rightarrow> 'a \<Rightarrow> 'a vec4" where
  "Lerp4 v w t = v + scale4 (w - v) t"

definition Distance4 :: "('a \<Rightarrow> 'a) \<Rightarrow> 'a::{plus, minus, times} vec4 \<Rightarrow> 'a vec4 \<Rightarrow> 'a" where
  "Distance4 sq v w = Length4 sq (v - w)"

section \<open>Facts\<close>

lemma vec3_sel [simp]:
  "X3 (v + w) = X3 v + X3 w" "Y3 (v + w) = Y3 v + Y3 w" "Z3 (v + w) = Z3 v + Z3 w"
  "X3 (a - b) = X3 a - X3 b" "Y3 (a - b) = Y3 a - Y3 b" "Z3 (a - b) = Z3 a - Z3 b"
  "X3 (scale3 u s) = X3 u * s" "Y3 (scale3 u s) = Y3 u * s" "Z3 (scale3 u s) = Z3 u * s"
  "X3 (div3 c d) = X3 c div d" "Y3 (div3 c d) = Y3 c div d" "Z3 (div3 c d) = Z3 c div d"
  by (simp_all add: plus_vec3_def minus_vec3_def scale3_def div3_def)

lemma vec3_eq_iff: "v = w \<longleftrightarrow> X3 v = X3 w \<and> Y3 v = Y3 w \<and> Z3 v = Z3 w"
  by (cases v; cases w) simp

lemma Dot3_linear:
  fixes v :: "'a::linordered_field vec3"
  shows "Dot3 (v + w) n = Dot3 v n + Dot3 w n" "Dot3 (v - w) n = Dot3 v n - Dot3 w n"
    "Dot3 (scale3 v s) n = s * Dot3 v n" "Dot3 v n = Dot3 n v"
  by (simp_all add: Dot3_def algebra_simps)

lemma Dot3_self_eq_0 [simp]: "Dot3 v v = 0 \<longleftrightarrow> v = (Zero3 :: 'a::linordered_field vec3)"
proof -
  have "Dot3 v v = 0 \<longleftrightarrow> X3 v * X3 v + Y3 v * Y3 v = 0 \<and> Z3 v * Z3 v = 0"
    unfolding Dot3_def by (rule add_nonneg_eq_0_iff) simp_all
  then show ?thesis by (auto simp: vec3_eq_iff Zero3_def sum_squares_eq_zero_iff)
qed

lemma Length3_real: "Length3 sqrt v = sqrt (Dot3 v v)"
  by (simp add: Length3_def Dot3_def)

lemma Dot3_nonneg: "0 \<le> Dot3 v (v :: 'a::linordered_field vec3)"
  by (simp add: Dot3_def)

lemma Normalized3_real:
  "Normalized3 sqrt v = (if v = Zero3 then Inl DivisionByZeroException else Inr (div3 v (Length3 sqrt v)))"
  by (simp add: Normalized3_def Let_def Length3_real)

lemma unit_div3:
  assumes "v \<noteq> Zero3"
  shows "Dot3 (div3 v (Length3 sqrt v)) (div3 v (Length3 sqrt v)) = 1"
proof -
  define l where "l = Length3 sqrt v"
  have "l * l = Dot3 v v" by (simp add: l_def Length3_real Dot3_nonneg)
  moreover have "l \<noteq> 0" using assms by (simp add: l_def Length3_real)
  moreover have "Dot3 (div3 v l) (div3 v l) = Dot3 v v / (l * l)"
    by (simp add: Dot3_def add_divide_distrib)
  ultimately show ?thesis using assms unfolding l_def [symmetric] by simp
qed

text \<open>The cross product is orthogonal to its factors and satisfies Lagrange's identity.\<close>

lemma CrossProduct_orthogonal:
  fixes v :: "'a::linordered_field vec3"
  shows "Dot3 (CrossProduct v w) v = 0" "Dot3 (CrossProduct v w) w = 0"
  by (simp_all add: Dot3_def CrossProduct_def algebra_simps)

lemma CrossProduct_Lagrange:
  fixes v :: "'a::linordered_field vec3"
  shows "Dot3 (CrossProduct v w) (CrossProduct v w) = Dot3 v v * Dot3 w w - Dot3 v w * Dot3 v w"
  by (simp add: Dot3_def CrossProduct_def algebra_simps)

text \<open>\<open>Reflect\<close> of three components is a reflection: it keeps the length.\<close>

lemma Reflect3_keeps_length:
  assumes "Reflect3 sqrt v w = Inr u"
  shows "Dot3 u u = Dot3 v v"
proof -
  let ?n = "div3 w (Length3 sqrt w)"
  have w: "w \<noteq> Zero3" using assms by (auto simp: Reflect3_def Normalized3_real)
  then have u: "u = v - scale3 ?n (2 * Dot3 v ?n)" using assms by (simp add: Reflect3_def Normalized3_real)
  define n where "n = ?n"
  have n: "Dot3 n n = 1" using unit_div3 [OF w] by (simp add: n_def)
  have "Dot3 u u = Dot3 v v - 4 * Dot3 v n * Dot3 v n + 4 * Dot3 v n * Dot3 v n * Dot3 n n"
    unfolding u n_def [symmetric] by (simp add: Dot3_def algebra_simps)
  with n show ?thesis by simp
qed

text \<open>The test for parallel vectors is the test for perpendicular ones.\<close>

lemma parallel_is_perpendicular: "IsParallel3 v w = IsPerpendicular3 v w"
  by (simp add: IsParallel3_def IsPerpendicular3_def)

lemma parallel_wrong: "\<not> IsParallel3 (Right3 :: real vec3) Right3" "IsParallel3 (Right3 :: real vec3) Up3"
  by (simp_all add: IsParallel3_def Right3_def Up3_def Dot3_def)

lemma vec4_sel [simp]:
  "X4 (v + w) = X4 v + X4 w" "Y4 (v + w) = Y4 v + Y4 w" "Z4 (v + w) = Z4 v + Z4 w" "W4 (v + w) = W4 v + W4 w"
  "X4 (a - b) = X4 a - X4 b" "Y4 (a - b) = Y4 a - Y4 b" "Z4 (a - b) = Z4 a - Z4 b" "W4 (a - b) = W4 a - W4 b"
  "X4 (scale4 u s) = X4 u * s" "Y4 (scale4 u s) = Y4 u * s" "Z4 (scale4 u s) = Z4 u * s" "W4 (scale4 u s) = W4 u * s"
  by (simp_all add: plus_vec4_def minus_vec4_def scale4_def)

lemma vec4_eq_iff: "v = w \<longleftrightarrow> X4 v = X4 w \<and> Y4 v = Y4 w \<and> Z4 v = Z4 w \<and> W4 v = W4 w"
  by (cases v; cases w) simp

end
