(* ===== verification/Matrix.thy ===== *)
theory Matrix
  imports Vec3
begin

text \<open>
  \<open>libs/Math/include/Mat2x2.h\<close>, \<open>Mat3x3.h\<close> and \<open>Mat4x4.h\<close>. A matrix is its rows. The loops over \<open>row\<close> and \<open>col\<close>
  that fill a matrix are \<open>build3\<close> and \<open>build4\<close>, and the array access \<open>Val[row][col]\<close> is \<open>val3\<close> and \<open>val4\<close>. The
  2x2 matrix declares an array of 3x3 and uses four elements of it. \<open>cast\<close> is the conversion between
  number types and \<open>quot\<close> the division of the first type, which truncates for integers.
\<close>

section \<open>Two by two\<close>

datatype 'a mat2 = Mat2 (M00: 'a) (M01: 'a) (M10: 'a) (M11: 'a)

text \<open>The constructor takes columns.\<close>

definition Mat2x2 :: "'a vec2 \<Rightarrow> 'a vec2 \<Rightarrow> 'a mat2" where
  "Mat2x2 a b = Mat2 (X a) (X b) (Y a) (Y b)"

definition Identity2 :: "'a::{zero, one} mat2" where
  "Identity2 = Mat2x2 (Vec2 1 0) (Vec2 0 1)"

definition Det2 :: "'a::{minus, times} mat2 \<Rightarrow> 'a" where
  "Det2 m = M00 m * M11 m - M01 m * M10 m"

definition Transposed2 :: "'a mat2 \<Rightarrow> 'a mat2" where
  "Transposed2 m = Mat2x2 (Vec2 (M00 m) (M01 m)) (Vec2 (M10 m) (M11 m))"

definition mscale2 :: "'a::times mat2 \<Rightarrow> 'a \<Rightarrow> 'a mat2" where
  "mscale2 m scalar =
     Mat2x2 (Vec2 (M00 m * scalar) (M10 m * scalar)) (Vec2 (M01 m * scalar) (M11 m * scalar))"

definition mcast2 :: "('a \<Rightarrow> 'b) \<Rightarrow> 'a mat2 \<Rightarrow> 'b mat2" where
  "mcast2 cast m = Mat2x2 (Vec2 (cast (M00 m)) (cast (M10 m))) (Vec2 (cast (M01 m)) (cast (M11 m)))"

definition Inverted2 ::
  "('a \<Rightarrow> 'b) \<Rightarrow> 'a::{zero, one, ord, minus, uminus, times} mat2 \<Rightarrow> 'b::{one, times, divide} mat2 res" where
  "Inverted2 cast m =
     (if ceq (Det2 m) 0 then Inl DivisionByZeroException
      else
        let a = Mat2x2 (Vec2 (M11 m) (M10 m * (- 1))) (Vec2 (M01 m * (- 1)) (M00 m))
        in Inr (mscale2 (mcast2 cast a) (cast 1 div cast (Det2 m))))"

definition mat2_plus :: "'a::plus mat2 \<Rightarrow> 'a mat2 \<Rightarrow> 'a mat2" where
  "mat2_plus m other =
     Mat2x2 (Vec2 (M00 m + M00 other) (M10 m + M10 other)) (Vec2 (M01 m + M01 other) (M11 m + M11 other))"

instantiation mat2 :: (plus) plus
begin
definition plus_mat2 :: "'a mat2 \<Rightarrow> 'a mat2 \<Rightarrow> 'a mat2" where
  plus_mat2_is: "plus_mat2 = mat2_plus"
instance ..
end

definition mat2_minus :: "'a::minus mat2 \<Rightarrow> 'a mat2 \<Rightarrow> 'a mat2" where
  "mat2_minus m other =
     Mat2x2 (Vec2 (M00 m - M00 other) (M01 m - M01 other)) (Vec2 (M10 m - M10 other) (M11 m - M11 other))"

instantiation mat2 :: (minus) minus
begin
definition minus_mat2 :: "'a mat2 \<Rightarrow> 'a mat2 \<Rightarrow> 'a mat2" where
  minus_mat2_is: "minus_mat2 = mat2_minus"
instance ..
end

lemma minus_mat2_def:
  "m - other =
     Mat2x2 (Vec2 (M00 m - M00 other) (M01 m - M01 other)) (Vec2 (M10 m - M10 other) (M11 m - M11 other))"
  by (simp add: minus_mat2_is mat2_minus_def)

definition times_mat2 :: "'a::{plus, times} mat2 \<Rightarrow> 'a mat2 \<Rightarrow> 'a mat2" where
  "times_mat2 m other =
     Mat2x2 (Vec2 (M00 m * M00 other + M01 m * M10 other) (M10 m * M00 other + M11 m * M10 other))
            (Vec2 (M00 m * M01 other + M01 m * M11 other) (M10 m * M01 other + M11 m * M11 other))"

definition mvec2 :: "'a::{plus, times} mat2 \<Rightarrow> 'a vec2 \<Rightarrow> 'a vec2" where
  "mvec2 m v = Vec2 (M00 m * X v + M01 m * Y v) (M10 m * X v + M11 m * Y v)"

section \<open>Three by three\<close>

datatype 'a mat3 = Mat3 (Row0: "'a vec3") (Row1: "'a vec3") (Row2: "'a vec3")

definition pick3 :: "'a vec3 \<Rightarrow> nat \<Rightarrow> 'a" where
  "pick3 v i = (if i = 0 then X3 v else if i = 1 then Y3 v else Z3 v)"

definition val3 :: "'a mat3 \<Rightarrow> nat \<Rightarrow> nat \<Rightarrow> 'a" where
  "val3 m r c = pick3 (if r = 0 then Row0 m else if r = 1 then Row1 m else Row2 m) c"

definition buildv3 :: "(nat \<Rightarrow> 'a) \<Rightarrow> 'a vec3" where
  "buildv3 f = Vec3 (f 0) (f 1) (f 2)"

definition build3 :: "(nat \<Rightarrow> nat \<Rightarrow> 'a) \<Rightarrow> 'a mat3" where
  "build3 f = Mat3 (buildv3 (f 0)) (buildv3 (f 1)) (buildv3 (f 2))"

definition Mat3x3 :: "'a vec3 \<Rightarrow> 'a vec3 \<Rightarrow> 'a vec3 \<Rightarrow> 'a mat3" where
  "Mat3x3 a b c = build3 (\<lambda>row col. pick3 (if col = 0 then a else if col = 1 then b else c) row)"

definition Identity3 :: "'a::{zero, one} mat3" where
  "Identity3 = Mat3x3 (Vec3 1 0 0) (Vec3 0 1 0) (Vec3 0 0 1)"

definition mat3_plus :: "'a::plus mat3 \<Rightarrow> 'a mat3 \<Rightarrow> 'a mat3" where
  "mat3_plus m n = build3 (\<lambda>row col. val3 m row col + val3 n row col)"

instantiation mat3 :: (plus) plus
begin
definition plus_mat3 :: "'a mat3 \<Rightarrow> 'a mat3 \<Rightarrow> 'a mat3" where
  plus_mat3_is: "plus_mat3 = mat3_plus"
instance ..
end

definition mat3_minus :: "'a::minus mat3 \<Rightarrow> 'a mat3 \<Rightarrow> 'a mat3" where
  "mat3_minus m n = build3 (\<lambda>row col. val3 m row col - val3 n row col)"

instantiation mat3 :: (minus) minus
begin
definition minus_mat3 :: "'a mat3 \<Rightarrow> 'a mat3 \<Rightarrow> 'a mat3" where
  minus_mat3_is: "minus_mat3 = mat3_minus"
instance ..
end

definition times_mat3 :: "'a::{zero, plus, times} mat3 \<Rightarrow> 'a mat3 \<Rightarrow> 'a mat3" where
  "times_mat3 m n =
     build3 (\<lambda>row col. foldl (\<lambda>sum k. sum + val3 m row k * val3 n k col) 0 [0..<3])"

definition mscale3 :: "'a::times mat3 \<Rightarrow> 'a \<Rightarrow> 'a mat3" where
  "mscale3 m scalar = build3 (\<lambda>row col. val3 m row col * scalar)"

definition mvec3 :: "'a::{zero, plus, times} mat3 \<Rightarrow> 'a vec3 \<Rightarrow> 'a vec3" where
  "mvec3 m v = buildv3 (\<lambda>row. foldl (\<lambda>internResult j. internResult + val3 m row j * pick3 v j) 0 [0..<3])"

definition mcast3 :: "('a \<Rightarrow> 'b) \<Rightarrow> 'a mat3 \<Rightarrow> 'b mat3" where
  "mcast3 cast m = build3 (\<lambda>row col. cast (val3 m row col))"

definition Det3 :: "'a::{plus, minus, times} mat3 \<Rightarrow> 'a" where
  "Det3 m =
     val3 m 0 0 * val3 m 1 1 * val3 m 2 2 + val3 m 0 1 * val3 m 1 2 * val3 m 2 0
     + val3 m 0 2 * val3 m 1 0 * val3 m 2 1 - val3 m 2 0 * val3 m 1 1 * val3 m 0 2
     - val3 m 2 1 * val3 m 1 2 * val3 m 0 0 - val3 m 2 2 * val3 m 1 0 * val3 m 0 1"

definition Transposed3 :: "'a mat3 \<Rightarrow> 'a mat3" where
  "Transposed3 m = build3 (\<lambda>row col. val3 m col row)"

text \<open>The loops that build a sub-matrix skip one index; \<open>others n k ! i\<close> is the index copied to \<open>i\<close>.\<close>

definition others :: "nat \<Rightarrow> nat \<Rightarrow> nat list" where
  "others n k = filter (\<lambda>i. i \<noteq> k) [0..<n]"

definition sub3 :: "'a mat3 \<Rightarrow> nat \<Rightarrow> nat \<Rightarrow> 'a mat2" where
  "sub3 m row col =
     Mat2 (val3 m (others 3 row ! 0) (others 3 col ! 0)) (val3 m (others 3 row ! 0) (others 3 col ! 1))
          (val3 m (others 3 row ! 1) (others 3 col ! 0)) (val3 m (others 3 row ! 1) (others 3 col ! 1))"

definition alternating :: "nat \<Rightarrow> 'a::{one, uminus}" where
  "alternating i = (if i mod 2 = 0 then 1 else - 1)"

definition cofactor3 ::
  "('a \<Rightarrow> 'b) \<Rightarrow> 'a::{one, uminus} mat3 \<Rightarrow> 'b::{minus, times} mat3" where
  "cofactor3 cast m =
     build3 (\<lambda>row col. Det2 (mcast2 cast (sub3 m row col)) * cast (alternating (col + row)))"

definition Inverted3 ::
  "('a \<Rightarrow> 'a \<Rightarrow> 'a) \<Rightarrow> ('a \<Rightarrow> 'b) \<Rightarrow> 'a::{zero, one, ord, plus, minus, uminus, times} mat3
     \<Rightarrow> 'b::{minus, times} mat3 res" where
  "Inverted3 quot cast m =
     (if ceq (Det3 m) 0 then Inl DivisionByZeroException
      else Inr (mscale3 (Transposed3 (cofactor3 cast m)) (cast (quot 1 (Det3 m)))))"

section \<open>Four by four\<close>

datatype 'a mat4 = Mat4 (Line0: "'a vec4") (Line1: "'a vec4") (Line2: "'a vec4") (Line3: "'a vec4")

definition pick4 :: "'a vec4 \<Rightarrow> nat \<Rightarrow> 'a" where
  "pick4 v i = (if i = 0 then X4 v else if i = 1 then Y4 v else if i = 2 then Z4 v else W4 v)"

definition val4 :: "'a mat4 \<Rightarrow> nat \<Rightarrow> nat \<Rightarrow> 'a" where
  "val4 m r c =
     pick4 (if r = 0 then Line0 m else if r = 1 then Line1 m else if r = 2 then Line2 m else Line3 m) c"

definition buildv4 :: "(nat \<Rightarrow> 'a) \<Rightarrow> 'a vec4" where
  "buildv4 f = Vec4 (f 0) (f 1) (f 2) (f 3)"

definition build4 :: "(nat \<Rightarrow> nat \<Rightarrow> 'a) \<Rightarrow> 'a mat4" where
  "build4 f = Mat4 (buildv4 (f 0)) (buildv4 (f 1)) (buildv4 (f 2)) (buildv4 (f 3))"

definition Mat4x4 :: "'a vec4 \<Rightarrow> 'a vec4 \<Rightarrow> 'a vec4 \<Rightarrow> 'a vec4 \<Rightarrow> 'a mat4" where
  "Mat4x4 a b c d =
     build4 (\<lambda>row col. pick4 (if col = 0 then a else if col = 1 then b else if col = 2 then c else d) row)"

definition Identity4 :: "'a::{zero, one} mat4" where
  "Identity4 = Mat4x4 (Vec4 1 0 0 0) (Vec4 0 1 0 0) (Vec4 0 0 1 0) (Vec4 0 0 0 1)"

definition mat4_plus :: "'a::plus mat4 \<Rightarrow> 'a mat4 \<Rightarrow> 'a mat4" where
  "mat4_plus m n = build4 (\<lambda>row col. val4 m row col + val4 n row col)"

instantiation mat4 :: (plus) plus
begin
definition plus_mat4 :: "'a mat4 \<Rightarrow> 'a mat4 \<Rightarrow> 'a mat4" where
  plus_mat4_is: "plus_mat4 = mat4_plus"
instance ..
end

definition mat4_minus :: "'a::minus mat4 \<Rightarrow> 'a mat4 \<Rightarrow> 'a mat4" where
  "mat4_minus m n = build4 (\<lambda>row col. val4 m row col - val4 n row col)"

instantiation mat4 :: (minus) minus
begin
definition minus_mat4 :: "'a mat4 \<Rightarrow> 'a mat4 \<Rightarrow> 'a mat4" where
  minus_mat4_is: "minus_mat4 = mat4_minus"
instance ..
end

definition times_mat4 :: "'a::{zero, plus, times} mat4 \<Rightarrow> 'a mat4 \<Rightarrow> 'a mat4" where
  "times_mat4 m n =
     build4 (\<lambda>row col. foldl (\<lambda>sum k. sum + val4 m row k * val4 n k col) 0 [0..<4])"

definition mscale4 :: "'a::times mat4 \<Rightarrow> 'a \<Rightarrow> 'a mat4" where
  "mscale4 m scalar = build4 (\<lambda>row col. val4 m row col * scalar)"

definition mvec4 :: "'a::{zero, plus, times} mat4 \<Rightarrow> 'a vec4 \<Rightarrow> 'a vec4" where
  "mvec4 m v = buildv4 (\<lambda>row. foldl (\<lambda>internResult j. internResult + val4 m row j * pick4 v j) 0 [0..<4])"

definition mcast4 :: "('a \<Rightarrow> 'b) \<Rightarrow> 'a mat4 \<Rightarrow> 'b mat4" where
  "mcast4 cast m = build4 (\<lambda>row col. cast (val4 m row col))"

definition sub4 :: "'a mat4 \<Rightarrow> nat \<Rightarrow> nat \<Rightarrow> 'a mat3" where
  "sub4 m row col = build3 (\<lambda>subMatRow subMatCol. val4 m (others 4 row ! subMatRow) (others 4 col ! subMatCol))"

definition Det4 :: "'a::{zero, one, plus, minus, uminus, times} mat4 \<Rightarrow> 'a" where
  "Det4 m =
     foldl (\<lambda>detA col. detA + alternating (1 + (col + 1)) * val4 m 0 col * Det3 (sub4 m 0 col)) 0 [0..<4]"

definition Transposed4 :: "'a mat4 \<Rightarrow> 'a mat4" where
  "Transposed4 m = build4 (\<lambda>row col. val4 m col row)"

definition cofactor4 ::
  "('a \<Rightarrow> 'b) \<Rightarrow> 'a::{one, uminus} mat4 \<Rightarrow> 'b::{plus, minus, times} mat4" where
  "cofactor4 cast m =
     build4 (\<lambda>row col. Det3 (mcast3 cast (sub4 m row col)) * cast (alternating (col + row)))"

definition Inverted4 ::
  "('a \<Rightarrow> 'a \<Rightarrow> 'a) \<Rightarrow> ('a \<Rightarrow> 'b) \<Rightarrow> 'a::{zero, one, ord, plus, minus, uminus, times} mat4
     \<Rightarrow> 'b::{plus, minus, times} mat4 res" where
  "Inverted4 quot cast m =
     (if ceq (Det4 m) 0 then Inl DivisionByZeroException
      else Inr (mscale4 (Transposed4 (cofactor4 cast m)) (cast (quot 1 (Det4 m)))))"

end
