(* ===== verification/Matrix_Laws.thy ===== *)
theory Matrix_Laws
  imports Matrix "HOL-Library.Signed_Division"
begin

text \<open>
  The algebra of the matrices over exact numbers: the 3x3 and 4x4 templates share one contract, a
  square array with element access and a product loop, and the laws of the product are proved once from
  it. The inverse is the adjugate over the determinant.
\<close>

section \<open>Square matrices\<close>

text \<open>\<open>n\<close> rows and columns, access, construction by loops, and the product loop.\<close>

locale square_matrix =
  fixes n :: nat
    and val :: "'m \<Rightarrow> nat \<Rightarrow> nat \<Rightarrow> 'a::comm_ring_1"
    and build :: "(nat \<Rightarrow> nat \<Rightarrow> 'a) \<Rightarrow> 'm"
    and mul :: "'m \<Rightarrow> 'm \<Rightarrow> 'm"
    and one :: 'm
    and transp :: "'m \<Rightarrow> 'm"
  assumes val_build: "r < n \<Longrightarrow> c < n \<Longrightarrow> val (build f) r c = f r c"
    and val_eqI: "(\<And>r c. r < n \<Longrightarrow> c < n \<Longrightarrow> val m r c = val m' r c) \<Longrightarrow> m = m'"
    and mul_loop: "mul m m' = build (\<lambda>r c. foldl (\<lambda>s k. s + val m r k * val m' k c) 0 [0..<n])"
    and one_val: "r < n \<Longrightarrow> c < n \<Longrightarrow> val one r c = (if r = c then 1 else 0)"
    and transp_loop: "transp m = build (\<lambda>r c. val m c r)"
begin

lemma loop_sum: "foldl (\<lambda>s k. s + f k) 0 [0..<k] = (\<Sum>i<k. f i :: 'a)"
  by (induction k) (simp_all add: lessThan_Suc add.commute)

lemma val_mul: "r < n \<Longrightarrow> c < n \<Longrightarrow> val (mul m m') r c = (\<Sum>k<n. val m r k * val m' k c)"
  by (simp add: mul_loop val_build loop_sum)

lemma mul_assoc: "mul (mul a b) c = mul a (mul b c)"
proof (rule val_eqI)
  fix i j assume ij: "i < n" "j < n"
  have "val (mul (mul a b) c) i j = (\<Sum>k<n. (\<Sum>l<n. val a i l * val b l k) * val c k j)"
    using ij by (simp add: val_mul)
  also have "\<dots> = (\<Sum>k<n. \<Sum>l<n. val a i l * (val b l k * val c k j))"
    by (simp add: sum_distrib_right mult.assoc)
  also have "\<dots> = (\<Sum>l<n. \<Sum>k<n. val a i l * (val b l k * val c k j))" by (rule sum.swap)
  also have "\<dots> = val (mul a (mul b c)) i j" using ij by (simp add: val_mul sum_distrib_left)
  finally show "val (mul (mul a b) c) i j = val (mul a (mul b c)) i j" .
qed

lemma mul_one: "mul one m = m" "mul m one = m"
  by (rule val_eqI; simp add: val_mul one_val if_distrib [of "\<lambda>x. x * _"] if_distrib [of "\<lambda>x. _ * x"]
      sum.delta sum.delta' cong: if_cong)+

lemma transp_mul: "transp (mul a b) = mul (transp b) (transp a)"
  by (rule val_eqI) (simp add: val_mul transp_loop val_build mult.commute)

lemma transp_transp: "transp (transp m) = m"
  by (rule val_eqI) (simp add: transp_loop val_build)

lemma inverse_unique:
  assumes "mul a b = one" "mul b c = one"
  shows "a = c"
  using assms mul_assoc [of a b c] by (simp add: mul_one)

end

lemma less3: "r < 3 \<longleftrightarrow> r = 0 \<or> r = 1 \<or> r = (2::nat)"
  by auto

lemma less4: "r < 4 \<longleftrightarrow> r = 0 \<or> r = 1 \<or> r = 2 \<or> r = (3::nat)"
  by auto

lemma vec3_pickI:
  assumes "\<And>c. c < 3 \<Longrightarrow> pick3 v c = pick3 w c"
  shows "v = w"
  using assms [of 0] assms [of 1] assms [of 2] by (simp add: pick3_def vec3_eq_iff)

lemma vec4_pickI:
  assumes "\<And>c. c < 4 \<Longrightarrow> pick4 v c = pick4 w c"
  shows "v = w"
  using assms [of 0] assms [of 1] assms [of 2] assms [of 3] by (simp add: pick4_def vec4_eq_iff)

lemma val3_eqI:
  assumes "\<And>r c. r < 3 \<Longrightarrow> c < 3 \<Longrightarrow> val3 m r c = val3 m' r c"
  shows "m = m'"
proof (rule mat3.expand, intro conjI)
  show "Row0 m = Row0 m'" using assms [of 0] by (intro vec3_pickI) (simp add: val3_def)
  show "Row1 m = Row1 m'" using assms [of 1] by (intro vec3_pickI) (simp add: val3_def)
  show "Row2 m = Row2 m'" using assms [of 2] by (intro vec3_pickI) (simp add: val3_def)
qed

lemma val4_eqI:
  assumes "\<And>r c. r < 4 \<Longrightarrow> c < 4 \<Longrightarrow> val4 m r c = val4 m' r c"
  shows "m = m'"
proof (rule mat4.expand, intro conjI)
  show "Line0 m = Line0 m'" using assms [of 0] by (intro vec4_pickI) (simp add: val4_def)
  show "Line1 m = Line1 m'" using assms [of 1] by (intro vec4_pickI) (simp add: val4_def)
  show "Line2 m = Line2 m'" using assms [of 2] by (intro vec4_pickI) (simp add: val4_def)
  show "Line3 m = Line3 m'" using assms [of 3] by (intro vec4_pickI) (simp add: val4_def)
qed

lemma val3_build3: "r < 3 \<Longrightarrow> c < 3 \<Longrightarrow> val3 (build3 f) r c = f r c"
  by (auto simp: less3 val3_def build3_def buildv3_def pick3_def)

lemma val4_build4: "r < 4 \<Longrightarrow> c < 4 \<Longrightarrow> val4 (build4 f) r c = f r c"
  by (auto simp: less4 val4_def build4_def buildv4_def pick4_def)

lemma Identity3_val: "r < 3 \<Longrightarrow> c < 3 \<Longrightarrow> val3 Identity3 r c = (if r = c then 1 else 0)"
  by (auto simp: less3 Identity3_def Mat3x3_def val3_build3 pick3_def)

lemma Identity4_val: "r < 4 \<Longrightarrow> c < 4 \<Longrightarrow> val4 Identity4 r c = (if r = c then 1 else 0)"
  by (auto simp: less4 Identity4_def Mat4x4_def val4_build4 pick4_def)

interpretation mat3: square_matrix 3 val3 build3 times_mat3 Identity3 Transposed3
  by unfold_locales (simp_all add: val3_build3 times_mat3_def Identity3_val Transposed3_def val3_eqI)

interpretation mat4: square_matrix 4 val4 build4 times_mat4 Identity4 Transposed4
  by unfold_locales (simp_all add: val4_build4 times_mat4_def Identity4_val Transposed4_def val4_eqI)

section \<open>Inverses\<close>

lemma mat2_sel [simp]:
  "M00 (Mat2x2 a b) = X a" "M01 (Mat2x2 a b) = X b" "M10 (Mat2x2 a b) = Y a" "M11 (Mat2x2 a b) = Y b"
  by (simp_all add: Mat2x2_def)

lemma mat2_eq_iff: "m = n \<longleftrightarrow> M00 m = M00 n \<and> M01 m = M01 n \<and> M10 m = M10 n \<and> M11 m = M11 n"
  by (cases m; cases n) simp

lemma others3: "others 3 0 = [1, 2]" "others 3 (Suc 0) = [0, 2]" "others 3 1 = [0, 2]" "others 3 2 = [0, 1]"
  by (simp_all add: others_def upt_rec)

lemma others4: "others 4 0 = [1, 2, 3]" "others 4 (Suc 0) = [0, 2, 3]" "others 4 1 = [0, 2, 3]"
    "others 4 2 = [0, 1, 3]" "others 4 3 = [0, 1, 2]"
  by (simp_all add: others_def upt_rec)

lemma upt34: "[0..<3] = [0, 1, 2::nat]" "[0..<4] = [0, 1, 2, 3::nat]"
  by (simp_all add: upt_rec)

text \<open>The adjugate times the matrix is the determinant times the identity.\<close>

lemma adjugate3:
  fixes m :: "'a::linordered_field mat3"
  assumes "r < 3" "c < 3"
  shows "(\<Sum>k<3. val3 (Transposed3 (cofactor3 (\<lambda>x. x) m)) r k * val3 m k c) = (if r = c then Det3 m else 0)"
    "(\<Sum>k<3. val3 m r k * val3 (Transposed3 (cofactor3 (\<lambda>x. x) m)) k c) = (if r = c then Det3 m else 0)"
proof -
  have s: "(\<Sum>k<3. f k) = f 0 + f 1 + f 2" for f :: "nat \<Rightarrow> 'a" by (simp add: numeral_eq_Suc)
  note adj = Transposed3_def val3_build3 cofactor3_def sub3_def others3 mcast2_def Det2_def alternating_def Det3_def
  show "(\<Sum>k<3. val3 (Transposed3 (cofactor3 (\<lambda>x. x) m)) r k * val3 m k c) = (if r = c then Det3 m else 0)"
    using assms unfolding less3 by (elim disjE; simp add: s adj; simp add: algebra_simps)
  show "(\<Sum>k<3. val3 m r k * val3 (Transposed3 (cofactor3 (\<lambda>x. x) m)) k c) = (if r = c then Det3 m else 0)"
    using assms unfolding less3 by (elim disjE; simp add: s adj; simp add: algebra_simps)
qed

lemma adjugate4:
  fixes m :: "'a::linordered_field mat4"
  assumes "r < 4" "c < 4"
  shows "(\<Sum>k<4. val4 (Transposed4 (cofactor4 (\<lambda>x. x) m)) r k * val4 m k c) = (if r = c then Det4 m else 0)"
    "(\<Sum>k<4. val4 m r k * val4 (Transposed4 (cofactor4 (\<lambda>x. x) m)) k c) = (if r = c then Det4 m else 0)"
proof -
  have s: "(\<Sum>k<4. f k) = f 0 + f 1 + f 2 + f 3" for f :: "nat \<Rightarrow> 'a" by (simp add: numeral_eq_Suc)
  note adj = Transposed4_def val4_build4 val3_build3 cofactor4_def sub4_def others4 mcast3_def Det3_def Det4_def
    alternating_def upt34
  show "(\<Sum>k<4. val4 (Transposed4 (cofactor4 (\<lambda>x. x) m)) r k * val4 m k c) = (if r = c then Det4 m else 0)"
    using assms unfolding less4 by (elim disjE; simp add: s adj; simp add: algebra_simps)
  show "(\<Sum>k<4. val4 m r k * val4 (Transposed4 (cofactor4 (\<lambda>x. x) m)) k c) = (if r = c then Det4 m else 0)"
    using assms unfolding less4 by (elim disjE; simp add: s adj; simp add: algebra_simps)
qed

text \<open>The inverses, where the determinant is not zero.\<close>

lemma Inverted2_field:
  fixes m :: "'a::linordered_field mat2"
  assumes "Det2 m \<noteq> 0"
  shows "\<exists>i. Inverted2 (\<lambda>x. x) m = Inr i \<and> times_mat2 i m = Identity2 \<and> times_mat2 m i = Identity2"
proof -
  define d where "d = Det2 m"
  let ?i = "Mat2x2 (Vec2 (M11 m * (1 / d)) (- M10 m * (1 / d))) (Vec2 (- M01 m * (1 / d)) (M00 m * (1 / d)))"
  have i: "Inverted2 (\<lambda>x. x) m = Inr ?i"
    using assms by (simp add: Inverted2_def Let_def mscale2_def mcast2_def mat2_eq_iff d_def)
  have d: "M00 m * M11 m - M01 m * M10 m = d" "d \<noteq> 0" using assms by (simp_all add: d_def Det2_def)
  have "times_mat2 ?i m = Identity2" "times_mat2 m ?i = Identity2"
    using d by (simp_all add: times_mat2_def Identity2_def mat2_eq_iff field_simps)
  with i show ?thesis by blast
qed

lemma Inverted3_field:
  fixes m :: "'a::linordered_field mat3"
  assumes "Det3 m \<noteq> 0"
  shows "\<exists>i. Inverted3 (/) (\<lambda>x. x) m = Inr i \<and> times_mat3 i m = Identity3 \<and> times_mat3 m i = Identity3"
proof -
  let ?a = "Transposed3 (cofactor3 (\<lambda>x. x) m)"
  let ?i = "mscale3 ?a (1 / Det3 m)"
  have v: "val3 ?i r c = val3 ?a r c * (1 / Det3 m)" if "r < 3" "c < 3" for r c
    using that by (simp add: mscale3_def val3_build3)
  have "times_mat3 ?i m = Identity3"
  proof (rule val3_eqI)
    fix r c :: nat assume rc: "r < 3" "c < 3"
    have "val3 (times_mat3 ?i m) r c = (\<Sum>k<3. val3 ?a r k * val3 m k c) / Det3 m"
      using rc by (simp add: mat3.val_mul v sum_divide_distrib)
    then show "val3 (times_mat3 ?i m) r c = val3 Identity3 r c" using rc assms by (simp add: adjugate3 Identity3_val)
  qed
  moreover have "times_mat3 m ?i = Identity3"
  proof (rule val3_eqI)
    fix r c :: nat assume rc: "r < 3" "c < 3"
    have "val3 (times_mat3 m ?i) r c = (\<Sum>k<3. val3 m r k * val3 ?a k c) / Det3 m"
      using rc by (simp add: mat3.val_mul v sum_divide_distrib)
    then show "val3 (times_mat3 m ?i) r c = val3 Identity3 r c" using rc assms by (simp add: adjugate3 Identity3_val)
  qed
  ultimately show ?thesis using assms by (simp add: Inverted3_def)
qed

lemma Inverted4_field:
  fixes m :: "'a::linordered_field mat4"
  assumes "Det4 m \<noteq> 0"
  shows "\<exists>i. Inverted4 (/) (\<lambda>x. x) m = Inr i \<and> times_mat4 i m = Identity4 \<and> times_mat4 m i = Identity4"
proof -
  let ?a = "Transposed4 (cofactor4 (\<lambda>x. x) m)"
  let ?i = "mscale4 ?a (1 / Det4 m)"
  have v: "val4 ?i r c = val4 ?a r c * (1 / Det4 m)" if "r < 4" "c < 4" for r c
    using that by (simp add: mscale4_def val4_build4)
  have "times_mat4 ?i m = Identity4"
  proof (rule val4_eqI)
    fix r c :: nat assume rc: "r < 4" "c < 4"
    have "val4 (times_mat4 ?i m) r c = (\<Sum>k<4. val4 ?a r k * val4 m k c) / Det4 m"
      using rc by (simp add: mat4.val_mul v sum_divide_distrib)
    then show "val4 (times_mat4 ?i m) r c = val4 Identity4 r c" using rc assms by (simp add: adjugate4 Identity4_val)
  qed
  moreover have "times_mat4 m ?i = Identity4"
  proof (rule val4_eqI)
    fix r c :: nat assume rc: "r < 4" "c < 4"
    have "val4 (times_mat4 m ?i) r c = (\<Sum>k<4. val4 m r k * val4 ?a k c) / Det4 m"
      using rc by (simp add: mat4.val_mul v sum_divide_distrib)
    then show "val4 (times_mat4 m ?i) r c = val4 Identity4 r c" using rc assms by (simp add: adjugate4 Identity4_val)
  qed
  ultimately show ?thesis using assms by (simp add: Inverted4_def)
qed

section \<open>Integers\<close>

text \<open>
  The reciprocal of the determinant is taken in the type of the matrix before it is converted, so an
  integer matrix whose determinant is not 1 or -1 has the zero matrix for its inverse.
\<close>

lemma one_sdiv: "1 < \<bar>d\<bar> \<Longrightarrow> 1 sdiv d = (0 :: int)"
  by (simp add: signed_divide_int_def)

lemma Inverted3_int:
  assumes "1 < \<bar>Det3 m\<bar>"
  shows "Inverted3 (sdiv) real_of_int m = Inr (build3 (\<lambda>_ _. 0))"
proof -
  have "val3 (mscale3 (Transposed3 (cofactor3 real_of_int m)) 0) r c = val3 (build3 (\<lambda>_ _. 0)) r c"
    if "r < 3" "c < 3" for r c using that by (simp add: mscale3_def val3_build3)
  then have "mscale3 (Transposed3 (cofactor3 real_of_int m)) 0 = build3 (\<lambda>_ _. 0)" by (rule val3_eqI)
  with assms show ?thesis by (auto simp: Inverted3_def one_sdiv)
qed

text \<open>The difference of two 2x2 matrices comes out transposed, since rows are passed where columns are meant.\<close>

lemma minus_mat2_transposed:
  "m - n = Transposed2 (Mat2 (M00 m - M00 n) (M01 m - M01 n) (M10 m - M10 n) (M11 m - M11 n))"
  by (simp add: minus_mat2_def Transposed2_def)

end
