(* ===== verification/Angle.thy ===== *)
theory Angle
  imports Vec3
begin

text \<open>
  \<open>libs/Math/include/Angle.h\<close>, the table lookups of \<open>Utility.h\<close>, and the functions of \<open>Vec2.h\<close> that use angles.
  The table of a lookup is an argument (the theory \<open>TrigoLUT\<close> holds them); \<open>to_int\<close> is the conversion of the
  number type to \<open>int\<close>, \<open>num\<close> the one back, and \<open>half_turn\<close> the literal for pi.
\<close>

section \<open>Degrees and radians\<close>

datatype 'a Degree = Degree (deg: 'a)
datatype 'a Radian = Radian (rad: 'a)

definition degree_plus :: "'a::plus Degree \<Rightarrow> 'a Degree \<Rightarrow> 'a Degree" where
  "degree_plus d degree = Degree (deg d + deg degree)"

instantiation Degree :: (plus) plus
begin
definition plus_Degree :: "'a Degree \<Rightarrow> 'a Degree \<Rightarrow> 'a Degree" where
  plus_Degree_is: "plus_Degree = degree_plus"
instance ..
end

definition degree_minus :: "'a::minus Degree \<Rightarrow> 'a Degree \<Rightarrow> 'a Degree" where
  "degree_minus d degree = Degree (deg d - deg degree)"

instantiation Degree :: (minus) minus
begin
definition minus_Degree :: "'a Degree \<Rightarrow> 'a Degree \<Rightarrow> 'a Degree" where
  minus_Degree_is: "minus_Degree = degree_minus"
instance ..
end

definition degree_uminus :: "'a::uminus Degree \<Rightarrow> 'a Degree" where
  "degree_uminus d = Degree (- deg d)"

instantiation Degree :: (uminus) uminus
begin
definition uminus_Degree :: "'a Degree \<Rightarrow> 'a Degree" where
  uminus_Degree_is: "uminus_Degree = degree_uminus"
instance ..
end

text \<open>\<open>d \<le> degree\<close> is the negation of \<open>d > degree\<close> in the source, so it holds of two angles that do not compare.\<close>

definition degree_less :: "'a::ord Degree \<Rightarrow> 'a Degree \<Rightarrow> bool" where
  "degree_less d degree \<longleftrightarrow> deg d < deg degree"

definition degree_less_eq :: "'a::ord Degree \<Rightarrow> 'a Degree \<Rightarrow> bool" where
  "degree_less_eq d degree \<longleftrightarrow> \<not> deg degree < deg d"

instantiation Degree :: (ord) ord
begin
definition less_Degree :: "'a Degree \<Rightarrow> 'a Degree \<Rightarrow> bool" where
  less_Degree_is: "less_Degree = degree_less"
definition less_eq_Degree :: "'a Degree \<Rightarrow> 'a Degree \<Rightarrow> bool" where
  less_eq_Degree_is: "less_eq_Degree = degree_less_eq"
instance ..
end

definition scale_deg :: "'a::times Degree \<Rightarrow> 'a \<Rightarrow> 'a Degree" where
  "scale_deg d scalar = Degree (deg d * scalar)"

definition div_deg :: "'a::{zero, ord, divide} Degree \<Rightarrow> 'a \<Rightarrow> 'a Degree res" where
  "div_deg d scalar = (if ceq scalar 0 then Inl DivisionByZeroException else Inr (Degree (deg d div scalar)))"

definition eq_deg :: "'a::ord Degree \<Rightarrow> 'a Degree \<Rightarrow> bool" where
  "eq_deg d degree \<longleftrightarrow> ceq (deg d) (deg degree)"

definition radian_plus :: "'a::plus Radian \<Rightarrow> 'a Radian \<Rightarrow> 'a Radian" where
  "radian_plus r radian = Radian (rad r + rad radian)"

instantiation Radian :: (plus) plus
begin
definition plus_Radian :: "'a Radian \<Rightarrow> 'a Radian \<Rightarrow> 'a Radian" where
  plus_Radian_is: "plus_Radian = radian_plus"
instance ..
end

definition radian_minus :: "'a::minus Radian \<Rightarrow> 'a Radian \<Rightarrow> 'a Radian" where
  "radian_minus r radian = Radian (rad r - rad radian)"

instantiation Radian :: (minus) minus
begin
definition minus_Radian :: "'a Radian \<Rightarrow> 'a Radian \<Rightarrow> 'a Radian" where
  minus_Radian_is: "minus_Radian = radian_minus"
instance ..
end

definition radian_uminus :: "'a::uminus Radian \<Rightarrow> 'a Radian" where
  "radian_uminus r = Radian (- rad r)"

instantiation Radian :: (uminus) uminus
begin
definition uminus_Radian :: "'a Radian \<Rightarrow> 'a Radian" where
  uminus_Radian_is: "uminus_Radian = radian_uminus"
instance ..
end

definition radian_less :: "'a::ord Radian \<Rightarrow> 'a Radian \<Rightarrow> bool" where
  "radian_less r radian \<longleftrightarrow> rad r < rad radian"

definition radian_less_eq :: "'a::ord Radian \<Rightarrow> 'a Radian \<Rightarrow> bool" where
  "radian_less_eq r radian \<longleftrightarrow> \<not> rad radian < rad r"

instantiation Radian :: (ord) ord
begin
definition less_Radian :: "'a Radian \<Rightarrow> 'a Radian \<Rightarrow> bool" where
  less_Radian_is: "less_Radian = radian_less"
definition less_eq_Radian :: "'a Radian \<Rightarrow> 'a Radian \<Rightarrow> bool" where
  less_eq_Radian_is: "less_eq_Radian = radian_less_eq"
instance ..
end

definition scale_rad :: "'a::times Radian \<Rightarrow> 'a \<Rightarrow> 'a Radian" where
  "scale_rad r scalar = Radian (rad r * scalar)"

definition div_rad :: "'a::{zero, ord, divide} Radian \<Rightarrow> 'a \<Rightarrow> 'a Radian res" where
  "div_rad r scalar = (if ceq scalar 0 then Inl DivisionByZeroException else Inr (Radian (rad r div scalar)))"

definition eq_rad :: "'a::ord Radian \<Rightarrow> 'a Radian \<Rightarrow> bool" where
  "eq_rad r radian \<longleftrightarrow> ceq (rad r) (rad radian)"

text \<open>The two constructors convert; the conversion operator of \<open>Degree\<close> passes the number on.\<close>

definition Radian_of_Degree :: "'a \<Rightarrow> 'a::{times, divide, numeral} Degree \<Rightarrow> 'a Radian" where
  "Radian_of_Degree half_turn d = Radian (deg d * half_turn div 180)"

definition Degree_of_Radian :: "'a \<Rightarrow> 'a::{times, divide, numeral} Radian \<Rightarrow> 'a Degree" where
  "Degree_of_Radian half_turn r = Degree (rad r * 180 div half_turn)"

definition Degree_as_Radian :: "'a Degree \<Rightarrow> 'a Radian" where
  "Degree_as_Radian d = Radian (deg d)"

lemma degrees_round_trip:
  fixes d :: "'a::linordered_field Degree"
  assumes "half_turn \<noteq> 0"
  shows "Degree_of_Radian half_turn (Radian_of_Degree half_turn d) = d"
    "Radian_of_Degree half_turn (Degree_of_Radian half_turn r) = r"
  using assms by (cases d; cases r; simp add: Degree_of_Radian_def Radian_of_Degree_def)+

text \<open>Two ways from degrees to radians, and they differ.\<close>

lemma conversions_differ:
  "Radian_of_Degree pi (Degree 180) = Radian pi" "Degree_as_Radian (Degree 180) = Radian (180 :: real)" "pi \<noteq> 180"
proof -
  have "pi < 4" using pi_half_less_two by simp
  then show "pi \<noteq> 180" by simp
qed (simp_all add: Radian_of_Degree_def Degree_as_Radian_def)

section \<open>Table lookups\<close>

definition table_size :: int where "table_size = 1000"

function wrap_index :: "int \<Rightarrow> int" where
  "wrap_index index = (if table_size \<le> index then wrap_index (index - table_size) else index)"
  by pat_completeness auto

termination
  by (relation "measure nat") (auto simp: table_size_def)

declare wrap_index.simps [simp del]

definition CalculateLut ::
  "('a \<Rightarrow> int) \<Rightarrow> (int \<Rightarrow> 'a) \<Rightarrow> 'a::{plus, minus, times, divide} list \<Rightarrow> 'a \<Rightarrow> 'a \<Rightarrow> 'a Radian \<Rightarrow> 'a res" where
  "CalculateLut to_int num table step rangeStart radian =
     (let angle = rad radian;
          index = wrap_index \<bar>to_int ((angle - rangeStart) div step)\<bar>
      in if index = table_size - 1 then vec_at_int table index
         else
           rbind (vec_at_int table index) (\<lambda>indexValue. rbind (vec_at_int table (index + 1)) (\<lambda>nextValue.
             let ratio = (angle - (rangeStart + num index * step)) div step
             in Inr (indexValue + (nextValue - indexValue) * ratio))))"

definition SinCosStep :: "'a::{times, divide, numeral} \<Rightarrow> 'a" where
  "SinCosStep half_turn = half_turn * 2 div 1000"

definition Sin :: "('a \<Rightarrow> int) \<Rightarrow> (int \<Rightarrow> 'a) \<Rightarrow> 'a list \<Rightarrow> 'a \<Rightarrow> 'a::{zero, plus, minus, times, divide, numeral} Radian \<Rightarrow> 'a res" where
  "Sin to_int num SinLUT half_turn radian = CalculateLut to_int num SinLUT (SinCosStep half_turn) 0 radian"

definition Cos :: "('a \<Rightarrow> int) \<Rightarrow> (int \<Rightarrow> 'a) \<Rightarrow> 'a list \<Rightarrow> 'a \<Rightarrow> 'a::{zero, plus, minus, times, divide, numeral} Radian \<Rightarrow> 'a res" where
  "Cos to_int num CosLUT half_turn radian = CalculateLut to_int num CosLUT (SinCosStep half_turn) 0 radian"

definition TanStep :: "'a \<Rightarrow> 'a::{plus, minus, divide, numeral} \<Rightarrow> 'a" where
  "TanStep half_turn margin = ((half_turn div 2 - margin) + (half_turn div 2 + margin)) div 1000"

definition Tan :: "('a \<Rightarrow> int) \<Rightarrow> (int \<Rightarrow> 'a) \<Rightarrow> 'a list \<Rightarrow> 'a \<Rightarrow> 'a \<Rightarrow> 'a::{uminus, plus, minus, times, divide, numeral} Radian \<Rightarrow> 'a res" where
  "Tan to_int num TanLUT half_turn margin radian =
     CalculateLut to_int num TanLUT (TanStep half_turn margin) (- half_turn div 2 + margin) radian"

definition CotStep :: "'a \<Rightarrow> 'a::{zero, plus, minus, divide, numeral} \<Rightarrow> 'a" where
  "CotStep half_turn margin = (half_turn - margin - (0 + margin)) div 1000"

definition Cot :: "('a \<Rightarrow> int) \<Rightarrow> (int \<Rightarrow> 'a) \<Rightarrow> 'a list \<Rightarrow> 'a \<Rightarrow> 'a \<Rightarrow> 'a::{zero, plus, minus, times, divide, numeral} Radian \<Rightarrow> 'a res" where
  "Cot to_int num CotLUT half_turn margin radian =
     CalculateLut to_int num CotLUT (CotStep half_turn margin) margin radian"

text \<open>The subtraction loop is the remainder.\<close>

lemma wrap_index_mod: "0 \<le> index \<Longrightarrow> wrap_index index = index mod table_size"
proof (induction index rule: wrap_index.induct)
  case (1 index)
  show ?case
  proof (cases "table_size \<le> index")
    case True
    then have "wrap_index index = (index - table_size) mod table_size"
      using 1 by (subst wrap_index.simps) (simp add: table_size_def)
    then show ?thesis by simp
  next
    case False
    then show ?thesis using "1.prems" by (subst wrap_index.simps) (simp add: table_size_def)
  qed
qed

text \<open>Over the reals, with the conversion that drops the fraction, a lookup inside the range interpolates
  between the two neighbours; in particular it is exact at the grid.\<close>

definition to_zero :: "real \<Rightarrow> int" where
  "to_zero x = (if 0 \<le> x then \<lfloor>x\<rfloor> else \<lceil>x\<rceil>)"

lemma lut_value:
  fixes table :: "real list"
  assumes "length table = 1000" "0 < step" "\<bar>to_zero ((x - start) / step)\<bar> = int k" "k < 999"
  shows "CalculateLut to_zero of_int table step start (Radian x)
    = Inr (table ! k + (table ! Suc k - table ! k) * ((x - (start + of_nat k * step)) / step))"
proof -
  have w: "wrap_index (int k) = int k" using assms(4) by (simp add: wrap_index_mod table_size_def)
  have "nat (1 + int k) = Suc k" by simp
  then show ?thesis
    using assms(1,4) by (simp add: CalculateLut_def assms(3) w table_size_def Let_def add.commute)
qed

lemma lut_interpolates:
  fixes table :: "real list"
  assumes "length table = 1000" "0 < step" "k < 999" "0 \<le> t" "t < 1"
  shows "CalculateLut to_zero of_int table step start (Radian (start + (of_nat k + t) * step))
    = Inr ((1 - t) * table ! k + t * table ! Suc k)"
proof -
  let ?x = "start + (of_nat k + t) * step"
  have "(?x - start) / step = of_nat k + t" using assms(2) by simp
  moreover have "\<lfloor>of_nat k + t\<rfloor> = int k" using assms(4,5) by (simp add: floor_eq_iff)
  ultimately have "\<bar>to_zero ((?x - start) / step)\<bar> = int k" using assms(4) by (simp add: to_zero_def)
  from lut_value [OF assms(1,2) this assms(3)]
  have "CalculateLut to_zero of_int table step start (Radian ?x)
      = Inr (table ! k + (table ! Suc k - table ! k) * ((?x - (start + of_nat k * step)) / step))" .
  moreover have "(?x - (start + of_nat k * step)) / step = t" using assms(2) by (simp add: algebra_simps)
  ultimately show ?thesis by (simp add: algebra_simps)
qed

text \<open>Below the range the absolute value of the index is looked up, but the ratio is still that of the angle,
  so the value is an extrapolation over twice the distance.\<close>

lemma lut_below:
  fixes table :: "real list"
  assumes "length table = 1000" "0 < step" "k < 999"
  shows "CalculateLut to_zero of_int table step start (Radian (start - of_nat k * step))
    = Inr (table ! k - 2 * of_nat k * (table ! Suc k - table ! k))"
proof -
  let ?x = "start - of_nat k * step"
  have "(?x - start) / step = - of_nat k" using assms(2) by simp
  then have "\<bar>to_zero ((?x - start) / step)\<bar> = int k" by (simp add: to_zero_def ceiling_minus)
  from lut_value [OF assms(1,2) this assms(3)]
  have "CalculateLut to_zero of_int table step start (Radian ?x)
      = Inr (table ! k + (table ! Suc k - table ! k) * ((?x - (start + of_nat k * step)) / step))" .
  moreover have "(?x - (start + of_nat k * step)) / step = - 2 * of_nat k" using assms(2) by (simp add: field_simps)
  ultimately show ?thesis by (simp add: algebra_simps)
qed

section \<open>Angles of two-dimensional vectors\<close>

text \<open>\<open>acos\<close> and the test for a result that is not a number are arguments; the \<open>throw\<close> behind the first
  \<open>return\<close> is dead code.\<close>

definition Angle2 ::
  "('a \<Rightarrow> 'a) \<Rightarrow> ('a \<Rightarrow> 'a) \<Rightarrow> ('a \<Rightarrow> bool) \<Rightarrow> 'a::{zero, ord, plus, times, divide} vec2 \<Rightarrow> 'a vec2 \<Rightarrow> 'a Radian res" where
  "Angle2 sq acos isnan vec1 vec2 =
     (let divisor = Length sq vec1 * Length sq vec2
      in if ceq divisor 0 then Inr (Radian 0)
         else let result = acos (Dot vec1 vec2 div divisor)
              in if isnan result then Inl NaNException else Inr (Radian result))"

definition Slerp2 ::
  "('a Radian \<Rightarrow> 'a res) \<Rightarrow> ('a vec2 \<Rightarrow> 'a vec2 \<Rightarrow> 'a Radian res) \<Rightarrow> 'a \<Rightarrow>
     'a::{zero, one, ord, plus, minus, uminus, times, divide} vec2 \<Rightarrow> 'a vec2 \<Rightarrow> 'a \<Rightarrow> 'a vec2 res" where
  "Slerp2 sn angle epsilon vec1 vec2 t =
     rbind (angle vec1 vec2) (\<lambda>angleBetween.
     rbind (sn angleBetween) (\<lambda>sinAngle.
     rbind (sn (scale_rad angleBetween t)) (\<lambda>sinAngleT.
     rbind (sn (scale_rad angleBetween (1 - t))) (\<lambda>sinAngle1T.
       if std_abs sinAngle < epsilon then Inr Zero
       else Inr (vscale vec1 (sinAngle1T div sinAngle) + vscale vec2 (sinAngleT div sinAngle))))))"

text \<open>The angle of a vector with the null vector is 0, and the interpolation between parallel vectors is the null vector.\<close>

lemma Angle2_null: "Angle2 sqrt acos isnan v Zero = Inr (Radian (0 :: real))"
  by (simp add: Angle2_def Length_def)

lemma Slerp2_parallel:
  fixes v :: "real vec2"
  assumes "angle v w = Inr (Radian 0)" "\<And>r. sn (Radian r) = Inr (sin r)" "0 < epsilon"
  shows "Slerp2 sn angle epsilon v w t = Inr Zero"
  using assms by (simp add: Slerp2_def scale_rad_def)

end
