(* ===== verification/Quaternion.thy ===== *)
theory Quaternion
  imports Angle
begin

text \<open>
  \<open>libs/Math/include/Quaternion.h\<close>. The rotation of a vector normalises the quaternion first; it is
  declared \<open>noexcept\<close>, so the exception for the null quaternion ends the program. Sine and cosine, which
  read tables, are arguments.
\<close>

section \<open>The class\<close>

datatype 'a quaternion = Quaternion (QW: 'a) (QV: "'a vec3")

definition QuaternionOf :: "'a \<Rightarrow> 'a \<Rightarrow> 'a \<Rightarrow> 'a \<Rightarrow> 'a quaternion" where
  "QuaternionOf w x y z = Quaternion w (Vec3 x y z)"

definition IdentityQ :: "'a::{zero, one} quaternion" where
  "IdentityQ = QuaternionOf 1 0 0 0"

definition times_quaternion :: "'a::{plus, minus, times} quaternion \<Rightarrow> 'a quaternion \<Rightarrow> 'a quaternion" where
  "times_quaternion p q =
     Quaternion (QW p * QW q - Dot3 (QV p) (QV q))
       (scale3 (QV p) (QW q) + scale3 (QV q) (QW p) + CrossProduct (QV p) (QV q))"

definition castQ :: "('a \<Rightarrow> 'b) \<Rightarrow> 'a quaternion \<Rightarrow> 'b quaternion" where
  "castQ cast q = Quaternion (cast (QW q)) (Vec3 (cast (X3 (QV q))) (cast (Y3 (QV q))) (cast (Z3 (QV q))))"

definition Magnitude :: "('a \<Rightarrow> 'a) \<Rightarrow> 'a::{plus, times} quaternion \<Rightarrow> 'a" where
  "Magnitude sq q = sq (QW q * QW q + X3 (QV q) * X3 (QV q) + Y3 (QV q) * Y3 (QV q) + Z3 (QV q) * Z3 (QV q))"

definition NormalizedQ ::
  "('a \<Rightarrow> 'a) \<Rightarrow> 'a::{zero, one, ord, plus, times, divide} quaternion \<Rightarrow> 'a quaternion res" where
  "NormalizedQ sq q =
     (let magnitude = Magnitude sq q
      in if ceq magnitude 0 then Inl DivisionByZeroException
         else let invMagnitude = 1 div magnitude
              in Inr (QuaternionOf (QW q * invMagnitude) (X3 (QV q) * invMagnitude)
                   (Y3 (QV q) * invMagnitude) (Z3 (QV q) * invMagnitude)))"

definition rotate_by :: "'a::{one, plus, minus, times} quaternion \<Rightarrow> 'a vec3 \<Rightarrow> 'a vec3" where
  "rotate_by q p =
     p + scale3 (CrossProduct (QV q) p) (two * QW q)
       + scale3 (CrossProduct (QV q) (CrossProduct (QV q) p)) two"

definition times_vec ::
  "('a \<Rightarrow> 'a) \<Rightarrow> 'a::{zero, one, ord, plus, minus, times, divide} quaternion \<Rightarrow> 'a vec3 \<Rightarrow> 'a vec3 res" where
  "times_vec sq q p = rmap (\<lambda>qNorm. rotate_by qNorm p) (NormalizedQ sq q)"

definition AngleAxis ::
  "('a \<Rightarrow> 'a) \<Rightarrow> ('a Radian \<Rightarrow> 'a res) \<Rightarrow> ('a Radian \<Rightarrow> 'a res) \<Rightarrow> 'a::{zero, one, ord, plus, times, divide} Radian
     \<Rightarrow> 'a vec3 \<Rightarrow> 'a quaternion res" where
  "AngleAxis sq cs sn angle axis =
     rbind (div_rad angle two) (\<lambda>half. rbind (cs half) (\<lambda>w. rbind (Normalized3 sq axis) (\<lambda>v.
     rbind (sn half) (\<lambda>s. Inr (Quaternion w (scale3 v s))))))"

text \<open>\<open>Euler\<close>, given the cosines and sines of the three half angles.\<close>

definition Euler :: "'a \<Rightarrow> 'a \<Rightarrow> 'a \<Rightarrow> 'a \<Rightarrow> 'a \<Rightarrow> 'a \<Rightarrow> 'a::{plus, minus, times} quaternion" where
  "Euler cosX sinX cosY sinY cosZ sinZ =
     Quaternion (cosX * cosY * cosZ + sinX * sinY * sinZ)
       (Vec3 (sinX * cosY * cosZ - cosX * sinY * sinZ)
             (cosX * sinY * cosZ + sinX * cosY * sinZ)
             (cosX * cosY * sinZ - sinX * sinY * cosZ))"

section \<open>Laws\<close>

definition norm2 :: "'a::{plus, times} quaternion \<Rightarrow> 'a" where
  "norm2 q = QW q * QW q + Dot3 (QV q) (QV q)"

lemma quaternion_eq_iff: "p = q \<longleftrightarrow> QW p = QW q \<and> QV p = QV q"
  by (cases p; cases q) simp

lemmas quaternion_simps = times_quaternion_def Dot3_def CrossProduct_def quaternion_eq_iff vec3_eq_iff

lemma quaternion_assoc:
  fixes p q r :: "'a::linordered_field quaternion"
  shows "times_quaternion (times_quaternion p q) r = times_quaternion p (times_quaternion q r)"
  by (simp add: quaternion_simps algebra_simps)

lemma norm2_mult:
  fixes p q :: "'a::linordered_field quaternion"
  shows "norm2 (times_quaternion p q) = norm2 p * norm2 q"
  by (simp add: norm2_def quaternion_simps algebra_simps)

lemma norm2_nonneg: "0 \<le> norm2 (q :: 'a::linordered_field quaternion)"
  by (simp add: norm2_def Dot3_nonneg)

lemma norm2_eq_0: "norm2 q = 0 \<longleftrightarrow> q = Quaternion 0 (Zero3 :: 'a::linordered_field vec3)"
proof -
  have "norm2 q = 0 \<longleftrightarrow> QW q * QW q = 0 \<and> Dot3 (QV q) (QV q) = 0"
    unfolding norm2_def by (rule add_nonneg_eq_0_iff) (simp_all add: Dot3_nonneg)
  then show ?thesis by (simp add: quaternion_eq_iff)
qed

lemma Magnitude_real: "Magnitude sqrt q = sqrt (norm2 q)"
  by (simp add: Magnitude_def norm2_def Dot3_def add.assoc)

definition unitQ :: "real quaternion \<Rightarrow> real quaternion" where
  "unitQ q = Quaternion (QW q * (1 / sqrt (norm2 q))) (scale3 (QV q) (1 / sqrt (norm2 q)))"

lemma NormalizedQ_real:
  "NormalizedQ sqrt q = (if norm2 q = 0 then Inl DivisionByZeroException else Inr (unitQ q))"
  by (simp add: NormalizedQ_def Let_def Magnitude_real unitQ_def QuaternionOf_def scale3_def)

lemma norm2_unitQ: "norm2 q \<noteq> 0 \<Longrightarrow> norm2 (unitQ q) = 1"
proof -
  assume q: "norm2 q \<noteq> 0"
  define l where "l = 1 / sqrt (norm2 q)"
  have "l * l = 1 / norm2 q" using norm2_nonneg [of q] by (simp add: l_def)
  moreover have "norm2 (unitQ q) = l * l * norm2 q"
    unfolding unitQ_def l_def [symmetric] by (simp add: norm2_def Dot3_def algebra_simps)
  ultimately show ?thesis using q by simp
qed

lemma unitQ_mult: "unitQ (times_quaternion p q) = times_quaternion (unitQ p) (unitQ q)"
proof -
  define k l where "k = 1 / sqrt (norm2 p)" and "l = 1 / sqrt (norm2 q)"
  have "1 / sqrt (norm2 (times_quaternion p q)) = k * l" by (simp add: k_def l_def norm2_mult real_sqrt_mult)
  then show ?thesis
    unfolding unitQ_def k_def [symmetric] l_def [symmetric] by (simp add: quaternion_simps algebra_simps)
qed

text \<open>The rotation by a unit quaternion keeps lengths, and rotating by a product is rotating twice.\<close>

lemma rotate_by_length:
  fixes q :: "real quaternion"
  assumes "norm2 q = 1"
  shows "Dot3 (rotate_by q v) (rotate_by q v) = Dot3 v v"
proof -
  have "Dot3 (rotate_by q v) (rotate_by q v)
      = Dot3 v v + 4 * (norm2 q - 1) * Dot3 (CrossProduct (QV q) v) (CrossProduct (QV q) v)"
    by (simp add: rotate_by_def norm2_def Dot3_def CrossProduct_def algebra_simps)
  with assms show ?thesis by simp
qed

text \<open>The same rotation with \<open>norm2 q\<close> in place of 1 is multiplicative without any condition.\<close>

definition rotate_hom :: "real quaternion \<Rightarrow> real vec3 \<Rightarrow> real vec3" where
  "rotate_hom q p =
     scale3 p (norm2 q) + scale3 (CrossProduct (QV q) p) (2 * QW q)
       + scale3 (CrossProduct (QV q) (CrossProduct (QV q) p)) 2"

lemma rotate_hom_mult: "rotate_hom (times_quaternion p q) v = rotate_hom p (rotate_hom q v)"
  by (simp add: rotate_hom_def norm2_def quaternion_simps algebra_simps)

lemma rotate_by_hom: "norm2 q = 1 \<Longrightarrow> rotate_by q v = rotate_hom q v"
  by (simp add: rotate_by_def rotate_hom_def vec3_eq_iff)

lemma rotate_by_mult:
  "norm2 (p :: real quaternion) = 1 \<Longrightarrow> norm2 q = 1 \<Longrightarrow> rotate_by (times_quaternion p q) v = rotate_by p (rotate_by q v)"
  by (simp add: rotate_by_hom norm2_mult rotate_hom_mult)

text \<open>The quaternion of an angle and an axis is a unit.\<close>

lemma AngleAxis_unit:
  assumes "AngleAxis sqrt (\<lambda>r. Inr (cos (rad r))) (\<lambda>r. Inr (sin (rad r))) a v = Inr q"
  shows "norm2 q = 1"
proof -
  have v: "v \<noteq> Zero3" using assms by (auto simp: AngleAxis_def div_rad_def Normalized3_real)
  then have q: "q = Quaternion (cos (rad a / 2)) (scale3 (div3 v (Length3 sqrt v)) (sin (rad a / 2)))"
    using assms by (simp add: AngleAxis_def div_rad_def Normalized3_real)
  have "Dot3 (scale3 n s) (scale3 n s) = s * s * Dot3 n n" for n and s :: real
    by (simp add: Dot3_def algebra_simps)
  then show ?thesis using unit_div3 [OF v] sin_cos_squared_add [of "rad a / 2"]
    by (simp add: q norm2_def power2_eq_square add.commute)
qed

lemma Euler_unit:
  fixes cx :: "'a::linordered_field"
  assumes "cx * cx + sx * sx = 1" "cy * cy + sy * sy = 1" "cz * cz + sz * sz = 1"
  shows "norm2 (Euler cx sx cy sy cz sz) = 1"
proof -
  have "norm2 (Euler cx sx cy sy cz sz) = (cx * cx + sx * sx) * (cy * cy + sy * sy) * (cz * cz + sz * sz)"
    by (simp add: norm2_def Euler_def Dot3_def algebra_simps)
  with assms show ?thesis by simp
qed

end
