(* ===== verification/TrigoLUT.thy ===== *)
theory TrigoLUT
  imports Angle
begin

text \<open>
  \<open>libs/Math/include/TrigoLUT.h\<close>: the four tables, a thousand literals each. A decimal literal is its digits as an integer and
  the number of them behind the point, and \<open>reals\<close> are the numbers so written; the compiler rounds each to a \<open>float\<close>.
\<close>

type_synonym literal = "int \<times> nat"

definition reals :: "literal list \<Rightarrow> real list" where
  "reals = map (\<lambda>(digits, places). of_int digits / 10 ^ places)"

definition CosLUT :: "literal list" where
  "CosLUT =
    [(10, 1), (9999802608561371, 16), (9999210442038161, 16), (999822352380809, 15), (9996841892832999, 16),
      (9995065603657316, 16), (9992894726405892, 16), (9990329346781247, 16), (9987369566060175, 16),
      (998401550108975, 15), (9980267284282716, 16), (9976125063612252, 16), (9971589002606139, 16),
      (9966659280340299, 16), (9961336091431725, 16), (99556196460308, 14), (9949510169813002, 16),
      (9943007903969989, 16), (9936113105200084, 16), (9928826045698137, 16), (9921147013144779, 16),
      (9913076310695066, 16), (9904614256966512, 16), (9895761186026509, 16), (9886517447379141, 16)] @
    [(9876883405951378, 16), (986685944207868, 15), (985644595148998, 15), (9845643345292053, 16),
      (9834452049953297, 16), (9822872507286887, 16), (9810905174433341, 16), (9798550523842469, 16),
      (9785809043254721, 16), (9772681235681935, 16), (9759167619387474, 16), (9745268727865771, 16),
      (9730985109821266, 16), (971631732914674, 15), (9701265964901059, 16), (9685831611286312, 16),
      (9670014877624351, 16), (9653816388332739, 16), (9637236782900097, 16), (9620276715860859, 16),
      (9602936856769431, 16), (958521789017376, 15), (9567120515588305, 16), (954864544746643, 15),
      (9529793415172189, 16)] @
    [(9510565162951536, 16), (9490961449902946, 16), (9470983049947443, 16), (9450630751798048, 16),
      (9429905358928645, 16), (9408807689542255, 16), (9387338576538741, 16), (9365498867481924, 16),
      (9343289424566121, 16), (932071112458211, 15), (9297764858882515, 16), (9274451533346614, 16),
      (925077206834458, 15), (9226727398701149, 16), (9202318473658704, 16), (9177546256839811, 16),
      (9152411726209176, 16), (9126915874035029, 16), (9101059706849958, 16), (907484424541117, 15),
      (9048270524660196, 16), (9021339593682028, 16), (8994052515663711, 16), (8966410367852359, 16),
      (8938414241512638, 16)] @
    [(8910065241883679, 16), (8881364488135446, 16), (8852313113324553, 16), (8822912264349534, 16),
      (8793163101905563, 16), (8763066800438636, 16), (8732624548099202, 16), (8701837546695257, 16),
      (86707070116449, 14), (8639234171928353, 16), (8607420270039435, 16), (8575266561936521, 16),
      (854277431699295, 15), (8509944817946916, 16), (847677936085083, 15), (8443279255020149, 16),
      (8409445822981688, 16), (8375280400421414, 16), (8340784336131708, 16), (8305958991958123, 16),
      (8270805742745614, 16), (823532597628427, 15), (8199521093254518, 16), (8163392507171835, 16),
      (8126941644330934, 16)] @
    [(8090169943749469, 16), (8053078857111213, 16), (801566984870876, 15), (7977944395385703, 16),
      (7939903986478346, 16), (7901550123756896, 16), (7862884321366181, 16), (7823908105765873, 16),
      (7784623015670226, 16), (7745030601987329, 16), (7705132427757883, 16), (7664930068093488, 16),
      (7624425110114468, 16), (7583619152887208, 16), (7542513807361027, 16), (7501110696304584, 16),
      (7459411454241809, 16), (741741772738738, 15), (7375131173581726, 16), (7332553462225586, 16),
      (7289686274214101, 16), (7246531301870452, 16), (7203090248879055, 16), (7159364830218297, 16),
      (7115356772092838, 16)] @
    [(7071067811865459, 16), (7026499697988475, 16), (698165418993471, 15), (6936533058128032, 16),
      (6891138083873466, 16), (6845471059286867, 16), (6799533787224172, 16), (6753328081210225, 16),
      (670685576536718, 15), (6660118674342496, 16), (6613118653236497, 16), (6565857557529543, 16),
      (6518337253008766, 16), (647055961569442, 15), (6422526531765821, 16), (6374239897486873, 16),
      (632570161913122, 15), (627691361290698, 15), (62278778048811, 14), (6178596130903318, 16),
      (6129070536529738, 16), (6079302976946027, 16), (6029295416890219, 16), (597904983057516, 15),
      (5928568201610563, 16)] @
    [(5877852522924701, 16), (5826904796685731, 16), (5775727034222645, 16), (5724321255945878, 16),
      (5672689491267533, 16), (5620833778521274, 16), (5568756164881847, 16), (5516458706284268, 16),
      (5463943467342657, 16), (5411212521268723, 16), (5358267949789932, 16), (5305111843067306, 16),
      (5251746299612922, 16), (5198173426207059, 16), (5144395337815028, 16), (5090414157503675, 16),
      (503623201635757, 15), (498185105339487, 15), (4927273415482877, 16), (4872501257253284, 16),
      (48175367410171127, 17), (47623820366793507, 17), (4707039321653284, 16), (46515107807745415, 17),
      (4595798606214836, 16)] @
    [(4539904997395425, 16), (4483832160900279, 16), (4427582310388971, 16), (4371157666509284, 16),
      (4314560456809544, 16), (42577929156506805, 17), (4200857284118016, 16), (41437558099327937, 17),
      (40864907473634426, 17), (4029064357136578, 16), (3971478906347757, 16), (39137366683719743, 17),
      (3855839922773915, 16), (379779095521796, 15), (3739592057377953, 16), (3681245526846727, 16),
      (36227536670454036, 17), (3564118787132453, 16), (3505343201912536, 16), (34464292317451156, 17),
      (3387379202452858, 16), (332819544522981, 15), (3268880296549368, 16), (32094360980720377, 17),
      (314986519655299, 15)] @
    [(30901699437494157, 17), (30303526963276806, 17), (2970415815770289, 16), (2910361668282658, 16),
      (28501926246997, 14), (27899110603922306, 17), (272951935517319, 15), (26690198932036924, 17),
      (26084150628989056, 17), (2547707256833757, 16), (2486898871648483, 16), (24259923079540088, 17),
      (23649899702371807, 17), (2303894266765839, 16), (22427076094937445, 17), (21814324139653576, 17),
      (21200710992204777, 17), (20586260876987442, 17), (19970998051440003, 17), (1935494680508532, 16),
      (18738131458571752, 17), (1812057636271302, 16), (17502305897526882, 17), (1688334447127266, 16),
      (16263716519487625, 17)] @
    [(15643446504022346, 17), (1502255891207496, 16), (14401078255224464, 17), (13779029068463047, 17),
      (13156435909227487, 17), (12533323356429654, 17), (11909716009486199, 17), (11285638487347387, 17),
      (10661115427525204, 17), (10036171485120696, 17), (9410831331850633, 17), (8785119655073513, 17),
      (8159061156814945, 17), (7532680552792456, 17), (6906002571439758, 17), (627905195293051, 16),
      (5651853448201619, 17), (50244318179761174, 18), (43968118317856464, 18), (3769018266992604, 17),
      (3141075907811974, 17), (25130095443328872, 18), (18848439715399515, 18), (12566039883343894, 18),
      (6283143965550184, 18)] @
    [(- 8820551857043885, 30), (- 6283143965567825, 18), (- 12566039883361534, 18), (- 18848439715417154, 18),
      (- 2513009544334651, 17), (- 31410759078137375, 18), (- 3769018266994367, 17), (- 4396811831787409, 17),
      (- 5024431817977879, 17), (- 5651853448203381, 17), (- 6279051952932271, 17), (- 6906002571441518, 17),
      (- 7532680552794216, 17), (- 8159061156816703, 17), (- 878511965507527, 16), (- 9410831331852389, 17),
      (- 10036171485122451, 17), (- 10661115427526958, 17), (- 1128563848734914, 16), (- 1190971600948795, 16),
      (- 12533323356431406, 17), (- 13156435909229236, 17), (- 13779029068464796, 17), (- 1440107825522621, 16),
      (- 15022558912076703, 17)] @
    [(- 1564344650402409, 16), (- 16263716519489366, 17), (- 16883344471274397, 17), (- 1750230589752862, 16),
      (- 18120576362714755, 17), (- 18738131458573487, 17), (- 19354946805087053, 17), (- 19970998051441732, 17),
      (- 20586260876989168, 17), (- 21200710992206503, 17), (- 21814324139655297, 17), (- 22427076094939163, 17),
      (- 2303894266766011, 16), (- 23649899702373522, 17), (- 24259923079541798, 17), (- 2486898871648654, 16),
      (- 2547707256833928, 16), (- 2608415062899076, 16), (- 2669019893203863, 16), (- 272951935517336, 15),
      (- 27899110603924, 14), (- 28501926246998693, 17), (- 29103616682828265, 17), (- 29704158157704574, 17),
      (- 3030352696327849, 16)] @
    [(- 30901699437495833, 17), (- 3149865196553157, 16), (- 3209436098072205, 16), (- 32688802965495345, 17),
      (- 33281954452299767, 17), (- 3387379202453024, 16), (- 3446429231745281, 16), (- 3505343201912701, 16),
      (- 3564118787132618, 16), (- 36227536670455684, 17), (- 36812455268468913, 17), (- 3739592057378116, 16),
      (- 3797790955218123, 16), (- 38558399227740775, 17), (- 39137366683721364, 17), (- 3971478906347919, 16),
      (- 40290643571367396, 17), (- 40864907473636036, 17), (- 41437558099329547, 17), (- 42008572841181757, 17),
      (- 425779291565084, 15), (- 43145604568097035, 17), (- 43711576665094426, 17), (- 44275823103891293, 17),
      (- 44838321609004367, 17)] @
    [(- 4539904997395582, 16), (- 45957986062149925, 17), (- 46515107807746975, 17), (- 470703932165344, 15),
      (- 47623820366795055, 17), (- 4817536741017267, 16), (- 48725012572534376, 17), (- 492727341548303, 15),
      (- 4981851053395023, 16), (- 5036232016357723, 16), (- 5090414157503828, 16), (- 514439533781518, 15),
      (- 519817342620721, 15), (- 5251746299613071, 16), (- 5305111843067455, 16), (- 5358267949790081, 16),
      (- 5411212521268873, 16), (- 5463943467342806, 16), (- 5516458706284417, 16), (- 5568756164881995, 16),
      (- 562083377852142, 15), (- 567268949126768, 15), (- 5724321255946023, 16), (- 5775727034222791, 16),
      (- 5826904796685874, 16)] @
    [(- 5877852522924846, 16), (- 5928568201610707, 16), (- 5979049830575303, 16), (- 6029295416890361, 16),
      (- 6079302976946168, 16), (- 6129070536529879, 16), (- 6178596130903458, 16), (- 6227877804881239, 16),
      (- 6276913612907118, 16), (- 6325701619131358, 16), (- 637423989748701, 15), (- 6422526531765956, 16),
      (- 6470559615694556, 16), (- 65183372530089, 14), (- 6565857557529676, 16), (- 661311865323663, 15),
      (- 6660118674342628, 16), (- 6706855765367312, 16), (- 6753328081210356, 16), (- 6799533787224303, 16),
      (- 6845471059286997, 16), (- 6891138083873595, 16), (- 6936533058128159, 16), (- 6981654189934836, 16),
      (- 7026499697988602, 16)] @
    [(- 7071067811865585, 16), (- 7115356772092962, 16), (- 715936483021842, 15), (- 7203090248879177, 16),
      (- 7246531301870575, 16), (- 7289686274214223, 16), (- 7332553462225707, 16), (- 7375131173581846, 16),
      (- 7417417727387499, 16), (- 7459411454241928, 16), (- 75011106963047, 14), (- 7542513807361143, 16),
      (- 7583619152887323, 16), (- 7624425110114583, 16), (- 7664930068093603, 16), (- 7705132427757996, 16),
      (- 7745030601987442, 16), (- 7784623015670337, 16), (- 7823908105765983, 16), (- 786288432136629, 15),
      (- 7901550123757005, 16), (- 7939903986478454, 16), (- 797794439538581, 15), (- 8015669848708865, 16),
      (- 8053078857111319, 16)] @
    [(- 8090169943749573, 16), (- 8126941644331037, 16), (- 8163392507171937, 16), (- 819952109325462, 15),
      (- 823532597628437, 15), (- 8270805742745714, 16), (- 8305958991958222, 16), (- 8340784336131807, 16),
      (- 8375280400421511, 16), (- 8409445822981785, 16), (- 8443279255020243, 16), (- 8476779360850925, 16),
      (- 850994481794701, 15), (- 8542774316993043, 16), (- 8575266561936613, 16), (- 8607420270039525, 16),
      (- 8639234171928442, 16), (- 8670707011644989, 16), (- 8701837546695343, 16), (- 8732624548099288, 16),
      (- 8763066800438721, 16), (- 8793163101905648, 16), (- 8822912264349617, 16), (- 8852313113324636, 16),
      (- 8881364488135528, 16)] @
    [(- 8910065241883761, 16), (- 8938414241512719, 16), (- 896641036785244, 15), (- 8994052515663791, 16),
      (- 9021339593682107, 16), (- 9048270524660273, 16), (- 9074844245411247, 16), (- 9101059706850033, 16),
      (- 9126915874035104, 16), (- 9152411726209251, 16), (- 9177546256839886, 16), (- 9202318473658776, 16),
      (- 9226727398701221, 16), (- 9250772068344651, 16), (- 9274451533346684, 16), (- 9297764858882583, 16),
      (- 9320711124582178, 16), (- 9343289424566188, 16), (- 9365498867481991, 16), (- 9387338576538806, 16),
      (- 940880768954232, 15), (- 9429905358928709, 16), (- 9450630751798111, 16), (- 9470983049947505, 16),
      (- 9490961449903007, 16)] @
    [(- 9510565162951595, 16), (- 9529793415172247, 16), (- 9548645447466487, 16), (- 9567120515588362, 16),
      (- 9585217890173815, 16), (- 9602936856769486, 16), (- 9620276715860913, 16), (- 963723678290015, 15),
      (- 9653816388332791, 16), (- 9670014877624401, 16), (- 9685831611286361, 16), (- 9701265964901107, 16),
      (- 9716317329146786, 16), (- 9730985109821312, 16), (- 9745268727865817, 16), (- 9759167619387518, 16),
      (- 9772681235681978, 16), (- 9785809043254763, 16), (- 979855052384251, 15), (- 9810905174433381, 16),
      (- 9822872507286925, 16), (- 9834452049953334, 16), (- 984564334529209, 15), (- 9856445951490015, 16),
      (- 9866859442078715, 16)] @
    [(- 987688340595141, 15), (- 9886517447379172, 16), (- 9895761186026539, 16), (- 9904614256966541, 16),
      (- 9913076310695094, 16), (- 9921147013144804, 16), (- 9928826045698161, 16), (- 9936113105200108, 16),
      (- 9943007903970011, 16), (- 9949510169813023, 16), (- 995561964603082, 15), (- 9961336091431744, 16),
      (- 9966659280340316, 16), (- 9971589002606156, 16), (- 9976125063612267, 16), (- 9980267284282729, 16),
      (- 9984015501089762, 16), (- 9987369566060186, 16), (- 9990329346781257, 16), (- 9992894726405901, 16),
      (- 9995065603657323, 16), (- 9996841892833005, 16), (- 9998223523808094, 16), (- 9999210442038164, 16),
      (- 9999802608561372, 16)] @
    [(- 10, 1), (- 999980260856137, 15), (- 9999210442038159, 16), (- 9998223523808086, 16), (- 9996841892832994, 16),
      (- 9995065603657308, 16), (- 9992894726405884, 16), (- 9990329346781237, 16), (- 9987369566060164, 16),
      (- 9984015501089738, 16), (- 9980267284282701, 16), (- 9976125063612237, 16), (- 9971589002606123, 16),
      (- 996665928034028, 15), (- 9961336091431705, 16), (- 9955619646030779, 16), (- 9949510169812978, 16),
      (- 9943007903969965, 16), (- 9936113105200058, 16), (- 9928826045698109, 16), (- 9921147013144749, 16),
      (- 9913076310695035, 16), (- 990461425696648, 15), (- 9895761186026476, 16), (- 9886517447379105, 16)] @
    [(- 9876883405951341, 16), (- 9866859442078643, 16), (- 985644595148994, 15), (- 9845643345292012, 16),
      (- 9834452049953254, 16), (- 9822872507286843, 16), (- 9810905174433295, 16), (- 9798550523842421, 16),
      (- 9785809043254672, 16), (- 9772681235681884, 16), (- 9759167619387422, 16), (- 9745268727865718, 16),
      (- 973098510982121, 15), (- 9716317329146682, 16), (- 9701265964901, 13), (- 9685831611286251, 16),
      (- 9670014877624289, 16), (- 9653816388332676, 16), (- 9637236782900032, 16), (- 9620276715860793, 16),
      (- 9602936856769363, 16), (- 9585217890173688, 16), (- 9567120515588233, 16), (- 9548645447466356, 16),
      (- 9529793415172113, 16)] @
    [(- 951056516295146, 15), (- 9490961449902868, 16), (- 9470983049947364, 16), (- 9450630751797967, 16),
      (- 9429905358928562, 16), (- 940880768954217, 15), (- 9387338576538654, 16), (- 9365498867481835, 16),
      (- 934328942456603, 15), (- 9320711124582018, 16), (- 9297764858882421, 16), (- 9274451533346518, 16),
      (- 9250772068344484, 16), (- 922672739870105, 15), (- 9202318473658604, 16), (- 917754625683971, 15),
      (- 9152411726209072, 16), (- 9126915874034923, 16), (- 910105970684985, 15), (- 9074844245411061, 16),
      (- 9048270524660086, 16), (- 9021339593681916, 16), (- 8994052515663598, 16), (- 8966410367852243, 16),
      (- 8938414241512521, 16)] @
    [(- 891006524188356, 15), (- 8881364488135325, 16), (- 885231311332443, 15), (- 882291226434941, 15),
      (- 8793163101905438, 16), (- 8763066800438509, 16), (- 8732624548099073, 16), (- 8701837546695127, 16),
      (- 8670707011644768, 16), (- 863923417192822, 15), (- 8607420270039301, 16), (- 8575266561936385, 16),
      (- 8542774316992813, 16), (- 8509944817946778, 16), (- 847677936085069, 15), (- 8443279255020006, 16),
      (- 8409445822981545, 16), (- 837528040042127, 15), (- 8340784336131563, 16), (- 8305958991957976, 16),
      (- 8270805742745466, 16), (- 823532597628412, 15), (- 8199521093254367, 16), (- 8163392507171682, 16),
      (- 812694164433078, 15)] @
    [(- 8090169943749314, 16), (- 8053078857111057, 16), (- 8015669848708601, 16), (- 7977944395385543, 16),
      (- 7939903986478185, 16), (- 7901550123756734, 16), (- 7862884321366018, 16), (- 7823908105765709, 16),
      (- 778462301567006, 15), (- 7745030601987162, 16), (- 7705132427757715, 16), (- 7664930068093319, 16),
      (- 7624425110114297, 16), (- 7583619152887036, 16), (- 7542513807360853, 16), (- 7501110696304409, 16),
      (- 7459411454241633, 16), (- 7417417727387202, 16), (- 7375131173581548, 16), (- 7332553462225407, 16),
      (- 728968627421392, 15), (- 724653130187027, 15), (- 7203090248878871, 16), (- 7159364830218112, 16),
      (- 7115356772092651, 16)] @
    [(- 7071067811865273, 16), (- 7026499697988288, 16), (- 6981654189934521, 16), (- 6936533058127842, 16),
      (- 6891138083873275, 16), (- 6845471059286675, 16), (- 6799533787223979, 16), (- 6753328081210029, 16),
      (- 6706855765366985, 16), (- 6660118674342299, 16), (- 66131186532363, 14), (- 6565857557529343, 16),
      (- 6518337253008568, 16), (- 6470559615694226, 16), (- 6422526531765628, 16), (- 6374239897486683, 16),
      (- 6325701619131033, 16), (- 6276913612906795, 16), (- 6227877804880917, 16), (- 6178596130903138, 16),
      (- 6129070536529562, 16), (- 6079302976945853, 16), (- 6029295416890048, 16), (- 5979049830574992, 16),
      (- 5928568201610398, 16)] @
    [(- 5877852522924538, 16), (- 582690479668557, 15), (- 5775727034222488, 16), (- 5724321255945723, 16),
      (- 5672689491267382, 16), (- 5620833778521125, 16), (- 5568756164881702, 16), (- 5516458706284126, 16),
      (- 5463943467342518, 16), (- 5411212521268588, 16), (- 5358267949789798, 16), (- 5305111843067175, 16),
      (- 5251746299612794, 16), (- 5198173426206935, 16), (- 5144395337814908, 16), (- 5090414157503559, 16),
      (- 5036232016357457, 16), (- 49818510533947596, 17), (- 49272734154827696, 17), (- 487250125725318, 15),
      (- 4817536741017012, 16), (- 4762382036679254, 16), (- 47070393216531914, 17), (- 4651510780774452, 16),
      (- 45957986062147504, 17)] @
    [(- 45399049973953426, 17), (- 4483832160900201, 16), (- 4427582310388896, 16), (- 43711576665092133, 17),
      (- 4314560456809477, 16), (- 4257792915650617, 16), (- 42008572841179564, 17), (- 4143755809932739, 16),
      (- 4086490747363391, 16), (- 40290643571365303, 17), (- 3971478906347713, 16), (- 39137366683719343, 17),
      (- 38558399227738793, 17), (- 37977909552179284, 17), (- 3739592057377925, 16), (- 36812455268467037, 17),
      (- 3622753667045384, 16), (- 3564118787132438, 16), (- 35053432019125247, 17), (- 34464292317451084, 17),
      (- 33873792024528554, 17), (- 3328195445229811, 16), (- 32688802965493735, 17), (- 3209436098072047, 16),
      (- 3149865196553004, 16)] @
    [(- 30901699437494334, 17), (- 3030352696327703, 16), (- 2970415815770316, 16), (- 2910361668282689, 16),
      (- 28501926246997356, 17), (- 27899110603922705, 17), (- 2729519355173234, 16), (- 26690198932037407, 17),
      (- 26084150628989583, 17), (- 25477072568338144, 17), (- 24868988716485443, 17), (- 24259923079540746, 17),
      (- 2364989970237251, 16), (- 23038942667659137, 17), (- 22427076094938236, 17), (- 21814324139654412, 17),
      (- 21200710992205657, 17), (- 20586260876988366, 17), (- 19970998051440972, 17), (- 19354946805086337, 17),
      (- 18738131458572813, 17), (- 18120576362714122, 17), (- 1750230589752803, 16), (- 16883344471273853, 17),
      (- 16263716519488866, 17)] @
    [(- 1564344650402363, 16), (- 1502255891207629, 16), (- 14401078255225838, 17), (- 13779029068464468, 17),
      (- 1315643590922895, 16), (- 12533323356431164, 17), (- 11909716009487753, 17), (- 11285638487348988, 17),
      (- 1066111542752685, 16), (- 10036171485122387, 17), (- 9410831331852369, 17), (- 8785119655075295, 17),
      (- 8159061156816771, 17), (- 7532680552794328, 17), (- 6906002571441676, 17), (- 6279051952932473, 17),
      (- 5651853448203627, 17), (- 502443181797817, 16), (- 4396811831787744, 17), (- 3769018266994747, 17),
      (- 31410759078141615, 18), (- 25130095443351194, 18), (- 18848439715422282, 18), (- 12566039883367108, 18),
      (- 6283143965573843, 18)] @
    [(- 15282730154774232, 30), (6283143965543278, 18), (12566039883336544, 18), (18848439715391723, 18),
      (2513009544332064, 17), (3141075907811106, 17), (3769018266991692, 17), (439681183178469, 16),
      (5024431817975117, 17), (5651853448200576, 17), (6279051952929422, 17), (6906002571438626, 17),
      (7532680552791281, 17), (8159061156813725, 17), (878511965507225, 16), (9410831331849326, 17),
      (10036171485119345, 17), (10661115427523811, 17), (1128563848734595, 16), (1190971600948472, 16),
      (12533323356428133, 17), (13156435909225922, 17), (1377902906846144, 16), (14401078255222813, 17),
      (15022558912073267, 17)] @
    [(1564344650402061, 16), (1626371651948585, 16), (1688334447127084, 16), (17502305897525022, 17),
      (18120576362711116, 17), (1873813145856981, 16), (19354946805083337, 17), (19970998051437977, 17),
      (20586260876985374, 17), (2120071099220267, 16), (21814324139651428, 17), (22427076094935258, 17),
      (23038942667656165, 17), (2364989970236954, 16), (24259923079537782, 17), (24868988716482485, 17),
      (2547707256833519, 16), (2608415062898663, 16), (26690198932034465, 17), (27295193551729396, 17),
      (2789911060391977, 16), (28501926246994425, 17), (29103616682823963, 17), (2970415815770024, 16),
      (30303526963274113, 17)] @
    [(3090169943749143, 16), (31498651965527136, 17), (32094360980717573, 17), (32688802965490843, 17),
      (3328195445229523, 16), (3387379202452568, 16), (34464292317448214, 17), (3505343201912238, 16),
      (3564118787132152, 16), (36227536670450994, 17), (36812455268464195, 17), (37395920573776414, 17),
      (37977909552176453, 17), (38558399227735973, 17), (39137366683716535, 17), (39714789063474326, 17),
      (40290643571362506, 17), (4086490747363112, 16), (414375580993246, 15), (4200857284117679, 16),
      (425779291565034, 15), (43145604568092016, 17), (43711576665089386, 17), (44275823103886225, 17),
      (4483832160899927, 16)] @
    [(45399049973950706, 17), (4595798606214479, 16), (4651510780774182, 16), (47070393216529216, 17),
      (4762382036678985, 16), (48175367410167447, 17), (4872501257252913, 16), (4927273415482504, 16),
      (49818510533944943, 17), (5036232016357193, 16), (5090414157503296, 16), (5144395337814645, 16),
      (5198173426206674, 16), (5251746299612534, 16), (5305111843066916, 16), (535826794978954, 15),
      (541121252126833, 15), (5463943467342262, 16), (5516458706283871, 16), (5568756164881448, 16),
      (5620833778520873, 16), (567268949126713, 15), (5724321255945473, 16), (5775727034222238, 16),
      (5826904796685322, 16)] @
    [(5877852522924292, 16), (5928568201610152, 16), (5979049830574746, 16), (6029295416889804, 16),
      (607930297694561, 15), (612907053652932, 15), (6178596130902897, 16), (6227877804880678, 16),
      (6276913612906557, 16), (6325701619130796, 16), (6374239897486448, 16), (6422526531765393, 16),
      (6470559615693993, 16), (6518337253008336, 16), (6565857557529113, 16), (6613118653236066, 16),
      (6660118674342064, 16), (6706855765366748, 16), (6753328081209791, 16), (6799533787223738, 16),
      (6845471059286433, 16), (6891138083873031, 16), (6936533058127596, 16), (6981654189934273, 16),
      (7026499697988038, 16)] @
    [(7071067811865022, 16), (7115356772092399, 16), (7159364830217858, 16), (7203090248878615, 16),
      (7246531301870014, 16), (7289686274213663, 16), (7332553462225148, 16), (7375131173581287, 16),
      (741741772738694, 15), (745941145424137, 15), (7501110696304145, 16), (7542513807360589, 16),
      (758361915288677, 15), (762442511011403, 15), (7664930068093051, 16), (7705132427757446, 16),
      (7745030601986893, 16), (7784623015669789, 16), (7823908105765438, 16), (7862884321365746, 16),
      (7901550123756462, 16), (7939903986477913, 16), (7977944395385271, 16), (8015669848708328, 16),
      (8053078857110784, 16)] @
    [(8090169943749039, 16), (8126941644330506, 16), (8163392507171408, 16), (8199521093254093, 16),
      (8235325976283846, 16), (8270805742745192, 16), (8305958991957701, 16), (8340784336131288, 16),
      (8375280400420996, 16), (8409445822981272, 16), (8443279255019733, 16), (8476779360850417, 16),
      (8509944817946505, 16), (8542774316992541, 16), (8575266561936113, 16), (860742027003903, 15),
      (863923417192795, 15), (86707070116445, 14), (8701837546694857, 16), (8732624548098805, 16),
      (8763066800438242, 16), (8793163101905171, 16), (8822912264349144, 16), (8852313113324166, 16),
      (8881364488135063, 16)] @
    [(8910065241883298, 16), (893841424151226, 15), (8966410367851985, 16), (8994052515663339, 16),
      (9021339593681661, 16), (904827052465983, 15), (9074844245410808, 16), (9101059706849598, 16),
      (9126915874034673, 16), (9152411726208824, 16), (9177546256839464, 16), (9202318473658359, 16),
      (9226727398700808, 16), (9250772068344243, 16), (927445153334628, 15), (9297764858882184, 16),
      (9320711124581784, 16), (9343289424565798, 16), (9365498867481605, 16), (9387338576538427, 16),
      (9408807689541945, 16), (9429905358928339, 16), (9450630751797746, 16), (9470983049947145, 16),
      (9490961449902653, 16)] @
    [(9510565162951247, 16), (9529793415171903, 16), (954864544746615, 15), (9567120515588029, 16),
      (9585217890173487, 16), (9602936856769164, 16), (9620276715860597, 16), (9637236782899841, 16),
      (9653816388332487, 16), (9670014877624103, 16), (9685831611286069, 16), (9701265964900821, 16),
      (9716317329146508, 16), (9730985109821039, 16), (9745268727865549, 16), (9759167619387257, 16),
      (9772681235681723, 16), (9785809043254515, 16), (9798550523842268, 16), (9810905174433145, 16),
      (9822872507286697, 16), (9834452049953113, 16), (9845643345291875, 16), (9856445951489807, 16),
      (9866859442078514, 16)] @
    [(9876883405951216, 16), (9886517447378984, 16), (989576118602636, 15), (9904614256966369, 16),
      (9913076310694928, 16), (9921147013144647, 16), (992882604569801, 15), (9936113105199964, 16),
      (9943007903969876, 16), (9949510169812894, 16), (9955619646030699, 16), (9961336091431631, 16),
      (9966659280340211, 16), (9971589002606057, 16), (9976125063612177, 16), (9980267284282647, 16),
      (9984015501089688, 16), (998736956606012, 15), (9990329346781199, 16), (9992894726405851, 16),
      (999506560365728, 15), (9996841892832972, 16), (9998223523808069, 16), (9999210442038147, 16),
      (9999802608561364, 16)]"

definition SinLUT :: "literal list" where
  "SinLUT =
    [(0, 0), (6283143965558951, 18), (12566039883352607, 18), (18848439715408175, 18), (2513009544333748, 17),
      (3141075907812829, 17), (3769018266993454, 17), (4396811831786491, 17), (50244318179769556, 18),
      (5651853448202453, 17), (6279051952931337, 17), (690600257144058, 16), (7532680552793272, 17),
      (8159061156815754, 17), (8785119655074318, 17), (9410831331851433, 17), (1003617148512149, 16),
      (10661115427525991, 17), (11285638487348168, 17), (11909716009486974, 17), (12533323356430426, 17),
      (1315643590922825, 16), (13779029068463808, 17), (14401078255225216, 17), (15022558912075706, 17)] @
    [(15643446504023087, 17), (16263716519488358, 17), (1688334447127339, 16), (17502305897527606, 17),
      (18120576362713736, 17), (18738131458572463, 17), (19354946805086026, 17), (19970998051440703, 17),
      (20586260876988133, 17), (21200710992205465, 17), (21814324139654254, 17), (22427076094938117, 17),
      (23038942667659057, 17), (2364989970237247, 16), (24259923079540743, 17), (2486898871648548, 16),
      (25477072568338216, 17), (26084150628989694, 17), (26690198932037557, 17), (2729519355173252, 16),
      (2789911060392293, 16), (2850192624699761, 16), (2910361668282718, 16), (2970415815770349, 16),
      (30303526963277394, 17)] @
    [(3090169943749474, 16), (3149865196553048, 16), (3209436098072095, 16), (32688802965494246, 17),
      (3328195445229867, 16), (3387379202452914, 16), (34464292317451706, 17), (350534320191259, 15),
      (35641187871325075, 17), (3622753667045457, 16), (368124552684678, 15), (37395920573780045, 17),
      (3797790955218011, 16), (38558399227739654, 17), (3913736668372024, 16), (3971478906347806, 16),
      (40290643571366264, 17), (40864907473634904, 17), (41437558099328414, 17), (42008572841180625, 17),
      (42577929156507266, 17), (43145604568095897, 17), (4371157666509329, 16), (4427582310389015, 16),
      (44838321609003223, 17)] @
    [(4539904997395468, 16), (45957986062148787, 17), (46515107807745837, 17), (4707039321653326, 16),
      (4762382036679391, 16), (4817536741017153, 16), (4872501257253323, 16), (49272734154829156, 17),
      (4981851053394908, 16), (5036232016357608, 16), (5090414157503713, 16), (5144395337815064, 16),
      (5198173426207096, 16), (5251746299612957, 16), (530511184306734, 15), (5358267949789967, 16),
      (5411212521268759, 16), (5463943467342691, 16), (5516458706284303, 16), (556875616488188, 15),
      (5620833778521306, 16), (5672689491267565, 16), (5724321255945909, 16), (5775727034222675, 16),
      (5826904796685761, 16)] @
    [(5877852522924731, 16), (5928568201610592, 16), (5979049830575188, 16), (6029295416890247, 16),
      (6079302976946054, 16), (6129070536529765, 16), (6178596130903343, 16), (6227877804881126, 16),
      (6276913612907005, 16), (6325701619131244, 16), (6374239897486897, 16), (6422526531765844, 16),
      (6470559615694443, 16), (6518337253008788, 16), (6565857557529565, 16), (6613118653236518, 16),
      (6660118674342517, 16), (67068557653672, 14), (6753328081210245, 16), (6799533787224192, 16),
      (6845471059286887, 16), (6891138083873485, 16), (6936533058128049, 16), (6981654189934726, 16),
      (7026499697988492, 16)] @
    [(7071067811865475, 16), (7115356772092853, 16), (7159364830218311, 16), (7203090248879069, 16),
      (7246531301870467, 16), (7289686274214116, 16), (7332553462225601, 16), (7375131173581739, 16),
      (7417417727387392, 16), (7459411454241821, 16), (7501110696304596, 16), (7542513807361038, 16),
      (7583619152887219, 16), (7624425110114479, 16), (7664930068093498, 16), (7705132427757893, 16),
      (7745030601987338, 16), (7784623015670235, 16), (7823908105765881, 16), (7862884321366189, 16),
      (7901550123756904, 16), (7939903986478353, 16), (797794439538571, 15), (8015669848708765, 16),
      (805307885711122, 15)] @
    [(8090169943749475, 16), (812694164433094, 15), (816339250717184, 15), (8199521093254524, 16),
      (8235325976284275, 16), (8270805742745618, 16), (8305958991958127, 16), (8340784336131711, 16),
      (8375280400421418, 16), (840944582298169, 15), (8443279255020151, 16), (8476779360850832, 16),
      (8509944817946918, 16), (8542774316992952, 16), (8575266561936523, 16), (8607420270039436, 16),
      (8639234171928353, 16), (86707070116449, 14), (8701837546695257, 16), (8732624548099202, 16),
      (8763066800438636, 16), (8793163101905562, 16), (8822912264349533, 16), (8852313113324553, 16),
      (8881364488135446, 16)] @
    [(8910065241883678, 16), (8938414241512638, 16), (8966410367852359, 16), (8994052515663711, 16),
      (9021339593682028, 16), (9048270524660196, 16), (907484424541117, 15), (9101059706849958, 16),
      (9126915874035028, 16), (9152411726209175, 16), (9177546256839811, 16), (9202318473658704, 16),
      (9226727398701148, 16), (925077206834458, 15), (9274451533346614, 16), (9297764858882515, 16),
      (932071112458211, 15), (934328942456612, 15), (9365498867481924, 16), (9387338576538741, 16),
      (9408807689542256, 16), (9429905358928644, 16), (9450630751798048, 16), (9470983049947443, 16),
      (9490961449902946, 16)] @
    [(9510565162951535, 16), (9529793415172189, 16), (954864544746643, 15), (9567120515588305, 16),
      (9585217890173758, 16), (9602936856769431, 16), (9620276715860859, 16), (9637236782900097, 16),
      (9653816388332739, 16), (9670014877624351, 16), (9685831611286311, 16), (9701265964901059, 16),
      (971631732914674, 15), (9730985109821265, 16), (9745268727865771, 16), (9759167619387474, 16),
      (9772681235681935, 16), (9785809043254721, 16), (9798550523842469, 16), (9810905174433341, 16),
      (9822872507286887, 16), (9834452049953297, 16), (9845643345292053, 16), (985644595148998, 15),
      (986685944207868, 15)] @
    [(9876883405951378, 16), (9886517447379141, 16), (9895761186026509, 16), (9904614256966512, 16),
      (9913076310695066, 16), (9921147013144779, 16), (9928826045698137, 16), (9936113105200084, 16),
      (9943007903969989, 16), (9949510169813002, 16), (99556196460308, 14), (9961336091431725, 16),
      (9966659280340299, 16), (9971589002606139, 16), (9976125063612252, 16), (9980267284282716, 16),
      (998401550108975, 15), (9987369566060175, 16), (9990329346781247, 16), (9992894726405892, 16),
      (9995065603657316, 16), (9996841892832999, 16), (999822352380809, 15), (9999210442038161, 16),
      (9999802608561371, 16)] @
    [(1, 0), (9999802608561371, 16), (9999210442038161, 16), (999822352380809, 15), (9996841892832999, 16),
      (9995065603657316, 16), (9992894726405892, 16), (9990329346781247, 16), (9987369566060175, 16),
      (998401550108975, 15), (9980267284282716, 16), (9976125063612252, 16), (9971589002606139, 16),
      (9966659280340299, 16), (9961336091431725, 16), (99556196460308, 14), (9949510169813002, 16),
      (9943007903969989, 16), (9936113105200084, 16), (9928826045698137, 16), (9921147013144778, 16),
      (9913076310695066, 16), (9904614256966512, 16), (9895761186026509, 16), (988651744737914, 15)] @
    [(9876883405951378, 16), (986685944207868, 15), (985644595148998, 15), (9845643345292053, 16),
      (9834452049953296, 16), (9822872507286887, 16), (9810905174433341, 16), (9798550523842469, 16),
      (9785809043254721, 16), (9772681235681935, 16), (9759167619387474, 16), (9745268727865771, 16),
      (9730985109821265, 16), (971631732914674, 15), (9701265964901058, 16), (9685831611286311, 16),
      (967001487762435, 15), (9653816388332739, 16), (9637236782900097, 16), (9620276715860858, 16),
      (9602936856769431, 16), (958521789017376, 15), (9567120515588305, 16), (954864544746643, 15),
      (9529793415172187, 16)] @
    [(9510565162951535, 16), (9490961449902946, 16), (9470983049947442, 16), (9450630751798048, 16),
      (9429905358928644, 16), (9408807689542255, 16), (9387338576538741, 16), (9365498867481923, 16),
      (934328942456612, 15), (932071112458211, 15), (9297764858882515, 16), (9274451533346613, 16),
      (925077206834458, 15), (9226727398701149, 16), (9202318473658704, 16), (9177546256839811, 16),
      (9152411726209175, 16), (9126915874035029, 16), (9101059706849957, 16), (9074844245411169, 16),
      (9048270524660195, 16), (9021339593682027, 16), (899405251566371, 15), (8966410367852358, 16),
      (8938414241512639, 16)] @
    [(8910065241883679, 16), (8881364488135446, 16), (8852313113324553, 16), (8822912264349533, 16),
      (8793163101905562, 16), (8763066800438635, 16), (87326245480992, 14), (8701837546695257, 16),
      (8670707011644901, 16), (8639234171928354, 16), (8607420270039436, 16), (8575266561936522, 16),
      (8542774316992952, 16), (8509944817946917, 16), (8476779360850831, 16), (8443279255020152, 16),
      (8409445822981692, 16), (8375280400421418, 16), (8340784336131711, 16), (8305958991958127, 16),
      (8270805742745617, 16), (8235325976284273, 16), (8199521093254521, 16), (8163392507171838, 16),
      (8126941644330941, 16)] @
    [(8090169943749475, 16), (805307885711122, 15), (8015669848708765, 16), (797794439538571, 15),
      (7939903986478353, 16), (7901550123756903, 16), (7862884321366188, 16), (7823908105765882, 16),
      (7784623015670235, 16), (7745030601987338, 16), (7705132427757893, 16), (7664930068093498, 16),
      (7624425110114478, 16), (7583619152887218, 16), (7542513807361036, 16), (7501110696304594, 16),
      (7459411454241822, 16), (7417417727387393, 16), (7375131173581739, 16), (73325534622256, 14),
      (7289686274214114, 16), (7246531301870466, 16), (7203090248879067, 16), (715936483021831, 15),
      (7115356772092855, 16)] @
    [(7071067811865476, 16), (7026499697988492, 16), (6981654189934727, 16), (6936533058128049, 16),
      (6891138083873484, 16), (6845471059286885, 16), (679953378722419, 15), (6753328081210246, 16),
      (6706855765367201, 16), (6660118674342517, 16), (6613118653236518, 16), (6565857557529564, 16),
      (6518337253008787, 16), (6470559615694442, 16), (6422526531765842, 16), (6374239897486895, 16),
      (6325701619131245, 16), (6276913612907006, 16), (6227877804881126, 16), (6178596130903343, 16),
      (6129070536529764, 16), (6079302976946053, 16), (6029295416890246, 16), (5979049830575187, 16),
      (5928568201610593, 16)] @
    [(5877852522924732, 16), (5826904796685761, 16), (5775727034222676, 16), (5724321255945908, 16),
      (5672689491267564, 16), (5620833778521305, 16), (5568756164881878, 16), (55164587062843, 14),
      (5463943467342692, 16), (5411212521268759, 16), (5358267949789967, 16), (530511184306734, 15),
      (5251746299612956, 16), (5198173426207093, 16), (5144395337815063, 16), (5090414157503711, 16),
      (5036232016357609, 16), (4981851053394909, 16), (4927273415482916, 16), (4872501257253323, 16),
      (4817536741017152, 16), (476238203667939, 15), (4707039321653324, 16), (46515107807745815, 17),
      (459579860621488, 15)] @
    [(45399049973954686, 17), (4483832160900323, 16), (44275823103890155, 17), (4371157666509329, 16),
      (43145604568095886, 17), (4257792915650725, 16), (4200857284118061, 16), (41437558099328387, 17),
      (40864907473634915, 17), (40290643571366275, 17), (3971478906347806, 16), (39137366683720237, 17),
      (3855839922773965, 16), (379779095521801, 15), (3739592057378003, 16), (36812455268467775, 17),
      (3622753667045458, 16), (3564118787132508, 16), (350534320191259, 15), (34464292317451706, 17),
      (3387379202452913, 16), (3328195445229865, 16), (3268880296549423, 16), (32094360980720926, 17),
      (31498651965530455, 17)] @
    [(3090169943749475, 16), (30303526963277405, 17), (2970415815770349, 16), (29103616682827177, 17),
      (28501926246997605, 17), (2789911060392291, 16), (27295193551732505, 17), (2669019893203753, 16),
      (26084150628989705, 17), (25477072568338227, 17), (24868988716485482, 17), (2425992307954074, 16),
      (2364989970237246, 16), (23038942667659046, 17), (224270760949381, 15), (21814324139654231, 17),
      (2120071099220548, 16), (2058626087698814, 16), (19970998051440705, 17), (19354946805086026, 17),
      (18738131458572457, 17), (18120576362713725, 17), (17502305897527587, 17), (16883344471273365, 17),
      (16263716519488333, 17)] @
    [(15643446504023098, 17), (15022558912075712, 17), (14401078255225216, 17), (13779029068463802, 17),
      (1315643590922824, 16), (1253332335643041, 16), (11909716009486954, 17), (11285638487348143, 17),
      (10661115427526005, 17), (10036171485121498, 17), (9410831331851435, 17), (8785119655074315, 17),
      (8159061156815747, 17), (753268055279326, 16), (6906002571440562, 17), (6279051952931314, 17),
      (56518534482024235, 18), (5024431817976966, 17), (4396811831786496, 17), (37690182669934534, 18),
      (31410759078128236, 18), (2513009544333737, 17), (18848439715408016, 18), (12566039883352392, 18),
      (6283143965558683, 18)] @
    [(12246467991473532, 32), (- 6283143965558882, 18), (- 12566039883352592, 18), (- 18848439715408213, 18),
      (- 2513009544333757, 17), (- 3141075907812844, 17), (- 37690182669934735, 18), (- 4396811831786515, 17),
      (- 5024431817976942, 17), (- 56518534482024436, 18), (- 6279051952931335, 17), (- 6906002571440581, 17),
      (- 7532680552793279, 17), (- 8159061156815768, 17), (- 8785119655074335, 17), (- 9410831331851455, 17),
      (- 10036171485121517, 17), (- 1066111542752598, 16), (- 11285638487348164, 17), (- 11909716009486973, 17),
      (- 12533323356430429, 17), (- 13156435909228262, 17), (- 13779029068463822, 17), (- 14401078255225236, 17),
      (- 1502255891207573, 16)] @
    [(- 15643446504023073, 17), (- 16263716519488353, 17), (- 16883344471273384, 17), (- 1750230589752761, 16),
      (- 18120576362713745, 17), (- 18738131458572477, 17), (- 19354946805086046, 17), (- 19970998051440725, 17),
      (- 2058626087698812, 16), (- 21200710992205454, 17), (- 2181432413965425, 16), (- 2242707609493812, 16),
      (- 23038942667659065, 17), (- 2364989970237248, 16), (- 2425992307954076, 16), (- 24868988716485502, 17),
      (- 25477072568338244, 17), (- 26084150628989683, 17), (- 2669019893203755, 16), (- 2729519355173252, 16),
      (- 2789911060392293, 16), (- 2850192624699762, 16), (- 291036166828272, 15), (- 2970415815770351, 16),
      (- 3030352696327742, 16)] @
    [(- 3090169943749473, 16), (- 3149865196553047, 16), (- 3209436098072095, 16), (- 3268880296549425, 16),
      (- 33281954452298673, 17), (- 3387379202452915, 16), (- 3446429231745172, 16), (- 35053432019125924, 17),
      (- 356411878713251, 15), (- 3622753667045456, 16), (- 3681245526846779, 16), (- 37395920573780045, 17),
      (- 37977909552180117, 17), (- 38558399227739665, 17), (- 3913736668372026, 16), (- 3971478906347808, 16),
      (- 4029064357136629, 16), (- 4086490747363489, 16), (- 4143755809932841, 16), (- 42008572841180625, 17),
      (- 42577929156507266, 17), (- 4314560456809591, 16), (- 43711576665093305, 17), (- 4427582310389017, 16),
      (- 4483832160900325, 16)] @
    [(- 4539904997395467, 16), (- 45957986062148776, 17), (- 4651510780774583, 16), (- 4707039321653326, 16),
      (- 4762382036679392, 16), (- 4817536741017154, 16), (- 4872501257253325, 16), (- 4927273415482918, 16),
      (- 49818510533949106, 17), (- 5036232016357608, 16), (- 5090414157503712, 16), (- 5144395337815064, 16),
      (- 5198173426207096, 16), (- 5251746299612958, 16), (- 5305111843067342, 16), (- 5358267949789968, 16),
      (- 541121252126876, 15), (- 546394346734269, 15), (- 5516458706284302, 16), (- 556875616488188, 15),
      (- 5620833778521306, 16), (- 5672689491267565, 16), (- 572432125594591, 15), (- 5775727034222677, 16),
      (- 5826904796685762, 16)] @
    [(- 5877852522924734, 16), (- 5928568201610591, 16), (- 5979049830575188, 16), (- 6029295416890247, 16),
      (- 6079302976946055, 16), (- 6129070536529766, 16), (- 6178596130903344, 16), (- 6227877804881127, 16),
      (- 6276913612907007, 16), (- 6325701619131243, 16), (- 6374239897486896, 16), (- 6422526531765844, 16),
      (- 6470559615694443, 16), (- 6518337253008788, 16), (- 6565857557529565, 16), (- 661311865323652, 15),
      (- 6660118674342518, 16), (- 6706855765367199, 16), (- 6753328081210244, 16), (- 6799533787224192, 16),
      (- 6845471059286887, 16), (- 6891138083873485, 16), (- 693653305812805, 15), (- 6981654189934728, 16),
      (- 7026499697988493, 16)] @
    [(- 7071067811865477, 16), (- 7115356772092853, 16), (- 7159364830218311, 16), (- 7203090248879069, 16),
      (- 7246531301870467, 16), (- 7289686274214116, 16), (- 7332553462225602, 16), (- 737513117358174, 15),
      (- 7417417727387394, 16), (- 7459411454241821, 16), (- 7501110696304595, 16), (- 7542513807361038, 16),
      (- 7583619152887222, 16), (- 7624425110114479, 16), (- 7664930068093496, 16), (- 7705132427757894, 16),
      (- 7745030601987337, 16), (- 7784623015670236, 16), (- 7823908105765881, 16), (- 7862884321366191, 16),
      (- 7901550123756904, 16), (- 7939903986478356, 16), (- 7977944395385711, 16), (- 8015669848708764, 16),
      (- 8053078857111221, 16)] @
    [(- 8090169943749473, 16), (- 8126941644330942, 16), (- 8163392507171839, 16), (- 8199521093254526, 16),
      (- 8235325976284275, 16), (- 8270805742745616, 16), (- 8305958991958127, 16), (- 834078433613171, 15),
      (- 8375280400421419, 16), (- 840944582298169, 15), (- 8443279255020153, 16), (- 8476779360850832, 16),
      (- 8509944817946921, 16), (- 8542774316992952, 16), (- 8575266561936521, 16), (- 8607420270039438, 16),
      (- 8639234171928352, 16), (- 8670707011644903, 16), (- 8701837546695256, 16), (- 8732624548099204, 16),
      (- 8763066800438636, 16), (- 8793163101905564, 16), (- 8822912264349534, 16), (- 8852313113324551, 16),
      (- 8881364488135446, 16)] @
    [(- 8910065241883678, 16), (- 8938414241512639, 16), (- 8966410367852359, 16), (- 8994052515663712, 16),
      (- 9021339593682028, 16), (- 9048270524660194, 16), (- 907484424541117, 15), (- 9101059706849955, 16),
      (- 9126915874035029, 16), (- 9152411726209175, 16), (- 9177546256839813, 16), (- 9202318473658704, 16),
      (- 922672739870115, 15), (- 925077206834458, 15), (- 9274451533346612, 16), (- 9297764858882515, 16),
      (- 9320711124582108, 16), (- 9343289424566121, 16), (- 9365498867481923, 16), (- 9387338576538742, 16),
      (- 9408807689542255, 16), (- 9429905358928646, 16), (- 9450630751798049, 16), (- 9470983049947442, 16),
      (- 9490961449902946, 16)] @
    [(- 9510565162951535, 16), (- 952979341517219, 15), (- 954864544746643, 15), (- 9567120515588307, 16),
      (- 958521789017376, 15), (- 9602936856769432, 16), (- 9620276715860859, 16), (- 9637236782900096, 16),
      (- 965381638833274, 15), (- 967001487762435, 15), (- 9685831611286312, 16), (- 9701265964901058, 16),
      (- 9716317329146741, 16), (- 9730985109821266, 16), (- 9745268727865771, 16), (- 9759167619387474, 16),
      (- 9772681235681934, 16), (- 9785809043254722, 16), (- 9798550523842469, 16), (- 9810905174433342, 16),
      (- 9822872507286887, 16), (- 9834452049953297, 16), (- 9845643345292054, 16), (- 9856445951489979, 16),
      (- 9866859442078681, 16)] @
    [(- 9876883405951377, 16), (- 9886517447379141, 16), (- 9895761186026509, 16), (- 9904614256966513, 16),
      (- 9913076310695066, 16), (- 9921147013144779, 16), (- 9928826045698137, 16), (- 9936113105200084, 16),
      (- 9943007903969989, 16), (- 9949510169813002, 16), (- 99556196460308, 14), (- 9961336091431725, 16),
      (- 9966659280340299, 16), (- 9971589002606139, 16), (- 9976125063612252, 16), (- 9980267284282716, 16),
      (- 998401550108975, 15), (- 9987369566060175, 16), (- 9990329346781247, 16), (- 9992894726405893, 16),
      (- 9995065603657316, 16), (- 9996841892833, 13), (- 999822352380809, 15), (- 9999210442038161, 16),
      (- 9999802608561371, 16)] @
    [(- 1, 0), (- 9999802608561371, 16), (- 9999210442038161, 16), (- 999822352380809, 15), (- 9996841892832999, 16),
      (- 9995065603657315, 16), (- 9992894726405892, 16), (- 9990329346781247, 16), (- 9987369566060175, 16),
      (- 998401550108975, 15), (- 9980267284282716, 16), (- 9976125063612252, 16), (- 9971589002606139, 16),
      (- 9966659280340299, 16), (- 9961336091431725, 16), (- 99556196460308, 14), (- 9949510169813002, 16),
      (- 9943007903969988, 16), (- 9936113105200084, 16), (- 9928826045698136, 16), (- 9921147013144779, 16),
      (- 9913076310695065, 16), (- 9904614256966512, 16), (- 989576118602651, 15), (- 988651744737914, 15)] @
    [(- 9876883405951378, 16), (- 986685944207868, 15), (- 985644595148998, 15), (- 9845643345292053, 16),
      (- 9834452049953297, 16), (- 9822872507286886, 16), (- 9810905174433341, 16), (- 9798550523842469, 16),
      (- 9785809043254721, 16), (- 9772681235681935, 16), (- 9759167619387473, 16), (- 9745268727865771, 16),
      (- 9730985109821264, 16), (- 971631732914674, 15), (- 9701265964901059, 16), (- 9685831611286311, 16),
      (- 9670014877624351, 16), (- 9653816388332738, 16), (- 9637236782900097, 16), (- 9620276715860858, 16),
      (- 9602936856769431, 16), (- 9585217890173757, 16), (- 9567120515588304, 16), (- 9548645447466431, 16),
      (- 9529793415172187, 16)] @
    [(- 9510565162951536, 16), (- 9490961449902945, 16), (- 9470983049947443, 16), (- 9450630751798047, 16),
      (- 9429905358928644, 16), (- 9408807689542253, 16), (- 9387338576538741, 16), (- 9365498867481924, 16),
      (- 9343289424566119, 16), (- 9320711124582111, 16), (- 9297764858882512, 16), (- 9274451533346614, 16),
      (- 9250772068344579, 16), (- 9226727398701148, 16), (- 9202318473658702, 16), (- 917754625683981, 15),
      (- 9152411726209176, 16), (- 9126915874035028, 16), (- 9101059706849958, 16), (- 9074844245411168, 16),
      (- 9048270524660196, 16), (- 9021339593682026, 16), (- 899405251566371, 15), (- 896641036785236, 15),
      (- 8938414241512637, 16)] @
    [(- 891006524188368, 15), (- 8881364488135444, 16), (- 8852313113324553, 16), (- 8822912264349531, 16),
      (- 8793163101905562, 16), (- 8763066800438634, 16), (- 8732624548099202, 16), (- 8701837546695258, 16),
      (- 8670707011644899, 16), (- 8639234171928354, 16), (- 8607420270039434, 16), (- 8575266561936523, 16),
      (- 8542774316992949, 16), (- 8509944817946918, 16), (- 8476779360850829, 16), (- 844327925502015, 15),
      (- 8409445822981693, 16), (- 8375280400421415, 16), (- 8340784336131712, 16), (- 8305958991958124, 16),
      (- 8270805742745618, 16), (- 8235325976284271, 16), (- 8199521093254523, 16), (- 8163392507171842, 16),
      (- 8126941644330938, 16)] @
    [(- 8090169943749476, 16), (- 8053078857111218, 16), (- 8015669848708766, 16), (- 7977944395385708, 16),
      (- 7939903986478354, 16), (- 7901550123756901, 16), (- 7862884321366188, 16), (- 7823908105765883, 16),
      (- 7784623015670232, 16), (- 7745030601987339, 16), (- 770513242775789, 15), (- 7664930068093498, 16),
      (- 7624425110114476, 16), (- 7583619152887218, 16), (- 7542513807361035, 16), (- 7501110696304595, 16),
      (- 7459411454241823, 16), (- 741741772738739, 15), (- 737513117358174, 15), (- 7332553462225598, 16),
      (- 7289686274214116, 16), (- 7246531301870464, 16), (- 7203090248879068, 16), (- 7159364830218313, 16),
      (- 7115356772092852, 16)] @
    [(- 7071067811865477, 16), (- 702649969798849, 15), (- 6981654189934727, 16), (- 6936533058128047, 16),
      (- 6891138083873485, 16), (- 6845471059286883, 16), (- 6799533787224191, 16), (- 6753328081210247, 16),
      (- 6706855765367199, 16), (- 6660118674342518, 16), (- 6613118653236516, 16), (- 6565857557529565, 16),
      (- 6518337253008785, 16), (- 6470559615694443, 16), (- 642252653176584, 15), (- 6374239897486896, 16),
      (- 6325701619131247, 16), (- 6276913612907002, 16), (- 6227877804881126, 16), (- 6178596130903341, 16),
      (- 6129070536529765, 16), (- 607930297694605, 15), (- 6029295416890247, 16), (- 5979049830575184, 16),
      (- 5928568201610591, 16)] @
    [(- 5877852522924734, 16), (- 5826904796685758, 16), (- 5775727034222677, 16), (- 5724321255945906, 16),
      (- 5672689491267565, 16), (- 5620833778521301, 16), (- 556875616488188, 15), (- 5516458706284305, 16),
      (- 5463943467342689, 16), (- 541121252126876, 15), (- 5358267949789963, 16), (- 5305111843067342, 16),
      (- 5251746299612954, 16), (- 5198173426207094, 16), (- 514439533781506, 15), (- 5090414157503712, 16),
      (- 503623201635761, 15), (- 4981851053394906, 16), (- 4927273415482917, 16), (- 487250125725332, 15),
      (- 4817536741017153, 16), (- 47623820366793873, 17), (- 4707039321653325, 16), (- 46515107807745787, 17),
      (- 4595798606214877, 16)] @
    [(- 45399049973954697, 17), (- 448383216090032, 15), (- 44275823103890166, 17), (- 43711576665093255, 17),
      (- 43145604568095897, 17), (- 4257792915650722, 16), (- 4200857284118062, 16), (- 4143755809932844, 16),
      (- 40864907473634887, 17), (- 40290643571366286, 17), (- 39714789063478034, 17), (- 3913736668372025, 16),
      (- 38558399227739615, 17), (- 3797790955218011, 16), (- 37395920573779995, 17), (- 36812455268467786, 17),
      (- 3622753667045459, 16), (- 3564118787132505, 16), (- 3505343201912592, 16), (- 3446429231745167, 16),
      (- 3387379202452914, 16), (- 33281954452298623, 17), (- 3268880296549424, 16), (- 320943609807209, 15),
      (- 31498651965530466, 17)] @
    [(- 3090169943749476, 16), (- 3030352696327737, 16), (- 29704158157703503, 17), (- 2910361668282715, 16),
      (- 28501926246997616, 17), (- 2789911060392288, 16), (- 27295193551732516, 17), (- 26690198932037584, 17),
      (- 2608415062898968, 16), (- 2547707256833824, 16), (- 2486898871648545, 16), (- 24259923079540752, 17),
      (- 2364989970237243, 16), (- 23038942667659057, 17), (- 2242707609493807, 16), (- 21814324139654243, 17),
      (- 2120071099220549, 16), (- 2058626087698811, 16), (- 1997099805144072, 16), (- 19354946805085993, 17),
      (- 18738131458572468, 17), (- 18120576362713692, 17), (- 175023058975276, 15), (- 16883344471273334, 17),
      (- 16263716519488344, 17)] @
    [(- 15643446504023112, 17), (- 15022558912075681, 17), (- 1440107825522523, 16), (- 13779029068463772, 17),
      (- 13156435909228253, 17), (- 1253332335643038, 16), (- 11909716009486966, 17), (- 11285638487348111, 17),
      (- 10661115427525973, 17), (- 10036171485121509, 17), (- 9410831331851403, 17), (- 8785119655074328, 17),
      (- 8159061156815715, 17), (- 7532680552793272, 17), (- 690600257144053, 16), (- 6279051952931326, 17),
      (- 56518534482024804, 18), (- 5024431817976934, 17), (- 43968118317865075, 18), (- 37690182669934215, 18),
      (- 3141075907812836, 17), (- 2513009544333705, 17), (- 18848439715408137, 18), (- 12566039883352071, 18),
      (- 6283143965558805, 18)]"

definition TanLUT :: "literal list" where
  "TanLUT =
    [(- 9999996666666933, 13), (- 2415682825822329, 13), (- 13737558470612717, 14), (- 95977073305398, 12),
      (- 7375065568120709, 14), (- 5988197731471557, 14), (- 50402823024408754, 15), (- 43513841912005546, 15),
      (- 3828091029866055, 14), (- 3417087994400681, 14), (- 30857278997551038, 15), (- 281290118446136, 13),
      (- 25843528681657496, 15), (- 2390109223326131, 14), (- 2222982769091511, 14), (- 2077662833566954, 14),
      (- 1950140498661324, 14), (- 18373327728353544, 15), (- 17368298613715293, 15), (- 1646720930180586, 14),
      (- 15654713210689835, 15), (- 14918343242199525, 15), (- 14247866693300749, 15), (- 13634806152822346, 15),
      (- 13072078605234895, 15)] @
    [(- 12553720059884915, 15), (- 1207467295826733, 14), (- 1163062027331152, 14), (- 11217854758969777, 15),
      (- 1083317495772756, 14), (- 10473801788112, 12), (- 10137311112363788, 15), (- 9821578823062886, 15),
      (- 9524735818558367, 15), (- 9245130850167737, 15), (- 8981299680989816, 15), (- 8731939339836021, 15),
      (- 849588651456596, 14), (- 8272099328643735, 15), (- 8059641898589412, 15), (- 785767118951355, 14),
      (- 76654257794036935, 16), (- 748221621643189, 14), (- 7307416711861037, 15), (- 71404579575954905, 16),
      (- 69808208946608605, 16), (- 6828031288901443, 15), (- 6681654994480655, 15), (- 6541293805541064, 15),
      (- 6406581812543861, 15)] @
    [(- 6277182193079886, 15), (- 6152784377888993, 15), (- 6033101541886408, 15), (- 5917868377527089, 15),
      (- 5806839114123294, 15), (- 5699785751992487, 15), (- 5596496484733644, 15), (- 5496774286656862, 15),
      (- 5400435645542841, 15), (- 5307309423582293, 15), (- 52172358316199094, 16), (- 5130065503768288, 15),
      (- 5045658661117619, 15), (- 4963884354691415, 15), (- 4884619779023669, 15), (- 4807749648789136, 15),
      (- 4733165631831411, 15), (- 46607658327243735, 16), (- 4590454321689286, 15), (- 4522140704287385, 15),
      (- 4455739727828898, 15), (- 4391170920894712, 15), (- 4328358262765593, 15), (- 4267229879903564, 15),
      (- 4207717766937423, 15)] @
    [(- 414975752987502, 14), (- 4093288149503633, 15), (- 4038251763150726, 15), (- 39845934631640563, 16),
      (- 3932261110635626, 15), (- 38812051630409274, 16), (- 3831378514595637, 15), (- 37827363482483203, 16),
      (- 3735235998331555, 15), (- 3688836822986617, 15), (- 36435000855598623, 16), (- 35991888442432356, 16),
      (- 35558678492980134, 16), (- 3513503447260738, 15), (- 3472063491584143, 15), (- 34315172592143375, 16),
      (- 3391835372649201, 15), (- 33529897270623876, 16), (- 33149534221129464, 16), (- 32777006980928225, 16),
      (- 324120687609366, 14), (- 3205448301900809, 15), (- 31704022933464424, 16), (- 3136047090875504, 15),
      (- 31023618110980418, 16)] @
    [(- 3069326403119552, 15), (- 3036921607457396, 15), (- 30051289173663682, 16), (- 29739305424101974, 16),
      (- 29433093741282645, 16), (- 2913248953658285, 15), (- 2883733441186174, 15), (- 28547475871039136, 16),
      (- 282627670476504, 14), (- 2798306644735457, 15), (- 2770823770444689, 15), (- 274381493514951, 14),
      (- 27172674601281583, 16), (- 2691169114029123, 15), (- 26655080933038002, 16), (- 2640273003657229, 15),
      (- 26154528424556394, 16), (- 25910369820337245, 16), (- 25670151538484025, 16), (- 2543377433429411, 15),
      (- 25201142260803735, 16), (- 249721625328704, 14), (- 2474674539792224, 15), (- 2452480401299601, 15),
      (- 2430625432770951, 15)] @
    [(- 2409101497283703, 15), (- 23879007154177265, 16), (- 2367015455142279, 15), (- 23464383221758154, 16),
      (- 23261621507930723, 16), (- 23061799950553983, 16), (- 22864851204417658, 16), (- 22670709958592745, 16),
      (- 22479312860132135, 16), (- 22290598441179488, 16), (- 22104507049310027, 16), (- 21920980780937307, 16),
      (- 21739963417629644, 16), (- 2156140036518898, 15), (- 21385238595353355, 16), (- 21211426589992146, 16),
      (- 21039914287670545, 16), (- 2087065303246679, 15), (- 20703595524932075, 16), (- 2053869577508927, 15),
      (- 20375909057372183, 16), (- 20215191867412523, 16), (- 2005650188058687, 15), (- 19899797912240427, 16),
      (- 1974503987950909, 15)] @
    [(- 19592188764665313, 16), (- 1944120657991733, 15), (- 19292056333594911, 16), (- 19144701997658369, 16),
      (- 18999108476470776, 16), (- 1885524157677646, 15), (- 18713067978831797, 16), (- 18572555208636952, 16),
      (- 18433671611219993, 16), (- 18296386324927023, 16), (- 18160669256674524, 16), (- 18026491058122045, 16),
      (- 1789382310272564, 15), (- 17762637463634239, 16), (- 1763290689239308, 15), (- 17504604798420018, 16),
      (- 17377705229222165, 16), (- 1725218285132192, 15), (- 17128012931862873, 16), (- 17005171320867438, 16),
      (- 16883634434119517, 16), (- 16763379236646547, 16), (- 1664438322677668, 15), (- 16526624420747797, 16),
      (- 16410081337846232, 16)] @
    [(- 1629473298605404, 15), (- 16180558848184636, 16), (- 1606753886848751, 15), (- 15955653439703592, 16),
      (- 15844883390553717, 16), (- 15735209973643336, 16), (- 1562661485376741, 15), (- 15519080096600146, 16),
      (- 15412588157754852, 16), (- 15307121872199863, 16), (- 15202664444017095, 16), (- 15099199436490354, 16),
      (- 14996710762511052, 16), (- 14895182675289576, 16), (- 14794599759360956, 16), (- 14694946921874057, 16),
      (- 1459620938415389, 15), (- 14498372673527098, 16), (- 14401422615401112, 16), (- 14305345325587822, 16),
      (- 14210127202862992, 16), (- 14115754921753028, 16), (- 14022215425541036, 16), (- 139294959194844, 14),
      (- 13837583864236498, 16)] @
    [(- 13746466969465372, 16), (- 1365613318766254, 15), (- 13566570708135361, 16), (- 13477767951176611, 16),
      (- 13389713562405245, 16), (- 13302396407272463, 16), (- 1321580556572748, 15), (- 13129930327037649, 16),
      (- 13044760184757669, 16), (- 12960284831842996, 16), (- 1287649415590255, 15), (- 12793378234586172, 16),
      (- 12710927331102397, 16), (- 12629131889862188, 16), (- 12547982532244608, 16), (- 1246747005248041, 15),
      (- 12387585413649744, 16), (- 12308319743790304, 16), (- 12229664332112373, 16), (- 12151610625317364, 16),
      (- 1207415022401654, 15), (- 11997274879246784, 16), (- 11920976489080322, 16), (- 11845247095325484, 16),
      (- 1177007888031565, 15)] @
    [(- 11695464163783642, 16), (- 11621395399818901, 16), (- 11547865173904952, 16), (- 11474866200034612, 16),
      (- 1140239131790066, 15), (- 113304334901596, 14), (- 1125898579976634, 15), (- 1118804144737765, 15),
      (- 11117593748822332, 16), (- 11047636132636078, 16), (- 10978162137659164, 16), (- 10909165410695023, 16),
      (- 10840639704227988, 16), (- 1077257887419841, 15), (- 107049768778335, 14), (- 10637827771532247, 16),
      (- 10571125708802878, 16), (- 10504864938251313, 16), (- 10439039801619145, 16), (- 10373644731869764, 16),
      (- 10308674251321184, 16), (- 10244122969824323, 16), (- 10179985582985391, 16), (- 10116256870431155, 16),
      (- 10052931694115905, 16)] @
    [(- 9990004996668904, 16), (- 9927471799781248, 16), (- 9865327202630996, 16), (- 9803566380345548, 16),
      (- 9742184582500214, 16), (- 9681177131652008, 16), (- 9620539421907685, 16), (- 9560266917525099, 16),
      (- 9500355151546974, 16), (- 944079972446622, 15), (- 9381596302921928, 16), (- 9322740618425247, 16),
      (- 9264228466114315, 16), (- 9206055703537498, 16), (- 9148218249464176, 16), (- 9090712082722336, 16),
      (- 9033533241062293, 16), (- 8976677820045824, 16), (- 8920141971960086, 16), (- 886392190475564, 15),
      (- 8808013881007966, 16), (- 8752414216901889, 16), (- 8697119281238279, 16), (- 8642125494462488, 16),
      (- 8587429327713969, 16)] @
    [(- 8533027301896507, 16), (- 8478915986768584, 16), (- 8425092000053319, 16), (- 8371552006567545, 16),
      (- 8318292717369488, 16), (- 8265310888924619, 16), (- 821260332228922, 15), (- 8160166862311216, 16),
      (- 810799839684784, 15), (- 8056094855999736, 16), (- 8004453211361088, 16), (- 7953070475285361, 16),
      (- 7901943700166311, 16), (- 7851069977733861, 16), (- 7800446438364498, 16), (- 7750070250405832, 16),
      (- 7699938619514988, 16), (- 7650048788010483, 16), (- 7600398034237278, 16), (- 7550983671944681, 16),
      (- 750180304967681, 15), (- 7452853550175291, 16), (- 740413258979395, 15), (- 7355637617925153, 16),
      (- 7307366116437575, 16)] @
    [(- 7259315599125111, 16), (- 7211483611166656, 16), (- 7163867728596522, 16), (- 7116465557785244, 16),
      (- 706927473493051, 15), (- 7022292925558018, 16), (- 6975517824032011, 16), (- 6928947153075267, 16),
      (- 6882578663298333, 16), (- 6836410132737808, 16), (- 6790439366403436, 16), (- 6744664195833844, 16),
      (- 669908247866071, 15), (- 6653692098181178, 16), (- 6608490962938335, 16), (- 6563477006309572, 16),
      (- 6518648186102647, 16), (- 6474002484159288, 16), (- 6429537905966163, 16), (- 6385252480273054, 16),
      (- 6341144258718082, 16), (- 6297211315459825, 16), (- 6253451746816172, 16), (- 6209863670909783, 16),
      (- 6166445227319991, 16)] @
    [(- 6123194576741019, 16), (- 6080109900646379, 16), (- 6037189400959297, 16), (- 5994431299729073, 16),
      (- 5951833838813202, 16), (- 5909395279565175, 16), (- 5867113902527815, 16), (- 5824988007132033, 16),
      (- 5783015911400895, 16), (- 5741195951658887, 16), (- 5699526482246259, 16), (- 5658005875238354, 16),
      (- 5616632520169811, 16), (- 5575404823763539, 16), (- 5534321209664358, 16), (- 5493380118177231, 16),
      (- 5452580006009956, 16), (- 5411919346020262, 16), (- 537139662696719, 15), (- 5331010353266694, 16),
      (- 5290759044751348, 16), (- 52506412364341, 14), (- 5210655478275986, 16), (- 5170800334957696, 16),
      (- 5131074385654953, 16)] @
    [(- 5091476223817611, 16), (- 5052004456952373, 16), (- 5012657706409098, 16), (- 49734346071706015, 17),
      (- 4934333807645865, 16), (- 489535396946662, 15), (- 4856493767287215, 16), (- 48177518885876996, 17),
      (- 47791270334800773, 17), (- 4740617914517644, 16), (- 470222325650737, 15), (- 4663941796325248, 16),
      (- 46257722827345565, 17), (- 45877134762069877, 17), (- 4549764148746567, 16), (- 4511923083716321, 16),
      (- 4474189075667637, 16), (- 4436560930172263, 16), (- 4399037463656888, 16), (- 43616175032402643, 17),
      (- 4324299886572814, 16), (- 4287083461678671, 16), (- 4249967086800117, 16), (- 4212949630244358, 16),
      (- 41760299702326, 14)] @
    [(- 41392069947513777, 17), (- 4102479601406095, 16), (- 40658466972767304, 17), (- 4029307198775666, 16),
      (- 39928600315076074, 17), (- 3956504130131535, 16), (- 3920238438224675, 16), (- 38840619081484257, 17),
      (- 38479735009162125, 17), (- 381197218606324, 15), (- 37760569415180933, 17), (- 37402267534761624, 17),
      (- 3704480616274846, 16), (- 36688175322705097, 17), (- 36332365117171617, 17), (- 3597736572646807, 16),
      (- 35623167407514594, 17), (- 35269760492667684, 17), (- 349171353885724, 15), (- 3456528257503014, 16),
      (- 34214192603881666, 17), (- 3386385609790523, 16), (- 335142637497293, 15), (- 33165406320759794, 17),
      (- 32817274640121435, 17)] @
    [(- 32469859603613016, 17), (- 32123152172676245, 17), (- 3177714337337802, 16), (- 3143182429540573, 16),
      (- 31087186091075486, 17), (- 3074321997435288, 16), (- 30399917219886213, 17), (- 3005726916205174, 16),
      (- 29715267194010925, 17), (- 29373902766779253, 17), (- 29033167388306597, 17), (- 2869305262256873, 16),
      (- 2835355008866989, 16), (- 2801465145995608, 16), (- 2767634846313906, 16), (- 27338632877430624, 17),
      (- 27001496533687075, 17), (- 26664931313563733, 17), (- 26328929148679187, 17), (- 25993482019789127, 17),
      (- 25658581955969634, 17), (- 2532422103380966, 16), (- 24990391376612536, 17), (- 24657085153606387, 17),
      (- 24324294579163197, 17)] @
    [(- 23992011912026387, 17), (- 2366022945454676, 16), (- 23328939551926609, 17), (- 22998134591471814, 17),
      (- 22667807001851842, 17), (- 22337949252367373, 17), (- 2200855385222551, 16), (- 2167961334982234, 16),
      (- 21351120332032728, 17), (- 21023067423507183, 17), (- 20695447285975674, 17), (- 20368252617558194, 17),
      (- 20041476152081994, 17), (- 19715110658405308, 17), (- 19389148939747433, 17), (- 1906358383302504, 16),
      (- 18738408208194576, 17), (- 1841361496760061, 16), (- 18089197045330022, 17), (- 17765147406571863, 17),
      (- 1744145904698282, 16), (- 1711812499205809, 16), (- 16795138296507578, 17), (- 1647249204363731, 16),
      (- 16150179344735913, 17)] @
    [(- 1582819333846603, 16), (- 15506527190260605, 17), (- 15185174091723885, 17), (- 14864127260036997, 17),
      (- 14543379937368067, 17), (- 14222925390286686, 17), (- 13902756909182665, 17), (- 13582867807688945, 17),
      (- 1326325142210856, 16), (- 12943901110845565, 17), (- 12624810253839777, 17), (- 12305972252005276, 17),
      (- 11987380526672527, 17), (- 11669028519034044, 17), (- 11350909689593479, 17), (- 11033017517618039, 17),
      (- 1071534550059414, 16), (- 1039788715368618, 16), (- 10080636009198378, 17), (- 976358561603951, 16),
      (- 9446729539190522, 17), (- 9130061359174882, 17), (- 8813574671531574, 17), (- 8497263086290678, 17),
      (- 8181120227451397, 17)] @
    [(- 786513973246247, 16), (- 7549315251704881, 17), (- 723364044797675, 16), (- 6918108995980335, 17),
      (- 6602714581811059, 17), (- 6287450902448463, 17), (- 5972311665248991, 17), (- 56572905874405444, 18),
      (- 53423813956186936, 18), (- 50275778252444774, 18), (- 4712873620143689, 17), (- 43982625320075845, 18),
      (- 40837383198949, 15), (- 3769294749735127, 17), (- 3454925593832927, 17), (- 314062463037363, 16),
      (- 28263856429297168, 18), (- 25122024199682035, 18), (- 21980687543588534, 18), (- 1883978442883124, 17),
      (- 1569925285743772, 17), (- 12559030860750303, 18), (- 9419056494532806, 18), (- 6279267834081308, 18),
      (- 31396029693382286, 19)] @
    [(- 8847089727481716, 30), (31396029693205344, 19), (6279267834063613, 18), (941905649451511, 17),
      (12559030860732606, 18), (1569925285742002, 17), (18839784428813542, 18), (21980687543570833, 18),
      (2512202419966433, 17), (2826385642927946, 17), (3140624630371859, 17), (3454925593831155, 17),
      (3769294749733355, 17), (4083738319893128, 17), (43982625320058116, 18), (47128736201419164, 18),
      (5027577825242703, 17), (5342381395616919, 17), (56572905874387694, 18), (5972311665247215, 17),
      (6287450902446687, 17), (6602714581809283, 17), (6918108995978556, 17), (723364044797497, 16),
      (7549315251703102, 17)] @
    [(786513973246069, 16), (8181120227449615, 17), (8497263086288896, 17), (881357467152979, 16),
      (9130061359173097, 17), (9446729539188738, 17), (9763585616037723, 17), (1008063600919659, 16),
      (10397887153684392, 17), (10715345500592349, 17), (11033017517616249, 17), (11350909689591687, 17),
      (1166902851903225, 16), (11987380526670731, 17), (1230597225200348, 16), (12624810253837981, 17),
      (1294390111084377, 16), (13263251422106762, 17), (13582867807687143, 17), (13902756909180863, 17),
      (14222925390284882, 17), (14543379937366263, 17), (1486412726003519, 16), (15185174091722076, 17),
      (15506527190258795, 17)] @
    [(15828193338464216, 17), (16150179344734097, 17), (16472492043635495, 17), (1679513829650576, 16),
      (17118124992056272, 17), (17441459046981, 14), (1776514740657004, 16), (18089197045328195, 17),
      (18413614967598782, 17), (18738408208192747, 17), (1906358383302321, 16), (19389148939745598, 17),
      (1971511065840347, 16), (20041476152080157, 17), (20368252617556354, 17), (2069544728597383, 16),
      (21023067423505337, 17), (2135112033203088, 16), (2167961334982049, 16), (22008553852223656, 17),
      (22337949252365516, 17), (22667807001849982, 17), (22998134591469954, 17), (23328939551924743, 17),
      (23660229454544895, 17)] @
    [(23992011912024516, 17), (24324294579161324, 17), (24657085153604513, 17), (24990391376610657, 17),
      (25324221033807776, 17), (2565858195596775, 16), (25993482019787245, 17), (263289291486773, 15),
      (26664931313561846, 17), (2700149653368518, 16), (27338632877428726, 17), (2767634846313716, 16),
      (28014651459954176, 17), (2835355008866798, 16), (2869305262256682, 16), (2903316738830468, 16),
      (2937390276677733, 16), (29715267194009, 14), (3005726916204982, 16), (30399917219884287, 17),
      (3074321997435095, 16), (3108718609107355, 16), (31431824295403793, 17), (31777143373376077, 17),
      (32123152172674296, 17)] @
    [(3246985960361106, 16), (3281727464011948, 16), (33165406320757834, 17), (33514263749727335, 17),
      (3386385609790326, 16), (34214192603879695, 17), (3456528257502816, 16), (34917135388570425, 17),
      (35269760492665697, 17), (356231674075126, 15), (35977365726466076, 17), (3633236511716962, 16),
      (366881753227031, 15), (3704480616274645, 16), (37402267534759615, 17), (3776056941517892, 16),
      (38119721860630373, 17), (38479735009160093, 17), (38840619081482225, 17), (39202384382244715, 17),
      (3956504130131331, 16), (39928600315074025, 17), (40293071987754614, 17), (40658466972765245, 17),
      (41024796014058884, 17)] @
    [(41392069947511706, 17), (4176029970232392, 16), (42129496302441505, 17), (4249967086799909, 16),
      (4287083461678462, 16), (43242998865726046, 17), (4361617503240054, 16), (4399037463656677, 16),
      (44365609301720516, 17), (4474189075667425, 16), (45119230837161084, 17), (4549764148746354, 16),
      (4587713476206774, 16), (4625772282734342, 16), (46639417963250324, 17), (4702223256507155, 16),
      (4740617914517428, 16), (477912703347986, 15), (4817751888587482, 16), (4856493767286997, 16),
      (4895353969466401, 16), (4934333807645645, 16), (49734346071703817, 17), (5012657706408877, 16),
      (505200445695215, 15)] @
    [(5091476223817388, 16), (513107438565473, 15), (5170800334957472, 16), (5210655478275762, 16),
      (5250641236433876, 16), (5290759044751121, 16), (5331010353266468, 16), (5371396626966963, 16),
      (5411919346020033, 16), (5452580006009727, 16), (5493380118177001, 16), (5534321209664128, 16),
      (5575404823763307, 16), (5616632520169579, 16), (565800587523812, 15), (5699526482246025, 16),
      (5741195951658652, 16), (578301591140066, 15), (5824988007131796, 16), (5867113902527578, 16),
      (5909395279564936, 16), (5951833838812962, 16), (5994431299728833, 16), (6037189400959058, 16),
      (6080109900646137, 16)] @
    [(6123194576740777, 16), (6166445227319747, 16), (6209863670909538, 16), (6253451746815927, 16),
      (6297211315459578, 16), (6341144258717835, 16), (6385252480272806, 16), (6429537905965914, 16),
      (6474002484159038, 16), (6518648186102395, 16), (656347700630932, 15), (6608490962938082, 16),
      (6653692098180923, 16), (6699082478660454, 16), (6744664195833586, 16), (6790439366403177, 16),
      (6836410132737549, 16), (6882578663298073, 16), (6928947153075006, 16), (697551782403175, 15),
      (7022292925557755, 16), (7069274734930244, 16), (7116465557784978, 16), (7163867728596256, 16),
      (7211483611166387, 16)] @
    [(7259315599124841, 16), (7307366116437304, 16), (7355637617924881, 16), (7404132589793677, 16),
      (7452853550175017, 16), (7501803049676533, 16), (7550983671944405, 16), (7600398034236999, 16),
      (7650048788010203, 16), (7699938619514707, 16), (7750070250405549, 16), (7800446438364214, 16),
      (7851069977733576, 16), (7901943700166024, 16), (7953070475285072, 16), (8004453211360798, 16),
      (8056094855999445, 16), (8107998396847547, 16), (8160166862310922, 16), (8212603322288925, 16),
      (8265310888924321, 16), (8318292717369189, 16), (8371552006567246, 16), (8425092000053018, 16),
      (8478915986768281, 16)] @
    [(8533027301896203, 16), (8587429327713663, 16), (8642125494462181, 16), (8697119281237968, 16),
      (8752414216901577, 16), (8808013881007652, 16), (8863921904755324, 16), (892014197195977, 15),
      (8976677820045506, 16), (9033533241061972, 16), (9090712082722014, 16), (9148218249463852, 16),
      (9206055703537173, 16), (9264228466113986, 16), (9322740618424917, 16), (9381596302921597, 16),
      (9440799724465886, 16), (9500355151546638, 16), (956026691752476, 15), (9620539421907345, 16),
      (9681177131651666, 16), (974218458249987, 15), (9803566380345201, 16), (9865327202630647, 16),
      (9927471799780897, 16)] @
    [(9990004996668552, 16), (1005293169411555, 15), (101162568704308, 14), (10179985582985032, 16),
      (1024412296982396, 15), (1030867425132082, 15), (10373644731869398, 16), (10439039801618777, 16),
      (10504864938250942, 16), (10571125708802505, 16), (1063782777153187, 15), (10704976877833121, 16),
      (10772578874198029, 16), (10840639704227604, 16), (10909165410694637, 16), (10978162137658776, 16),
      (11047636132635688, 16), (11117593748821937, 16), (11188041447377253, 16), (11258985799765937, 16),
      (11330433490159195, 16), (11402391317900253, 16), (11474866200034204, 16), (1154786517390454, 15),
      (11621395399818488, 16)] @
    [(11695464163783225, 16), (1177007888031523, 15), (11845247095325058, 16), (11920976489079893, 16),
      (11997274879246353, 16), (12074150224016107, 16), (12151610625316926, 16), (12229664332111931, 16),
      (1230831974378986, 15), (12387585413649296, 16), (12467470052479959, 16), (12547982532244153, 16),
      (12629131889861729, 16), (12710927331101936, 16), (12793378234585708, 16), (12876494155902078, 16),
      (12960284831842523, 16), (13044760184757194, 16), (13129930327037167, 16), (13215805565726997, 16),
      (13302396407271975, 16), (13389713562404753, 16), (13477767951176114, 16), (1356657070813486, 15),
      (13656133187662036, 16)] @
    [(13746466969464861, 16), (13837583864235983, 16), (1392949591948388, 15), (14022215425540512, 16),
      (141157549217525, 14), (1421012720286246, 15), (14305345325587284, 16), (1440142261540057, 15),
      (1449837267352655, 15), (14596209384153338, 16), (146949469218735, 14), (14794599759360394, 16),
      (14895182675289007, 16), (1499671076251048, 15), (15099199436489774, 16), (15202664444016512, 16),
      (15307121872199272, 16), (15412588157754257, 16), (15519080096599545, 16), (15626614853766807, 16),
      (15735209973642725, 16), (15844883390553102, 16), (15955653439702968, 16), (16067538868486881, 16),
      (16180558848184001, 16)] @
    [(16294732986053397, 16), (16410081337845583, 16), (16526624420747142, 16), (1664438322677602, 15),
      (1676337923664588, 15), (16883634434118842, 16), (17005171320866757, 16), (17128012931862182, 16),
      (17252182851321223, 16), (17377705229221458, 16), (17504604798419303, 16), (1763290689239236, 15),
      (17762637463633508, 16), (17893823102724902, 16), (180264910581213, 14), (1816066925667377, 15),
      (18296386324926261, 16), (1843367161121922, 15), (18572555208636172, 16), (18713067978831006, 16),
      (18855241576775663, 16), (18999108476469968, 16), (19144701997657552, 16), (19292056333594083, 16),
      (1944120657991649, 15)] @
    [(19592188764664464, 16), (1974503987950823, 15), (19899797912239559, 16), (2005650188058599, 15),
      (2021519186741163, 15), (20375909057371278, 16), (20538695775088356, 16), (20703595524931147, 16),
      (20870653032465847, 16), (21039914287669594, 16), (2121142658999118, 15), (2138523859535238, 15),
      (2156140036518799, 15), (2173996341762864, 15), (2192098078093629, 15), (22104507049308992, 16),
      (2229059844117844, 15), (22479312860131073, 16), (22670709958591666, 16), (22864851204416565, 16),
      (23061799950552873, 16), (232616215079296, 14), (2346438322175701, 15), (2367015455142163, 15),
      (2387900715417609, 15)] @
    [(24091014972835834, 16), (243062543277083, 14), (2452480401299478, 15), (24746745397920993, 16),
      (2497216253286913, 15), (25201142260802447, 16), (254337743342928, 14), (25670151538482697, 16),
      (2591036982033589, 15), (26154528424555017, 16), (2640273003657089, 15), (2665508093303658, 15),
      (26911691140289786, 16), (2717267460128011, 15), (274381493514936, 14), (27708237704445366, 16),
      (2798306644735302, 15), (28262767047648825, 16), (28547475871037533, 16), (2883733441186011, 15),
      (29132489536581185, 16), (2943309374128095, 15), (29739305424100246, 16), (30051289173661924, 16),
      (30369216074572165, 16)] @
    [(30693264031193697, 16), (31023618110978557, 16), (3136047090875314, 15), (3170402293346249, 15),
      (32054483019006113, 16), (32412068760934583, 16), (32777006980926164, 16), (3314953422112736, 15),
      (33529897270621727, 16), (3391835372648982, 15), (3431517259214113, 15), (3472063491583914, 15),
      (3513503447260504, 15), (3555867849297774, 15), (35991888442429905, 16), (3643500085559612, 15),
      (36888368229863606, 16), (37352359983312926, 16), (3782736348248052, 15), (3831378514595362, 15),
      (3881205163040646, 15), (39322611106353373, 16), (398459346316376, 14), (4038251763150423, 15),
      (4093288149503321, 15)] @
    [(41497575298747, 13), (4207717766937095, 15), (4267229879903227, 15), (4328358262765247, 15),
      (4391170920894356, 15), (4455739727828532, 15), (45221407042870085, 16), (4590454321688899, 15),
      (4660765832723976, 15), (47331656318310005, 16), (4807749648788713, 15), (4884619779023233, 15),
      (4963884354690966, 15), (5045658661117154, 15), (5130065503767809, 15), (5217235831619414, 15),
      (5307309423581781, 15), (5400435645542313, 15), (5496774286656314, 15), (5596496484733077, 15),
      (56997857519919, 13), (5806839114122685, 15), (5917868377526457, 15), (60331015418857525, 16),
      (6152784377888311, 15)] @
    [(6277182193079177, 15), (6406581812543123, 15), (6541293805540295, 15), (6681654994479854, 15),
      (6828031288900608, 15), (6980820894659988, 15), (7140457957594578, 15), (7307416711860082, 15),
      (748221621643089, 14), (7665425779402645, 15), (7857671189512449, 15), (8059641898588254, 15),
      (8272099328642517, 15), (8495886514564678, 15), (8731939339834668, 15), (8981299680988384, 15),
      (924513085016622, 14), (9524735818556758, 15), (9821578823061175, 15), (10137311112361969, 15),
      (10473801788110059, 15), (10833174957725484, 15), (11217854758967553, 15), (11630620273309129, 15),
      (12074672958264756, 15)] @
    [(12553720059882133, 15), (13072078605231878, 15), (13634806152819067, 15), (14247866693297171, 15),
      (14918343242195602, 15), (15654713210685518, 15), (16467209301801084, 15), (17368298613709985, 15),
      (18373327728347604, 15), (19501404986606552, 15), (20776628335661947, 15), (22229827690906422, 15),
      (2390109223325127, 14), (2584352868164576, 14), (28129011844599706, 15), (3085727899753432, 14),
      (34170879943986314, 15), (3828091029863483, 14), (43513841911972314, 15), (5040282302436417, 14),
      (5988197731465265, 14), (7375065568111167, 14), (9597707330523639, 14), (13737558470579611, 14),
      (24156828258120925, 14)]"

definition CotLUT :: "literal list" where
  "CotLUT =
    [(9999996666666443, 13), (24156828258222822, 14), (13737558470612507, 14), (9597707330539667, 14),
      (7375065568120614, 14), (5988197731471483, 14), (5040282302440815, 14), (43513841912005034, 15),
      (3828091029866011, 14), (3417087994400642, 14), (30857278997550694, 15), (28129011844613288, 15),
      (2584352868165721, 14), (23901092233261046, 15), (2222982769091487, 14), (2077662833566932, 14),
      (1950140498661304, 14), (18373327728353356, 15), (17368298613715115, 15), (16467209301805692, 15),
      (15654713210689675, 15), (14918343242199374, 15), (14247866693300605, 15), (13634806152822208, 15),
      (13072078605234765, 15)] @
    [(12553720059884792, 15), (12074672958267211, 15), (11630620273311404, 15), (11217854758969668, 15),
      (10833174957727454, 15), (10473801788111897, 15), (1013731111236369, 14), (982157882306279, 14),
      (9524735818558275, 15), (9245130850167648, 15), (8981299680989729, 15), (8731939339835938, 15),
      (8495886514565878, 15), (8272099328643655, 15), (8059641898589334, 15), (7857671189513473, 15),
      (7665425779403619, 15), (7482216216431818, 15), (7307416711860966, 15), (7140457957595421, 15),
      (6980820894660793, 15), (6828031288901377, 15), (668165499448059, 14), (65412938055410015, 16),
      (64065818125437985, 16)] @
    [(6277182193079826, 15), (6152784377888933, 15), (603310154188635, 14), (5917868377527032, 15),
      (5806839114123238, 15), (5699785751992433, 15), (559649648473359, 14), (5496774286656809, 15),
      (540043564554279, 14), (5307309423582241, 15), (5217235831619859, 15), (5130065503768239, 15),
      (504565866111757, 14), (4963884354691368, 15), (4884619779023622, 15), (480774964878909, 14),
      (47331656318313655, 16), (4660765832724329, 15), (4590454321689243, 15), (4522140704287342, 15),
      (4455739727828855, 15), (439117092089467, 14), (4328358262765552, 15), (4267229879903523, 15),
      (4207717766937383, 15)] @
    [(414975752987498, 14), (4093288149503594, 15), (4038251763150687, 15), (39845934631640176, 16),
      (39322611106355883, 16), (388120516304089, 14), (38313785145955994, 16), (3782736348248283, 15),
      (37352359983315178, 16), (36888368229865796, 16), (3643500085559825, 15), (35991888442431987, 16),
      (3555867849297976, 15), (3513503447260701, 15), (3472063491584106, 15), (3431517259214301, 15),
      (3391835372649165, 15), (33529897270623508, 16), (33149534221129096, 16), (3277700698092786, 15),
      (3241206876093624, 15), (3205448301900773, 15), (31704022933464064, 16), (31360470908754676, 16),
      (31023618110980062, 16)] @
    [(3069326403119516, 15), (30369216074573604, 16), (30051289173663323, 16), (29739305424101623, 16),
      (2943309374128229, 15), (291324895365825, 14), (2883733441186139, 15), (28547475871038785, 16),
      (2826276704765005, 15), (27983066447354226, 16), (27708237704446543, 16), (2743814935149475, 15),
      (27172674601281237, 16), (26911691140290888, 16), (2665508093303766, 15), (26402730036571946, 16),
      (2615452842455605, 15), (25910369820336907, 16), (25670151538483688, 16), (25433774334293777, 16),
      (252011422608034, 14), (2497216253287007, 15), (2474674539792191, 15), (24524804012995682, 16),
      (24306254327709182, 16)] @
    [(240910149728367, 14), (23879007154176937, 16), (23670154551422464, 16), (23464383221757825, 16),
      (232616215079304, 14), (2306179995055366, 15), (2286485120441734, 15), (22670709958592425, 16),
      (22479312860131815, 16), (2229059844117917, 15), (2210450704930971, 15), (2192098078093699, 15),
      (2173996341762933, 15), (21561400365188668, 16), (21385238595353044, 16), (21211426589991835, 16),
      (21039914287670234, 16), (20870653032466477, 16), (2070359552493177, 15), (20538695775088964, 16),
      (20375909057371877, 16), (2021519186741222, 15), (2005650188058657, 15), (19899797912240125, 16),
      (19745039879508788, 16)] @
    [(1959218876466501, 15), (1944120657991703, 15), (19292056333594612, 16), (19144701997658071, 16),
      (18999108476470477, 16), (18855241576776167, 16), (18713067978831504, 16), (18572555208636659, 16),
      (184336716112197, 14), (18296386324926732, 16), (18160669256674236, 16), (18026491058121759, 16),
      (17893823102725357, 16), (1776263746363396, 15), (17632906892392803, 16), (17504604798419745, 16),
      (17377705229221894, 16), (17252182851321656, 16), (17128012931862606, 16), (17005171320867178, 16),
      (16883634434119257, 16), (16763379236646294, 16), (16644383226776427, 16), (16526624420747547, 16),
      (16410081337845983, 16)] @
    [(16294732986053795, 16), (16180558848184394, 16), (16067538868487268, 16), (15955653439703352, 16),
      (15844883390553481, 16), (15735209973643103, 16), (1562661485376718, 15), (1551908009659992, 15),
      (15412588157754625, 16), (15307121872199638, 16), (15202664444016873, 16), (15099199436490134, 16),
      (14996710762510836, 16), (1489518267528936, 15), (14794599759360743, 16), (14694946921873846, 16),
      (1459620938415368, 15), (1449837267352689, 15), (14401422615400905, 16), (14305345325587617, 16),
      (14210127202862788, 16), (14115754921752828, 16), (14022215425540836, 16), (13929495919484203, 16),
      (13837583864236302, 16)] @
    [(13746466969465179, 16), (1365613318766235, 15), (1356657070813517, 15), (13477767951176423, 16),
      (1338971356240506, 15), (13302396407272277, 16), (13215805565727297, 16), (13129930327037465, 16),
      (1304476018475749, 15), (12960284831842819, 16), (1287649415590237, 15), (12793378234585997, 16),
      (12710927331102222, 16), (12629131889862013, 16), (12547982532244435, 16), (12467470052480238, 16),
      (12387585413649573, 16), (12308319743790133, 16), (12229664332112204, 16), (12151610625317197, 16),
      (12074150224016376, 16), (1199727487924662, 15), (1192097648908016, 15), (11845247095325322, 16),
      (1177007888031549, 15)] @
    [(11695464163783482, 16), (11621395399818744, 16), (11547865173904794, 16), (11474866200034455, 16),
      (11402391317900504, 16), (11330433490159444, 16), (11258985799766186, 16), (111880414473775, 14),
      (1111759374882218, 15), (1104763613263593, 15), (10978162137659015, 16), (10909165410694877, 16),
      (10840639704227841, 16), (10772578874198266, 16), (10704976877833356, 16), (10637827771532105, 16),
      (10571125708802738, 16), (1050486493825117, 15), (10439039801619006, 16), (10373644731869625, 16),
      (10308674251321044, 16), (10244122969824185, 16), (10179985582985254, 16), (1011625687043102, 15),
      (1005293169411577, 15)] @
    [(9990004996668771, 16), (9927471799781115, 16), (9865327202630862, 16), (9803566380345416, 16),
      (9742184582500082, 16), (9681177131651878, 16), (9620539421907556, 16), (956026691752497, 15),
      (9500355151546845, 16), (9440799724466092, 16), (9381596302921802, 16), (932274061842512, 15),
      (9264228466114189, 16), (9206055703537374, 16), (9148218249464053, 16), (9090712082722213, 16),
      (903353324106217, 15), (8976677820045703, 16), (8920141971959966, 16), (8863921904755518, 16),
      (8808013881007847, 16), (8752414216901772, 16), (869711928123816, 15), (8642125494462372, 16),
      (8587429327713852, 16)] @
    [(8533027301896392, 16), (8478915986768468, 16), (8425092000053205, 16), (8371552006567432, 16),
      (8318292717369373, 16), (8265310888924506, 16), (8212603322289108, 16), (8160166862311105, 16),
      (8107998396847728, 16), (8056094855999626, 16), (8004453211360978, 16), (7953070475285251, 16),
      (7901943700166202, 16), (7851069977733752, 16), (780044643836439, 15), (7750070250405723, 16),
      (7699938619514881, 16), (7650048788010377, 16), (7600398034237171, 16), (7550983671944577, 16),
      (7501803049676704, 16), (7452853550175187, 16), (7404132589793846, 16), (7355637617925049, 16),
      (7307366116437473, 16)] @
    [(7259315599125009, 16), (7211483611166554, 16), (716386772859642, 15), (7116465557785143, 16),
      (706927473493041, 15), (7022292925557918, 16), (6975517824031913, 16), (6928947153075168, 16),
      (6882578663298234, 16), (6836410132737709, 16), (6790439366403337, 16), (6744664195833745, 16),
      (6699082478660613, 16), (6653692098181081, 16), (6608490962938239, 16), (6563477006309476, 16),
      (6518648186102551, 16), (6474002484159194, 16), (6429537905966068, 16), (6385252480272958, 16),
      (6341144258717987, 16), (629721131545973, 15), (6253451746816077, 16), (6209863670909689, 16),
      (6166445227319897, 16)] @
    [(6123194576740926, 16), (6080109900646286, 16), (6037189400959205, 16), (5994431299728981, 16),
      (595183383881311, 15), (5909395279565083, 16), (5867113902527723, 16), (5824988007131942, 16),
      (5783015911400804, 16), (5741195951658796, 16), (5699526482246168, 16), (5658005875238264, 16),
      (5616632520169722, 16), (5575404823763449, 16), (5534321209664269, 16), (5493380118177142, 16),
      (5452580006009868, 16), (5411919346020175, 16), (5371396626967104, 16), (533101035326661, 15),
      (5290759044751263, 16), (5250641236434018, 16), (5210655478275904, 16), (5170800334957615, 16),
      (5131074385654874, 16)] @
    [(5091476223817532, 16), (5052004456952295, 16), (5012657706409022, 16), (49734346071705254, 17),
      (4934333807645789, 16), (48953539694665466, 17), (4856493767287141, 16), (4817751888587627, 16),
      (4779127033480005, 16), (4740617914517574, 16), (47022232565073, 14), (46639417963251784, 17),
      (4625772282734489, 16), (45877134762069205, 17), (4549764148746501, 16), (4511923083716255, 16),
      (4474189075667573, 16), (4436560930172199, 16), (43990374636568247, 17), (4361617503240202, 16),
      (4324299886572753, 16), (42870834616786113, 17), (4249967086800058, 16), (4212949630244299, 16),
      (4176029970232542, 16)] @
    [(41392069947513205, 17), (41024796014060383, 17), (40658466972766744, 17), (4029307198775612, 16),
      (39928600315075535, 17), (39565041301314813, 17), (3920238438224623, 16), (3884061908148374, 16),
      (38479735009161614, 17), (381197218606319, 15), (3776056941518044, 16), (3740226753476114, 16),
      (3704480616274798, 16), (36688175322704625, 17), (3633236511717115, 16), (35977365726467614, 17),
      (3562316740751414, 16), (3526976049266724, 16), (3491713538857197, 16), (3456528257502971, 16),
      (34214192603881244, 17), (3386385609790482, 16), (3351426374972889, 16), (33165406320759394, 17),
      (3281727464012104, 16)] @
    [(3246985960361263, 16), (3212315217267587, 16), (3177714337337765, 16), (31431824295405364, 17),
      (31087186091075125, 17), (3074321997435253, 16), (3039991721988587, 16), (30057269162051403, 17),
      (2971526719401059, 16), (29373902766778925, 17), (2903316738830628, 16), (2869305262256842, 16),
      (2835355008866958, 16), (2801465145995578, 16), (2767634846313877, 16), (27338632877430336, 17),
      (2700149653368679, 16), (2666493131356346, 16), (2632892914867892, 16), (25993482019788866, 17),
      (25658581955969384, 17), (2532422103380941, 16), (24990391376612286, 17), (24657085153606145, 17),
      (24324294579162956, 17)] @
    [(2399201191202615, 16), (23660229454546527, 17), (23328939551926378, 17), (22998134591471586, 17),
      (22667807001851617, 17), (2233794925236715, 16), (22008553852225293, 17), (21679613349822127, 17),
      (21351120332032514, 17), (21023067423506975, 17), (20695447285975468, 17), (20368252617557991, 17),
      (20041476152081794, 17), (1971511065840511, 16), (1938914893974724, 16), (1906358383302485, 16),
      (1873840820819439, 16), (18413614967600428, 17), (1808919704532984, 16), (17765147406571685, 17),
      (17441459046982646, 17), (17118124992057918, 17), (1679513829650741, 16), (16472492043637146, 17),
      (16150179344735752, 17)] @
    [(1582819333846587, 16), (15506527190260452, 17), (1518517409172373, 16), (14864127260036847, 17),
      (1454337993736792, 16), (14222925390286545, 17), (13902756909182523, 17), (13582867807688806, 17),
      (13263251422108424, 17), (12943901110845435, 17), (1262481025383965, 16), (12305972252005151, 17),
      (11987380526672402, 17), (11669028519033924, 17), (11350909689593362, 17), (11033017517617925, 17),
      (10715345500594027, 17), (10397887153686072, 17), (10080636009198271, 17), (9763585616039407, 17),
      (9446729539190421, 17), (9130061359174785, 17), (881357467153148, 16), (8497263086290587, 17),
      (8181120227451308, 17)] @
    [(7865139732462384, 17), (7549315251704798, 17), (7233640447976669, 17), (6918108995980257, 17),
      (6602714581810985, 17), (6287450902448391, 17), (5972311665248922, 17), (5657290587440478, 17),
      (534238139561863, 16), (5027577825244416, 17), (4712873620143632, 17), (4398262532007529, 17),
      (40837383198948474, 18), (3769294749735077, 17), (345492559383288, 16), (3140624630373586, 17),
      (28263856429296758, 18), (2512202419968166, 17), (2198068754358819, 17), (18839784428830927, 18),
      (15699252857437437, 18), (12559030860750052, 18), (9419056494532587, 18), (627926783408112, 17),
      (3139602969338071, 18)] @
    [(8720971932033589, 30), (- 31396029693206294, 19), (- 62792678340636765, 19), (- 9419056494515143, 18),
      (- 12559030860732607, 18), (- 1569925285741999, 17), (- 1883978442881348, 17), (- 2198068754357074, 17),
      (- 25122024199664205, 18), (- 28263856429279307, 18), (- 314062463037184, 16), (- 3454925593831134, 17),
      (- 37692947497333304, 18), (- 4083738319893101, 17), (- 4398262532005781, 17), (- 4712873620141884, 17),
      (- 5027577825242668, 17), (- 5342381395616881, 17), (- 5657290587438728, 17), (- 5972311665247171, 17),
      (- 628745090244664, 16), (- 6602714581809233, 17), (- 6918108995978504, 17), (- 7233640447974915, 17),
      (- 7549315251703044, 17)] @
    [(- 7865139732460628, 17), (- 8181120227449551, 17), (- 849726308628883, 16), (- 8813574671529723, 17),
      (- 9130061359173025, 17), (- 9446729539188661, 17), (- 9763585616037646, 17), (- 1008063600919651, 16),
      (- 1039788715368431, 16), (- 10715345500592263, 17), (- 11033017517616159, 17), (- 11350909689591596, 17),
      (- 11669028519032155, 17), (- 11987380526670634, 17), (- 1230597225200338, 16), (- 12624810253837876, 17),
      (- 1294390111084366, 16), (- 1326325142210665, 16), (- 1358286780768703, 16), (- 13902756909180747, 17),
      (- 14222925390284763, 17), (- 1454337993736614, 16), (- 14864127260035065, 17), (- 15185174091721948, 17),
      (- 15506527190258665, 17)] @
    [(- 1582819333846408, 16), (- 1615017934473396, 16), (- 16472492043635356, 17), (- 16795138296505618, 17),
      (- 17118124992056125, 17), (- 1744145904698085, 16), (- 17765147406569887, 17), (- 1808919704532804, 16),
      (- 18413614967598624, 17), (- 18738408208192586, 17), (- 19063583833023043, 17), (- 1938914893974543, 16),
      (- 19715110658403298, 17), (- 20041476152079982, 17), (- 20368252617556173, 17), (- 2069544728597365, 16),
      (- 21023067423505154, 17), (- 21351120332030693, 17), (- 21679613349820298, 17), (- 22008553852223464, 17),
      (- 22337949252365322, 17), (- 22667807001849782, 17), (- 2299813459146975, 16), (- 23328939551924538, 17),
      (- 23660229454544687, 17)] @
    [(- 23992011912024305, 17), (- 2432429457916111, 16), (- 24657085153604294, 17), (- 24990391376610435, 17),
      (- 25324221033807554, 17), (- 25658581955967524, 17), (- 25993482019787006, 17), (- 26328929148677055, 17),
      (- 26664931313561596, 17), (- 2700149653368492, 16), (- 2733863287742846, 16), (- 2767634846313689, 16),
      (- 280146514599539, 15), (- 28353550088667695, 17), (- 28693052622566534, 17), (- 2903316738830439, 16),
      (- 2937390276677703, 16), (- 29715267194008693, 17), (- 30057269162049505, 17), (- 30399917219883965, 17),
      (- 3074321997435062, 16), (- 31087186091073216, 17), (- 31431824295403454, 17), (- 31777143373375727, 17),
      (- 3212315217267394, 16)] @
    [(- 32469859603610696, 17), (- 3281727464011911, 16), (- 33165406320757457, 17), (- 3351426374972696, 16),
      (- 3386385609790287, 16), (- 34214192603879295, 17), (- 34565282575027756, 17), (- 34917135388570014, 17),
      (- 3526976049266528, 16), (- 3562316740751218, 16), (- 35977365726465643, 17), (- 36332365117169174, 17),
      (- 3668817532270265, 16), (- 37044806162745997, 17), (- 37402267534759154, 17), (- 37760569415178447, 17),
      (- 38119721860629896, 17), (- 3847973500915961, 16), (- 38840619081481736, 17), (- 39202384382244215, 17),
      (- 395650413013128, 15), (- 3992860031507351, 16), (- 40293071987754087, 17), (- 4065846697276471, 16),
      (- 4102479601405835, 16)] @
    [(- 41392069947511156, 17), (- 41760299702323367, 17), (- 42129496302440944, 17), (- 4249967086799852, 16),
      (- 4287083461678405, 16), (- 43242998865725457, 17), (- 43616175032399945, 17), (- 4399037463656617, 16),
      (- 44365609301719905, 17), (- 4474189075667363, 16), (- 4511923083716045, 16), (- 45497641487462903, 17),
      (- 45877134762067123, 17), (- 46257722827342795, 17), (- 4663941796324969, 16), (- 47022232565070904, 17),
      (- 4740617914517362, 16), (- 4779127033479794, 16), (- 4817751888587415, 16), (- 48564937672869285, 17),
      (- 48953539694663323, 17), (- 4934333807645575, 16), (- 49734346071703106, 17), (- 5012657706408806, 16),
      (- 5052004456952078, 16)] @
    [(- 5091476223817315, 16), (- 5131074385654656, 16), (- 5170800334957396, 16), (- 5210655478275685, 16),
      (- 5250641236433798, 16), (- 5290759044751043, 16), (- 5331010353266388, 16), (- 5371396626966882, 16),
      (- 5411919346019952, 16), (- 5452580006009645, 16), (- 5493380118176918, 16), (- 5534321209664045, 16),
      (- 5575404823763223, 16), (- 5616632520169494, 16), (- 5658005875238037, 16), (- 569952648224594, 15),
      (- 5741195951658568, 16), (- 5783015911400574, 16), (- 5824988007131711, 16), (- 5867113902527491, 16),
      (- 5909395279564851, 16), (- 5951833838812876, 16), (- 5994431299728746, 16), (- 603718940095897, 15),
      (- 6080109900646049, 16)] @
    [(- 6123194576740688, 16), (- 6166445227319659, 16), (- 620986367090945, 15), (- 6253451746815838, 16),
      (- 6297211315459489, 16), (- 6341144258717746, 16), (- 6385252480272715, 16), (- 6429537905965823, 16),
      (- 6474002484158947, 16), (- 6518648186102304, 16), (- 6563477006309227, 16), (- 660849096293799, 15),
      (- 6653692098180831, 16), (- 6699082478660361, 16), (- 6744664195833494, 16), (- 6790439366403084, 16),
      (- 6836410132737455, 16), (- 6882578663297979, 16), (- 692894715307491, 15), (- 6975517824031654, 16),
      (- 7022292925557659, 16), (- 7069274734930149, 16), (- 7116465557784882, 16), (- 7163867728596158, 16),
      (- 7211483611166289, 16)] @
    [(- 7259315599124744, 16), (- 7307366116437206, 16), (- 7355637617924782, 16), (- 7404132589793578, 16),
      (- 7452853550174918, 16), (- 7501803049676433, 16), (- 7550983671944305, 16), (- 7600398034236898, 16),
      (- 7650048788010102, 16), (- 7699938619514605, 16), (- 7750070250405446, 16), (- 780044643836411, 15),
      (- 7851069977733472, 16), (- 7901943700165921, 16), (- 7953070475284968, 16), (- 8004453211360694, 16),
      (- 805609485599934, 15), (- 810799839684744, 15), (- 8160166862310816, 16), (- 8212603322288817, 16),
      (- 8265310888924213, 16), (- 831829271736908, 15), (- 8371552006567138, 16), (- 842509200005291, 15),
      (- 8478915986768171, 16)] @
    [(- 8533027301896092, 16), (- 858742932771355, 15), (- 8642125494462068, 16), (- 8697119281237856, 16),
      (- 8752414216901465, 16), (- 8808013881007539, 16), (- 886392190475521, 15), (- 8920141971959655, 16),
      (- 897667782004539, 15), (- 9033533241061855, 16), (- 9090712082721898, 16), (- 9148218249463735, 16),
      (- 9206055703537054, 16), (- 9264228466113867, 16), (- 9322740618424796, 16), (- 9381596302921476, 16),
      (- 9440799724465766, 16), (- 9500355151546517, 16), (- 9560266917524639, 16), (- 9620539421907223, 16),
      (- 9681177131651543, 16), (- 9742184582499746, 16), (- 9803566380345076, 16), (- 986532720263052, 15),
      (- 9927471799780772, 16)] @
    [(- 9990004996668425, 16), (- 10052931694115421, 16), (- 1011625687043067, 15), (- 101799855829849, 14),
      (- 1024412296982383, 15), (- 10308674251320686, 16), (- 10373644731869265, 16), (- 10439039801618644, 16),
      (- 10504864938250806, 16), (- 1057112570880237, 15), (- 10637827771531734, 16), (- 10704976877832983, 16),
      (- 10772578874197891, 16), (- 10840639704227464, 16), (- 10909165410694497, 16), (- 10978162137658634, 16),
      (- 11047636132635545, 16), (- 11117593748821795, 16), (- 11188041447377108, 16), (- 11258985799765793, 16),
      (- 1133043349015905, 15), (- 11402391317900107, 16), (- 11474866200034053, 16), (- 1154786517390439, 15),
      (- 11621395399818337, 16)] @
    [(- 11695464163783071, 16), (- 11770078880315076, 16), (- 11845247095324904, 16), (- 1192097648907974, 15),
      (- 11997274879246198, 16), (- 1207415022401595, 15), (- 12151610625316769, 16), (- 12229664332111774, 16),
      (- 12308319743789697, 16), (- 12387585413649136, 16), (- 12467470052479797, 16), (- 12547982532243989, 16),
      (- 12629131889861565, 16), (- 1271092733110177, 15), (- 1279337823458554, 15), (- 1287649415590191, 15),
      (- 12960284831842355, 16), (- 1304476018475702, 15), (- 13129930327036992, 16), (- 13215805565726821, 16),
      (- 13302396407271797, 16), (- 13389713562404575, 16), (- 13477767951175934, 16), (- 13566570708134678, 16),
      (- 13656133187661854, 16)] @
    [(- 13746466969464677, 16), (- 13837583864235798, 16), (- 13929495919483692, 16), (- 1402221542554032, 15),
      (- 1411575492175231, 15), (- 14210127202862266, 16), (- 1430534532558709, 15), (- 14401422615400374, 16),
      (- 14498372673526352, 16), (- 14596209384153138, 16), (- 146949469218733, 14), (- 14794599759360187, 16),
      (- 14895182675288803, 16), (- 14996710762510272, 16), (- 15099199436489565, 16), (- 15202664444016298, 16),
      (- 15307121872199059, 16), (- 15412588157754041, 16), (- 1551908009659933, 15), (- 15626614853766583, 16),
      (- 157352099736425, 14), (- 15844883390552873, 16), (- 1595565343970274, 15), (- 16067538868486648, 16),
      (- 16180558848183766, 16)] @
    [(- 1629473298605316, 15), (- 16410081337845344, 16), (- 165266244207469, 14), (- 16644383226775774, 16),
      (- 16763379236645632, 16), (- 1688363443411859, 15), (- 17005171320866503, 16), (- 17128012931861927, 16),
      (- 17252182851320965, 16), (- 17377705229221199, 16), (- 17504604798419041, 16), (- 17632906892392093, 16),
      (- 1776263746363324, 15), (- 17893823102724629, 16), (- 18026491058121021, 16), (- 18160669256673492, 16),
      (- 18296386324925977, 16), (- 18433671611218934, 16), (- 18572555208635881, 16), (- 18713067978830713, 16),
      (- 18855241576775366, 16), (- 18999108476469668, 16), (- 19144701997657245, 16), (- 19292056333593777, 16),
      (- 19441206579916177, 16)] @
    [(- 1959218876466415, 15), (- 19745039879507913, 16), (- 19899797912239237, 16), (- 2005650188058566, 15),
      (- 202151918674113, 14), (- 20375909057370944, 16), (- 2053869577508802, 15), (- 20703595524930805, 16),
      (- 208706530324655, 14), (- 2103991428766924, 15), (- 21211426589990823, 16), (- 21385238595352014, 16),
      (- 2156140036518762, 15), (- 21739963417628267, 16), (- 21920980780935913, 16), (- 2210450704930861, 15),
      (- 22290598441178053, 16), (- 2247931286013068, 15), (- 2267070995859127, 15), (- 2286485120441616, 15),
      (- 23061799950552464, 16), (- 2326162150792918, 15), (- 23464383221756586, 16), (- 236701545514212, 14),
      (- 23879007154175653, 16)] @
    [(- 24091014972835394, 16), (- 2430625432770785, 15), (- 24524804012994323, 16), (- 2474674539792053, 15),
      (- 2497216253286866, 15), (- 2520114226080197, 15), (- 25433774334292316, 16), (- 256701515384822, 14),
      (- 2591036982033539, 15), (- 26154528424554506, 16), (- 2640273003657037, 15), (- 26655080933036053, 16),
      (- 2691169114028925, 15), (- 27172674601279567, 16), (- 27438149351493046, 16), (- 27708237704444802, 16),
      (- 27983066447352445, 16), (- 2826276704764824, 15), (- 28547475871036943, 16), (- 28837334411859503, 16),
      (- 29132489536580572, 16), (- 29433093741280323, 16), (- 29739305424099607, 16), (- 3005128917366127, 15),
      (- 303692160745715, 14)] @
    [(- 30693264031193017, 16), (- 31023618110977864, 16), (- 31360470908752434, 16), (- 3170402293346177, 15),
      (- 32054483019005375, 16), (- 32412068760933836, 16), (- 327770069809254, 14), (- 3314953422112658, 15),
      (- 33529897270620936, 16), (- 3391835372648901, 15), (- 343151725921403, 14), (- 3472063491583829, 15),
      (- 35135034472604167, 16), (- 35558678492976856, 16), (- 35991888442429003, 16), (- 3643500085559519, 15),
      (- 3688836822986266, 15), (- 37352359983311954, 16), (- 37827363482479526, 16), (- 383137851459526, 14),
      (- 3881205163040541, 15), (- 39322611106352303, 16), (- 3984593463163651, 15), (- 403825176315031, 14),
      (- 40932881495032065, 16)] @
    [(- 4149757529874581, 15), (- 4207717766936973, 15), (- 4267229879903102, 15), (- 4328358262765119, 15),
      (- 4391170920894224, 15), (- 4455739727828397, 15), (- 4522140704286869, 15), (- 4590454321688756, 15),
      (- 4660765832723827, 15), (- 4733165631830848, 15), (- 48077496487885565, 16), (- 4884619779023072, 15),
      (- 4963884354690799, 15), (- 5045658661116982, 15), (- 5130065503767631, 15), (- 521723583161923, 14),
      (- 5307309423581591, 15), (- 54004356455421165, 16), (- 5496774286656112, 15), (- 5596496484732866, 15),
      (- 5699785751991682, 15), (- 580683911412246, 14), (- 5917868377526223, 15), (- 6033101541885509, 15),
      (- 6152784377888058, 15)] @
    [(- 6277182193078915, 15), (- 640658181254285, 14), (- 654129380554001, 14), (- 6681654994479557, 15),
      (- 6828031288900298, 15), (- 6980820894659665, 15), (- 7140457957594241, 15), (- 73074167118597275, 16),
      (- 748221621643052, 14), (- 76654257794022564, 16), (- 7857671189512042, 15), (- 8059641898587826, 15),
      (- 8272099328642065, 15), (- 8495886514564202, 15), (- 8731939339834165, 15), (- 8981299680987853, 15),
      (- 9245130850165658, 15), (- 9524735818556161, 15), (- 9821578823060543, 15), (- 10137311112361294, 15),
      (- 1047380178810934, 14), (- 10833174957724713, 15), (- 11217854758966729, 15), (- 11630620273308244, 15),
      (- 120746729582638, 13)] @
    [(- 12553720059881101, 15), (- 13072078605230761, 15), (- 13634806152817854, 15), (- 14247866693295844, 15),
      (- 14918343242194151, 15), (- 1565471321068392, 14), (- 16467209301799315, 15), (- 17368298613708017, 15),
      (- 18373327728345405, 15), (- 19501404986604076, 15), (- 20776628335659133, 15), (- 22229827690903203, 15),
      (- 2390109223324755, 14), (- 25843528681641416, 15), (- 28129011844594555, 15), (- 30857278997528127, 15),
      (- 3417087994397872, 14), (- 38280910298625294, 15), (- 4351384191196, 11), (- 5040282302434765, 14),
      (- 5988197731462933, 14), (- 737506556810763, 13), (- 959770733051765, 13), (- 13737558470567342, 14),
      (- 24156828258082993, 14)]"

section \<open>Facts\<close>

lemma table_lengths: "length CosLUT = 1000" "length SinLUT = 1000" "length TanLUT = 1000" "length CotLUT = 1000"
  by (simp_all add: CosLUT_def SinLUT_def TanLUT_def CotLUT_def)

lemma length_reals [simp]: "length (reals ls) = length ls"
  by (simp add: reals_def)

text \<open>No entry of the tables of sine and cosine is longer than 1, so no lookup of a positive angle is.\<close>

lemma sin_cos_entries:
  "list_all (\<lambda>(digits, places). \<bar>digits\<bar> \<le> 10 ^ places) SinLUT"
  "list_all (\<lambda>(digits, places). \<bar>digits\<bar> \<le> 10 ^ places) CosLUT"
  by (simp_all add: SinLUT_def CosLUT_def)

lemma reals_bounded:
  assumes "list_all (\<lambda>(digits, places). \<bar>digits\<bar> \<le> 10 ^ places) ls" "k < length ls"
  shows "\<bar>reals ls ! k\<bar> \<le> 1"
proof -
  obtain digits places where l: "ls ! k = (digits, places)" by fastforce
  with assms have "\<bar>digits\<bar> \<le> 10 ^ places" by (auto simp: list_all_length dest!: spec [of _ k])
  then have "\<bar>real_of_int digits\<bar> \<le> 10 ^ places"
    by (metis of_int_abs of_int_le_iff of_int_numeral of_int_power)
  then show ?thesis using assms(2) by (simp add: reals_def l)
qed

lemma lut_bounded:
  assumes ls: "list_all (\<lambda>(digits, places). \<bar>digits\<bar> \<le> 10 ^ places) ls" "length ls = 1000"
    and "0 < step" "k < 999" "0 \<le> t" "t < 1"
  shows "\<exists>y. CalculateLut to_zero of_int (reals ls) step start (Radian (start + (of_nat k + t) * step)) = Inr y
    \<and> \<bar>y\<bar> \<le> 1"
proof -
  have "\<bar>reals ls ! k\<bar> \<le> 1" "\<bar>reals ls ! Suc k\<bar> \<le> 1"
    using assms by (simp_all add: reals_bounded)
  then have "\<bar>(1 - t) * reals ls ! k + t * reals ls ! Suc k\<bar> \<le> (1 - t) * 1 + t * 1"
    using assms(5,6) by (intro order_trans [OF abs_triangle_ineq] add_mono) (simp_all add: abs_mult mult_left_le)
  with lut_interpolates [of "reals ls" step k t start] assms show ?thesis by simp
qed

text \<open>
  The table of the tangent runs from \<open>margin\<close> above \<open>- pi / 2\<close> to \<open>margin\<close> below \<open>pi / 2\<close>, so that entry 500 is that of the
  angle 0. The step of the lookups leaves the margins out: it finds that entry at the angle \<open>margin\<close>.
\<close>

lemma TanStep_pi: "TanStep pi margin = pi / 1000"
  by (simp add: TanStep_def)

lemma tan_entries: "TanLUT ! 500 = (- 8847089727481716, 30)"
  by (simp add: TanLUT_def)

lemma Tan_margin: "Tan to_zero of_int (reals TanLUT) pi margin (Radian margin) = Inr (reals TanLUT ! 500)"
proof -
  have "- pi / 2 + margin + (of_nat 500 + 0) * (pi / 1000) = margin" by simp
  then show ?thesis
    using lut_interpolates [of "reals TanLUT" "pi / 1000" 500 0 "- pi / 2 + margin"]
    by (simp add: Tan_def TanStep_pi table_lengths)
qed

lemma tan_above:
  assumes "0 < x" "x < pi / 2"
  shows "x < tan x"
proof -
  have c: "0 < cos z" if "0 \<le> z" "z \<le> x" for z using that assms by (intro cos_gt_zero_pi) auto
  then obtain z where z: "0 < z" "z < x" "tan x - tan 0 = (x - 0) * inverse ((cos z)\<^sup>2)"
    using MVT2 [OF assms(1), of tan "\<lambda>z. inverse ((cos z)\<^sup>2)"] by (metis DERIV_tan less_irrefl)
  have "cos z < 1" using cos_monotone_0_pi [of 0 z] z assms by simp
  then have "(cos z)\<^sup>2 < 1" using c [of z] z by (simp add: power_less_one_iff abs_square_less_1)
  then have "1 < inverse ((cos z)\<^sup>2)" using c [of z] z by (simp add: one_less_inverse_iff)
  with z(3) assms(1) show ?thesis by simp
qed

end
