(* ===== verification/Math_Spec.thy ===== *)
theory Math_Spec
  imports Matrix_Laws Quaternion TrigoLUT
begin

text \<open>
  What the three-dimensional mathematics promises over exact numbers, and where it does not keep it.
\<close>

section \<open>Matrices\<close>


text \<open>An integer 3x3 matrix whose determinant is neither 0 nor 1 nor -1 is inverted to the zero matrix, even
  into a type with fractions, because the reciprocal is taken between integers; the 2x2 matrix
  converts first.\<close>

lemma integer_inverse_zero:
  assumes "1 < \<bar>Det3 m\<bar>"
  shows "Inverted3 (sdiv) real_of_int m = Inr (build3 (\<lambda>_ _. 0))
    \<and> Inverted2 real_of_int (Mat2 2 0 0 2) = Inr (Mat2 (1 / 2) 0 0 (1 / 2))"
  using Inverted3_int [OF assms]
  by (simp add: Inverted2_def Det2_def Let_def mscale2_def mcast2_def Mat2x2_def)

section \<open>Rotations\<close>



section \<open>Trigonometric tables\<close>




end
