(* ===== verification/Lanes.thy ===== *)
theory Lanes
  imports Utility
begin

text \<open>
  \<open>libs/Math/include/NScalar.h\<close> and the compiler intrinsics of \<open>Intrinsics.h\<close> as \<open>NScalar.h\<close> and \<open>NVec2.h\<close> to
  \<open>NVec4.h\<close> use them. A \<open>std::array<T, N>\<close> is a list of length \<open>N\<close>, and \<open>N\<close> an argument; a loop over its
  elements that only stores is \<open>each\<close>. \<open>FourScalarF\<close> and \<open>FourScalarI\<close> have specialisations with the instructions for
  four lanes at once; \<open>int\<close> is a \<open>32 word\<close> here, as the instructions wrap around.
\<close>

section \<open>Loops over arrays\<close>

definition each :: "nat \<Rightarrow> (nat \<Rightarrow> 'b) \<Rightarrow> 'b list" where
  "each n f = map f [0..<n]"

text \<open>A loop that works in place and may throw: the exception, if any, and the state it leaves.\<close>

fun until_fault :: "(nat \<Rightarrow> 's \<Rightarrow> 's res) \<Rightarrow> nat list \<Rightarrow> 's \<Rightarrow> fault option \<times> 's" where
  "until_fault f [] s = (None, s)"
| "until_fault f (i # is) s = (case f i s of Inl e \<Rightarrow> (Some e, s) | Inr s' \<Rightarrow> until_fault f is s')"

section \<open>Instructions on four lanes\<close>

datatype 'a m128 = M128 'a 'a 'a 'a

definition mm_loadu :: "'a list \<Rightarrow> 'a m128" where
  "mm_loadu a = M128 (a ! 0) (a ! 1) (a ! 2) (a ! 3)"

fun mm_storeu :: "'a m128 \<Rightarrow> 'a list" where
  "mm_storeu (M128 a b c d) = [a, b, c, d]"

fun lanewise :: "('a \<Rightarrow> 'a \<Rightarrow> 'a) \<Rightarrow> 'a m128 \<Rightarrow> 'a m128 \<Rightarrow> 'a m128" where
  "lanewise f (M128 a b c d) (M128 a' b' c' d') = M128 (f a a') (f b b') (f c c') (f d d')"

fun on_lanes :: "('a \<Rightarrow> 'a) \<Rightarrow> 'a m128 \<Rightarrow> 'a m128" where
  "on_lanes f (M128 a b c d) = M128 (f a) (f b) (f c) (f d)"

definition mm_setzero :: "'a::zero m128" where "mm_setzero = M128 0 0 0 0"

definition mm_add_ps :: "f32 m128 \<Rightarrow> f32 m128 \<Rightarrow> f32 m128" where "mm_add_ps = lanewise (+)"
definition mm_sub_ps :: "f32 m128 \<Rightarrow> f32 m128 \<Rightarrow> f32 m128" where "mm_sub_ps = lanewise (-)"
definition mm_mul_ps :: "f32 m128 \<Rightarrow> f32 m128 \<Rightarrow> f32 m128" where "mm_mul_ps = lanewise (*)"
definition mm_div_ps :: "f32 m128 \<Rightarrow> f32 m128 \<Rightarrow> f32 m128" where "mm_div_ps = lanewise (div)"
definition mm_sqrt_ps :: "f32 m128 \<Rightarrow> f32 m128" where "mm_sqrt_ps = on_lanes fsqrt"

definition mm_add_epi32 :: "32 word m128 \<Rightarrow> 32 word m128 \<Rightarrow> 32 word m128" where "mm_add_epi32 = lanewise (+)"
definition mm_sub_epi32 :: "32 word m128 \<Rightarrow> 32 word m128 \<Rightarrow> 32 word m128" where "mm_sub_epi32 = lanewise (-)"
definition mm_mullo_epi32 :: "32 word m128 \<Rightarrow> 32 word m128 \<Rightarrow> 32 word m128" where "mm_mullo_epi32 = lanewise (*)"

section \<open>\<open>NScalar\<close>\<close>

text \<open>
  The object is its one array, so that the overloads that take a \<open>std::array\<close> are those that take an \<open>NScalar\<close>. The
  subtraction in place of the template subtracts from the array as a whole and does not compile; it has no definition.
\<close>

definition nscalar_of_array :: "nat \<Rightarrow> 'a list \<Rightarrow> 'a list" where
  "nscalar_of_array n scalars = each n (\<lambda>i. scalars ! i)"

definition nscalar_of_scalar :: "nat \<Rightarrow> 'a \<Rightarrow> 'a list" where
  "nscalar_of_scalar n scalar = each n (\<lambda>i. scalar)"

definition nscalar_plus :: "nat \<Rightarrow> 'a::plus list \<Rightarrow> 'a list \<Rightarrow> 'a list" where
  "nscalar_plus n a b = each n (\<lambda>i. a ! i + b ! i)"

definition nscalar_plus_assign :: "nat \<Rightarrow> 'a::plus list \<Rightarrow> 'a list \<Rightarrow> 'a list" where
  "nscalar_plus_assign n a b = fold (\<lambda>i r. r[i := r ! i + b ! i]) [0..<n] a"

definition nscalar_uminus :: "nat \<Rightarrow> 'a::uminus list \<Rightarrow> 'a list" where
  "nscalar_uminus n a = each n (\<lambda>i. - (a ! i))"

definition nscalar_minus :: "nat \<Rightarrow> 'a::minus list \<Rightarrow> 'a list \<Rightarrow> 'a list" where
  "nscalar_minus n a b = each n (\<lambda>i. a ! i - b ! i)"

definition nscalar_times :: "nat \<Rightarrow> 'a::times list \<Rightarrow> 'a list \<Rightarrow> 'a list" where
  "nscalar_times n a b = each n (\<lambda>i. a ! i * b ! i)"

definition nscalar_times_assign :: "nat \<Rightarrow> 'a::times list \<Rightarrow> 'a list \<Rightarrow> 'a list" where
  "nscalar_times_assign n a b = fold (\<lambda>i r. r[i := r ! i * b ! i]) [0..<n] a"

definition nscalar_div :: "nat \<Rightarrow> 'a::{zero, ord, divide} list \<Rightarrow> 'a list \<Rightarrow> 'a list res" where
  "nscalar_div n a b =
     rfold (\<lambda>i r. if ceq (b ! i) 0 then Inl DivisionByZeroException else Inr (r[i := a ! i div b ! i]))
       [0..<n] (replicate n 0)"

definition nscalar_div_assign :: "nat \<Rightarrow> 'a::{zero, ord, divide} list \<Rightarrow> 'a list \<Rightarrow> fault option \<times> 'a list" where
  "nscalar_div_assign n a b =
     until_fault (\<lambda>i r. if ceq (b ! i) 0 then Inl DivisionByZeroException else Inr (r[i := r ! i div b ! i]))
       [0..<n] a"

definition nscalar_index :: "nat \<Rightarrow> 'a list \<Rightarrow> int \<Rightarrow> 'a res" where
  "nscalar_index n a index = (if index < 0 \<or> int n \<le> index then Inl (UndefinedBehaviour ''index'') else Inr (a ! nat index))"

text \<open>The specialisations.\<close>

definition four_plus :: "f32 list \<Rightarrow> f32 list \<Rightarrow> f32 list" where
  "four_plus a b = mm_storeu (mm_add_ps (mm_loadu a) (mm_loadu b))"

definition four_uminus :: "f32 list \<Rightarrow> f32 list" where
  "four_uminus a = mm_storeu (mm_sub_ps mm_setzero (mm_loadu a))"

definition four_minus :: "f32 list \<Rightarrow> f32 list \<Rightarrow> f32 list" where
  "four_minus a b = mm_storeu (mm_sub_ps (mm_loadu a) (mm_loadu b))"

definition four_times :: "f32 list \<Rightarrow> f32 list \<Rightarrow> f32 list" where
  "four_times a b = mm_storeu (mm_mul_ps (mm_loadu a) (mm_loadu b))"

definition four_div :: "f32 list \<Rightarrow> f32 list \<Rightarrow> f32 list res" where
  "four_div a b =
     (if list_ex (\<lambda>i. ceq (b ! i) 0) [0..<4] then Inl DivisionByZeroException
      else Inr (mm_storeu (mm_div_ps (mm_loadu a) (mm_loadu b))))"

definition four_div_assign :: "f32 list \<Rightarrow> f32 list \<Rightarrow> fault option \<times> f32 list" where
  "four_div_assign a b =
     (if list_ex (\<lambda>i. ceq (b ! i) 0) [0..<4] then (Some DivisionByZeroException, a)
      else (None, mm_storeu (mm_div_ps (mm_loadu a) (mm_loadu b))))"

definition ifour_plus :: "32 word list \<Rightarrow> 32 word list \<Rightarrow> 32 word list" where
  "ifour_plus a b = mm_storeu (mm_add_epi32 (mm_loadu a) (mm_loadu b))"

definition ifour_uminus :: "32 word list \<Rightarrow> 32 word list" where
  "ifour_uminus a = mm_storeu (mm_sub_epi32 mm_setzero (mm_loadu a))"

definition ifour_minus :: "32 word list \<Rightarrow> 32 word list \<Rightarrow> 32 word list" where
  "ifour_minus a b = mm_storeu (mm_sub_epi32 (mm_loadu a) (mm_loadu b))"

definition ifour_times :: "32 word list \<Rightarrow> 32 word list \<Rightarrow> 32 word list" where
  "ifour_times a b = mm_storeu (mm_mullo_epi32 (mm_loadu a) (mm_loadu b))"

section \<open>Laws of the loops\<close>

lemma each_nth [simp]: "i < n \<Longrightarrow> each n f ! i = f i"
  by (simp add: each_def)

lemma length_each [simp]: "length (each n f) = n"
  by (simp add: each_def)

lemma each_cong: "(\<And>i. i < n \<Longrightarrow> f i = g i) \<Longrightarrow> each n f = each n g"
  by (simp add: each_def)

lemma each_4: "each 4 f = [f 0, f 1, f 2, f 3]"
  by (simp add: each_def upt_rec numeral_eq_Suc)

text \<open>A loop that fills an array unless it meets a zero.\<close>

lemma rfold_guard:
  "rfold (\<lambda>i r. if z i then Inl e else Inr (g i r)) ks r
    = (if list_ex z ks then Inl e else Inr (fold g ks r))"
  by (induction ks arbitrary: r) auto

lemma fold_fill: "k \<le> n \<Longrightarrow> length xs = n \<Longrightarrow> fold (\<lambda>i r. r[i := f i]) [0..<k] xs = map f [0..<k] @ drop k xs"
proof (induction k)
  case (Suc k)
  then have "drop k xs = xs ! k # drop (Suc k) xs" by (simp add: Cons_nth_drop_Suc)
  then show ?case using Suc by (simp add: list_update_append)
qed simp

lemma fill [simp]: "length xs = n \<Longrightarrow> fold (\<lambda>i r. r[i := f i]) [0..<n] xs = each n f"
  using fold_fill [of n n xs f] by (simp add: each_def)

text \<open>A loop that works in place: each element is read before it is written.\<close>

lemma fold_in_place_upto:
  "k \<le> length xs \<Longrightarrow> fold (\<lambda>i r. r[i := h (r ! i) (ys ! i)]) [0..<k] xs
    = map (\<lambda>i. h (xs ! i) (ys ! i)) [0..<k] @ drop k xs"
proof (induction k)
  case (Suc k)
  then have "drop k xs = xs ! k # drop (Suc k) xs" by (simp add: Cons_nth_drop_Suc)
  then show ?case using Suc by (simp add: list_update_append nth_append)
qed simp

lemma fold_in_place [simp]:
  "length xs = n \<Longrightarrow> fold (\<lambda>i r. r[i := h (r ! i) (ys ! i)]) [0..<n] xs = each n (\<lambda>i. h (xs ! i) (ys ! i))"
  using fold_in_place_upto [of n xs h ys] by (simp add: each_def)

text \<open>Where such a loop throws, the elements before the first bad divisor are already changed.\<close>

lemma until_fault_guard:
  "until_fault (\<lambda>i r. if z i then Inl e else Inr (g i r)) ks r
    = (if list_ex z ks then Some e else None, fold g (takeWhile (\<lambda>i. \<not> z i) ks) r)"
  by (induction ks arbitrary: r) auto

lemma takeWhile_upt:
  assumes "k < n" "z k" "\<And>i. i < k \<Longrightarrow> \<not> z i"
  shows "takeWhile (\<lambda>i. \<not> z i) [0..<n] = [0..<k]"
proof -
  have "[0..<n] = [0..<k] @ k # [Suc k..<n]"
    using assms(1) upt_add_eq_append [of 0 k "n - k"] upt_conv_Cons [of k n] by simp
  then show ?thesis using assms(2,3) by (simp add: takeWhile_append)
qed

lemmas lane_defs = mm_loadu_def mm_setzero_def mm_add_ps_def mm_sub_ps_def mm_mul_ps_def mm_div_ps_def mm_sqrt_ps_def
  mm_add_epi32_def mm_sub_epi32_def mm_mullo_epi32_def each_4

lemma nscalar_assign:
  "length a = n \<Longrightarrow> nscalar_plus_assign n a b = nscalar_plus n a b"
  "length a = n \<Longrightarrow> nscalar_times_assign n a b = nscalar_times n a b"
  by (simp_all add: nscalar_plus_assign_def nscalar_plus_def nscalar_times_assign_def nscalar_times_def)

text \<open>The specialisations of \<open>NScalar\<close> compute what the template does, but for the sign of a negated zero.\<close>

lemma four_scalars:
  "four_plus a b = nscalar_plus 4 a b" "four_minus a b = nscalar_minus 4 a b" "four_times a b = nscalar_times 4 a b"
  "four_div a b = nscalar_div 4 a b"
  by (simp_all add: four_plus_def nscalar_plus_def four_minus_def nscalar_minus_def four_times_def nscalar_times_def
      four_div_def nscalar_div_def rfold_guard lane_defs)

lemma ifour_scalars:
  "ifour_plus a b = nscalar_plus 4 a b" "ifour_minus a b = nscalar_minus 4 a b" "ifour_times a b = nscalar_times 4 a b"
  "ifour_uminus a = nscalar_uminus 4 a"
  by (simp_all add: ifour_plus_def nscalar_plus_def ifour_minus_def nscalar_minus_def ifour_times_def nscalar_times_def
      ifour_uminus_def nscalar_uminus_def lane_defs)

end
