(* ===== verification/NVec2.thy ===== *)
theory NVec2
  imports Lanes Vec3
begin

text \<open>
  \<open>libs/Math/include/NVec2.h\<close>: \<open>N\<close> vectors at once, an array per component, and the specialisations
  of the operations for four vectors of \<open>float\<close> and of \<open>int\<close>. \<open>n\<close> is the template parameter \<open>N\<close>, \<open>sq\<close> is
  \<open>std::sqrt\<close>, \<open>rcp\<close> is \<open>_mm_rcp_ps\<close> on one lane, an approximation of the reciprocal that the processor chooses. A compound assignment of
  the template works in place, so that a lane is read before it is written; the operand may be the object itself.
\<close>

section \<open>The class\<close>

datatype 'a nvec2 = NVec2 (NX2: "'a list") (NY2: "'a list")

definition zeros2 :: "nat \<Rightarrow> 'a::zero nvec2" where
  "zeros2 n = NVec2 (replicate n 0) (replicate n 0)"

definition put2 :: "'a nvec2 \<Rightarrow> nat \<Rightarrow> 'a \<Rightarrow> 'a \<Rightarrow> 'a nvec2" where
  "put2 v i x y = NVec2 ((NX2 v)[i := x]) ((NY2 v)[i := y])"

definition lane2 :: "'a nvec2 \<Rightarrow> nat \<Rightarrow> 'a vec2" where
  "lane2 v i = Vec2 (NX2 v ! i) (NY2 v ! i)"

definition nofvecs2 :: "nat \<Rightarrow> 'a::zero vec2 list \<Rightarrow> 'a nvec2" where
  "nofvecs2 n vecs =
     fold (\<lambda>i r. put2 r i (X (vecs ! i)) (Y (vecs ! i))) [0..<n] (zeros2 n)"

definition nofvec2 :: "nat \<Rightarrow> 'a::zero vec2 \<Rightarrow> 'a nvec2" where
  "nofvec2 n vec =
     fold (\<lambda>i r. put2 r i (X vec) (Y vec)) [0..<n] (zeros2 n)"

section \<open>The operations of the template\<close>

definition nplus2 :: "nat \<Rightarrow> 'a::{zero, plus} nvec2 \<Rightarrow> 'a nvec2 \<Rightarrow> 'a nvec2" where
  "nplus2 n v w =
     fold (\<lambda>i r. put2 r i (NX2 v ! i + NX2 w ! i) (NY2 v ! i + NY2 w ! i)) [0..<n] (zeros2 n)"

definition nplus_assign2 :: "nat \<Rightarrow> 'a::plus nvec2 \<Rightarrow> 'a nvec2 \<Rightarrow> 'a nvec2" where
  "nplus_assign2 n v w =
     fold (\<lambda>i r. put2 r i (NX2 r ! i + NX2 w ! i) (NY2 r ! i + NY2 w ! i)) [0..<n] v"

definition numinus2 :: "nat \<Rightarrow> 'a::{zero, uminus} nvec2 \<Rightarrow> 'a nvec2" where
  "numinus2 n v =
     fold (\<lambda>i r. put2 r i (- (NX2 v ! i)) (- (NY2 v ! i))) [0..<n] (zeros2 n)"

definition nminus2 :: "nat \<Rightarrow> 'a::{zero, minus} nvec2 \<Rightarrow> 'a nvec2 \<Rightarrow> 'a nvec2" where
  "nminus2 n v w =
     fold (\<lambda>i r. put2 r i (NX2 v ! i - NX2 w ! i) (NY2 v ! i - NY2 w ! i)) [0..<n] (zeros2 n)"

definition nminus_assign2 :: "nat \<Rightarrow> 'a::minus nvec2 \<Rightarrow> 'a nvec2 \<Rightarrow> 'a nvec2" where
  "nminus_assign2 n v w =
     fold (\<lambda>i r. put2 r i (NX2 r ! i - NX2 w ! i) (NY2 r ! i - NY2 w ! i)) [0..<n] v"

definition ntimes2 :: "nat \<Rightarrow> 'a::{zero, times} nvec2 \<Rightarrow> 'a nvec2 \<Rightarrow> 'a nvec2" where
  "ntimes2 n v w =
     fold (\<lambda>i r. put2 r i (NX2 v ! i * NX2 w ! i) (NY2 v ! i * NY2 w ! i)) [0..<n] (zeros2 n)"

definition ntimes_assign2 :: "nat \<Rightarrow> 'a::times nvec2 \<Rightarrow> 'a nvec2 \<Rightarrow> 'a nvec2" where
  "ntimes_assign2 n v w =
     fold (\<lambda>i r. put2 r i (NX2 r ! i * NX2 w ! i) (NY2 r ! i * NY2 w ! i)) [0..<n] v"

definition ndiv2 :: "nat \<Rightarrow> 'a::{zero, ord, divide} nvec2 \<Rightarrow> 'a nvec2 \<Rightarrow> 'a nvec2 res" where
  "ndiv2 n v w =
     rfold (\<lambda>i r. if ceq (NX2 w ! i) 0 \<or> ceq (NY2 w ! i) 0 then Inl DivisionByZeroException
           else Inr (put2 r i (NX2 v ! i div NX2 w ! i) (NY2 v ! i div NY2 w ! i)))
       [0..<n] (zeros2 n)"

definition ndiv_assign2 :: "nat \<Rightarrow> 'a::{zero, ord, divide} nvec2 \<Rightarrow> 'a nvec2 \<Rightarrow> fault option \<times> 'a nvec2" where
  "ndiv_assign2 n v w =
     until_fault (\<lambda>i r. if ceq (NX2 w ! i) 0 \<or> ceq (NY2 w ! i) 0 then Inl DivisionByZeroException
           else Inr (put2 r i (NX2 r ! i div NX2 w ! i) (NY2 r ! i div NY2 w ! i)))
       [0..<n] v"

definition nscale2 :: "nat \<Rightarrow> 'a::{zero, times} nvec2 \<Rightarrow> 'a list \<Rightarrow> 'a nvec2" where
  "nscale2 n v array1N =
     fold (\<lambda>i r. put2 r i (NX2 v ! i * array1N ! i) (NY2 v ! i * array1N ! i)) [0..<n] (zeros2 n)"

definition nscale_assign2 :: "nat \<Rightarrow> 'a::times nvec2 \<Rightarrow> 'a list \<Rightarrow> 'a nvec2" where
  "nscale_assign2 n v array1N =
     fold (\<lambda>i r. put2 r i (NX2 r ! i * array1N ! i) (NY2 r ! i * array1N ! i)) [0..<n] v"

definition ndiv_by2 :: "nat \<Rightarrow> 'a::{zero, ord, divide} nvec2 \<Rightarrow> 'a list \<Rightarrow> 'a nvec2 res" where
  "ndiv_by2 n v array1N =
     rfold (\<lambda>i r. if ceq (array1N ! i) 0 then Inl DivisionByZeroException
           else Inr (put2 r i (NX2 v ! i div array1N ! i) (NY2 v ! i div array1N ! i)))
       [0..<n] (zeros2 n)"

definition ndiv_by_assign2 :: "nat \<Rightarrow> 'a::{zero, ord, divide} nvec2 \<Rightarrow> 'a list \<Rightarrow> fault option \<times> 'a nvec2" where
  "ndiv_by_assign2 n v array1N =
     until_fault (\<lambda>i r. if ceq (array1N ! i) 0 then Inl DivisionByZeroException
           else Inr (put2 r i (NX2 r ! i div array1N ! i) (NY2 r ! i div array1N ! i)))
       [0..<n] v"

definition NDot2 :: "nat \<Rightarrow> 'a::{plus, times} nvec2 \<Rightarrow> 'a nvec2 \<Rightarrow> 'a list" where
  "NDot2 n v w = each n (\<lambda>i. NX2 v ! i * NX2 w ! i + NY2 v ! i * NY2 w ! i)"

definition NSquareMagnitude2 :: "nat \<Rightarrow> 'a::{plus, times} nvec2 \<Rightarrow> 'a list" where
  "NSquareMagnitude2 n v = NDot2 n v v"

definition NMagnitude2 :: "('a \<Rightarrow> 'a) \<Rightarrow> nat \<Rightarrow> 'a::{plus, times} nvec2 \<Rightarrow> 'a list" where
  "NMagnitude2 sq n v = (let sqrtMagnitude = NSquareMagnitude2 n v in each n (\<lambda>i. sq (sqrtMagnitude ! i)))"

text \<open>
  Despite its name the result holds the reciprocal lengths. With an integral \<open>T\<close> the source computes the square root and the
  quotient in \<open>double\<close>, which the text does not cover.
\<close>

definition NNormalized2 :: "('a \<Rightarrow> 'a) \<Rightarrow> nat \<Rightarrow> 'a::{plus, times, zero, one, ord, divide} nvec2 \<Rightarrow> 'a list res" where
  "NNormalized2 sq n v =
     (let magnitude = NMagnitude2 sq n v
      in if list_ex (\<lambda>i. ceq (magnitude ! i) 0) [0..<n] then Inl DivisionByZeroException
         else let array1N = NSquareMagnitude2 n v in Inr (each n (\<lambda>i. 1 div sq (array1N ! i))))"

section \<open>Four vectors of \<open>float\<close>\<close>

definition four_nplus2 :: "f32 nvec2 \<Rightarrow> f32 nvec2 \<Rightarrow> f32 nvec2" where
  "four_nplus2 v w =
     NVec2 (mm_storeu (mm_add_ps (mm_loadu (NX2 v)) (mm_loadu (NX2 w))))
       (mm_storeu (mm_add_ps (mm_loadu (NY2 v)) (mm_loadu (NY2 w))))"

definition four_numinus2 :: "f32 nvec2 \<Rightarrow> f32 nvec2" where
  "four_numinus2 v =
     NVec2 (mm_storeu (mm_sub_ps mm_setzero (mm_loadu (NX2 v))))
       (mm_storeu (mm_sub_ps mm_setzero (mm_loadu (NY2 v))))"

definition four_nminus2 :: "f32 nvec2 \<Rightarrow> f32 nvec2 \<Rightarrow> f32 nvec2" where
  "four_nminus2 v w =
     NVec2 (mm_storeu (mm_sub_ps (mm_loadu (NX2 v)) (mm_loadu (NX2 w))))
       (mm_storeu (mm_sub_ps (mm_loadu (NY2 v)) (mm_loadu (NY2 w))))"

definition four_ntimes2 :: "f32 nvec2 \<Rightarrow> f32 nvec2 \<Rightarrow> f32 nvec2" where
  "four_ntimes2 v w =
     NVec2 (mm_storeu (mm_mul_ps (mm_loadu (NX2 v)) (mm_loadu (NX2 w))))
       (mm_storeu (mm_mul_ps (mm_loadu (NY2 v)) (mm_loadu (NY2 w))))"

definition four_ndiv2 :: "f32 nvec2 \<Rightarrow> f32 nvec2 \<Rightarrow> f32 nvec2 res" where
  "four_ndiv2 v w =
     (if list_ex (\<lambda>i. ceq (NX2 w ! i) 0 \<or> ceq (NY2 w ! i) 0) [0..<4] then Inl DivisionByZeroException
      else Inr (NVec2 (mm_storeu (mm_div_ps (mm_loadu (NX2 v)) (mm_loadu (NX2 w))))
       (mm_storeu (mm_div_ps (mm_loadu (NY2 v)) (mm_loadu (NY2 w))))))"

definition four_ndiv_assign2 :: "f32 nvec2 \<Rightarrow> f32 nvec2 \<Rightarrow> fault option \<times> f32 nvec2" where
  "four_ndiv_assign2 v w =
     (if list_ex (\<lambda>i. ceq (NX2 w ! i) 0 \<or> ceq (NY2 w ! i) 0) [0..<4] then (Some DivisionByZeroException, v)
      else (None, NVec2 (mm_storeu (mm_div_ps (mm_loadu (NX2 v)) (mm_loadu (NX2 w))))
       (mm_storeu (mm_div_ps (mm_loadu (NY2 v)) (mm_loadu (NY2 w))))))"

definition four_NDot2 :: "f32 nvec2 \<Rightarrow> f32 nvec2 \<Rightarrow> f32 list" where
  "four_NDot2 v w =
     mm_storeu (mm_add_ps (mm_mul_ps (mm_loadu (NX2 v)) (mm_loadu (NX2 w)))
       (mm_mul_ps (mm_loadu (NY2 v)) (mm_loadu (NY2 w))))"

definition four_NSquareMagnitude2 :: "f32 nvec2 \<Rightarrow> f32 list" where
  "four_NSquareMagnitude2 v =
     mm_storeu (mm_add_ps (mm_mul_ps (mm_loadu (NX2 v)) (mm_loadu (NX2 v)))
       (mm_mul_ps (mm_loadu (NY2 v)) (mm_loadu (NY2 v))))"

definition four_NMagnitude2 :: "f32 nvec2 \<Rightarrow> f32 list" where
  "four_NMagnitude2 v =
     mm_storeu (mm_sqrt_ps (mm_add_ps (mm_mul_ps (mm_loadu (NX2 v)) (mm_loadu (NX2 v)))
       (mm_mul_ps (mm_loadu (NY2 v)) (mm_loadu (NY2 v)))))"

definition four_NNormalized2 :: "(f32 \<Rightarrow> f32) \<Rightarrow> f32 nvec2 \<Rightarrow> f32 list res" where
  "four_NNormalized2 rcp v =
     (let magnitude = four_NMagnitude2 v
      in if list_ex (\<lambda>i. ceq (magnitude ! i) 0) [0..<4] then Inl DivisionByZeroException
         else Inr (mm_storeu (on_lanes rcp (mm_sqrt_ps (mm_add_ps (mm_mul_ps (mm_loadu (NX2 v)) (mm_loadu (NX2 v)))
       (mm_mul_ps (mm_loadu (NY2 v)) (mm_loadu (NY2 v))))))))"

section \<open>Four vectors of \<open>int\<close>\<close>

definition ifour_nplus2 :: "32 word nvec2 \<Rightarrow> 32 word nvec2 \<Rightarrow> 32 word nvec2" where
  "ifour_nplus2 v w =
     NVec2 (mm_storeu (mm_add_epi32 (mm_loadu (NX2 v)) (mm_loadu (NX2 w))))
       (mm_storeu (mm_add_epi32 (mm_loadu (NY2 v)) (mm_loadu (NY2 w))))"

definition ifour_numinus2 :: "32 word nvec2 \<Rightarrow> 32 word nvec2" where
  "ifour_numinus2 v =
     NVec2 (mm_storeu (mm_sub_epi32 mm_setzero (mm_loadu (NX2 v))))
       (mm_storeu (mm_sub_epi32 mm_setzero (mm_loadu (NY2 v))))"

definition ifour_nminus2 :: "32 word nvec2 \<Rightarrow> 32 word nvec2 \<Rightarrow> 32 word nvec2" where
  "ifour_nminus2 v w =
     NVec2 (mm_storeu (mm_sub_epi32 (mm_loadu (NX2 v)) (mm_loadu (NX2 w))))
       (mm_storeu (mm_sub_epi32 (mm_loadu (NY2 v)) (mm_loadu (NY2 w))))"

definition ifour_ntimes2 :: "32 word nvec2 \<Rightarrow> 32 word nvec2 \<Rightarrow> 32 word nvec2" where
  "ifour_ntimes2 v w =
     NVec2 (mm_storeu (mm_mullo_epi32 (mm_loadu (NX2 v)) (mm_loadu (NX2 w))))
       (mm_storeu (mm_mullo_epi32 (mm_loadu (NY2 v)) (mm_loadu (NY2 w))))"

definition ifour_NDot2 :: "32 word nvec2 \<Rightarrow> 32 word nvec2 \<Rightarrow> 32 word list" where
  "ifour_NDot2 v w =
     mm_storeu (mm_add_epi32 (mm_mullo_epi32 (mm_loadu (NX2 v)) (mm_loadu (NX2 w)))
       (mm_mullo_epi32 (mm_loadu (NY2 v)) (mm_loadu (NY2 w))))"

definition ifour_NSquareMagnitude2 :: "32 word nvec2 \<Rightarrow> 32 word list" where
  "ifour_NSquareMagnitude2 v =
     mm_storeu (mm_add_epi32 (mm_mullo_epi32 (mm_loadu (NX2 v)) (mm_loadu (NX2 v)))
       (mm_mullo_epi32 (mm_loadu (NY2 v)) (mm_loadu (NY2 v))))"

section \<open>What the loops compute\<close>

text \<open>Arrays of the length the type prescribes.\<close>

definition wf2 :: "nat \<Rightarrow> 'a nvec2 \<Rightarrow> bool" where
  "wf2 n v \<longleftrightarrow> length (NX2 v) = n \<and> length (NY2 v) = n"

lemma fold_put2:
  "fold (\<lambda>i r. put2 r i (f i) (g i)) ks r
    = NVec2 (fold (\<lambda>i l. l[i := f i]) ks (NX2 r))
        (fold (\<lambda>i l. l[i := g i]) ks (NY2 r))"
  by (induction ks arbitrary: r) (simp_all add: put2_def)

lemma fold_assign2:
  "fold (\<lambda>i r. put2 r i (h (NX2 r ! i) (xs ! i)) (h (NY2 r ! i) (ys ! i))) ks r
    = NVec2 (fold (\<lambda>i l. l[i := h (l ! i) (xs ! i)]) ks (NX2 r))
        (fold (\<lambda>i l. l[i := h (l ! i) (ys ! i)]) ks (NY2 r))"
  by (induction ks arbitrary: r) (simp_all add: put2_def)

lemma each_put2 [simp]:
  "fold (\<lambda>i r. put2 r i (f i) (g i)) [0..<n] (zeros2 n) = NVec2 (each n f) (each n g)"
  by (simp add: fold_put2 zeros2_def)

lemmas nvec2_defs = nofvecs2_def nofvec2_def nplus2_def nminus2_def ntimes2_def nscale2_def numinus2_def ndiv2_def ndiv_by2_def
  NDot2_def NSquareMagnitude2_def NMagnitude2_def NNormalized2_def

text \<open>In place or into a new object, the loops compute the same.\<close>

lemma assign2:
  assumes "wf2 n v"
  shows "nplus_assign2 n v w = nplus2 n v w"
    and "nminus_assign2 n v w = nminus2 n v w"
    and "ntimes_assign2 n v w = ntimes2 n v w"
    and "nscale_assign2 n v a = nscale2 n v a"
  using assms
  by (simp_all add: wf2_def fold_assign2 nplus_assign2_def nplus2_def nminus_assign2_def nminus2_def ntimes_assign2_def ntimes2_def nscale_assign2_def nscale2_def)

text \<open>Each lane is an operation on one vector.\<close>

lemma lanes2:
  assumes "i < n"
  shows "lane2 (nplus2 n v w) i = lane2 v i + lane2 w i"
    and "lane2 (numinus2 n v) i = - lane2 v i"
    and "lane2 (nminus2 n v w) i = lane2 v i - lane2 w i"
    and "lane2 (ntimes2 n v w) i = lane2 v i * lane2 w i"
    and "lane2 (nscale2 n v a) i = vscale (lane2 v i) (a ! i)"
    and "NDot2 n v w ! i = Dot (lane2 v i) (lane2 w i)"
    and "NSquareMagnitude2 n v ! i = Dot (lane2 v i) (lane2 v i)"
  using assms
  by (simp_all add: nvec2_defs lane2_def plus_vec2_def uminus_vec2_def minus_vec2_def times_vec2_def vscale_def Dot_def)

text \<open>A division throws when that of some lane does; otherwise each lane holds its quotient.\<close>

lemma ndiv_lanes2:
  "ndiv2 n v w = Inl e \<longleftrightarrow> e = DivisionByZeroException \<and> (\<exists>j<n. vdivv (lane2 v j) (lane2 w j) = Inl DivisionByZeroException)"
  "ndiv2 n v w = Inr r \<Longrightarrow> i < n \<Longrightarrow> vdivv (lane2 v i) (lane2 w i) = Inr (lane2 r i)"
  by (auto simp: ndiv2_def rfold_guard lane2_def vdivv_def list_ex_iff split: if_splits)

text \<open>A division in place that throws at lane \<open>k\<close> has divided the lanes before it.\<close>

lemma ndiv_assign_stops2:
  assumes wf: "wf2 n v" and k: "k < n" "ceq (NX2 w ! k) 0 \<or> ceq (NY2 w ! k) 0"
    and before: "\<And>i. i < k \<Longrightarrow> \<not> (ceq (NX2 w ! i) 0 \<or> ceq (NY2 w ! i) 0)"
  shows "fst (ndiv_assign2 n v w) = Some DivisionByZeroException"
    and "i < k \<Longrightarrow> vdivv (lane2 v i) (lane2 w i) = Inr (lane2 (snd (ndiv_assign2 n v w)) i)"
    and "k \<le> i \<Longrightarrow> i < n \<Longrightarrow> lane2 (snd (ndiv_assign2 n v w)) i = lane2 v i"
proof -
  let ?z = "\<lambda>i. ceq (NX2 w ! i) 0 \<or> ceq (NY2 w ! i) 0"
  have "list_ex ?z [0..<n]" using k by (force simp: list_ex_iff)
  moreover have "takeWhile (\<lambda>i. \<not> ?z i) [0..<n] = [0..<k]" using takeWhile_upt [of k n ?z] k before by blast
  ultimately have *: "ndiv_assign2 n v w =
      (Some DivisionByZeroException,
       NVec2 (map (\<lambda>i. NX2 v ! i div NX2 w ! i) [0..<k] @ drop k (NX2 v))
             (map (\<lambda>i. NY2 v ! i div NY2 w ! i) [0..<k] @ drop k (NY2 v)))"
    unfolding ndiv_assign2_def until_fault_guard using wf k(1)
    by (simp add: fold_assign2 fold_in_place_upto wf2_def)
  show "fst (ndiv_assign2 n v w) = Some DivisionByZeroException" by (simp add: *)
  show "vdivv (lane2 v i) (lane2 w i) = Inr (lane2 (snd (ndiv_assign2 n v w)) i)" if "i < k"
    using that before [OF that] by (simp add: * lane2_def vdivv_def nth_append)
  show "lane2 (snd (ndiv_assign2 n v w)) i = lane2 v i" if "k \<le> i" "i < n"
    using that wf k(1) by (simp add: * lane2_def nth_append wf2_def)
qed

section \<open>The specialisations and the template\<close>

lemma four_vec2:
  "four_nplus2 v w = nplus2 4 v w"
  "four_nminus2 v w = nminus2 4 v w"
  "four_ntimes2 v w = ntimes2 4 v w"
  "four_ndiv2 v w = ndiv2 4 v w"
  "four_NDot2 v w = NDot2 4 v w"
  "four_NSquareMagnitude2 v = NSquareMagnitude2 4 v"
  "four_NMagnitude2 v = NMagnitude2 fsqrt 4 v"
  by (simp_all add: four_nplus2_def four_nminus2_def four_ntimes2_def four_ndiv2_def four_NDot2_def four_NSquareMagnitude2_def four_NMagnitude2_def nvec2_defs
      rfold_guard lane_defs)

lemma ifour_vec2:
  "ifour_nplus2 v w = nplus2 4 v w"
  "ifour_nminus2 v w = nminus2 4 v w"
  "ifour_ntimes2 v w = ntimes2 4 v w"
  "ifour_numinus2 v = numinus2 4 v"
  "ifour_NDot2 v w = NDot2 4 v w"
  "ifour_NSquareMagnitude2 v = NSquareMagnitude2 4 v"
  by (simp_all add: ifour_nplus2_def ifour_nminus2_def ifour_ntimes2_def ifour_numinus2_def ifour_NDot2_def ifour_NSquareMagnitude2_def
      nvec2_defs lane_defs)

end
