(* ===== verification/NVec3.thy ===== *)
theory NVec3
  imports Lanes Vec3
begin

text \<open>
  \<open>libs/Math/include/NVec3.h\<close>: \<open>N\<close> vectors at once, an array per component, and the specialisations
  of the operations for four vectors of \<open>float\<close> and of \<open>int\<close>. \<open>n\<close> is the template parameter \<open>N\<close>, \<open>sq\<close> is
  \<open>std::sqrt\<close>, \<open>rcp\<close> is \<open>_mm_rcp_ps\<close> on one lane, an approximation of the reciprocal that the processor chooses. A compound assignment of
  the template works in place, so that a lane is read before it is written; the operand may be the object itself.
\<close>

section \<open>The class\<close>

datatype 'a nvec3 = NVec3 (NX3: "'a list") (NY3: "'a list") (NZ3: "'a list")

definition zeros3 :: "nat \<Rightarrow> 'a::zero nvec3" where
  "zeros3 n = NVec3 (replicate n 0) (replicate n 0) (replicate n 0)"

definition put3 :: "'a nvec3 \<Rightarrow> nat \<Rightarrow> 'a \<Rightarrow> 'a \<Rightarrow> 'a \<Rightarrow> 'a nvec3" where
  "put3 v i x y z = NVec3 ((NX3 v)[i := x]) ((NY3 v)[i := y]) ((NZ3 v)[i := z])"

definition lane3 :: "'a nvec3 \<Rightarrow> nat \<Rightarrow> 'a vec3" where
  "lane3 v i = Vec3 (NX3 v ! i) (NY3 v ! i) (NZ3 v ! i)"

definition nofvecs3 :: "nat \<Rightarrow> 'a::zero vec3 list \<Rightarrow> 'a nvec3" where
  "nofvecs3 n vecs =
     fold (\<lambda>i r. put3 r i (X3 (vecs ! i))
       (Y3 (vecs ! i))
       (Z3 (vecs ! i))) [0..<n] (zeros3 n)"

definition nofvec3 :: "nat \<Rightarrow> 'a::zero vec3 \<Rightarrow> 'a nvec3" where
  "nofvec3 n vec =
     fold (\<lambda>i r. put3 r i (X3 vec)
       (Y3 vec)
       (Z3 vec)) [0..<n] (zeros3 n)"

section \<open>The operations of the template\<close>

definition nplus3 :: "nat \<Rightarrow> 'a::{zero, plus} nvec3 \<Rightarrow> 'a nvec3 \<Rightarrow> 'a nvec3" where
  "nplus3 n v w =
     fold (\<lambda>i r. put3 r i (NX3 v ! i + NX3 w ! i)
       (NY3 v ! i + NY3 w ! i)
       (NZ3 v ! i + NZ3 w ! i)) [0..<n] (zeros3 n)"

definition nplus_assign3 :: "nat \<Rightarrow> 'a::plus nvec3 \<Rightarrow> 'a nvec3 \<Rightarrow> 'a nvec3" where
  "nplus_assign3 n v w =
     fold (\<lambda>i r. put3 r i (NX3 r ! i + NX3 w ! i)
       (NY3 r ! i + NY3 w ! i)
       (NZ3 r ! i + NZ3 w ! i)) [0..<n] v"

definition numinus3 :: "nat \<Rightarrow> 'a::{zero, uminus} nvec3 \<Rightarrow> 'a nvec3" where
  "numinus3 n v =
     fold (\<lambda>i r. put3 r i (- (NX3 v ! i))
       (- (NY3 v ! i))
       (- (NZ3 v ! i))) [0..<n] (zeros3 n)"

definition nminus3 :: "nat \<Rightarrow> 'a::{zero, minus} nvec3 \<Rightarrow> 'a nvec3 \<Rightarrow> 'a nvec3" where
  "nminus3 n v w =
     fold (\<lambda>i r. put3 r i (NX3 v ! i - NX3 w ! i)
       (NY3 v ! i - NY3 w ! i)
       (NZ3 v ! i - NZ3 w ! i)) [0..<n] (zeros3 n)"

definition nminus_assign3 :: "nat \<Rightarrow> 'a::minus nvec3 \<Rightarrow> 'a nvec3 \<Rightarrow> 'a nvec3" where
  "nminus_assign3 n v w =
     fold (\<lambda>i r. put3 r i (NX3 r ! i - NX3 w ! i)
       (NY3 r ! i - NY3 w ! i)
       (NZ3 r ! i - NZ3 w ! i)) [0..<n] v"

definition ntimes3 :: "nat \<Rightarrow> 'a::{zero, times} nvec3 \<Rightarrow> 'a nvec3 \<Rightarrow> 'a nvec3" where
  "ntimes3 n v w =
     fold (\<lambda>i r. put3 r i (NX3 v ! i * NX3 w ! i)
       (NY3 v ! i * NY3 w ! i)
       (NZ3 v ! i * NZ3 w ! i)) [0..<n] (zeros3 n)"

definition ntimes_assign3 :: "nat \<Rightarrow> 'a::times nvec3 \<Rightarrow> 'a nvec3 \<Rightarrow> 'a nvec3" where
  "ntimes_assign3 n v w =
     fold (\<lambda>i r. put3 r i (NX3 r ! i * NX3 w ! i)
       (NY3 r ! i * NY3 w ! i)
       (NZ3 r ! i * NZ3 w ! i)) [0..<n] v"

definition ndiv3 :: "nat \<Rightarrow> 'a::{zero, ord, divide} nvec3 \<Rightarrow> 'a nvec3 \<Rightarrow> 'a nvec3 res" where
  "ndiv3 n v w =
     rfold (\<lambda>i r. if ceq (NX3 w ! i) 0 \<or> ceq (NY3 w ! i) 0 \<or> ceq (NZ3 w ! i) 0
           then Inl DivisionByZeroException
           else Inr (put3 r i (NX3 v ! i div NX3 w ! i)
             (NY3 v ! i div NY3 w ! i)
             (NZ3 v ! i div NZ3 w ! i)))
       [0..<n] (zeros3 n)"

definition ndiv_assign3 :: "nat \<Rightarrow> 'a::{zero, ord, divide} nvec3 \<Rightarrow> 'a nvec3 \<Rightarrow> fault option \<times> 'a nvec3" where
  "ndiv_assign3 n v w =
     until_fault (\<lambda>i r. if ceq (NX3 w ! i) 0 \<or> ceq (NY3 w ! i) 0 \<or> ceq (NZ3 w ! i) 0
           then Inl DivisionByZeroException
           else Inr (put3 r i (NX3 r ! i div NX3 w ! i)
             (NY3 r ! i div NY3 w ! i)
             (NZ3 r ! i div NZ3 w ! i)))
       [0..<n] v"

definition nscale3 :: "nat \<Rightarrow> 'a::{zero, times} nvec3 \<Rightarrow> 'a list \<Rightarrow> 'a nvec3" where
  "nscale3 n v array1N =
     fold (\<lambda>i r. put3 r i (NX3 v ! i * array1N ! i)
       (NY3 v ! i * array1N ! i)
       (NZ3 v ! i * array1N ! i)) [0..<n] (zeros3 n)"

definition nscale_assign3 :: "nat \<Rightarrow> 'a::times nvec3 \<Rightarrow> 'a list \<Rightarrow> 'a nvec3" where
  "nscale_assign3 n v array1N =
     fold (\<lambda>i r. put3 r i (NX3 r ! i * array1N ! i)
       (NY3 r ! i * array1N ! i)
       (NZ3 r ! i * array1N ! i)) [0..<n] v"

definition ndiv_by3 :: "nat \<Rightarrow> 'a::{zero, ord, divide} nvec3 \<Rightarrow> 'a list \<Rightarrow> 'a nvec3 res" where
  "ndiv_by3 n v array1N =
     rfold (\<lambda>i r. if ceq (array1N ! i) 0 then Inl DivisionByZeroException
           else Inr (put3 r i (NX3 v ! i div array1N ! i)
             (NY3 v ! i div array1N ! i)
             (NZ3 v ! i div array1N ! i)))
       [0..<n] (zeros3 n)"

definition ndiv_by_assign3 :: "nat \<Rightarrow> 'a::{zero, ord, divide} nvec3 \<Rightarrow> 'a list \<Rightarrow> fault option \<times> 'a nvec3" where
  "ndiv_by_assign3 n v array1N =
     until_fault (\<lambda>i r. if ceq (array1N ! i) 0 then Inl DivisionByZeroException
           else Inr (put3 r i (NX3 r ! i div array1N ! i)
             (NY3 r ! i div array1N ! i)
             (NZ3 r ! i div array1N ! i)))
       [0..<n] v"

definition NDot3 :: "nat \<Rightarrow> 'a::{plus, times} nvec3 \<Rightarrow> 'a nvec3 \<Rightarrow> 'a list" where
  "NDot3 n v w = each n (\<lambda>i. NX3 v ! i * NX3 w ! i + NY3 v ! i * NY3 w ! i + NZ3 v ! i * NZ3 w ! i)"

definition NSquareMagnitude3 :: "nat \<Rightarrow> 'a::{plus, times} nvec3 \<Rightarrow> 'a list" where
  "NSquareMagnitude3 n v = NDot3 n v v"

definition NMagnitude3 :: "('a \<Rightarrow> 'a) \<Rightarrow> nat \<Rightarrow> 'a::{plus, times} nvec3 \<Rightarrow> 'a list" where
  "NMagnitude3 sq n v = (let sqrtMagnitude = NSquareMagnitude3 n v in each n (\<lambda>i. sq (sqrtMagnitude ! i)))"

text \<open>
  Despite its name the result holds the reciprocal lengths. With an integral \<open>T\<close> the source computes the square root and the
  quotient in \<open>double\<close>, which the text does not cover.
\<close>

definition NNormalized3 :: "('a \<Rightarrow> 'a) \<Rightarrow> nat \<Rightarrow> 'a::{plus, times, zero, one, ord, divide} nvec3 \<Rightarrow> 'a list res" where
  "NNormalized3 sq n v =
     (let magnitude = NMagnitude3 sq n v
      in if list_ex (\<lambda>i. ceq (magnitude ! i) 0) [0..<n] then Inl DivisionByZeroException
         else let array1N = NSquareMagnitude3 n v in Inr (each n (\<lambda>i. 1 div sq (array1N ! i))))"

section \<open>Four vectors of \<open>float\<close>\<close>

definition four_nplus3 :: "f32 nvec3 \<Rightarrow> f32 nvec3 \<Rightarrow> f32 nvec3" where
  "four_nplus3 v w =
     NVec3 (mm_storeu (mm_add_ps (mm_loadu (NX3 v)) (mm_loadu (NX3 w))))
       (mm_storeu (mm_add_ps (mm_loadu (NY3 v)) (mm_loadu (NY3 w))))
       (mm_storeu (mm_add_ps (mm_loadu (NZ3 v)) (mm_loadu (NZ3 w))))"

definition four_numinus3 :: "f32 nvec3 \<Rightarrow> f32 nvec3" where
  "four_numinus3 v =
     NVec3 (mm_storeu (mm_sub_ps mm_setzero (mm_loadu (NX3 v))))
       (mm_storeu (mm_sub_ps mm_setzero (mm_loadu (NY3 v))))
       (mm_storeu (mm_sub_ps mm_setzero (mm_loadu (NZ3 v))))"

definition four_nminus3 :: "f32 nvec3 \<Rightarrow> f32 nvec3 \<Rightarrow> f32 nvec3" where
  "four_nminus3 v w =
     NVec3 (mm_storeu (mm_sub_ps (mm_loadu (NX3 v)) (mm_loadu (NX3 w))))
       (mm_storeu (mm_sub_ps (mm_loadu (NY3 v)) (mm_loadu (NY3 w))))
       (mm_storeu (mm_sub_ps (mm_loadu (NZ3 v)) (mm_loadu (NZ3 w))))"

definition four_ntimes3 :: "f32 nvec3 \<Rightarrow> f32 nvec3 \<Rightarrow> f32 nvec3" where
  "four_ntimes3 v w =
     NVec3 (mm_storeu (mm_mul_ps (mm_loadu (NX3 v)) (mm_loadu (NX3 w))))
       (mm_storeu (mm_mul_ps (mm_loadu (NY3 v)) (mm_loadu (NY3 w))))
       (mm_storeu (mm_mul_ps (mm_loadu (NZ3 v)) (mm_loadu (NZ3 w))))"

definition four_ndiv3 :: "f32 nvec3 \<Rightarrow> f32 nvec3 \<Rightarrow> f32 nvec3 res" where
  "four_ndiv3 v w =
     (if list_ex (\<lambda>i. ceq (NX3 w ! i) 0 \<or> ceq (NY3 w ! i) 0 \<or> ceq (NZ3 w ! i) 0) [0..<4]
           then Inl DivisionByZeroException
      else Inr (NVec3 (mm_storeu (mm_div_ps (mm_loadu (NX3 v)) (mm_loadu (NX3 w))))
       (mm_storeu (mm_div_ps (mm_loadu (NY3 v)) (mm_loadu (NY3 w))))
       (mm_storeu (mm_div_ps (mm_loadu (NZ3 v)) (mm_loadu (NZ3 w))))))"

definition four_ndiv_assign3 :: "f32 nvec3 \<Rightarrow> f32 nvec3 \<Rightarrow> fault option \<times> f32 nvec3" where
  "four_ndiv_assign3 v w =
     (if list_ex (\<lambda>i. ceq (NX3 w ! i) 0 \<or> ceq (NY3 w ! i) 0 \<or> ceq (NZ3 w ! i) 0) [0..<4]
      then (Some DivisionByZeroException, v)
      else (None, NVec3 (mm_storeu (mm_div_ps (mm_loadu (NX3 v)) (mm_loadu (NX3 w))))
       (mm_storeu (mm_div_ps (mm_loadu (NY3 v)) (mm_loadu (NY3 w))))
       (mm_storeu (mm_div_ps (mm_loadu (NZ3 v)) (mm_loadu (NZ3 w))))))"

definition four_NDot3 :: "f32 nvec3 \<Rightarrow> f32 nvec3 \<Rightarrow> f32 list" where
  "four_NDot3 v w =
     mm_storeu (mm_add_ps
       (mm_add_ps (mm_mul_ps (mm_loadu (NX3 v)) (mm_loadu (NX3 w)))
         (mm_mul_ps (mm_loadu (NY3 v)) (mm_loadu (NY3 w))))
       (mm_mul_ps (mm_loadu (NZ3 v)) (mm_loadu (NZ3 w))))"

definition four_NSquareMagnitude3 :: "f32 nvec3 \<Rightarrow> f32 list" where
  "four_NSquareMagnitude3 v =
     mm_storeu (mm_add_ps
       (mm_add_ps (mm_mul_ps (mm_loadu (NX3 v)) (mm_loadu (NX3 v)))
         (mm_mul_ps (mm_loadu (NY3 v)) (mm_loadu (NY3 v))))
       (mm_mul_ps (mm_loadu (NZ3 v)) (mm_loadu (NZ3 v))))"

definition four_NMagnitude3 :: "f32 nvec3 \<Rightarrow> f32 list" where
  "four_NMagnitude3 v =
     mm_storeu (mm_sqrt_ps (mm_add_ps
       (mm_add_ps (mm_mul_ps (mm_loadu (NX3 v)) (mm_loadu (NX3 v)))
         (mm_mul_ps (mm_loadu (NY3 v)) (mm_loadu (NY3 v))))
       (mm_mul_ps (mm_loadu (NZ3 v)) (mm_loadu (NZ3 v)))))"

definition four_NNormalized3 :: "(f32 \<Rightarrow> f32) \<Rightarrow> f32 nvec3 \<Rightarrow> f32 list res" where
  "four_NNormalized3 rcp v =
     (let magnitude = four_NMagnitude3 v
      in if list_ex (\<lambda>i. ceq (magnitude ! i) 0) [0..<4] then Inl DivisionByZeroException
         else Inr (mm_storeu (on_lanes rcp (mm_sqrt_ps (mm_add_ps
       (mm_add_ps (mm_mul_ps (mm_loadu (NX3 v)) (mm_loadu (NX3 v)))
         (mm_mul_ps (mm_loadu (NY3 v)) (mm_loadu (NY3 v))))
       (mm_mul_ps (mm_loadu (NZ3 v)) (mm_loadu (NZ3 v))))))))"

section \<open>Four vectors of \<open>int\<close>\<close>

definition ifour_nplus3 :: "32 word nvec3 \<Rightarrow> 32 word nvec3 \<Rightarrow> 32 word nvec3" where
  "ifour_nplus3 v w =
     NVec3 (mm_storeu (mm_add_epi32 (mm_loadu (NX3 v)) (mm_loadu (NX3 w))))
       (mm_storeu (mm_add_epi32 (mm_loadu (NY3 v)) (mm_loadu (NY3 w))))
       (mm_storeu (mm_add_epi32 (mm_loadu (NZ3 v)) (mm_loadu (NZ3 w))))"

definition ifour_numinus3 :: "32 word nvec3 \<Rightarrow> 32 word nvec3" where
  "ifour_numinus3 v =
     NVec3 (mm_storeu (mm_sub_epi32 mm_setzero (mm_loadu (NX3 v))))
       (mm_storeu (mm_sub_epi32 mm_setzero (mm_loadu (NY3 v))))
       (mm_storeu (mm_sub_epi32 mm_setzero (mm_loadu (NZ3 v))))"

definition ifour_nminus3 :: "32 word nvec3 \<Rightarrow> 32 word nvec3 \<Rightarrow> 32 word nvec3" where
  "ifour_nminus3 v w =
     NVec3 (mm_storeu (mm_sub_epi32 (mm_loadu (NX3 v)) (mm_loadu (NX3 w))))
       (mm_storeu (mm_sub_epi32 (mm_loadu (NY3 v)) (mm_loadu (NY3 w))))
       (mm_storeu (mm_sub_epi32 (mm_loadu (NZ3 v)) (mm_loadu (NZ3 w))))"

definition ifour_ntimes3 :: "32 word nvec3 \<Rightarrow> 32 word nvec3 \<Rightarrow> 32 word nvec3" where
  "ifour_ntimes3 v w =
     NVec3 (mm_storeu (mm_mullo_epi32 (mm_loadu (NX3 v)) (mm_loadu (NX3 w))))
       (mm_storeu (mm_mullo_epi32 (mm_loadu (NY3 v)) (mm_loadu (NY3 w))))
       (mm_storeu (mm_mullo_epi32 (mm_loadu (NZ3 v)) (mm_loadu (NZ3 w))))"

definition ifour_NDot3 :: "32 word nvec3 \<Rightarrow> 32 word nvec3 \<Rightarrow> 32 word list" where
  "ifour_NDot3 v w =
     mm_storeu (mm_add_epi32
       (mm_add_epi32 (mm_mullo_epi32 (mm_loadu (NX3 v)) (mm_loadu (NX3 w)))
         (mm_mullo_epi32 (mm_loadu (NY3 v)) (mm_loadu (NY3 w))))
       (mm_mullo_epi32 (mm_loadu (NZ3 v)) (mm_loadu (NZ3 w))))"

definition ifour_NSquareMagnitude3 :: "32 word nvec3 \<Rightarrow> 32 word list" where
  "ifour_NSquareMagnitude3 v =
     mm_storeu (mm_add_epi32
       (mm_add_epi32 (mm_mullo_epi32 (mm_loadu (NX3 v)) (mm_loadu (NX3 v)))
         (mm_mullo_epi32 (mm_loadu (NY3 v)) (mm_loadu (NY3 v))))
       (mm_mullo_epi32 (mm_loadu (NZ3 v)) (mm_loadu (NZ3 v))))"

section \<open>What the loops compute\<close>

text \<open>Arrays of the length the type prescribes.\<close>

definition wf3 :: "nat \<Rightarrow> 'a nvec3 \<Rightarrow> bool" where
  "wf3 n v \<longleftrightarrow> length (NX3 v) = n \<and> length (NY3 v) = n \<and> length (NZ3 v) = n"

lemma fold_put3:
  "fold (\<lambda>i r. put3 r i (f i) (g i) (h i)) ks r
    = NVec3 (fold (\<lambda>i l. l[i := f i]) ks (NX3 r))
        (fold (\<lambda>i l. l[i := g i]) ks (NY3 r))
        (fold (\<lambda>i l. l[i := h i]) ks (NZ3 r))"
  by (induction ks arbitrary: r) (simp_all add: put3_def)

lemma fold_assign3:
  "fold (\<lambda>i r. put3 r i (h (NX3 r ! i) (xs ! i)) (h (NY3 r ! i) (ys ! i)) (h (NZ3 r ! i) (zs ! i))) ks r
    = NVec3 (fold (\<lambda>i l. l[i := h (l ! i) (xs ! i)]) ks (NX3 r))
        (fold (\<lambda>i l. l[i := h (l ! i) (ys ! i)]) ks (NY3 r))
        (fold (\<lambda>i l. l[i := h (l ! i) (zs ! i)]) ks (NZ3 r))"
  by (induction ks arbitrary: r) (simp_all add: put3_def)

lemma each_put3 [simp]:
  "fold (\<lambda>i r. put3 r i (f i) (g i) (h i)) [0..<n] (zeros3 n) = NVec3 (each n f) (each n g) (each n h)"
  by (simp add: fold_put3 zeros3_def)

lemmas nvec3_defs = nofvecs3_def nofvec3_def nplus3_def nminus3_def ntimes3_def nscale3_def numinus3_def ndiv3_def ndiv_by3_def
  NDot3_def NSquareMagnitude3_def NMagnitude3_def NNormalized3_def

text \<open>In place or into a new object, the loops compute the same.\<close>

lemma assign3:
  assumes "wf3 n v"
  shows "nplus_assign3 n v w = nplus3 n v w"
    and "nminus_assign3 n v w = nminus3 n v w"
    and "ntimes_assign3 n v w = ntimes3 n v w"
    and "nscale_assign3 n v a = nscale3 n v a"
  using assms
  by (simp_all add: wf3_def fold_assign3 nplus_assign3_def nplus3_def nminus_assign3_def nminus3_def ntimes_assign3_def ntimes3_def nscale_assign3_def nscale3_def)

text \<open>Each lane is an operation on one vector.\<close>

lemma lanes3:
  assumes "i < n"
  shows "lane3 (nplus3 n v w) i = lane3 v i + lane3 w i"
    and "lane3 (numinus3 n v) i = - lane3 v i"
    and "lane3 (nminus3 n v w) i = lane3 v i - lane3 w i"
    and "lane3 (nscale3 n v a) i = scale3 (lane3 v i) (a ! i)"
    and "NDot3 n v w ! i = Dot3 (lane3 v i) (lane3 w i)"
    and "NSquareMagnitude3 n v ! i = Dot3 (lane3 v i) (lane3 v i)"
  using assms
  by (simp_all add: nvec3_defs lane3_def plus_vec3_def uminus_vec3_def minus_vec3_def  scale3_def Dot3_def)

section \<open>The specialisations and the template\<close>

lemma four_vec3:
  "four_nplus3 v w = nplus3 4 v w"
  "four_nminus3 v w = nminus3 4 v w"
  "four_ntimes3 v w = ntimes3 4 v w"
  "four_ndiv3 v w = ndiv3 4 v w"
  "four_NDot3 v w = NDot3 4 v w"
  "four_NSquareMagnitude3 v = NSquareMagnitude3 4 v"
  "four_NMagnitude3 v = NMagnitude3 fsqrt 4 v"
  by (simp_all add: four_nplus3_def four_nminus3_def four_ntimes3_def four_ndiv3_def four_NDot3_def four_NSquareMagnitude3_def four_NMagnitude3_def nvec3_defs
      rfold_guard lane_defs)

lemma ifour_vec3:
  "ifour_nplus3 v w = nplus3 4 v w"
  "ifour_nminus3 v w = nminus3 4 v w"
  "ifour_ntimes3 v w = ntimes3 4 v w"
  "ifour_numinus3 v = numinus3 4 v"
  "ifour_NDot3 v w = NDot3 4 v w"
  "ifour_NSquareMagnitude3 v = NSquareMagnitude3 4 v"
  by (simp_all add: ifour_nplus3_def ifour_nminus3_def ifour_ntimes3_def ifour_numinus3_def ifour_NDot3_def ifour_NSquareMagnitude3_def
      nvec3_defs lane_defs)

end
