(* ===== verification/NVec4.thy ===== *)
theory NVec4
  imports Lanes Vec3
begin

text \<open>
  \<open>libs/Math/include/NVec4.h\<close>: \<open>N\<close> vectors at once, an array per component, and the specialisations
  of the operations for four vectors of \<open>float\<close> and of \<open>int\<close>. \<open>n\<close> is the template parameter \<open>N\<close>, \<open>sq\<close> is
  \<open>std::sqrt\<close>, \<open>rcp\<close> is \<open>_mm_rcp_ps\<close> on one lane, an approximation of the reciprocal that the processor chooses. A compound assignment of
  the template works in place, so that a lane is read before it is written; the operand may be the object itself.
\<close>

section \<open>The class\<close>

datatype 'a nvec4 = NVec4 (NX4: "'a list") (NY4: "'a list") (NZ4: "'a list") (NW4: "'a list")

definition zeros4 :: "nat \<Rightarrow> 'a::zero nvec4" where
  "zeros4 n = NVec4 (replicate n 0) (replicate n 0) (replicate n 0) (replicate n 0)"

definition put4 :: "'a nvec4 \<Rightarrow> nat \<Rightarrow> 'a \<Rightarrow> 'a \<Rightarrow> 'a \<Rightarrow> 'a \<Rightarrow> 'a nvec4" where
  "put4 v i x y z w = NVec4 ((NX4 v)[i := x]) ((NY4 v)[i := y]) ((NZ4 v)[i := z]) ((NW4 v)[i := w])"

definition lane4 :: "'a nvec4 \<Rightarrow> nat \<Rightarrow> 'a vec4" where
  "lane4 v i = Vec4 (NX4 v ! i) (NY4 v ! i) (NZ4 v ! i) (NW4 v ! i)"

definition nofvecs4 :: "nat \<Rightarrow> 'a::zero vec4 list \<Rightarrow> 'a nvec4" where
  "nofvecs4 n vecs =
     fold (\<lambda>i r. put4 r i (X4 (vecs ! i))
       (Y4 (vecs ! i))
       (Z4 (vecs ! i))
       (W4 (vecs ! i))) [0..<n] (zeros4 n)"

definition nofvec4 :: "nat \<Rightarrow> 'a::zero vec4 \<Rightarrow> 'a nvec4" where
  "nofvec4 n vec =
     fold (\<lambda>i r. put4 r i (X4 vec)
       (Y4 vec)
       (Z4 vec)
       (W4 vec)) [0..<n] (zeros4 n)"

section \<open>The operations of the template\<close>

definition nplus4 :: "nat \<Rightarrow> 'a::{zero, plus} nvec4 \<Rightarrow> 'a nvec4 \<Rightarrow> 'a nvec4" where
  "nplus4 n v w =
     fold (\<lambda>i r. put4 r i (NX4 v ! i + NX4 w ! i)
       (NY4 v ! i + NY4 w ! i)
       (NZ4 v ! i + NZ4 w ! i)
       (NW4 v ! i + NW4 w ! i)) [0..<n] (zeros4 n)"

definition numinus4 :: "nat \<Rightarrow> 'a::{zero, uminus} nvec4 \<Rightarrow> 'a nvec4" where
  "numinus4 n v =
     fold (\<lambda>i r. put4 r i (- (NX4 v ! i))
       (- (NY4 v ! i))
       (- (NZ4 v ! i))
       (- (NW4 v ! i))) [0..<n] (zeros4 n)"

definition nminus4 :: "nat \<Rightarrow> 'a::{zero, minus} nvec4 \<Rightarrow> 'a nvec4 \<Rightarrow> 'a nvec4" where
  "nminus4 n v w =
     fold (\<lambda>i r. put4 r i (NX4 v ! i - NX4 w ! i)
       (NY4 v ! i - NY4 w ! i)
       (NZ4 v ! i - NZ4 w ! i)
       (NW4 v ! i - NW4 w ! i)) [0..<n] (zeros4 n)"

definition ntimes4 :: "nat \<Rightarrow> 'a::{zero, times} nvec4 \<Rightarrow> 'a nvec4 \<Rightarrow> 'a nvec4" where
  "ntimes4 n v w =
     fold (\<lambda>i r. put4 r i (NX4 v ! i * NX4 w ! i)
       (NY4 v ! i * NY4 w ! i)
       (NZ4 v ! i * NZ4 w ! i)
       (NW4 v ! i * NW4 w ! i)) [0..<n] (zeros4 n)"

definition ndiv4 :: "nat \<Rightarrow> 'a::{zero, ord, divide} nvec4 \<Rightarrow> 'a nvec4 \<Rightarrow> 'a nvec4 res" where
  "ndiv4 n v w =
     rfold (\<lambda>i r. if ceq (NX4 w ! i) 0 \<or> ceq (NY4 w ! i) 0 \<or> ceq (NZ4 w ! i) 0 \<or> ceq (NW4 w ! i) 0
           then Inl DivisionByZeroException
           else Inr (put4 r i (NX4 v ! i div NX4 w ! i)
             (NY4 v ! i div NY4 w ! i)
             (NZ4 v ! i div NZ4 w ! i)
             (NW4 v ! i div NW4 w ! i)))
       [0..<n] (zeros4 n)"

definition ndiv_assign4 :: "nat \<Rightarrow> 'a::{zero, ord, divide} nvec4 \<Rightarrow> 'a nvec4 \<Rightarrow> fault option \<times> 'a nvec4" where
  "ndiv_assign4 n v w = (case ndiv4 n v w of Inl e \<Rightarrow> (Some e, v) | Inr r \<Rightarrow> (None, r))"

definition nscale4 :: "nat \<Rightarrow> 'a::{zero, times} nvec4 \<Rightarrow> 'a list \<Rightarrow> 'a nvec4" where
  "nscale4 n v array1N =
     fold (\<lambda>i r. put4 r i (NX4 v ! i * array1N ! i)
       (NY4 v ! i * array1N ! i)
       (NZ4 v ! i * array1N ! i)
       (NW4 v ! i * array1N ! i)) [0..<n] (zeros4 n)"

definition ndiv_by4 :: "nat \<Rightarrow> 'a::{zero, ord, divide} nvec4 \<Rightarrow> 'a list \<Rightarrow> 'a nvec4 res" where
  "ndiv_by4 n v array1N =
     rfold (\<lambda>i r. if ceq (array1N ! i) 0 then Inl DivisionByZeroException
           else Inr (put4 r i (NX4 v ! i div array1N ! i)
             (NY4 v ! i div array1N ! i)
             (NZ4 v ! i div array1N ! i)
             (NW4 v ! i div array1N ! i)))
       [0..<n] (zeros4 n)"

definition ndiv_by_assign4 :: "nat \<Rightarrow> 'a::{zero, ord, divide} nvec4 \<Rightarrow> 'a list \<Rightarrow> fault option \<times> 'a nvec4" where
  "ndiv_by_assign4 n v array1N = (case ndiv_by4 n v array1N of Inl e \<Rightarrow> (Some e, v) | Inr r \<Rightarrow> (None, r))"

definition NDot4 :: "nat \<Rightarrow> 'a::{plus, times} nvec4 \<Rightarrow> 'a nvec4 \<Rightarrow> 'a list" where
  "NDot4 n v w =
     each n (\<lambda>i. NX4 v ! i * NX4 w ! i + NY4 v ! i * NY4 w ! i +
       NZ4 v ! i * NZ4 w ! i + NW4 v ! i * NW4 w ! i)"

definition NSquareMagnitude4 :: "nat \<Rightarrow> 'a::{plus, times} nvec4 \<Rightarrow> 'a list" where
  "NSquareMagnitude4 n v =
     each n (\<lambda>i. NX4 v ! i * NX4 v ! i + NY4 v ! i * NY4 v ! i +
       NZ4 v ! i * NZ4 v ! i + NW4 v ! i * NW4 v ! i)"

definition NMagnitude4 :: "('a \<Rightarrow> 'a) \<Rightarrow> nat \<Rightarrow> 'a::{plus, times} nvec4 \<Rightarrow> 'a list" where
  "NMagnitude4 sq n v = (let sqrtMagnitude = NSquareMagnitude4 n v in each n (\<lambda>i. sq (sqrtMagnitude ! i)))"

text \<open>
  Despite its name the result holds the reciprocal lengths. With an integral \<open>T\<close> the source computes the square root and the
  quotient in \<open>double\<close>, which the text does not cover.
\<close>

definition NNormalized4 :: "('a \<Rightarrow> 'a) \<Rightarrow> nat \<Rightarrow> 'a::{plus, times, zero, one, ord, divide} nvec4 \<Rightarrow> 'a list res" where
  "NNormalized4 sq n v =
     (let magnitude = NMagnitude4 sq n v
      in if list_ex (\<lambda>i. ceq (magnitude ! i) 0) [0..<n] then Inl DivisionByZeroException
         else let array1N = NSquareMagnitude4 n v in Inr (each n (\<lambda>i. 1 div sq (array1N ! i))))"

section \<open>Four vectors of \<open>float\<close>\<close>

text \<open>The products are added in pairs, where the template adds from left to right.\<close>

definition four_nplus4 :: "f32 nvec4 \<Rightarrow> f32 nvec4 \<Rightarrow> f32 nvec4" where
  "four_nplus4 v w =
     NVec4 (mm_storeu (mm_add_ps (mm_loadu (NX4 v)) (mm_loadu (NX4 w))))
       (mm_storeu (mm_add_ps (mm_loadu (NY4 v)) (mm_loadu (NY4 w))))
       (mm_storeu (mm_add_ps (mm_loadu (NZ4 v)) (mm_loadu (NZ4 w))))
       (mm_storeu (mm_add_ps (mm_loadu (NW4 v)) (mm_loadu (NW4 w))))"

definition four_numinus4 :: "f32 nvec4 \<Rightarrow> f32 nvec4" where
  "four_numinus4 v =
     NVec4 (mm_storeu (mm_sub_ps mm_setzero (mm_loadu (NX4 v))))
       (mm_storeu (mm_sub_ps mm_setzero (mm_loadu (NY4 v))))
       (mm_storeu (mm_sub_ps mm_setzero (mm_loadu (NZ4 v))))
       (mm_storeu (mm_sub_ps mm_setzero (mm_loadu (NW4 v))))"

definition four_nminus4 :: "f32 nvec4 \<Rightarrow> f32 nvec4 \<Rightarrow> f32 nvec4" where
  "four_nminus4 v w =
     NVec4 (mm_storeu (mm_sub_ps (mm_loadu (NX4 v)) (mm_loadu (NX4 w))))
       (mm_storeu (mm_sub_ps (mm_loadu (NY4 v)) (mm_loadu (NY4 w))))
       (mm_storeu (mm_sub_ps (mm_loadu (NZ4 v)) (mm_loadu (NZ4 w))))
       (mm_storeu (mm_sub_ps (mm_loadu (NW4 v)) (mm_loadu (NW4 w))))"

definition four_ntimes4 :: "f32 nvec4 \<Rightarrow> f32 nvec4 \<Rightarrow> f32 nvec4" where
  "four_ntimes4 v w =
     NVec4 (mm_storeu (mm_mul_ps (mm_loadu (NX4 v)) (mm_loadu (NX4 w))))
       (mm_storeu (mm_mul_ps (mm_loadu (NY4 v)) (mm_loadu (NY4 w))))
       (mm_storeu (mm_mul_ps (mm_loadu (NZ4 v)) (mm_loadu (NZ4 w))))
       (mm_storeu (mm_mul_ps (mm_loadu (NW4 v)) (mm_loadu (NW4 w))))"

definition four_ndiv4 :: "f32 nvec4 \<Rightarrow> f32 nvec4 \<Rightarrow> f32 nvec4 res" where
  "four_ndiv4 v w =
     (if list_ex (\<lambda>i. ceq (NX4 w ! i) 0 \<or> ceq (NY4 w ! i) 0 \<or> ceq (NZ4 w ! i) 0 \<or> ceq (NW4 w ! i) 0) [0..<4]
           then Inl DivisionByZeroException
      else Inr (NVec4 (mm_storeu (mm_div_ps (mm_loadu (NX4 v)) (mm_loadu (NX4 w))))
       (mm_storeu (mm_div_ps (mm_loadu (NY4 v)) (mm_loadu (NY4 w))))
       (mm_storeu (mm_div_ps (mm_loadu (NZ4 v)) (mm_loadu (NZ4 w))))
       (mm_storeu (mm_div_ps (mm_loadu (NW4 v)) (mm_loadu (NW4 w))))))"

definition four_ndiv_assign4 :: "f32 nvec4 \<Rightarrow> f32 nvec4 \<Rightarrow> fault option \<times> f32 nvec4" where
  "four_ndiv_assign4 v w =
     (if list_ex (\<lambda>i. ceq (NX4 w ! i) 0 \<or> ceq (NY4 w ! i) 0 \<or> ceq (NZ4 w ! i) 0 \<or> ceq (NW4 w ! i) 0) [0..<4]
      then (Some DivisionByZeroException, v)
      else (None, NVec4 (mm_storeu (mm_div_ps (mm_loadu (NX4 v)) (mm_loadu (NX4 w))))
       (mm_storeu (mm_div_ps (mm_loadu (NY4 v)) (mm_loadu (NY4 w))))
       (mm_storeu (mm_div_ps (mm_loadu (NZ4 v)) (mm_loadu (NZ4 w))))
       (mm_storeu (mm_div_ps (mm_loadu (NW4 v)) (mm_loadu (NW4 w))))))"

definition four_NDot4 :: "f32 nvec4 \<Rightarrow> f32 nvec4 \<Rightarrow> f32 list" where
  "four_NDot4 v w =
     mm_storeu (mm_add_ps
       (mm_add_ps (mm_mul_ps (mm_loadu (NX4 v)) (mm_loadu (NX4 w)))
         (mm_mul_ps (mm_loadu (NY4 v)) (mm_loadu (NY4 w))))
       (mm_add_ps (mm_mul_ps (mm_loadu (NZ4 v)) (mm_loadu (NZ4 w)))
         (mm_mul_ps (mm_loadu (NW4 v)) (mm_loadu (NW4 w)))))"

definition four_NSquareMagnitude4 :: "f32 nvec4 \<Rightarrow> f32 list" where
  "four_NSquareMagnitude4 v =
     mm_storeu (mm_add_ps
       (mm_add_ps (mm_mul_ps (mm_loadu (NX4 v)) (mm_loadu (NX4 v)))
         (mm_mul_ps (mm_loadu (NY4 v)) (mm_loadu (NY4 v))))
       (mm_add_ps (mm_mul_ps (mm_loadu (NZ4 v)) (mm_loadu (NZ4 v)))
         (mm_mul_ps (mm_loadu (NW4 v)) (mm_loadu (NW4 v)))))"

definition four_NMagnitude4 :: "f32 nvec4 \<Rightarrow> f32 list" where
  "four_NMagnitude4 v =
     mm_storeu (mm_sqrt_ps (mm_add_ps
       (mm_add_ps (mm_mul_ps (mm_loadu (NX4 v)) (mm_loadu (NX4 v)))
         (mm_mul_ps (mm_loadu (NY4 v)) (mm_loadu (NY4 v))))
       (mm_add_ps (mm_mul_ps (mm_loadu (NZ4 v)) (mm_loadu (NZ4 v)))
         (mm_mul_ps (mm_loadu (NW4 v)) (mm_loadu (NW4 v))))))"

definition four_NNormalized4 :: "(f32 \<Rightarrow> f32) \<Rightarrow> f32 nvec4 \<Rightarrow> f32 list res" where
  "four_NNormalized4 rcp v =
     (let magnitude = four_NMagnitude4 v
      in if list_ex (\<lambda>i. ceq (magnitude ! i) 0) [0..<4] then Inl DivisionByZeroException
         else Inr (mm_storeu (on_lanes rcp (mm_sqrt_ps (mm_add_ps
       (mm_add_ps (mm_mul_ps (mm_loadu (NX4 v)) (mm_loadu (NX4 v)))
         (mm_mul_ps (mm_loadu (NY4 v)) (mm_loadu (NY4 v))))
       (mm_add_ps (mm_mul_ps (mm_loadu (NZ4 v)) (mm_loadu (NZ4 v)))
         (mm_mul_ps (mm_loadu (NW4 v)) (mm_loadu (NW4 v)))))))))"

section \<open>Four vectors of \<open>int\<close>\<close>

text \<open>Without the negation, whose text mixes \<open>__m128\<close> and \<open>__m128i\<close> and compiles only where a compiler converts them.\<close>

definition ifour_nplus4 :: "32 word nvec4 \<Rightarrow> 32 word nvec4 \<Rightarrow> 32 word nvec4" where
  "ifour_nplus4 v w =
     NVec4 (mm_storeu (mm_add_epi32 (mm_loadu (NX4 v)) (mm_loadu (NX4 w))))
       (mm_storeu (mm_add_epi32 (mm_loadu (NY4 v)) (mm_loadu (NY4 w))))
       (mm_storeu (mm_add_epi32 (mm_loadu (NZ4 v)) (mm_loadu (NZ4 w))))
       (mm_storeu (mm_add_epi32 (mm_loadu (NW4 v)) (mm_loadu (NW4 w))))"

definition ifour_nminus4 :: "32 word nvec4 \<Rightarrow> 32 word nvec4 \<Rightarrow> 32 word nvec4" where
  "ifour_nminus4 v w =
     NVec4 (mm_storeu (mm_sub_epi32 (mm_loadu (NX4 v)) (mm_loadu (NX4 w))))
       (mm_storeu (mm_sub_epi32 (mm_loadu (NY4 v)) (mm_loadu (NY4 w))))
       (mm_storeu (mm_sub_epi32 (mm_loadu (NZ4 v)) (mm_loadu (NZ4 w))))
       (mm_storeu (mm_sub_epi32 (mm_loadu (NW4 v)) (mm_loadu (NW4 w))))"

definition ifour_ntimes4 :: "32 word nvec4 \<Rightarrow> 32 word nvec4 \<Rightarrow> 32 word nvec4" where
  "ifour_ntimes4 v w =
     NVec4 (mm_storeu (mm_mullo_epi32 (mm_loadu (NX4 v)) (mm_loadu (NX4 w))))
       (mm_storeu (mm_mullo_epi32 (mm_loadu (NY4 v)) (mm_loadu (NY4 w))))
       (mm_storeu (mm_mullo_epi32 (mm_loadu (NZ4 v)) (mm_loadu (NZ4 w))))
       (mm_storeu (mm_mullo_epi32 (mm_loadu (NW4 v)) (mm_loadu (NW4 w))))"

definition ifour_NDot4 :: "32 word nvec4 \<Rightarrow> 32 word nvec4 \<Rightarrow> 32 word list" where
  "ifour_NDot4 v w =
     mm_storeu (mm_add_epi32
       (mm_add_epi32 (mm_mullo_epi32 (mm_loadu (NX4 v)) (mm_loadu (NX4 w)))
         (mm_mullo_epi32 (mm_loadu (NY4 v)) (mm_loadu (NY4 w))))
       (mm_add_epi32 (mm_mullo_epi32 (mm_loadu (NZ4 v)) (mm_loadu (NZ4 w)))
         (mm_mullo_epi32 (mm_loadu (NW4 v)) (mm_loadu (NW4 w)))))"

definition ifour_NSquareMagnitude4 :: "32 word nvec4 \<Rightarrow> 32 word list" where
  "ifour_NSquareMagnitude4 v =
     mm_storeu (mm_add_epi32
       (mm_add_epi32 (mm_mullo_epi32 (mm_loadu (NX4 v)) (mm_loadu (NX4 v)))
         (mm_mullo_epi32 (mm_loadu (NY4 v)) (mm_loadu (NY4 v))))
       (mm_add_epi32 (mm_mullo_epi32 (mm_loadu (NZ4 v)) (mm_loadu (NZ4 v)))
         (mm_mullo_epi32 (mm_loadu (NW4 v)) (mm_loadu (NW4 v)))))"

section \<open>What the loops compute\<close>

text \<open>Arrays of the length the type prescribes.\<close>

definition wf4 :: "nat \<Rightarrow> 'a nvec4 \<Rightarrow> bool" where
  "wf4 n v \<longleftrightarrow> length (NX4 v) = n \<and> length (NY4 v) = n \<and> length (NZ4 v) = n \<and> length (NW4 v) = n"

lemma fold_put4:
  "fold (\<lambda>i r. put4 r i (f i) (g i) (h i) (j i)) ks r
    = NVec4 (fold (\<lambda>i l. l[i := f i]) ks (NX4 r))
        (fold (\<lambda>i l. l[i := g i]) ks (NY4 r))
        (fold (\<lambda>i l. l[i := h i]) ks (NZ4 r))
        (fold (\<lambda>i l. l[i := j i]) ks (NW4 r))"
  by (induction ks arbitrary: r) (simp_all add: put4_def)

lemma fold_assign4:
  "fold (\<lambda>i r. put4 r i (h (NX4 r ! i) (xs ! i)) (h (NY4 r ! i) (ys ! i)) (h (NZ4 r ! i) (zs ! i)) (h (NW4 r ! i) (ws ! i))) ks r
    = NVec4 (fold (\<lambda>i l. l[i := h (l ! i) (xs ! i)]) ks (NX4 r))
        (fold (\<lambda>i l. l[i := h (l ! i) (ys ! i)]) ks (NY4 r))
        (fold (\<lambda>i l. l[i := h (l ! i) (zs ! i)]) ks (NZ4 r))
        (fold (\<lambda>i l. l[i := h (l ! i) (ws ! i)]) ks (NW4 r))"
  by (induction ks arbitrary: r) (simp_all add: put4_def)

lemma each_put4 [simp]:
  "fold (\<lambda>i r. put4 r i (f i) (g i) (h i) (j i)) [0..<n] (zeros4 n) = NVec4 (each n f) (each n g) (each n h) (each n j)"
  by (simp add: fold_put4 zeros4_def)

lemmas nvec4_defs = nofvecs4_def nofvec4_def nplus4_def nminus4_def ntimes4_def nscale4_def numinus4_def ndiv4_def ndiv_by4_def
  NDot4_def NSquareMagnitude4_def NMagnitude4_def NNormalized4_def

text \<open>Each lane is an operation on one vector.\<close>

lemma lanes4:
  assumes "i < n"
  shows "lane4 (nplus4 n v w) i = lane4 v i + lane4 w i"
    and "lane4 (numinus4 n v) i = - lane4 v i"
    and "lane4 (nminus4 n v w) i = lane4 v i - lane4 w i"
    and "lane4 (ntimes4 n v w) i = lane4 v i * lane4 w i"
    and "lane4 (nscale4 n v a) i = scale4 (lane4 v i) (a ! i)"
    and "NDot4 n v w ! i = Dot4 (lane4 v i) (lane4 w i)"
  using assms
  by (simp_all add: nvec4_defs lane4_def plus_vec4_def uminus_vec4_def minus_vec4_def times_vec4_def scale4_def Dot4_def)

text \<open>A division throws when that of some lane does; otherwise each lane holds its quotient.\<close>

lemma ndiv_lanes4:
  "ndiv4 n v w = Inl e \<longleftrightarrow> e = DivisionByZeroException \<and> (\<exists>j<n. divv4 (lane4 v j) (lane4 w j) = Inl DivisionByZeroException)"
  "ndiv4 n v w = Inr r \<Longrightarrow> i < n \<Longrightarrow> divv4 (lane4 v i) (lane4 w i) = Inr (lane4 r i)"
  by (auto simp: ndiv4_def rfold_guard lane4_def divv4_def list_ex_iff split: if_splits)

section \<open>The specialisations and the template\<close>

lemma four_vec4:
  "four_nplus4 v w = nplus4 4 v w"
  "four_nminus4 v w = nminus4 4 v w"
  "four_ntimes4 v w = ntimes4 4 v w"
  "four_ndiv4 v w = ndiv4 4 v w"
  by (simp_all add: four_nplus4_def four_nminus4_def four_ntimes4_def four_ndiv4_def nvec4_defs
      rfold_guard lane_defs)

lemma ifour_vec4:
  "ifour_nplus4 v w = nplus4 4 v w"
  "ifour_nminus4 v w = nminus4 4 v w"
  "ifour_ntimes4 v w = ntimes4 4 v w"
  "ifour_NDot4 v w = NDot4 4 v w"
  "ifour_NSquareMagnitude4 v = NSquareMagnitude4 4 v"
  by (simp_all add: ifour_nplus4_def ifour_nminus4_def ifour_ntimes4_def ifour_NDot4_def ifour_NSquareMagnitude4_def
      nvec4_defs lane_defs add.assoc)

end
