(* ===== verification/Lanes_Spec.thy ===== *)
theory Lanes_Spec
  imports NVec2 NVec3 NVec4
begin

text \<open>
  What the vectors of \<open>NVec2.h\<close> to \<open>NVec4.h\<close> promise: the operations on \<open>N\<close> vectors are those on one vector in every
  lane, and the specialisations for four lanes are the template, except where they are not.
\<close>

section \<open>One vector per lane\<close>



section \<open>Four lanes at once\<close>


section \<open>Where they differ\<close>

text \<open>Four times \<open>(4096, 0, 1, 1)\<close>.\<close>

definition long_vectors :: "f32 nvec4" where
  "long_vectors = nofvec4 4 (Vec4 (f32_of_int 4096) 0 1 1)"

text \<open>Divisors of which the second has a zero.\<close>

definition some_zero :: "f32 nvec2" where
  "some_zero = nofvecs2 4 [Vec2 (f32_of_int 2) (f32_of_int 4), Vec2 0 1, Vec2 1 1, Vec2 1 1]"

text \<open>The squared length of \<open>(4096, 0, 1, 1)\<close> is 16777218 where the products are added in pairs, 16777216 from left to right.\<close>

lemma added_in_pairs:
  "four_NSquareMagnitude4 long_vectors = replicate 4 (f32_of_int 16777218)"
  "NSquareMagnitude4 4 long_vectors = replicate 4 (f32_of_int 16777216)"
proof -
  have l: "long_vectors = NVec4 (each 4 (\<lambda>i. f32_of_int 4096)) (each 4 (\<lambda>i. 0)) (each 4 (\<lambda>i. 1)) (each 4 (\<lambda>i. 1))"
    by (simp add: long_vectors_def nofvec4_def)
  have sums: "f32_of_int 4096 * f32_of_int 4096 + 0 * 0 = f32_of_int 16777216" "(1 :: f32) * 1 = 1"
    "f32_of_int 16777216 + (1 + 1) = f32_of_int 16777218" "f32_of_int 16777216 + 1 = f32_of_int 16777216"
    by (simp_all add: f32_eval)
  have four: "replicate 4 x = each 4 (\<lambda>i. x)" for x :: f32
    by (simp add: each_def map_replicate_const)
  show "four_NSquareMagnitude4 long_vectors = replicate 4 (f32_of_int 16777218)"
    by (simp add: l four_NSquareMagnitude4_def lane_defs sums four)
  show "NSquareMagnitude4 4 long_vectors = replicate 4 (f32_of_int 16777216)"
    by (simp add: l NSquareMagnitude4_def each_4 sums four)
qed

text \<open>The negative of a zero has its sign bit clear in the specialisation, set in the template.\<close>

lemma negated_zero:
  "four_numinus2 (zeros2 4) = zeros2 4"
  "numinus2 4 (zeros2 4) = nofvec2 4 (Vec2 (F32 0x80000000) (F32 0x80000000))"
proof -
  have zero: "(0 :: f32) - 0 = 0" "- (0 :: f32) = F32 0x80000000" by (simp_all add: f32_eval)
  have z4: "zeros2 4 = (NVec2 (each 4 (\<lambda>i. 0)) (each 4 (\<lambda>i. 0)) :: f32 nvec2)"
    by (simp add: zeros2_def each_def map_replicate_const)
  show "four_numinus2 (zeros2 4) = zeros2 4"
    by (simp add: z4 four_numinus2_def lane_defs zero)
  show "numinus2 4 (zeros2 4) = nofvec2 4 (Vec2 (F32 0x80000000) (F32 0x80000000))"
    by (simp add: numinus2_def nofvec2_def) (simp add: z4 each_4 zero)
qed

text \<open>When the second of four divisions in place throws, the specialisation has changed nothing, the template the first vector.\<close>

lemma stopped_division:
  fixes v :: "f32 nvec2"
  defines "v \<equiv> nofvec2 4 (Vec2 1 1)"
  shows "four_ndiv_assign2 v some_zero = (Some DivisionByZeroException, v)"
    and "ndiv_assign2 4 v some_zero
      = (Some DivisionByZeroException, nofvecs2 4 [Vec2 (flit 1 2) (flit 1 4), Vec2 1 1, Vec2 1 1, Vec2 1 1])"
proof -
  have z: "ceq (0 :: f32) 0" "\<not> ceq (1 :: f32) 0" "\<not> ceq (f32_of_int 2) 0" "\<not> ceq (f32_of_int 4) 0"
    and q: "1 div f32_of_int 2 = flit 1 2" "1 div f32_of_int 4 = flit 1 4"
    by (simp_all add: ceq_def f32_eval)
  have v: "v = NVec2 [1, 1, 1, 1] [1, 1, 1, 1]" by (simp add: v_def nofvec2_def each_4)
  have w: "some_zero = NVec2 [f32_of_int 2, 0, 1, 1] [f32_of_int 4, 1, 1, 1]"
    by (simp add: some_zero_def nofvecs2_def each_4)
  have indices: "[0..<4] = [0, 1, 2, 3]" by (simp add: upt_rec numeral_eq_Suc)
  show "four_ndiv_assign2 v some_zero = (Some DivisionByZeroException, v)"
    by (simp add: four_ndiv_assign2_def v w indices z)
  have "nofvecs2 4 [Vec2 (flit 1 2) (flit 1 4), Vec2 1 1, Vec2 1 1, Vec2 1 1]
      = NVec2 [flit 1 2, 1, 1, 1] [flit 1 4, 1, 1, 1]"
    by (simp add: nofvecs2_def each_4)
  then show "ndiv_assign2 4 v some_zero
      = (Some DivisionByZeroException, nofvecs2 4 [Vec2 (flit 1 2) (flit 1 4), Vec2 1 1, Vec2 1 1, Vec2 1 1])"
    by (simp add: ndiv_assign2_def v w indices put2_def z q)
qed

end
