(* ===== verification/Random_Range.thy ===== *)
theory Random_Range
  imports Float32
begin

text \<open>
  \<open>libs/Math/include/Random.h\<close>. The generator, seeded anew by \<open>std::random_device\<close> in every call, is the argument
  \<open>gen\<close>; \<open>dis\<close> is one draw of the standard library's uniform distribution over the two bounds it is made from.
\<close>

definition Range_float :: "('g \<Rightarrow> f32 \<Rightarrow> f32 \<Rightarrow> f32) \<Rightarrow> 'g \<Rightarrow> f32 \<Rightarrow> f32 \<Rightarrow> f32" where
  "Range_float dis gen lo hi = (if hi < lo then dis gen hi lo else dis gen lo hi)"

definition Range_int :: "('g \<Rightarrow> int \<Rightarrow> int \<Rightarrow> int) \<Rightarrow> 'g \<Rightarrow> int \<Rightarrow> int \<Rightarrow> int" where
  "Range_int dis gen lo hi = (if hi < lo then dis gen hi lo else dis gen lo hi)"

text \<open>
  A distribution asks for ordered bounds and then draws between them. With that, the bounds may come in either order.
\<close>

lemma Range_int_between:
  assumes "\<And>a b. a \<le> b \<Longrightarrow> dis gen a b \<in> {a..b}"
  shows "Range_int dis gen x y \<in> {min x y..max x y}"
  using assms [of x y] assms [of y x] by (auto simp: Range_int_def)

lemma Range_int_commute: "Range_int dis gen x y = Range_int dis gen y x"
  by (cases x y rule: linorder_cases) (simp_all add: Range_int_def)

text \<open>Of two floats that are not ordered, one is not a number: then the bounds reach the distribution as given.\<close>

lemma Range_float_unordered: "is_nan x \<or> is_nan y \<Longrightarrow> Range_float dis gen x y = dis gen x y"
  by (auto simp: Range_float_def less_f32_def)

lemma Range_float_ordered: "x < y \<Longrightarrow> Range_float dis gen x y = dis gen x y \<and> Range_float dis gen y x = dis gen x y"
  by (auto simp: Range_float_def less_f32_def)

end
