(* ===== verification/Spec2Isabelle.thy ===== *)
theory Spec2Isabelle
  imports Physics_Spec Netcode_Spec Game_Spec Program_Spec Allocators_Spec Free_List Math_Spec Lanes_Spec Random_Range
begin

text \<open>
  \<^bold>\<open>Verification of Head-Shot\<close>, a two-player online football game in C++ with rollback netcode. The program
  is \<open>src/common\<close> (game, netcode, application, drawing), \<open>src/engine\<close> (physics, allocators), \<open>src/libs/Math/include\<close>
  (mathematics) and \<open>src/main.cpp\<close>. Definitions carry the names of the code; an operation that shares its name with
  another one is prefixed with its class (\<open>Game_Setup\<close>, \<open>Rollback_SetPlayerInput\<close>), and an overload or operator has a
  suffix for its type (\<open>Intersect_rc\<close>, \<open>times_mat3\<close>).

  \<^bold>\<open>How the parts work together.\<close> \<open>main\<close> sets the application up and runs its loop. An iteration lets the transport
  deliver its callbacks (a second player in the room starts the match, events are queued as packets), then advances the
  match in ticks of a sixtieth of a second, then draws. A tick handles the queued packets, reads the keyboard, records
  and sends the own inputs, and simulates one frame of the game with the inputs of both players, those of the other
  player predicted to repeat. When inputs arrive that differ from the prediction, the rollback copies the last
  confirmed game and replays the frames since. The master confirms a frame once it knows both inputs, sends the inputs
  and a checksum, and the other peer confirms the frame too and compares. A frame of the game updates the physics world
  (integration, quadtree, contacts, callbacks into the game), then applies inputs and forces.

  \<^bold>\<open>Conventions.\<close> A class is a record, its methods are functions on it. An operation that can throw, fail an assertion
  or leave defined behaviour returns \<open>fault + 'a\<close> (\<open>Prelude\<close>): \<open>Inl\<close> for an access out of range, a null pointer, an empty
  \<open>back()\<close>, a division the code refuses. \<open>float\<close> is IEEE binary32 with round to nearest even (\<open>Float32\<close>, executable; the NaN payload
  is not kept); the templates of the mathematics are polymorphic, so that laws are proved over exact fields and the game runs on
  \<open>f32\<close>. \<open>std::size_t\<close>, pointers and checksums are words where they can wrap; frame numbers, scores and indices
  are \<open>int\<close> or \<open>nat\<close> (a match has 5400 frames, within \<open>short\<close>). A compound assignment is the operator on the
  model value. \<open>std::sqrt\<close>, \<open>acos\<close> and the table a lookup reads are arguments of the definitions that use
  them; the clock, the keyboard, the mouse, the callbacks of the transport and the answers of raylib are arguments of
  the steps that read them; what the program asks of the transport and of raylib is recorded in its state (\<open>sent\<close>,
  \<open>rooms_joined\<close>, \<open>rooms_left\<close>, \<open>ray_log\<close>).

  \<^bold>\<open>Theories, in the order of their imports.\<close>
  \<^item> \<open>Prelude\<close>: faults, results, folds over fallible loops, vectors accessed by index.
  \<^item> \<open>Float32\<close>: \<open>float\<close>; monotonicity and exactness of rounding, order, signs.
  \<^item> \<open>Utility\<close>, \<open>Vec2\<close>, \<open>Shape\<close> (\<open>Utility.h\<close>, \<open>Vec2.h\<close>, \<open>Shape.h\<close>): scalars, vectors, shapes and the intersection tests.
  \<^item> \<open>Bodies\<close>, \<open>QuadTree\<close>, \<open>Contact\<close>, \<open>World\<close>, \<open>Simulation\<close> (\<open>Body.h\<close>, \<open>Collider\<close>, \<open>Refs.h\<close>, \<open>QuadTree\<close>, \<open>Contact\<close>, \<open>World\<close>):
    the physics engine. \<open>QuadTree\<close> shows that insertion stays within the depth and the preallocated nodes and what the
    leaves hold; \<open>Contact\<close> the response to one contact; \<open>Simulation\<close> that an update returns, for any listener that meets a
    contract (a locale), and what it leaves alone; \<open>Triggers\<close> which callbacks a listener sees.
  \<^item> \<open>Input\<close>, \<open>Game\<close>, \<open>Game_Safety\<close>, \<open>Kickoff\<close> (\<open>Input.h\<close>, \<open>Metrics.h\<close>, \<open>Game\<close>): the game as a client of that contract, the
    invariant \<open>ready\<close> of a running match and that \<open>StartGame\<close> establishes it.
  \<^item> \<open>Determinism\<close>: a frame commutes with \<open>mirror\<close>, the exchange of the two players' sides.
  \<^item> \<open>Rollback\<close>, \<open>Replay\<close>, \<open>Sync\<close> (\<open>rollback.h\<close>, \<open>rollback.cpp\<close>): the operations; replaying inputs as a locale over any
    deterministic step, interpreted on the game; the invariant \<open>in_sync\<close>: the current game is the replay of all inputs
    known, with the last one repeated.
  \<^item> \<open>Network\<close>, \<open>Application\<close> (\<open>network\<close>, \<open>packet.h\<close>, \<open>Timer\<close>, \<open>application.cpp\<close>): requests, callbacks, packets, ticks.
  \<^item> \<open>Peers\<close>, \<open>Match\<close>: two applications and the packets between them as a step relation (\<open>net\<close>), its invariant \<open>linked\<close>, and that
    every step keeps it from the kick-off on.
  \<^item> \<open>Renderer\<close>, \<open>Program\<close> (\<open>Renderer\<close>, \<open>Image2D\<close>, \<open>Audio\<close>, \<open>main.cpp\<close>): what is drawn, the buttons, the whole main loop.
    \<open>Screen\<close>: drawing returns and leaves the state alone, ranges of what is drawn, textures. \<open>Rooms\<close>: the outer state machine,
    the invariant \<open>rooms_ok\<close> of its reachable states, termination. \<open>Session\<close>: iterations of the loop within a match, for
    both peers as instances of the locale \<open>in_play\<close>, and the way from the lobby to the match.
  \<^item> \<open>Memory\<close>, \<open>Allocators\<close>, \<open>Allocators_Laws\<close>, \<open>Pool\<close>, \<open>Free_List\<close> (\<open>Allocators.h\<close>): byte memory, all allocators, the contract of
    disjoint blocks as a locale, the pool as a stack of addresses, the faults of the free list.
  \<^item> \<open>Vec3\<close>, \<open>Matrix\<close>, \<open>Matrix_Laws\<close>, \<open>Angle\<close>, \<open>TrigoLUT\<close>, \<open>Quaternion\<close> (the headers of those names): the 3D mathematics, with the laws of
    square matrices as a locale.
  \<^item> \<open>Lanes\<close>, \<open>NVec2\<close>, \<open>NVec3\<close>, \<open>NVec4\<close> (\<open>NScalar.h\<close> and the headers of those names): vectors an array per component, the
    instructions on four lanes and the specialisations made of them. \<open>Random_Range\<close> (\<open>Random.h\<close>).
  \<^item> \<open>Physics_Spec\<close>, \<open>Game_Spec\<close>, \<open>Netcode_Spec\<close>, \<open>Program_Spec\<close>, \<open>Allocators_Spec\<close>, \<open>Free_List\<close>, \<open>Math_Spec\<close>,
    \<open>Lanes_Spec\<close>: the properties, each with its witness.

  \<^bold>\<open>What is shown.\<close> The netcode: in every reachable state of a match the confirmed games of the peers are mirror images with
  equal checksums, no tick faults, late inputs are repaired by replay, the match ends whatever is lost. The program:
  it terminates, two lobbies lead to such a match, a whole iteration of the main loop keeps it, drawing does not disturb
  it, rooms are asked for and left one at a time. The game: frames return, are symmetric, goals score. The physics:
  intersection tests decide, the quadtree loses no pair that meets within its root, contacts obey restitution and momentum, trigger events
  alternate. The specialised vector operations equal their templates but for a list of deviations. Allocators and the
  rest of the mathematics: see their theories. Where the code does not do what it means to, the deviation is a
  theorem as well (a tie at the master, an outdated packet, a failed join, stale references, leaked textures, the free list, the tangent table, ...).

  \<^bold>\<open>Bounds and fuel.\<close> The recursion of the quadtree carries \<open>MAX_DEPTH + 1\<close> levels of fuel, enough because a node at the
  maximal depth does not split (\<open>Insert_spec\<close>). The inner loop of \<open>Run\<close> has 5401 ticks of fuel, enough because each tick counts
  the frame up and the match ends at frame 5400 (\<open>catch_up_fuel\<close>). The search of the free list may run for ever and is a
  \<open>partial_function\<close>. The outer loop runs once per element of the list of iterations given.

  \<^bold>\<open>Not modelled.\<close> The Photon transport and the Tracy profiler are vendored; Photon is the environment of the step relation,
  delivering events in order and losing only unreliable ones. The callbacks that only print are one constructor.
  The engine behind \<open>Random.h\<close> is the standard library's.
  Of \<open>NScalar.h\<close> and \<open>NVec2.h\<close> to \<open>NVec4.h\<close>, which the game does not use, the code between the checks for \<open>_mm_div_epi32\<close>
  and \<open>_mm_sqrt_epi32\<close> is dead, and two operators that do not compile have no definition. The branch of
  \<open>Run\<close> for the web build hands a global to the browser's loop and does not compile.
\<close>

section \<open>The match\<close>


end
